(* ===== verification/Prelude.thy ===== *)
theory Prelude
  imports Complex_Main "HOL-Library.AList" "HOL-Library.Sublist" "HOL-Library.Multiset"
begin

section \<open>Prelude: Python computations, dictionaries and preservation of invariants\<close>

text \<open>
  The parts of the development share three things.
  \<^item> A computation of the source that mutates an object and may raise is a function
    \<open>'s \<Rightarrow> ('e + 'a) \<times> 's\<close>: the state is kept when an exception is raised, as in Python,
    where nothing is rolled back.  \<open>pret\<close>, \<open>praise\<close>, \<open>pbind\<close>, \<open>pcatch\<close> and \<open>pfinally\<close>
    are return, raise, sequencing, \<^verbatim>\<open>try/except\<close> and \<^verbatim>\<open>try/finally\<close>.
  \<^item> A dictionary whose iteration order matters is an association list that keeps the
    insertion order: \<open>dget\<close>, \<open>dset\<close> and \<open>dpop\<close> are \<^verbatim>\<open>d.get(k)\<close>, \<^verbatim>\<open>d[k] = v\<close> and
    \<^verbatim>\<open>d.pop(k, None)\<close>.
  \<^item> \<open>preserves I m\<close> says that the computation \<open>m\<close> keeps \<open>I\<close>, on its error
    paths too.  The rules collected in \<open>pres\<close> reduce it to the primitive steps.
\<close>

named_theorems pm_simps \<open>unfolding of the computation combinators\<close>
named_theorems pres \<open>preservation rules of the computation combinators\<close>

lemma option_eqI: "(\<And>a. x = Some a \<longleftrightarrow> y = Some a) \<Longrightarrow> x = y"
  by (cases x; cases y) auto

subsection \<open>Computations that mutate and raise\<close>

type_synonym ('s, 'e, 'a) pm = "'s \<Rightarrow> ('e + 'a) \<times> 's"

definition pret :: "'a \<Rightarrow> ('s, 'e, 'a) pm" where
  "pret a = (\<lambda>s. (Inr a, s))"

definition praise :: "'e \<Rightarrow> ('s, 'e, 'a) pm" where
  "praise e = (\<lambda>s. (Inl e, s))"

definition pbind :: "('s, 'e, 'a) pm \<Rightarrow> ('a \<Rightarrow> ('s, 'e, 'b) pm) \<Rightarrow> ('s, 'e, 'b) pm" where
  "pbind m f = (\<lambda>s. case m s of (Inl e, s') \<Rightarrow> (Inl e, s') | (Inr a, s') \<Rightarrow> f a s')"

definition pthen :: "('s, 'e, 'a) pm \<Rightarrow> ('s, 'e, 'b) pm \<Rightarrow> ('s, 'e, 'b) pm" where
  "pthen m n = pbind m (\<lambda>_. n)"

definition pget :: "('s \<Rightarrow> 'a) \<Rightarrow> ('s, 'e, 'a) pm" where
  "pget f = (\<lambda>s. (Inr (f s), s))"

definition pmod :: "('s \<Rightarrow> 's) \<Rightarrow> ('s, 'e, unit) pm" where
  "pmod f = (\<lambda>s. (Inr (), f s))"

text \<open>Running a pure fallible function, whose failure is an exception.\<close>

definition plift :: "'e + 'a \<Rightarrow> ('s, 'e, 'a) pm" where
  "plift r = (\<lambda>s. (r, s))"

definition pcatch :: "('s, 'e, 'a) pm \<Rightarrow> ('e \<Rightarrow> ('s, 'e, 'a) pm) \<Rightarrow> ('s, 'e, 'a) pm" where
  "pcatch m h = (\<lambda>s. case m s of (Inl e, s') \<Rightarrow> h e s' | (Inr a, s') \<Rightarrow> (Inr a, s'))"

definition pfinally :: "('s, 'e, 'a) pm \<Rightarrow> ('s \<Rightarrow> 's) \<Rightarrow> ('s, 'e, 'a) pm" where
  "pfinally m f = (\<lambda>s. case m s of (r, s') \<Rightarrow> (r, f s'))"

definition pwhen :: "bool \<Rightarrow> ('s, 'e, unit) pm \<Rightarrow> ('s, 'e, unit) pm" where
  "pwhen b m = (if b then m else pret ())"

text \<open>A \<^verbatim>\<open>for\<close> loop: the body runs on each element in order and stops at an exception.\<close>

fun pfor :: "'x list \<Rightarrow> ('x \<Rightarrow> ('s, 'e, unit) pm) \<Rightarrow> ('s, 'e, unit) pm" where
  "pfor [] f = pret ()"
| "pfor (x # xs) f = pthen (f x) (pfor xs f)"

declare pret_def [pm_simps] praise_def [pm_simps] pbind_def [pm_simps] pthen_def [pm_simps]
  pget_def [pm_simps] pmod_def [pm_simps] plift_def [pm_simps] pcatch_def [pm_simps]
  pfinally_def [pm_simps] pwhen_def [pm_simps]

lemma pbind_pret [simp]: "pbind (pret a) f = f a"
  by (simp add: pm_simps)

lemma pbind_praise [simp]: "pbind (praise e) f = praise e"
  by (simp add: pm_simps)

lemma pbind_assoc: "pbind (pbind m f) g = pbind m (\<lambda>x. pbind (f x) g)"
  by (rule ext) (simp add: pm_simps split: prod.split sum.split)

lemma pbind_eq_Inr:
  "pbind m f s = (Inr b, s'') \<longleftrightarrow> (\<exists>a s'. m s = (Inr a, s') \<and> f a s' = (Inr b, s''))"
  by (auto simp: pbind_def split: prod.splits sum.splits)

lemma pfor_append: "pfor (xs @ ys) f = pthen (pfor xs f) (pfor ys f)"
  by (induction xs) (simp_all add: pthen_def pbind_assoc)

subsection \<open>Preservation of an invariant\<close>

definition preserves :: "('s \<Rightarrow> bool) \<Rightarrow> ('s, 'e, 'a) pm \<Rightarrow> bool" where
  "preserves I m \<longleftrightarrow> (\<forall>s. I s \<longrightarrow> I (snd (m s)))"

lemma preservesI [intro?]: "(\<And>s. I s \<Longrightarrow> I (snd (m s))) \<Longrightarrow> preserves I m"
  by (simp add: preserves_def)

lemma preservesD: "preserves I m \<Longrightarrow> I s \<Longrightarrow> I (snd (m s))"
  by (simp add: preserves_def)

lemma preserves_pret [pres]: "preserves I (pret a)"
  by (simp add: preserves_def pm_simps)

lemma preserves_praise [pres]: "preserves I (praise e)"
  by (simp add: preserves_def pm_simps)

lemma preserves_pget [pres]: "preserves I (pget f)"
  by (simp add: preserves_def pm_simps)

lemma preserves_plift [pres]: "preserves I (plift r)"
  by (simp add: preserves_def pm_simps)

lemma preserves_pmod: "(\<And>s. I s \<Longrightarrow> I (f s)) \<Longrightarrow> preserves I (pmod f)"
  by (simp add: preserves_def pm_simps)

lemma preserves_pbind [pres]:
  "preserves I m \<Longrightarrow> (\<And>a. preserves I (f a)) \<Longrightarrow> preserves I (pbind m f)"
  unfolding preserves_def pbind_def
  by (force split: prod.splits sum.splits)

lemma preserves_pthen [pres]:
  "preserves I m \<Longrightarrow> preserves I n \<Longrightarrow> preserves I (pthen m n)"
  by (simp add: pthen_def preserves_pbind)

lemma preserves_pcatch [pres]:
  "preserves I m \<Longrightarrow> (\<And>e. preserves I (h e)) \<Longrightarrow> preserves I (pcatch m h)"
  unfolding preserves_def pcatch_def
  by (force split: prod.splits sum.splits)

lemma preserves_pfinally:
  "preserves I m \<Longrightarrow> (\<And>s. I s \<Longrightarrow> I (f s)) \<Longrightarrow> preserves I (pfinally m f)"
  unfolding preserves_def pfinally_def
  by (force split: prod.splits)

lemma preserves_pwhen [pres]: "preserves I m \<Longrightarrow> preserves I (pwhen b m)"
  by (simp add: pwhen_def preserves_pret)

lemma preserves_pfor [pres]: "(\<And>x. preserves I (f x)) \<Longrightarrow> preserves I (pfor xs f)"
  by (induction xs) (simp_all add: preserves_pret preserves_pthen)

lemma preserves_if [pres]:
  "(b \<Longrightarrow> preserves I m) \<Longrightarrow> (\<not> b \<Longrightarrow> preserves I n) \<Longrightarrow> preserves I (if b then m else n)"
  by simp

lemma preserves_case_option [pres]:
  "preserves I m \<Longrightarrow> (\<And>x. preserves I (f x)) \<Longrightarrow>
   preserves I (case v of None \<Rightarrow> m | Some x \<Rightarrow> f x)"
  by (simp split: option.split)

lemma preserves_case_list [pres]:
  "preserves I m \<Longrightarrow> (\<And>x xs. preserves I (f x xs)) \<Longrightarrow>
   preserves I (case v of [] \<Rightarrow> m | x # xs \<Rightarrow> f x xs)"
  by (simp split: list.split)

lemma preserves_case_prod [pres]:
  "(\<And>x y. preserves I (f x y)) \<Longrightarrow> preserves I (case v of (x, y) \<Rightarrow> f x y)"
  by (simp split: prod.split)

lemma preserves_case_sum [pres]:
  "(\<And>x. preserves I (f x)) \<Longrightarrow> (\<And>y. preserves I (g y)) \<Longrightarrow>
   preserves I (case v of Inl x \<Rightarrow> f x | Inr y \<Rightarrow> g y)"
  by (simp split: sum.split)

lemma preserves_let [pres]: "preserves I (f v) \<Longrightarrow> preserves I (let x = v in f x)"
  by simp

subsection \<open>Insertion-ordered dictionaries\<close>

type_synonym ('k, 'v) dict = "('k \<times> 'v) list"

definition dget :: "('k, 'v) dict \<Rightarrow> 'k \<Rightarrow> 'v option" where
  "dget d k = map_of d k"

definition dset :: "'k \<Rightarrow> 'v \<Rightarrow> ('k, 'v) dict \<Rightarrow> ('k, 'v) dict" where
  "dset k v d = AList.update k v d"

definition dpop :: "'k \<Rightarrow> ('k, 'v) dict \<Rightarrow> ('k, 'v) dict" where
  "dpop k d = AList.delete k d"

definition dkeys :: "('k, 'v) dict \<Rightarrow> 'k list" where
  "dkeys d = map fst d"

definition dvalues :: "('k, 'v) dict \<Rightarrow> 'v list" where
  "dvalues d = map snd d"

definition dict_ok :: "('k, 'v) dict \<Rightarrow> bool" where
  "dict_ok d \<longleftrightarrow> distinct (map fst d)"

lemma dget_Nil [simp]: "dget [] k = None"
  by (simp add: dget_def)

lemma dget_Cons: "dget ((k', v) # d) k = (if k = k' then Some v else dget d k)"
  by (simp add: dget_def)

lemma dget_dset: "dget (dset k v d) k' = (if k' = k then Some v else dget d k')"
  by (simp add: dget_def dset_def update_conv')

lemma dget_dpop: "dget (dpop k d) k' = (if k' = k then None else dget d k')"
  by (simp add: dget_def dpop_def delete_conv')

lemma dict_ok_Nil [simp]: "dict_ok []"
  by (simp add: dict_ok_def)

lemma dict_ok_dset [simp]: "dict_ok d \<Longrightarrow> dict_ok (dset k v d)"
  by (simp add: dict_ok_def dset_def distinct_update)

lemma dict_ok_dpop [simp]: "dict_ok d \<Longrightarrow> dict_ok (dpop k d)"
  by (simp add: dict_ok_def dpop_def distinct_delete)

lemma dget_None_iff: "dget d k = None \<longleftrightarrow> k \<notin> set (dkeys d)"
  by (simp add: dget_def dkeys_def map_of_eq_None_iff)

lemma dget_SomeD: "dget d k = Some v \<Longrightarrow> (k, v) \<in> set d"
  by (simp add: dget_def map_of_SomeD)

end
