(* ===== verification/Py_Values.thy ===== *)
theory Py_Values
  imports Prelude "HOL-Library.Char_ord" "HOL-Library.List_Lexorder"
begin

section \<open>Python values, protobuf payloads and built-in errors\<close>

text \<open>
  The values that cross the interfaces of the SDK.  Strings and byte strings are character
  lists (one character per byte), ordered lexicographically by \<^verbatim>\<open>List_Lexorder\<close>, which is the
  order of Python's \<^verbatim>\<open>str\<close> and \<^verbatim>\<open>bytes\<close>.  A \<^verbatim>\<open>float\<close> is the rational number it stands for.  A
  \<^verbatim>\<open>timedelta\<close> is its number of microseconds, which is zero exactly when the object is falsy; a
  protobuf \<^verbatim>\<open>Duration\<close> is its number of nanoseconds.  A \<^verbatim>\<open>datetime\<close> is kept as its
  \<^verbatim>\<open>isoformat()\<close> text with a flag that says whether it has a time zone.
\<close>

record payload =
  p_metadata :: "(string \<times> string) list"
  p_data :: string

datatype pyval =
    PNone
  | PBool bool
  | PInt int
  | PFloat rat
  | PStr string
  | PBytes string
  | PDatetime bool string
  | PList "pyval list"
  | PTuple "pyval list"
  | PDict "(pyval \<times> pyval) list"
  | PRaw payload
  | PRef nat

text \<open>Type hints, as far as the code distinguishes them: \<^verbatim>\<open>RawValue\<close> and any other class.\<close>

datatype pytype = TRawValue | TNamed string

text \<open>The errors that the standard library and the helper modules raise, with their message.\<close>

datatype py_error =
    ValueError string
  | TypeError string
  | KeyError string
  | RuntimeError string
  | AssertionError string
  | InvalidStateError string
  | RecursionError string
  | IndexError string

subsection \<open>Built-in classes\<close>

datatype pybuiltin = TyStr | TyInt | TyFloat | TyBool | TyDatetime | TySequence | TyList

text \<open>\<^verbatim>\<open>isinstance\<close> on the built-in classes: \<^verbatim>\<open>bool\<close> is a subclass of \<^verbatim>\<open>int\<close>, and strings, byte
  strings, lists and tuples are sequences.\<close>

fun is_PStr :: "pyval \<Rightarrow> bool" where
  "is_PStr (PStr _) = True" | "is_PStr _ = False"

fun is_PInt :: "pyval \<Rightarrow> bool" where
  "is_PInt (PInt _) = True" | "is_PInt _ = False"

fun is_PFloat :: "pyval \<Rightarrow> bool" where
  "is_PFloat (PFloat _) = True" | "is_PFloat _ = False"

fun is_PBool :: "pyval \<Rightarrow> bool" where
  "is_PBool (PBool _) = True" | "is_PBool _ = False"

fun is_PDatetime :: "pyval \<Rightarrow> bool" where
  "is_PDatetime (PDatetime _ _) = True" | "is_PDatetime _ = False"

fun is_PBytes :: "pyval \<Rightarrow> bool" where
  "is_PBytes (PBytes _) = True" | "is_PBytes _ = False"

fun is_PList :: "pyval \<Rightarrow> bool" where
  "is_PList (PList _) = True" | "is_PList _ = False"

fun is_PTuple :: "pyval \<Rightarrow> bool" where
  "is_PTuple (PTuple _) = True" | "is_PTuple _ = False"

fun py_isinstance :: "pyval \<Rightarrow> pybuiltin \<Rightarrow> bool" where
  "py_isinstance v TyStr = is_PStr v"
| "py_isinstance v TyInt = (is_PInt v \<or> is_PBool v)"
| "py_isinstance v TyFloat = is_PFloat v"
| "py_isinstance v TyBool = is_PBool v"
| "py_isinstance v TyDatetime = is_PDatetime v"
| "py_isinstance v TySequence = (is_PStr v \<or> is_PBytes v \<or> is_PList v \<or> is_PTuple v)"
| "py_isinstance v TyList = is_PList v"

text \<open>\<^verbatim>\<open>type(v)\<close> on the classes that a search attribute value may have.\<close>

fun py_type_of :: "pyval \<Rightarrow> pybuiltin option" where
  "py_type_of (PStr _) = Some TyStr"
| "py_type_of (PInt _) = Some TyInt"
| "py_type_of (PFloat _) = Some TyFloat"
| "py_type_of (PBool _) = Some TyBool"
| "py_type_of (PDatetime _ _) = Some TyDatetime"
| "py_type_of (PList _) = Some TyList"
| "py_type_of _ = None"

subsection \<open>Durations\<close>

type_synonym timedelta = int
type_synonym duration = int

definition seconds :: "int \<Rightarrow> timedelta" where
  "seconds n = n * 1000000"

text \<open>\<^verbatim>\<open>Duration.FromTimedelta\<close> and \<^verbatim>\<open>Duration.ToTimedelta\<close>, which rounds toward zero.\<close>

definition from_timedelta :: "timedelta \<Rightarrow> duration" where
  "from_timedelta d = d * 1000"

definition to_timedelta :: "duration \<Rightarrow> timedelta" where
  "to_timedelta n = (if 0 \<le> n then n div 1000 else - ((- n) div 1000))"

lemma to_from_timedelta [simp]: "to_timedelta (from_timedelta d) = d"
  by (auto simp: to_timedelta_def from_timedelta_def simp flip: minus_mult_left)

text \<open>A \<^verbatim>\<open>timedelta | None\<close> that is used as a condition: absent and zero are both false.\<close>

definition td_truthy :: "timedelta option \<Rightarrow> bool" where
  "td_truthy d \<longleftrightarrow> d \<noteq> None \<and> d \<noteq> Some 0"

text \<open>\<^verbatim>\<open>if x: msg.f.FromTimedelta(x)\<close>: the field is present only for a truthy value.\<close>

definition td_field :: "timedelta option \<Rightarrow> duration option" where
  "td_field d = (if td_truthy d then map_option from_timedelta d else None)"

text \<open>\<^verbatim>\<open>s or t\<close> on an optional string.\<close>

definition str_or :: "string option \<Rightarrow> string \<Rightarrow> string" where
  "str_or s t = (case s of None \<Rightarrow> t | Some u \<Rightarrow> if u = [] then t else u)"

definition str_truthy :: "string option \<Rightarrow> bool" where
  "str_truthy s \<longleftrightarrow> s \<noteq> None \<and> s \<noteq> Some []"

subsection \<open>Decimal notation\<close>

fun str_of_nat :: "nat \<Rightarrow> string" where
  "str_of_nat n = (if n < 10 then [char_of (48 + n)]
     else str_of_nat (n div 10) @ [char_of (48 + n mod 10)])"

declare str_of_nat.simps [simp del]

definition str_of_int :: "int \<Rightarrow> string" where
  "str_of_int i = (if i < 0 then ''-'' @ str_of_nat (nat (- i)) else str_of_nat (nat i))"

text \<open>Reading a decimal number back, used to state that distinct numbers have distinct texts.\<close>

definition nat_of_str :: "string \<Rightarrow> nat" where
  "nat_of_str s = foldl (\<lambda>n c. 10 * n + (of_char c - 48)) 0 s"

lemma nat_of_str_of_nat [simp]: "nat_of_str (str_of_nat n) = n"
proof (induction n rule: str_of_nat.induct)
  case (1 n)
  show ?case
  proof (cases "n < 10")
    case True
    then show ?thesis by (subst str_of_nat.simps) (simp add: nat_of_str_def)
  next
    case False
    have small: "of_char (char_of (48 + n mod 10) :: char) = (48 + n mod 10 :: nat)"
      by simp
    show ?thesis
      using 1 False
      by (subst str_of_nat.simps) (simp add: nat_of_str_def small)
  qed
qed

lemma str_of_nat_inject [simp]: "str_of_nat m = str_of_nat n \<longleftrightarrow> m = n"
  by (metis nat_of_str_of_nat)

lemma str_of_nat_not_Nil [simp]: "str_of_nat n \<noteq> []"
  by (subst str_of_nat.simps) simp

end
