(* ===== verification/Common.thy ===== *)
theory Common
  imports Py_Values
begin

section \<open>Common options: retry policies, search attributes, priorities, versions\<close>

text \<open>
  The data types of \<^verbatim>\<open>temporalio/common.py\<close> and the encoders of
  \<^verbatim>\<open>temporalio/converter/_search_attributes.py\<close>, with their validation and their protobuf
  forms.  The payload converter that the encoders call is the argument \<open>conv\<close>.
\<close>

subsection \<open>Retry policies\<close>

record retry_policy =
  initial_interval :: timedelta
  backoff_coefficient :: rat
  maximum_interval :: "timedelta option"
  maximum_attempts :: int
  non_retryable_error_types :: "string list option"

definition default_retry_policy :: retry_policy where
  "default_retry_policy = \<lparr>initial_interval = seconds 1, backoff_coefficient = 2,
     maximum_interval = None, maximum_attempts = 0, non_retryable_error_types = None\<rparr>"

text \<open>The protobuf message; a scalar field that is not set reads as its default.\<close>

record retry_policy_proto =
  rp_initial_interval :: duration
  rp_backoff_coefficient :: rat
  rp_maximum_interval :: "duration option"
  rp_maximum_attempts :: int
  rp_non_retryable_error_types :: "string list"

definition retry_policy_from_proto :: "retry_policy_proto \<Rightarrow> retry_policy" where
  "retry_policy_from_proto p = \<lparr>initial_interval = to_timedelta (rp_initial_interval p),
     backoff_coefficient = rp_backoff_coefficient p,
     maximum_interval = map_option to_timedelta (rp_maximum_interval p),
     maximum_attempts = rp_maximum_attempts p,
     non_retryable_error_types =
       (if rp_non_retryable_error_types p = [] then None
        else Some (rp_non_retryable_error_types p))\<rparr>"

definition retry_policy_validate :: "retry_policy \<Rightarrow> py_error + unit" where
  "retry_policy_validate r =
    (if maximum_attempts r = 1 then Inr ()
     else if initial_interval r < 0 then Inl (ValueError ''Initial interval cannot be negative'')
     else if backoff_coefficient r < 1
       then Inl (ValueError ''Backoff coefficient cannot be less than 1'')
     else if td_truthy (maximum_interval r) \<and> the (maximum_interval r) < 0
       then Inl (ValueError ''Maximum interval cannot be negative'')
     else if td_truthy (maximum_interval r) \<and> the (maximum_interval r) < initial_interval r
       then Inl (ValueError ''Maximum interval cannot be less than initial interval'')
     else if maximum_attempts r < 0
       then Inl (ValueError ''Maximum attempts cannot be negative'')
     else Inr ())"

text \<open>\<^verbatim>\<open>apply_to_proto\<close> on an empty message.  \<^verbatim>\<open>self.maximum_interval or self.initial_interval * 100\<close>
  replaces an interval of zero like a missing one.\<close>

definition effective_maximum_interval :: "retry_policy \<Rightarrow> timedelta" where
  "effective_maximum_interval r =
    (if td_truthy (maximum_interval r) then the (maximum_interval r)
     else initial_interval r * 100)"

definition retry_policy_apply_to_proto :: "retry_policy \<Rightarrow> py_error + retry_policy_proto" where
  "retry_policy_apply_to_proto r =
    (case retry_policy_validate r of
       Inl e \<Rightarrow> Inl e
     | Inr _ \<Rightarrow> Inr \<lparr>rp_initial_interval = from_timedelta (initial_interval r),
         rp_backoff_coefficient = backoff_coefficient r,
         rp_maximum_interval = Some (from_timedelta (effective_maximum_interval r)),
         rp_maximum_attempts = maximum_attempts r,
         rp_non_retryable_error_types =
           (case non_retryable_error_types r of None \<Rightarrow> [] | Some ts \<Rightarrow> ts)\<rparr>)"

lemma validate_ok_iff:
  "retry_policy_validate r = Inr () \<longleftrightarrow>
     maximum_attempts r = 1 \<or>
     0 \<le> initial_interval r \<and> 1 \<le> backoff_coefficient r \<and> 0 \<le> maximum_attempts r \<and>
     initial_interval r \<le> effective_maximum_interval r"
  by (cases "maximum_interval r")
    (auto simp: retry_policy_validate_def td_truthy_def effective_maximum_interval_def)

lemma apply_to_proto_cases:
  "retry_policy_apply_to_proto r = Inr p \<longleftrightarrow>
     retry_policy_validate r = Inr () \<and>
     p = \<lparr>rp_initial_interval = from_timedelta (initial_interval r),
         rp_backoff_coefficient = backoff_coefficient r,
         rp_maximum_interval = Some (from_timedelta (effective_maximum_interval r)),
         rp_maximum_attempts = maximum_attempts r,
         rp_non_retryable_error_types =
           (case non_retryable_error_types r of None \<Rightarrow> [] | Some ts \<Rightarrow> ts)\<rparr>"
  by (auto simp: retry_policy_apply_to_proto_def split: sum.splits)

text \<open>The policy that comes back from its message: the maximum interval is filled in, and an empty
  list of error types becomes \<^verbatim>\<open>None\<close>.\<close>

definition retry_policy_normal :: "retry_policy \<Rightarrow> retry_policy" where
  "retry_policy_normal r =
    r\<lparr>maximum_interval := Some (effective_maximum_interval r),
      non_retryable_error_types :=
        (case non_retryable_error_types r of Some [] \<Rightarrow> None | t \<Rightarrow> t)\<rparr>"

lemma from_proto_apply:
  "retry_policy_apply_to_proto r = Inr p \<Longrightarrow> retry_policy_from_proto p = retry_policy_normal r"
  by (cases r)
    (auto simp: apply_to_proto_cases retry_policy_from_proto_def retry_policy_normal_def
      split: option.split list.split)

subsection \<open>Search attributes\<close>

datatype indexed_value_type =
  IV_TEXT | IV_KEYWORD | IV_INT | IV_DOUBLE | IV_BOOL | IV_DATETIME | IV_KEYWORD_LIST

text \<open>A key is a name, an index type and the Python class of its values; the class is stored as
  \<^verbatim>\<open>origin_value_type\<close> gives it, without generics.\<close>

record search_attribute_key =
  sk_name :: string
  indexed_value_type :: indexed_value_type
  origin_value_type :: pybuiltin

definition for_text :: "string \<Rightarrow> search_attribute_key" where
  "for_text n = \<lparr>sk_name = n, indexed_value_type = IV_TEXT, origin_value_type = TyStr\<rparr>"

definition for_keyword :: "string \<Rightarrow> search_attribute_key" where
  "for_keyword n = \<lparr>sk_name = n, indexed_value_type = IV_KEYWORD, origin_value_type = TyStr\<rparr>"

definition for_int :: "string \<Rightarrow> search_attribute_key" where
  "for_int n = \<lparr>sk_name = n, indexed_value_type = IV_INT, origin_value_type = TyInt\<rparr>"

definition for_float :: "string \<Rightarrow> search_attribute_key" where
  "for_float n = \<lparr>sk_name = n, indexed_value_type = IV_DOUBLE, origin_value_type = TyFloat\<rparr>"

definition for_bool :: "string \<Rightarrow> search_attribute_key" where
  "for_bool n = \<lparr>sk_name = n, indexed_value_type = IV_BOOL, origin_value_type = TyBool\<rparr>"

definition for_datetime :: "string \<Rightarrow> search_attribute_key" where
  "for_datetime n =
     \<lparr>sk_name = n, indexed_value_type = IV_DATETIME, origin_value_type = TyDatetime\<rparr>"

definition for_keyword_list :: "string \<Rightarrow> search_attribute_key" where
  "for_keyword_list n =
     \<lparr>sk_name = n, indexed_value_type = IV_KEYWORD_LIST, origin_value_type = TySequence\<rparr>"

lemmas key_defs = for_text_def for_keyword_def for_int_def for_float_def for_bool_def
  for_datetime_def for_keyword_list_def

text \<open>The keys that the \<^verbatim>\<open>for_...\<close> constructors build.\<close>

definition key_for :: "indexed_value_type \<Rightarrow> string \<Rightarrow> search_attribute_key" where
  "key_for t = (case t of IV_TEXT \<Rightarrow> for_text | IV_KEYWORD \<Rightarrow> for_keyword | IV_INT \<Rightarrow> for_int
     | IV_DOUBLE \<Rightarrow> for_float | IV_BOOL \<Rightarrow> for_bool | IV_DATETIME \<Rightarrow> for_datetime
     | IV_KEYWORD_LIST \<Rightarrow> for_keyword_list)"

lemma key_for_name [simp]: "sk_name (key_for t n) = n"
  by (cases t) (simp_all add: key_for_def key_defs)

lemma key_for_type [simp]: "indexed_value_type (key_for t n) = t"
  by (cases t) (simp_all add: key_for_def key_defs)

fun metadata_type :: "indexed_value_type \<Rightarrow> string" where
  "metadata_type IV_TEXT = ''Text''"
| "metadata_type IV_KEYWORD = ''Keyword''"
| "metadata_type IV_INT = ''Int''"
| "metadata_type IV_DOUBLE = ''Double''"
| "metadata_type IV_BOOL = ''Bool''"
| "metadata_type IV_DATETIME = ''Datetime''"
| "metadata_type IV_KEYWORD_LIST = ''KeywordList''"

definition from_metadata_type :: "string \<Rightarrow> string \<Rightarrow> search_attribute_key option" where
  "from_metadata_type n m =
    (if m \<in> {''Text'', ''INDEXED_VALUE_TYPE_TEXT''} then Some (for_text n)
     else if m \<in> {''Keyword'', ''INDEXED_VALUE_TYPE_KEYWORD''} then Some (for_keyword n)
     else if m \<in> {''Int'', ''INDEXED_VALUE_TYPE_INT''} then Some (for_int n)
     else if m \<in> {''Double'', ''INDEXED_VALUE_TYPE_DOUBLE''} then Some (for_float n)
     else if m \<in> {''Bool'', ''INDEXED_VALUE_TYPE_BOOL''} then Some (for_bool n)
     else if m \<in> {''Datetime'', ''INDEXED_VALUE_TYPE_DATETIME''} then Some (for_datetime n)
     else if m \<in> {''KeywordList'', ''INDEXED_VALUE_TYPE_KEYWORD_LIST''}
       then Some (for_keyword_list n)
     else None)"

definition guess_from_untyped_values :: "string \<Rightarrow> pyval list \<Rightarrow> search_attribute_key option" where
  "guess_from_untyped_values n vals =
    (case vals of
       [] \<Rightarrow> None
     | v # rest \<Rightarrow>
        (if rest \<noteq> [] then (if py_isinstance v TyStr then Some (for_keyword_list n) else None)
         else if py_isinstance v TyStr then Some (for_keyword n)
         else if py_isinstance v TyInt then Some (for_int n)
         else if py_isinstance v TyFloat then Some (for_float n)
         else if py_isinstance v TyBool then Some (for_bool n)
         else if py_isinstance v TyDatetime then Some (for_datetime n)
         else None))"

record search_attribute_update =
  sau_key :: search_attribute_key
  sau_value :: "pyval option"

definition value_set :: "search_attribute_key \<Rightarrow> pyval \<Rightarrow> search_attribute_update" where
  "value_set k v = \<lparr>sau_key = k, sau_value = Some v\<rparr>"

definition value_unset :: "search_attribute_key \<Rightarrow> search_attribute_update" where
  "value_unset k = \<lparr>sau_key = k, sau_value = None\<rparr>"

subsection \<open>Typed search attributes\<close>

type_synonym search_attribute_pair = "search_attribute_key \<times> pyval"

text \<open>The constructor sorts by key name and refuses two neighbours of the same name.\<close>

abbreviation pair_name :: "search_attribute_pair \<Rightarrow> string" where
  "pair_name p \<equiv> sk_name (fst p)"

fun first_duplicate :: "search_attribute_pair list \<Rightarrow> string option" where
  "first_duplicate (p # q # ps) =
     (if pair_name p = pair_name q then Some (pair_name q) else first_duplicate (q # ps))"
| "first_duplicate _ = None"

definition typed_search_attributes ::
    "search_attribute_pair list \<Rightarrow> py_error + search_attribute_pair list" where
  "typed_search_attributes ps =
    (let sorted_ps = sort_key pair_name ps
     in case first_duplicate sorted_ps of
          Some n \<Rightarrow> Inl (ValueError (''Duplicate search attribute entries found for key '' @ n))
        | None \<Rightarrow> Inr sorted_ps)"

definition tsa_getitem ::
    "search_attribute_pair list \<Rightarrow> search_attribute_key \<Rightarrow> py_error + pyval" where
  "tsa_getitem ps k =
    (case find (\<lambda>p. fst p = k) ps of
       None \<Rightarrow> Inl (KeyError '''')
     | Some p \<Rightarrow> if snd p = PNone then Inl (KeyError '''') else Inr (snd p))"

definition tsa_contains :: "search_attribute_pair list \<Rightarrow> search_attribute_key \<Rightarrow> bool" where
  "tsa_contains ps k \<longleftrightarrow> list_ex (\<lambda>p. fst p = k) ps"

definition tsa_get ::
    "search_attribute_pair list \<Rightarrow> search_attribute_key \<Rightarrow> pyval \<Rightarrow> pyval" where
  "tsa_get ps k d = (case tsa_getitem ps k of Inl _ \<Rightarrow> d | Inr v \<Rightarrow> v)"

text \<open>Replacing the first entry of the same name, or appending: the loop body of \<^verbatim>\<open>updated\<close>.\<close>

fun upsert_pair :: "search_attribute_pair \<Rightarrow> search_attribute_pair list \<Rightarrow>
    search_attribute_pair list" where
  "upsert_pair a [] = [a]"
| "upsert_pair a (p # ps) = (if pair_name a = pair_name p then a # ps else p # upsert_pair a ps)"

definition tsa_updated :: "search_attribute_pair list \<Rightarrow> search_attribute_pair list \<Rightarrow>
    py_error + search_attribute_pair list" where
  "tsa_updated ps us = typed_search_attributes (foldl (\<lambda>attrs a. upsert_pair a attrs) ps us)"

definition tsa_ok :: "search_attribute_pair list \<Rightarrow> bool" where
  "tsa_ok ps \<longleftrightarrow> sorted (map pair_name ps) \<and> distinct (map pair_name ps)"

lemma first_duplicate_None:
  "sorted (map pair_name ps) \<Longrightarrow> first_duplicate ps = None \<longleftrightarrow> distinct (map pair_name ps)"
proof (induction ps rule: first_duplicate.induct)
  case (1 p q ps)
  have tail: "sorted (map pair_name (q # ps))"
    using "1.prems" by simp
  show ?case
  proof (cases "pair_name p = pair_name q")
    case False
    have "pair_name p \<notin> pair_name ` set ps"
    proof
      assume "pair_name p \<in> pair_name ` set ps"
      then have "pair_name q \<le> pair_name p"
        using tail by auto
      then show False
        using False "1.prems" by (simp add: order.antisym)
    qed
    then show ?thesis
      using False "1.IH"[OF False tail] by simp
  qed simp
qed simp_all

lemma sort_key_names: "map pair_name (sort_key pair_name ps) = sort (map pair_name ps)"
proof (rule properties_for_sort[symmetric])
  show "mset (map pair_name (sort_key pair_name ps)) = mset (map pair_name ps)"
    by (simp only: mset_map mset_sort)
qed (rule sorted_sort_key)

lemma typed_ok_iff:
  "(\<exists>qs. typed_search_attributes ps = Inr qs) \<longleftrightarrow> distinct (map pair_name ps)"
proof -
  have "first_duplicate (sort_key pair_name ps) = None
      \<longleftrightarrow> distinct (map pair_name (sort_key pair_name ps))"
    by (rule first_duplicate_None) simp
  also have "\<dots> \<longleftrightarrow> distinct (map pair_name ps)"
    unfolding sort_key_names by simp
  finally show ?thesis
    by (auto simp: typed_search_attributes_def Let_def split: option.splits)
qed

lemma typed_Inr:
  "typed_search_attributes ps = Inr qs \<longleftrightarrow>
     distinct (map pair_name ps) \<and> qs = sort_key pair_name ps"
  using typed_ok_iff[of ps]
  by (auto simp: typed_search_attributes_def Let_def split: option.splits)

lemma typed_tsa_ok: "typed_search_attributes ps = Inr qs \<Longrightarrow> tsa_ok qs"
  by (auto simp: typed_Inr tsa_ok_def sort_key_names)

lemma upsert_names:
  "map pair_name (upsert_pair a ps) =
     (if pair_name a \<in> pair_name ` set ps then map pair_name ps
      else map pair_name ps @ [pair_name a])"
  by (induction a ps rule: upsert_pair.induct) auto

lemma upsert_distinct:
  "distinct (map pair_name ps) \<Longrightarrow> distinct (map pair_name (upsert_pair a ps))"
  by (simp add: upsert_names)

lemma foldl_upsert_distinct:
  "distinct (map pair_name ps) \<Longrightarrow>
     distinct (map pair_name (foldl (\<lambda>attrs a. upsert_pair a attrs) ps us))"
  by (induction us arbitrary: ps) (simp_all add: upsert_distinct)

lemma set_upsert:
  "distinct (map pair_name ps) \<Longrightarrow>
     set (upsert_pair a ps) = insert a {p \<in> set ps. pair_name p \<noteq> pair_name a}"
  by (induction a ps rule: upsert_pair.induct) (auto simp: image_iff)

text \<open>Lookup by name in the list of pairs.\<close>

definition by_name :: "search_attribute_pair list \<Rightarrow> string \<Rightarrow> search_attribute_pair option" where
  "by_name ps n = find (\<lambda>p. pair_name p = n) ps"

lemma by_name_Some_iff:
  "distinct (map pair_name ps) \<Longrightarrow> by_name ps n = Some p \<longleftrightarrow> p \<in> set ps \<and> pair_name p = n"
  by (induction ps) (auto simp: by_name_def)

lemma by_name_upsert:
  "by_name (upsert_pair a ps) n = (if n = pair_name a then Some a else by_name ps n)"
  by (induction a ps rule: upsert_pair.induct) (auto simp: by_name_def)

lemma by_name_foldl_upsert:
  "by_name (foldl (\<lambda>attrs a. upsert_pair a attrs) ps us) n =
     (case find (\<lambda>p. pair_name p = n) (rev us) of Some p \<Rightarrow> Some p | None \<Rightarrow> by_name ps n)"
proof (induction us arbitrary: ps)
  case (Cons u us)
  have split: "find P (xs @ [x]) = (case find P xs of Some y \<Rightarrow> Some y | None \<Rightarrow> if P x then Some x else None)"
    for P :: "search_attribute_pair \<Rightarrow> bool" and xs x
    by (induction xs) auto
  show ?case
    by (simp add: Cons.IH split by_name_upsert split: option.split)
qed simp

lemma by_name_sort:
  "distinct (map pair_name ps) \<Longrightarrow> by_name (sort_key pair_name ps) n = by_name ps n"
proof -
  assume d: "distinct (map pair_name ps)"
  then have d': "distinct (map pair_name (sort_key pair_name ps))"
    by (simp add: sort_key_names)
  show ?thesis
    by (rule option_eqI) (simp only: by_name_Some_iff[OF d] by_name_Some_iff[OF d'] set_sort)
qed

subsection \<open>Encoding and decoding search attributes\<close>

text \<open>\<open>conv\<close> is \<^verbatim>\<open>default().payload_converter.to_payload\<close>, \<open>unconv\<close> its \<^verbatim>\<open>from_payload\<close>, and
  \<open>parse\<close> the ISO parser for date-times.  Values interpolated into error messages are left
  out of the texts.\<close>

definition encode_typed_search_attribute_value ::
    "(pyval \<Rightarrow> py_error + payload) \<Rightarrow> search_attribute_key \<Rightarrow> pyval \<Rightarrow> py_error + payload" where
  "encode_typed_search_attribute_value conv k v =
    (if v = PNone then conv PNone
     else if \<not> py_isinstance v (origin_value_type k)
       then Inl (TypeError ''Value not suitable for indexed value type'')
     else
       let v' = (case v of PDatetime _ dt \<Rightarrow> PStr dt | _ \<Rightarrow> v);
           items = (case v' of PList xs \<Rightarrow> xs | PTuple xs \<Rightarrow> xs
                     | PBytes bs \<Rightarrow> map (\<lambda>c. PInt (of_char c)) bs | _ \<Rightarrow> [])
       in if list_ex (\<lambda>x. \<not> py_isinstance x TyStr) items
            then Inl (TypeError ''All values of a keyword list must be strings'')
          else case conv v' of
              Inl e \<Rightarrow> Inl e
            | Inr p \<Rightarrow> Inr (p\<lparr>p_metadata :=
                dset ''type'' (metadata_type (indexed_value_type k)) (p_metadata p)\<rparr>))"

text \<open>The loop of \<^verbatim>\<open>encode_search_attribute_values\<close> with its local \<^verbatim>\<open>val_type\<close>.\<close>

fun safe_search_values :: "pybuiltin option \<Rightarrow> pyval list \<Rightarrow> py_error + pyval list" where
  "safe_search_values ty [] = Inr []"
| "safe_search_values ty (v # vs) =
    (case v of
       PDatetime tz dt \<Rightarrow>
         (if \<not> tz then Inl (ValueError ''Timezone must be present on all search attribute dates'')
          else map_sum id (Cons (PStr dt)) (safe_search_values ty vs))
     | _ \<Rightarrow>
        (if \<not> (py_isinstance v TyStr \<or> py_isinstance v TyInt \<or> py_isinstance v TyFloat
              \<or> py_isinstance v TyBool)
           then Inl (TypeError ''Search attribute value not one of str, int, float, bool, or datetime'')
         else if ty \<noteq> None \<and> py_type_of v \<noteq> ty
           then Inl (TypeError ''Search attribute values must have the same type for the same key'')
         else map_sum id (Cons v)
                (safe_search_values (if ty = None then py_type_of v else ty) vs)))"

definition encode_search_attribute_values ::
    "(pyval \<Rightarrow> py_error + payload) \<Rightarrow> pyval \<Rightarrow> py_error + payload" where
  "encode_search_attribute_values conv vals =
    (case vals of
       PList vs \<Rightarrow> (case safe_search_values None vs of Inl e \<Rightarrow> Inl e | Inr ws \<Rightarrow> conv (PList ws))
     | _ \<Rightarrow> Inl (TypeError ''Search attribute values must be lists''))"

text \<open>Search attributes are given as a dictionary (deprecated) or as a typed collection; the
  message is the dictionary of its indexed fields.\<close>

datatype search_attributes =
    SA_Untyped "(string, pyval) dict"
  | SA_Typed "search_attribute_pair list"

type_synonym sa_proto = "(string, payload) dict"

fun encode_untyped ::
    "(pyval \<Rightarrow> py_error + payload) \<Rightarrow> (string \<times> pyval) list \<Rightarrow> sa_proto \<Rightarrow> py_error + sa_proto" where
  "encode_untyped conv [] api = Inr api"
| "encode_untyped conv ((k, v) # kvs) api =
    (case encode_search_attribute_values conv v of
       Inl e \<Rightarrow> Inl e
     | Inr p \<Rightarrow> encode_untyped conv kvs (dset k p api))"

fun encode_typed ::
    "(pyval \<Rightarrow> py_error + payload) \<Rightarrow> search_attribute_pair list \<Rightarrow> sa_proto \<Rightarrow> py_error + sa_proto" where
  "encode_typed conv [] api = Inr api"
| "encode_typed conv ((k, v) # kvs) api =
    (case encode_typed_search_attribute_value conv k v of
       Inl e \<Rightarrow> Inl e
     | Inr p \<Rightarrow> encode_typed conv kvs (dset (sk_name k) p api))"

definition encode_search_attributes ::
    "(pyval \<Rightarrow> py_error + payload) \<Rightarrow> search_attributes \<Rightarrow> sa_proto \<Rightarrow> py_error + sa_proto" where
  "encode_search_attributes conv a api =
    (case a of SA_Typed ps \<Rightarrow> encode_typed conv ps api
     | SA_Untyped d \<Rightarrow> if d = [] then Inr api else encode_untyped conv d api)"

definition encode_maybe_typed_search_attributes ::
    "(pyval \<Rightarrow> py_error + payload) \<Rightarrow> (string, pyval) dict option \<Rightarrow>
     search_attribute_pair list option \<Rightarrow> sa_proto \<Rightarrow> py_error + sa_proto" where
  "encode_maybe_typed_search_attributes conv non_typed typed api =
    (let has_typed = (typed \<noteq> None \<and> typed \<noteq> Some [])
     in if non_typed \<noteq> None \<and> non_typed \<noteq> Some [] then
          (if has_typed then Inl (ValueError
             ''Cannot provide both deprecated search attributes and typed search attributes'')
           else encode_search_attributes conv (SA_Untyped (the non_typed)) api)
        else if has_typed then encode_search_attributes conv (SA_Typed (the typed)) api
        else Inr api)"

fun decode_typed_pairs ::
    "(payload \<Rightarrow> py_error + pyval) \<Rightarrow> (pyval \<Rightarrow> py_error + pyval) \<Rightarrow> (string \<times> payload) list \<Rightarrow>
     py_error + search_attribute_pair list" where
  "decode_typed_pairs unconv parse [] = Inr []"
| "decode_typed_pairs unconv parse ((k, p) # kps) =
    (case dget (p_metadata p) ''type'' of
       None \<Rightarrow> decode_typed_pairs unconv parse kps
     | Some m \<Rightarrow>
       (if m = [] then decode_typed_pairs unconv parse kps
        else case from_metadata_type k m of
          None \<Rightarrow> decode_typed_pairs unconv parse kps
        | Some key \<Rightarrow>
          (case unconv p of
             Inl e \<Rightarrow> Inl e
           | Inr v \<Rightarrow>
             (let single = (indexed_value_type key \<noteq> IV_KEYWORD_LIST \<and> is_PList v);
                  xs = (case v of PList ys \<Rightarrow> ys | _ \<Rightarrow> [])
              in if single \<and> length xs \<noteq> 1 then decode_typed_pairs unconv parse kps
                 else let v1 = (if single then hd xs else v)
                   in case (if indexed_value_type key = IV_DATETIME then parse v1 else Inr v1) of
                        Inl e \<Rightarrow> Inl e
                      | Inr v2 \<Rightarrow>
                         if py_isinstance v2 (origin_value_type key)
                         then map_sum id (Cons (key, v2)) (decode_typed_pairs unconv parse kps)
                         else decode_typed_pairs unconv parse kps))))"

definition decode_typed_search_attributes ::
    "(payload \<Rightarrow> py_error + pyval) \<Rightarrow> (pyval \<Rightarrow> py_error + pyval) \<Rightarrow> sa_proto \<Rightarrow>
     py_error + search_attribute_pair list" where
  "decode_typed_search_attributes unconv parse api =
    (case decode_typed_pairs unconv parse api of
       Inl e \<Rightarrow> Inl e
     | Inr ps \<Rightarrow> typed_search_attributes ps)"

subsection \<open>Priorities\<close>

record priority =
  priority_key :: "int option"
  fairness_key :: "string option"
  fairness_weight :: "rat option"

record priority_proto =
  pp_priority_key :: int
  pp_fairness_key :: string
  pp_fairness_weight :: rat

definition priority_default :: priority where
  "priority_default = \<lparr>priority_key = None, fairness_key = None, fairness_weight = None\<rparr>"

text \<open>\<^verbatim>\<open>__post_init__\<close>; the model's keys are integers, so its type test always passes.\<close>

definition priority_post_init :: "priority \<Rightarrow> py_error + priority" where
  "priority_post_init p =
    (case priority_key p of
       None \<Rightarrow> Inr p
     | Some k \<Rightarrow> if k < 1 then Inl (ValueError ''priority_key must be a positive integer'') else Inr p)"

definition priority_from_proto :: "priority_proto \<Rightarrow> py_error + priority" where
  "priority_from_proto m = priority_post_init
     \<lparr>priority_key = (if pp_priority_key m = 0 then None else Some (pp_priority_key m)),
      fairness_key = (if pp_fairness_key m = [] then None else Some (pp_fairness_key m)),
      fairness_weight = (if pp_fairness_weight m = 0 then None else Some (pp_fairness_weight m))\<rparr>"

definition priority_to_proto :: "priority \<Rightarrow> priority_proto" where
  "priority_to_proto p =
    \<lparr>pp_priority_key = (case priority_key p of None \<Rightarrow> 0 | Some k \<Rightarrow> k),
     pp_fairness_key = (case fairness_key p of None \<Rightarrow> [] | Some k \<Rightarrow> k),
     pp_fairness_weight = (case fairness_weight p of None \<Rightarrow> 0 | Some w \<Rightarrow> w)\<rparr>"

subsection \<open>Worker deployment versions\<close>

datatype versioning_behavior = VB_UNSPECIFIED | VB_PINNED | VB_AUTO_UPGRADE

record worker_deployment_version =
  deployment_name :: string
  build_id :: string

definition to_canonical_string :: "worker_deployment_version \<Rightarrow> string" where
  "to_canonical_string v = deployment_name v @ ''.'' @ build_id v"

text \<open>\<^verbatim>\<open>str.split('.', maxsplit=1)\<close> gives two parts when there is a dot.\<close>

definition from_canonical_string :: "string \<Rightarrow> py_error + worker_deployment_version" where
  "from_canonical_string c =
    (case dropWhile (\<lambda>x. x \<noteq> CHR ''.'') c of
       [] \<Rightarrow> Inl (ValueError (''Cannot parse version string: '' @ c
              @ '', must be in format <deployment_name>.<build_id>''))
     | _ # rest \<Rightarrow> Inr \<lparr>deployment_name = takeWhile (\<lambda>x. x \<noteq> CHR ''.'') c, build_id = rest\<rparr>)"

datatype versioning_override =
    PinnedVersioningOverride worker_deployment_version
  | AutoUpgradeVersioningOverride

record versioning_override_proto =
  vo_behavior :: versioning_behavior
  vo_pinned_version :: string
  vo_pinned :: "worker_deployment_version option"
  vo_auto_upgrade :: bool

fun versioning_override_to_proto :: "versioning_override \<Rightarrow> versioning_override_proto" where
  "versioning_override_to_proto (PinnedVersioningOverride v) =
     \<lparr>vo_behavior = VB_PINNED, vo_pinned_version = to_canonical_string v,
      vo_pinned = Some v, vo_auto_upgrade = False\<rparr>"
| "versioning_override_to_proto AutoUpgradeVersioningOverride =
     \<lparr>vo_behavior = VB_AUTO_UPGRADE, vo_pinned_version = '''',
      vo_pinned = None, vo_auto_upgrade = True\<rparr>"

subsection \<open>Argument and header helpers\<close>

text \<open>\<open>None\<close> stands for the marker \<^verbatim>\<open>_arg_unset\<close>.\<close>

definition arg_or_args :: "pyval option \<Rightarrow> pyval list \<Rightarrow> py_error + pyval list" where
  "arg_or_args arg args =
    (case arg of
       None \<Rightarrow> Inr args
     | Some a \<Rightarrow> if args \<noteq> [] then Inl (ValueError ''Cannot have arg and args'') else Inr [a])"

type_synonym headers = "(string, payload) dict"

definition apply_headers :: "headers option \<Rightarrow> headers \<Rightarrow> headers" where
  "apply_headers source dest =
    (case source of None \<Rightarrow> dest | Some h \<Rightarrow> foldl (\<lambda>d (k, v). dset k v d) dest h)"

end
