(* ===== verification/Inputs.thy ===== *)
theory Inputs
  imports Common
begin

section \<open>Inputs of the workflow interceptors\<close>

text \<open>
  The dataclasses of \<^verbatim>\<open>temporalio/worker/_interceptor.py\<close> that travel between workflow code and the
  workflow instance.  An \<^verbatim>\<open>IntEnum\<close> that is only forwarded is its protobuf number.
\<close>

datatype versioning_intent = VI_COMPATIBLE | VI_DEFAULT

datatype versioning_intent_proto = VIP_UNSPECIFIED | VIP_COMPATIBLE | VIP_DEFAULT

fun versioning_intent_to_proto :: "versioning_intent \<Rightarrow> versioning_intent_proto" where
  "versioning_intent_to_proto VI_COMPATIBLE = VIP_COMPATIBLE"
| "versioning_intent_to_proto VI_DEFAULT = VIP_DEFAULT"

record continue_as_new_input =
  can_workflow :: "string option"
  can_args :: "pyval list"
  can_task_queue :: "string option"
  can_run_timeout :: "timedelta option"
  can_task_timeout :: "timedelta option"
  can_backoff_start_interval :: "timedelta option"
  can_retry_policy :: "retry_policy option"
  can_memo :: "(string, pyval) dict option"
  can_search_attributes :: "search_attributes option"
  can_headers :: headers
  can_versioning_intent :: "versioning_intent option"
  can_initial_versioning_behavior :: "int option"
  can_arg_types :: "pytype list option"

record execute_workflow_input =
  ew_args :: "pyval list"
  ew_headers :: headers

record handle_signal_input =
  hs_signal :: string
  hs_args :: "pyval list"
  hs_headers :: headers

record handle_query_input =
  hq_id :: string
  hq_query :: string
  hq_args :: "pyval list"
  hq_headers :: headers

record handle_update_input =
  hu_id :: string
  hu_update :: string
  hu_args :: "pyval list"
  hu_headers :: headers

record signal_child_input =
  sc_signal :: string
  sc_args :: "pyval list"
  sc_child_workflow_id :: string
  sc_headers :: headers

record signal_external_input =
  se_signal :: string
  se_args :: "pyval list"
  se_namespace :: string
  se_workflow_id :: string
  se_workflow_run_id :: "string option"
  se_headers :: headers

record start_activity_input =
  sa_activity :: string
  sa_args :: "pyval list"
  sa_activity_id :: "string option"
  sa_task_queue :: "string option"
  sa_schedule_to_close_timeout :: "timedelta option"
  sa_schedule_to_start_timeout :: "timedelta option"
  sa_start_to_close_timeout :: "timedelta option"
  sa_heartbeat_timeout :: "timedelta option"
  sa_retry_policy :: "retry_policy option"
  sa_cancellation_type :: int
  sa_headers :: headers
  sa_disable_eager_execution :: bool
  sa_versioning_intent :: "versioning_intent option"
  sa_summary :: "string option"
  sa_priority :: priority
  sa_ret_type :: "pytype option"

record start_local_activity_input =
  sl_activity :: string
  sl_args :: "pyval list"
  sl_activity_id :: "string option"
  sl_schedule_to_close_timeout :: "timedelta option"
  sl_schedule_to_start_timeout :: "timedelta option"
  sl_start_to_close_timeout :: "timedelta option"
  sl_retry_policy :: "retry_policy option"
  sl_local_retry_threshold :: "timedelta option"
  sl_cancellation_type :: int
  sl_headers :: headers
  sl_summary :: "string option"
  sl_ret_type :: "pytype option"

text \<open>\<^verbatim>\<open>StartActivityInput | StartLocalActivityInput\<close> with the attributes both have.\<close>

datatype activity_input = RemoteAct start_activity_input | LocalAct start_local_activity_input

fun ai_activity :: "activity_input \<Rightarrow> string" where
  "ai_activity (RemoteAct i) = sa_activity i" | "ai_activity (LocalAct i) = sl_activity i"

fun ai_args :: "activity_input \<Rightarrow> pyval list" where
  "ai_args (RemoteAct i) = sa_args i" | "ai_args (LocalAct i) = sl_args i"

fun ai_activity_id :: "activity_input \<Rightarrow> string option" where
  "ai_activity_id (RemoteAct i) = sa_activity_id i"
| "ai_activity_id (LocalAct i) = sl_activity_id i"

fun ai_schedule_to_close :: "activity_input \<Rightarrow> timedelta option" where
  "ai_schedule_to_close (RemoteAct i) = sa_schedule_to_close_timeout i"
| "ai_schedule_to_close (LocalAct i) = sl_schedule_to_close_timeout i"

fun ai_schedule_to_start :: "activity_input \<Rightarrow> timedelta option" where
  "ai_schedule_to_start (RemoteAct i) = sa_schedule_to_start_timeout i"
| "ai_schedule_to_start (LocalAct i) = sl_schedule_to_start_timeout i"

fun ai_start_to_close :: "activity_input \<Rightarrow> timedelta option" where
  "ai_start_to_close (RemoteAct i) = sa_start_to_close_timeout i"
| "ai_start_to_close (LocalAct i) = sl_start_to_close_timeout i"

fun ai_retry_policy :: "activity_input \<Rightarrow> retry_policy option" where
  "ai_retry_policy (RemoteAct i) = sa_retry_policy i"
| "ai_retry_policy (LocalAct i) = sl_retry_policy i"

fun ai_headers :: "activity_input \<Rightarrow> headers" where
  "ai_headers (RemoteAct i) = sa_headers i" | "ai_headers (LocalAct i) = sl_headers i"

fun ai_summary :: "activity_input \<Rightarrow> string option" where
  "ai_summary (RemoteAct i) = sa_summary i" | "ai_summary (LocalAct i) = sl_summary i"

fun ai_cancellation_type :: "activity_input \<Rightarrow> int" where
  "ai_cancellation_type (RemoteAct i) = sa_cancellation_type i"
| "ai_cancellation_type (LocalAct i) = sl_cancellation_type i"

fun ai_ret_type :: "activity_input \<Rightarrow> pytype option" where
  "ai_ret_type (RemoteAct i) = sa_ret_type i" | "ai_ret_type (LocalAct i) = sl_ret_type i"

fun ai_is_local :: "activity_input \<Rightarrow> bool" where
  "ai_is_local (RemoteAct _) = False" | "ai_is_local (LocalAct _) = True"

record start_child_input =
  ch_workflow :: string
  ch_args :: "pyval list"
  ch_id :: string
  ch_task_queue :: "string option"
  ch_cancellation_type :: int
  ch_parent_close_policy :: int
  ch_execution_timeout :: "timedelta option"
  ch_run_timeout :: "timedelta option"
  ch_task_timeout :: "timedelta option"
  ch_id_reuse_policy :: int
  ch_retry_policy :: "retry_policy option"
  ch_cron_schedule :: string
  ch_memo :: "(string, pyval) dict option"
  ch_search_attributes :: "search_attributes option"
  ch_headers :: headers
  ch_versioning_intent :: "versioning_intent option"
  ch_static_summary :: "string option"
  ch_static_details :: "string option"
  ch_priority :: priority
  ch_ret_type :: "pytype option"

text \<open>A Nexus operation is given as an operation object, as a name, or as a callable; for a callable
  the argument is what \<^verbatim>\<open>get_operation_factory\<close> finds on it.\<close>

datatype nexus_operation =
    NxOperation string "pytype option"
  | NxName string
  | NxCallable "(string \<times> pytype option) option"
  | NxOther

record start_nexus_input =
  nx_endpoint :: string
  nx_service :: string
  nx_operation :: nexus_operation
  nx_input :: pyval
  nx_schedule_to_close_timeout :: "timedelta option"
  nx_schedule_to_start_timeout :: "timedelta option"
  nx_start_to_close_timeout :: "timedelta option"
  nx_cancellation_type :: int
  nx_headers :: "(string, string) dict option"
  nx_summary :: "string option"
  nx_output_type :: "pytype option"

definition nexus_input_post_init :: "start_nexus_input \<Rightarrow> py_error + start_nexus_input" where
  "nexus_input_post_init i =
    (case nx_operation i of
       NxOperation _ ty \<Rightarrow> Inr (i\<lparr>nx_output_type := ty\<rparr>)
     | NxCallable (Some (_, ty)) \<Rightarrow> Inr (i\<lparr>nx_output_type := ty\<rparr>)
     | NxCallable None \<Rightarrow> Inl (ValueError ''Operation callable is not a Nexus operation'')
     | NxName _ \<Rightarrow> Inr i
     | NxOther \<Rightarrow> Inl (ValueError ''Operation is not a Nexus operation''))"

definition nexus_operation_name :: "start_nexus_input \<Rightarrow> py_error + string" where
  "nexus_operation_name i =
    (case nx_operation i of
       NxOperation n _ \<Rightarrow> Inr n
     | NxName n \<Rightarrow> Inr n
     | NxCallable (Some (n, _)) \<Rightarrow> Inr n
     | NxCallable None \<Rightarrow> Inl (ValueError ''Operation callable is not a Nexus operation'')
     | NxOther \<Rightarrow> Inl (ValueError ''Operation is not a Nexus operation''))"

text \<open>An input that was accepted always has an operation name, and keeps its operation.\<close>

lemma post_init_name:
  "nexus_input_post_init i = Inr j \<Longrightarrow> \<exists>n. nexus_operation_name j = Inr n \<and> nexus_operation_name i = Inr n"
  by (auto simp: nexus_input_post_init_def nexus_operation_name_def
      split: nexus_operation.splits option.splits)

end
