(* ===== verification/Exceptions.thy ===== *)
theory Exceptions
  imports Inputs
begin

section \<open>Exceptions and failure messages\<close>

text \<open>
  The exception classes of \<^verbatim>\<open>temporalio/exceptions.py\<close>, \<^verbatim>\<open>temporalio/workflow/_exceptions.py\<close> and the
  standard ones the workflow instance tells apart, with \<^verbatim>\<open>isinstance\<close> given by the list of
  superclasses of each class.  A class written by the user is \<open>C_User\<close> with its name and its
  superclasses, so that \<^verbatim>\<open>class MyError(ApplicationError)\<close> is an instance of all of them.  The
  protobuf message \<^verbatim>\<open>temporal.api.failure.v1.Failure\<close> is the recursive datatype \<open>failure\<close>.
\<close>

subsection \<open>Failure messages\<close>

datatype failure_info =
    ApplicationFailureInfo (afi_type: string) (afi_non_retryable: bool)
      (afi_details: "payload list option") (afi_next_retry_delay: "duration option")
      (afi_category: int)
  | TimeoutFailureInfo (tfi_type: int) (tfi_details: "payload list option")
  | CanceledFailureInfo (cfi_details: "payload list option")
  | TerminatedFailureInfo
  | ServerFailureInfo (sfi_non_retryable: bool)
  | ActivityFailureInfo (acfi_scheduled: int) (acfi_started: int) (acfi_identity: string)
      (acfi_activity_type: string) (acfi_activity_id: string) (acfi_retry_state: int)
  | ChildWorkflowFailureInfo (chfi_namespace: string) (chfi_workflow_id: string)
      (chfi_run_id: string) (chfi_workflow_type: string) (chfi_initiated: int)
      (chfi_started: int) (chfi_retry_state: int)
  | NexusHandlerFailureInfo (nhfi_type: string) (nhfi_retry_behavior: int)
  | NexusOperationFailureInfo (nofi_scheduled: int) (nofi_endpoint: string)
      (nofi_service: string) (nofi_operation: string) (nofi_token: string)
  | ResetWorkflowFailureInfo

datatype failure = Failure
  (f_message: string)
  (f_stack_trace: string)
  (f_cause: "failure option")
  (f_encoded_attributes: "payload option")
  (f_info: "failure_info option")

definition empty_failure :: failure where
  "empty_failure = Failure [] [] None None None"

subsection \<open>Classes\<close>

datatype pyclass =
    C_BaseException | C_Exception
  | C_ValueError | C_TypeError | C_KeyError | C_RuntimeError | C_AssertionError
  | C_InvalidStateError | C_RecursionError | C_SyntaxError | C_IndexError
  | C_PyTimeoutError
  | C_AsyncCancelledError | C_KeyboardInterrupt | C_SystemExit | C_GeneratorExit
  | C_TemporalError | C_FailureError | C_ApplicationError | C_CancelledError
  | C_TerminatedError | C_TimeoutError | C_ServerError | C_ActivityError
  | C_ChildWorkflowError | C_NexusOperationError | C_WorkflowAlreadyStartedError
  | C_ReadOnlyContextError | C_NondeterminismError | C_NexusHandlerError
  | C_ContinueAsNewError | C_WorkflowBeingEvictedError | C_ActivityDoBackoffError
  | C_User string "pyclass list"

abbreviation exception_mro :: "pyclass list" where
  "exception_mro \<equiv> [C_Exception, C_BaseException]"

abbreviation failure_mro :: "pyclass list" where
  "failure_mro \<equiv> C_FailureError # C_TemporalError # exception_mro"

text \<open>\<^verbatim>\<open>__mro__\<close> without \<^verbatim>\<open>object\<close>.\<close>

fun mro :: "pyclass \<Rightarrow> pyclass list" where
  "mro C_BaseException = [C_BaseException]"
| "mro C_Exception = exception_mro"
| "mro C_RecursionError = C_RecursionError # C_RuntimeError # exception_mro"
| "mro C_AsyncCancelledError = [C_AsyncCancelledError, C_BaseException]"
| "mro C_KeyboardInterrupt = [C_KeyboardInterrupt, C_BaseException]"
| "mro C_SystemExit = [C_SystemExit, C_BaseException]"
| "mro C_GeneratorExit = [C_GeneratorExit, C_BaseException]"
| "mro C_ContinueAsNewError = [C_ContinueAsNewError, C_BaseException]"
| "mro C_WorkflowBeingEvictedError = [C_WorkflowBeingEvictedError, C_BaseException]"
| "mro C_ActivityDoBackoffError = [C_ActivityDoBackoffError, C_BaseException]"
| "mro C_TemporalError = C_TemporalError # exception_mro"
| "mro C_ReadOnlyContextError = C_ReadOnlyContextError # C_TemporalError # exception_mro"
| "mro C_NondeterminismError = C_NondeterminismError # C_TemporalError # exception_mro"
| "mro C_FailureError = failure_mro"
| "mro C_ApplicationError = C_ApplicationError # failure_mro"
| "mro C_CancelledError = C_CancelledError # failure_mro"
| "mro C_TerminatedError = C_TerminatedError # failure_mro"
| "mro C_TimeoutError = C_TimeoutError # failure_mro"
| "mro C_ServerError = C_ServerError # failure_mro"
| "mro C_ActivityError = C_ActivityError # failure_mro"
| "mro C_ChildWorkflowError = C_ChildWorkflowError # failure_mro"
| "mro C_NexusOperationError = C_NexusOperationError # failure_mro"
| "mro C_WorkflowAlreadyStartedError = C_WorkflowAlreadyStartedError # failure_mro"
| "mro (C_User n bs) = C_User n bs # bs"
| "mro c = c # exception_mro"

subsection \<open>Exception objects\<close>

record do_backoff =
  bo_attempt :: int
  bo_backoff_duration :: duration
  bo_original_schedule_time :: "int option"

text \<open>The attributes an exception class adds to \<^verbatim>\<open>BaseException\<close>.  The Nexus failure kept by
  \<^verbatim>\<open>nexusrpc.HandlerError.original_failure\<close> is a message, a stack trace, metadata, and details that
  are a protobuf failure when the metadata says so.\<close>

record nexus_failure =
  nf_message :: string
  nf_stack_trace :: "string option"
  nf_type :: "string option"
  nf_details :: "failure option"

datatype exn_data =
    D_None
  | D_Cancel "pyval option"
  | D_Application "pyval list" "string option" bool "timedelta option" int
  | D_Details "pyval list"
  | D_Timeout "int option" "pyval list"
  | D_Server bool
  | D_Activity int int string string string "int option"
  | D_Child string string string string int int "int option"
  | D_NexusOperation int string string string string
  | D_AlreadyStarted string string
  | D_NexusHandler string "bool option" "string option" "nexus_failure option"
  | D_ContinueAsNew continue_as_new_input
  | D_Backoff do_backoff

datatype exn = Exn
  (e_class: pyclass)
  (e_message: string)
  (e_data: exn_data)
  (e_cause: "exn option")
  (e_context: "exn option")
  (e_suppress_context: bool)
  (e_traceback: "string option")
  (e_failure: "failure option")

definition isinstance :: "exn \<Rightarrow> pyclass \<Rightarrow> bool" where
  "isinstance e c \<longleftrightarrow> c \<in> set (mro (e_class e))"

text \<open>A fresh exception object: no cause, context, traceback or underlying message.\<close>

definition new_exn :: "pyclass \<Rightarrow> string \<Rightarrow> exn_data \<Rightarrow> exn" where
  "new_exn c m d = Exn c m d None None False None None"

text \<open>\<^verbatim>\<open>raise e from c\<close>: sets the cause and suppresses the context.\<close>

definition raise_from :: "exn \<Rightarrow> exn \<Rightarrow> exn" where
  "raise_from e c = Exn (e_class e) (e_message e) (e_data e) (Some c) (e_context e) True
     (e_traceback e) (e_failure e)"

definition set_cause :: "exn \<Rightarrow> exn option \<Rightarrow> exn" where
  "set_cause e c = (case c of None \<Rightarrow> e | Some x \<Rightarrow> raise_from e x)"

definition set_failure :: "exn \<Rightarrow> failure \<Rightarrow> exn" where
  "set_failure e f = Exn (e_class e) (e_message e) (e_data e) (e_cause e) (e_context e)
     (e_suppress_context e) (e_traceback e) (Some f)"

fun exn_of_error :: "py_error \<Rightarrow> exn" where
  "exn_of_error (ValueError m) = new_exn C_ValueError m D_None"
| "exn_of_error (TypeError m) = new_exn C_TypeError m D_None"
| "exn_of_error (KeyError m) = new_exn C_KeyError m D_None"
| "exn_of_error (RuntimeError m) = new_exn C_RuntimeError m D_None"
| "exn_of_error (AssertionError m) = new_exn C_AssertionError m D_None"
| "exn_of_error (InvalidStateError m) = new_exn C_InvalidStateError m D_None"
| "exn_of_error (RecursionError m) = new_exn C_RecursionError m D_None"
| "exn_of_error (IndexError m) = new_exn C_IndexError m D_None"

definition application_error ::
    "string \<Rightarrow> pyval list \<Rightarrow> string option \<Rightarrow> bool \<Rightarrow> timedelta option \<Rightarrow> int \<Rightarrow> exn" where
  "application_error m ds ty nr delay cat =
     new_exn C_ApplicationError m (D_Application ds ty nr delay cat)"

definition cancelled_error :: "string \<Rightarrow> pyval list \<Rightarrow> exn" where
  "cancelled_error m ds = new_exn C_CancelledError m (D_Details ds)"

definition async_cancelled :: "pyval option \<Rightarrow> exn" where
  "async_cancelled m =
     new_exn C_AsyncCancelledError (case m of Some (PStr s) \<Rightarrow> s | _ \<Rightarrow> []) (D_Cancel m)"

definition read_only_error :: "string \<Rightarrow> exn" where
  "read_only_error m = new_exn C_ReadOnlyContextError m D_None"

definition evicted_error :: "string \<Rightarrow> exn" where
  "evicted_error m = new_exn C_WorkflowBeingEvictedError m D_None"

definition backoff_error :: "do_backoff \<Rightarrow> exn" where
  "backoff_error b = new_exn C_ActivityDoBackoffError ''Backoff'' (D_Backoff b)"

definition continue_as_new_error :: "continue_as_new_input \<Rightarrow> exn" where
  "continue_as_new_error i = new_exn C_ContinueAsNewError ''Continue as new'' (D_ContinueAsNew i)"

definition workflow_already_started_error :: "string \<Rightarrow> string \<Rightarrow> exn" where
  "workflow_already_started_error wid wty =
     new_exn C_WorkflowAlreadyStartedError ''Workflow execution already started''
       (D_AlreadyStarted wid wty)"

definition timeout_error_py :: exn where
  "timeout_error_py = new_exn C_PyTimeoutError [] D_None"

text \<open>\<^verbatim>\<open>str(e)\<close>: an application error with a type shows it before its message.\<close>

definition str_exn :: "exn \<Rightarrow> string" where
  "str_exn e = (case e_data e of
     D_Application _ (Some t) _ _ _ \<Rightarrow> if t = [] then e_message e else t @ '': '' @ e_message e
   | _ \<Rightarrow> e_message e)"

definition is_cancelled_exception :: "exn \<Rightarrow> bool" where
  "is_cancelled_exception e \<longleftrightarrow>
     isinstance e C_AsyncCancelledError \<or> isinstance e C_CancelledError \<or>
     (isinstance e C_ActivityError \<or> isinstance e C_ChildWorkflowError \<or>
      isinstance e C_NexusOperationError) \<and>
     (case e_cause e of None \<Rightarrow> False | Some c \<Rightarrow> isinstance c C_CancelledError)"

lemma isinstance_new_exn [simp]: "isinstance (new_exn c m d) k \<longleftrightarrow> k \<in> set (mro c)"
  by (simp add: isinstance_def new_exn_def)

lemma new_exn_sel [simp]:
  "e_class (new_exn c m d) = c" "e_message (new_exn c m d) = m" "e_data (new_exn c m d) = d"
  "e_cause (new_exn c m d) = None" "e_failure (new_exn c m d) = None"
  by (simp_all add: new_exn_def)

lemma raise_from_sel [simp]:
  "e_class (raise_from e c) = e_class e" "e_cause (raise_from e c) = Some c"
  "e_message (raise_from e c) = e_message e" "e_data (raise_from e c) = e_data e"
  "e_failure (raise_from e c) = e_failure e"
  by (simp_all add: raise_from_def)

lemma isinstance_raise_from [simp]: "isinstance (raise_from e c) k \<longleftrightarrow> isinstance e k"
  by (simp add: isinstance_def)

lemma isinstance_Exception_of_error [simp]: "isinstance (exn_of_error err) C_Exception"
  by (cases err) simp_all

end
