(* ===== verification/Wf_Types.thy ===== *)
theory Wf_Types
  imports Exceptions
begin

section \<open>The data of a workflow instance\<close>

text \<open>
  The messages a workflow instance receives (activation jobs) and sends (commands), the program a
  workflow author writes, and the objects the event loop keeps.

  Workflow code is not part of the SDK, so it is a parameter: a value of the codatatype
  \<open>'u ucode\<close>, a possibly endless tree of what the code does next.  \<open>'u\<close> is the type of
  the workflow object.  A node returns, raises, reads and writes the workflow object, makes a
  synchronous SDK call (\<open>UApi\<close>), awaits something (\<open>UAwait\<close>), or creates a task
  (\<open>USpawn\<close>); the branches say how the code goes on for each result.  Endless loops of
  workflow code are endless paths of the tree.

  The coroutines of the SDK itself are named by \<open>'u sdkproc\<close>; their bodies are defined
  beside the operations that use them.
\<close>

subsection \<open>Converters\<close>

datatype ser_context =
    WorkflowSerializationContext (wsc_namespace: string) (wsc_workflow_id: string)
  | ActivitySerializationContext (asc_namespace: string) (asc_workflow_id: string)
      (asc_workflow_type: string) (asc_activity_type: string) (asc_activity_id: "string option")
      (asc_task_queue: string) (asc_is_local: bool)

record payload_converter =
  to_payload :: "pyval \<Rightarrow> exn + payload"
  to_payloads :: "pyval list \<Rightarrow> exn + payload list"
  from_payload :: "payload \<Rightarrow> pytype option \<Rightarrow> exn + pyval"
  from_payloads :: "payload list \<Rightarrow> pytype list option \<Rightarrow> exn + pyval list"

record failure_converter =
  to_failure :: "exn \<Rightarrow> payload_converter \<Rightarrow> exn + failure"
  from_failure :: "failure \<Rightarrow> payload_converter \<Rightarrow> exn + exn"

subsection \<open>Commands\<close>

record user_metadata =
  um_summary :: "payload option"
  um_details :: "payload option"

record schedule_activity =
  act_seq :: nat
  act_activity_id :: string
  act_activity_type :: string
  act_headers :: headers
  act_arguments :: "payload list"
  act_schedule_to_close :: "duration option"
  act_schedule_to_start :: "duration option"
  act_start_to_close :: "duration option"
  act_retry_policy :: "retry_policy_proto option"
  act_cancellation_type :: int
  act_task_queue :: string
  act_heartbeat :: "duration option"
  act_do_not_eagerly_execute :: bool
  act_versioning_intent :: versioning_intent_proto
  act_priority :: "priority_proto option"

record schedule_local_activity =
  lact_seq :: nat
  lact_activity_id :: string
  lact_activity_type :: string
  lact_headers :: headers
  lact_arguments :: "payload list"
  lact_schedule_to_close :: "duration option"
  lact_schedule_to_start :: "duration option"
  lact_start_to_close :: "duration option"
  lact_retry_policy :: "retry_policy_proto option"
  lact_cancellation_type :: int
  lact_local_retry_threshold :: "duration option"
  lact_attempt :: int
  lact_original_schedule_time :: "int option"

record start_child_workflow =
  child_seq :: nat
  child_namespace :: string
  child_workflow_id :: string
  child_workflow_type :: string
  child_task_queue :: string
  child_input :: "payload list"
  child_execution_timeout :: "duration option"
  child_run_timeout :: "duration option"
  child_task_timeout :: "duration option"
  child_parent_close_policy :: int
  child_id_reuse_policy :: int
  child_retry_policy :: "retry_policy_proto option"
  child_cron_schedule :: string
  child_headers :: headers
  child_memo :: "(string, payload) dict"
  child_search_attributes :: sa_proto
  child_cancellation_type :: int
  child_versioning_intent :: versioning_intent_proto
  child_priority :: "priority_proto option"

record schedule_nexus_operation =
  nex_seq :: nat
  nex_endpoint :: string
  nex_service :: string
  nex_operation :: string
  nex_input :: payload
  nex_schedule_to_close :: "duration option"
  nex_schedule_to_start :: "duration option"
  nex_start_to_close :: "duration option"
  nex_cancellation_type :: int
  nex_header :: "(string, string) dict"

record continue_as_new_command =
  canc_workflow_type :: string
  canc_task_queue :: string
  canc_arguments :: "payload list"
  canc_run_timeout :: "duration option"
  canc_task_timeout :: "duration option"
  canc_backoff_start_interval :: "duration option"
  canc_headers :: headers
  canc_retry_policy :: "retry_policy_proto option"
  canc_memo :: "(string, payload) dict"
  canc_search_attributes :: sa_proto
  canc_versioning_intent :: versioning_intent_proto
  canc_initial_versioning_behavior :: int

record signal_external =
  sig_seq :: nat
  sig_child_workflow_id :: string
  sig_namespace :: string
  sig_workflow_id :: string
  sig_run_id :: string
  sig_signal_name :: string
  sig_args :: "payload list"
  sig_headers :: headers

record request_cancel_external =
  rce_seq :: nat
  rce_namespace :: string
  rce_workflow_id :: string
  rce_run_id :: string
  rce_reason :: string

datatype update_outcome =
    UpdateNotSet
  | UpdateAccepted
  | UpdateCompleted payload
  | UpdateRejected failure

datatype command_variant =
    CV_Unset
  | CV_StartTimer nat duration
  | CV_CancelTimer nat
  | CV_ScheduleActivity schedule_activity
  | CV_ScheduleLocalActivity schedule_local_activity
  | CV_RequestCancelActivity nat
  | CV_RequestCancelLocalActivity nat
  | CV_StartChildWorkflow start_child_workflow
  | CV_CancelChildWorkflow nat string
  | CV_ScheduleNexusOperation schedule_nexus_operation
  | CV_RequestCancelNexusOperation nat
  | CV_SignalExternalWorkflow signal_external
  | CV_CancelSignalWorkflow nat
  | CV_RequestCancelExternalWorkflow request_cancel_external
  | CV_SetPatchMarker string bool
  | CV_UpsertSearchAttributes sa_proto
  | CV_ModifyWorkflowProperties "(string, payload) dict"
  | CV_UpdateResponse string update_outcome
  | CV_RespondToQuery string "failure + payload"
  | CV_CompleteWorkflow payload
  | CV_FailWorkflow failure
  | CV_CancelWorkflow
  | CV_ContinueAsNew continue_as_new_command

record wf_command =
  cmd_variant :: command_variant
  cmd_metadata :: "user_metadata option"

text \<open>The test of \<^verbatim>\<open>is_completion\<close> in \<^verbatim>\<open>activate\<close>.\<close>

definition is_completion :: "wf_command \<Rightarrow> bool" where
  "is_completion c = (case cmd_variant c of
     CV_CompleteWorkflow _ \<Rightarrow> True
   | CV_ContinueAsNew _ \<Rightarrow> True
   | CV_FailWorkflow _ \<Rightarrow> True
   | CV_CancelWorkflow \<Rightarrow> True
   | _ \<Rightarrow> False)"

subsection \<open>Activation jobs\<close>

record signal_job =
  sj_signal_name :: string
  sj_input :: "payload list"
  sj_headers :: headers

record update_job =
  uj_id :: string
  uj_protocol_instance_id :: string
  uj_name :: string
  uj_input :: "payload list"
  uj_headers :: headers
  uj_run_validator :: bool

record query_job =
  qj_query_id :: string
  qj_query_type :: string
  qj_arguments :: "payload list"
  qj_headers :: headers

datatype activity_resolution =
    ActCompleted "payload option"
  | ActFailed failure
  | ActCancelled failure
  | ActBackoff do_backoff
  | ActNoResult

datatype child_resolution =
    ChildCompleted "payload option"
  | ChildFailed failure
  | ChildCancelled failure
  | ChildNoResult

datatype child_start_resolution =
    ChildStartSucceeded string
  | ChildStartFailed bool string string
  | ChildStartCancelled failure
  | ChildStartNoStatus

datatype nexus_start_resolution =
    NexusStartToken string
  | NexusStartedSync
  | NexusStartFailed failure
  | NexusStartNoStatus

datatype nexus_resolution =
    NexusCompleted payload
  | NexusFailed failure
  | NexusCancelled failure
  | NexusTimedOut failure
  | NexusNoResult

datatype wf_job =
    J_InitializeWorkflow "payload list" headers
  | J_FireTimer nat
  | J_UpdateRandomSeed int
  | J_QueryWorkflow query_job
  | J_CancelWorkflow string
  | J_SignalWorkflow signal_job
  | J_ResolveActivity nat activity_resolution
  | J_NotifyHasPatch string
  | J_ResolveChildStart nat child_start_resolution
  | J_ResolveChild nat child_resolution
  | J_ResolveSignalExternal nat "failure option"
  | J_ResolveRequestCancelExternal nat "failure option"
  | J_DoUpdate update_job
  | J_ResolveNexusStart nat nexus_start_resolution
  | J_ResolveNexus nat nexus_resolution
  | J_RemoveFromCache
  | J_Unrecognized

datatype logic_flag =
    RAISE_ON_CANCELLING_COMPLETED_ACTIVITY
  | PROCESS_WORKFLOW_ACTIVATION_JOBS_AS_SINGLE_BATCH

record activation =
  ac_timestamp_ns :: int
  ac_is_replaying :: bool
  ac_history_length :: int
  ac_history_size_bytes :: int
  ac_continue_as_new_suggested :: bool
  ac_target_version_changed :: bool
  ac_deployment_version :: "worker_deployment_version option"
  ac_available_internal_flags :: "logic_flag list"
  ac_jobs :: "wf_job list"

subsection \<open>Workflow code\<close>

text \<open>What a \<^verbatim>\<open>wait_condition\<close> predicate may read besides the workflow object.\<close>

record rt_view =
  rv_time_ns :: int
  rv_all_handlers_finished :: bool
  rv_future_done :: "nat \<Rightarrow> bool"

type_synonym 'u cond = "'u \<Rightarrow> rt_view \<Rightarrow> exn + bool"

text \<open>A workflow or activity named by a string, by a decorated callable (its definition's name,
  argument types and return type), by an undecorated callable, or by something else.\<close>

datatype callable_ref =
    RefName string
  | RefDefn "string option" "pytype list option" "pytype option"
  | RefUndecorated
  | RefOther

text \<open>The synchronous SDK calls, with their arguments.\<close>

datatype 'u api =
    ApiAllHandlersFinished
  | ApiContinueAsNew "callable_ref option" continue_as_new_input
  | ApiCancellationReason
  | ApiCurrentBuildId
  | ApiHistoryLength
  | ApiHistorySize
  | ApiIsContinueAsNewSuggested
  | ApiIsTargetVersionChanged
  | ApiIsReplaying
  | ApiIsReplayingHistoryEvents
  | ApiIsReadOnly
  | ApiMemo
  | ApiMemoValue string "pyval option" "pytype option"
  | ApiUpsertMemo "(string, pyval) dict"
  | ApiPatch string bool
  | ApiRandom
  | ApiStartActivity callable_ref start_activity_input
  | ApiStartLocalActivity callable_ref start_local_activity_input
  | ApiTimeNs
  | ApiUpsertSearchAttributes "(string, pyval) dict + search_attribute_update list"
  | ApiGetCurrentDetails
  | ApiSetCurrentDetails string
  | ApiHasLastCompletionResult
  | ApiLastCompletionResult "pytype option"
  | ApiRandomSeed
  | ApiRegisterSeedCallback "int \<Rightarrow> 'u \<Rightarrow> exn option \<times> 'u"
  | ApiCancel nat "pyval option"
  | ApiNexusOperationToken nat
  | ApiCreateFuture
  | ApiFutureDone nat
  | ApiSetResult nat pyval
  | ApiSetException nat exn
  | ApiUncancel

text \<open>What workflow code can await: a future, a task or a handle, or an SDK coroutine.\<close>

datatype 'u awaitable =
    AwFuture nat
  | AwAsyncioSleep rat
  | AwSleep rat "string option"
  | AwWaitCondition "'u cond" "rat option" "string option"
  | AwStartChild callable_ref start_child_input
  | AwStartNexus start_nexus_input
  | AwSignalChild nat string "pyval option" "pyval list"
  | AwSignalExternal string "string option" string "pyval option" "pyval list"
  | AwCancelExternal string "string option" string

text \<open>A handler function: whether it is a coroutine function, its argument types, what
  \<^verbatim>\<open>_assert_dynamic_handler_args\<close> says of it, and its body.\<close>

datatype 'c user_fn = UserFn
  (uf_async: bool)
  (uf_arg_types: "pytype list option")
  (uf_dynamic: "exn + bool")
  (uf_body: "pyval list \<Rightarrow> 'c")

codatatype 'u ucode =
    URet pyval
  | URaise exn
  | UObj "'u \<Rightarrow> 'u \<times> 'u ucode"
  | UApi "'u api" "exn + pyval \<Rightarrow> 'u ucode"
  | UAwait "'u awaitable" "exn + pyval \<Rightarrow> 'u ucode"
  | USpawn "'u ucode" "exn + pyval \<Rightarrow> 'u ucode"
  | USetSignalHandler "string option" "'u ucode user_fn option" "exn + pyval \<Rightarrow> 'u ucode"
  | USetQueryHandler "string option" "'u ucode user_fn option" "exn + pyval \<Rightarrow> 'u ucode"
  | USetUpdateHandler "string option" "'u ucode user_fn option" "'u ucode user_fn option"
      "exn + pyval \<Rightarrow> 'u ucode"

datatype unfinished_policy = WARN_AND_ABANDON | ABANDON

record 'u signal_defn =
  sd_name :: "string option"
  sd_fn :: "'u ucode user_fn"
  sd_unfinished_policy :: unfinished_policy
  sd_description :: "string option"
  sd_arg_types :: "pytype list option"
  sd_dynamic_vararg :: bool

datatype 'u query_fn =
    QueryFn "'u ucode user_fn"
  | QueryStackTrace
  | QueryEnhancedStackTrace
  | QueryMetadata

record 'u query_defn =
  qd_name :: "string option"
  qd_fn :: "'u query_fn"
  qd_description :: "string option"
  qd_arg_types :: "pytype list option"
  qd_dynamic_vararg :: bool

record 'u update_defn =
  ud_name :: "string option"
  ud_fn :: "'u ucode user_fn"
  ud_unfinished_policy :: unfinished_policy
  ud_description :: "string option"
  ud_arg_types :: "pytype list option"
  ud_validator :: "'u ucode user_fn option"
  ud_dynamic_vararg :: bool

record dynamic_config =
  dc_failure_exception_types :: "pyclass list option"
  dc_versioning_behavior :: versioning_behavior

text \<open>The workflow definition.  \<open>wd_new\<close> is the object before \<^verbatim>\<open>__init__\<close> ran, and
  \<open>wd_init_takes_args\<close> says that \<^verbatim>\<open>__init__\<close> is decorated with \<^verbatim>\<open>@workflow.init\<close>.\<close>

record 'u workflow_defn =
  wd_name :: "string option"
  wd_new :: 'u
  wd_init :: "pyval list \<Rightarrow> 'u ucode"
  wd_init_takes_args :: bool
  wd_run_fn :: "pyval list \<Rightarrow> 'u ucode"
  wd_signals :: "(string option, 'u signal_defn) dict"
  wd_queries :: "(string option, 'u query_defn) dict"
  wd_updates :: "(string option, 'u update_defn) dict"
  wd_failure_exception_types :: "pyclass list"
  wd_arg_types :: "pytype list option"
  wd_versioning_behavior :: "versioning_behavior option"
  wd_dynamic_config_fn :: "('u \<Rightarrow> exn + dynamic_config option) option"

record workflow_info =
  wi_namespace :: string
  wi_workflow_id :: string
  wi_run_id :: string
  wi_workflow_type :: string
  wi_task_queue :: string
  wi_parent :: "(string \<times> string \<times> string) option"
  wi_continued_run_id :: "string option"
  wi_raw_memo :: "(string, payload) dict"
  wi_search_attributes :: "(string, pyval) dict"
  wi_typed_search_attributes :: "search_attribute_pair list"

text \<open>\<^verbatim>\<open>WorkflowInstanceDetails\<close>.  The fields from \<open>d_search_to_payload\<close> on stand for module-level
  functions that the instance calls: the default payload converter used for search attributes, the
  extern function that checks local activities, the system Nexus converters, and the rendering of
  the interpreter's stacks.\<close>

record 'u details =
  d_payload_converter :: payload_converter
  d_payload_with_context :: "(ser_context \<Rightarrow> payload_converter) option"
  d_failure_converter :: failure_converter
  d_failure_with_context :: "(ser_context \<Rightarrow> failure_converter) option"
  d_defn :: "'u workflow_defn"
  d_info :: workflow_info
  d_randomness_seed :: int
  d_disable_eager_activity_execution :: bool
  d_worker_level_failure_exception_types :: "pyclass list"
  d_patch_activation_callback :: "(workflow_info \<Rightarrow> string \<Rightarrow> exn + pyval) option"
  d_last_completion_result :: "payload list"
  d_last_failure :: "failure option"
  d_default_workflow_logic_flags :: "logic_flag list"
  d_search_to_payload :: "pyval \<Rightarrow> py_error + payload"
  d_assert_local_activity_valid :: "string \<Rightarrow> exn option"
  d_system_payload_converter :: "payload_converter \<Rightarrow> failure_converter \<Rightarrow> payload_converter"
  d_system_serialization_context :: "string \<Rightarrow> string \<Rightarrow> pyval \<Rightarrow> ser_context option"
  d_stack_trace :: "nat list \<Rightarrow> string"

subsection \<open>Objects of the event loop\<close>

datatype fstate = FPending | FDone pyval | FFailed exn | FCancelled "pyval option"

text \<open>The done-callbacks the SDK and asyncio register: waking a task up, releasing the waiter
  future of \<^verbatim>\<open>asyncio.wait\<close>, removing a task from \<^verbatim>\<open>self._tasks\<close>, forgetting a signal handler,
  and cancelling the timer of a cancelled \<^verbatim>\<open>workflow.sleep\<close>.\<close>

datatype callback =
    CbWakeup nat
  | CbRelease nat
  | CbTasksRemove
  | CbSignalDone nat
  | CbSleepCancel nat

record future =
  fu_state :: fstate
  fu_callbacks :: "callback list"

text \<open>Timer callbacks: \<^verbatim>\<open>futures._set_result_unless_cancelled\<close>, the lambda of \<^verbatim>\<open>workflow_sleep\<close>, and
  \<^verbatim>\<open>Timeout._on_timeout\<close>.\<close>

datatype timer_callback = TcSetResult nat | TcSetResultIfPending nat | TcTimeout nat

record timer_handle =
  th_callback :: "timer_callback option"
  th_cancelled :: bool

datatype handle =
    HStep nat
  | HThrow nat exn
  | HCallback callback nat
  | HTaskCancel nat
  | HTimer nat

datatype timeout_state = TmEntered | TmExpiring | TmExpired | TmExited

record timeout_obj =
  tm_task :: nat
  tm_state :: timeout_state
  tm_cancelling :: nat
  tm_handler :: "nat option"

text \<open>Context variables of a task.\<close>

record pycontext =
  cx_timer_options :: "user_metadata option"
  cx_update_info :: "(string \<times> string) option"

definition empty_context :: pycontext where
  "empty_context = \<lparr>cx_timer_options = None, cx_update_info = None\<rparr>"

text \<open>The \<^verbatim>\<open>apply_cancel\<close> closures that are passed to \<^verbatim>\<open>_await_temporal_operation\<close>.\<close>

datatype cancel_spec =
    CancelActivity nat
  | CancelChild nat
  | CancelNexus nat
  | CancelSignal nat

text \<open>The coroutine functions of the SDK and the asyncio ones it awaits, with their arguments.\<close>

datatype 'u sdkproc =
    P_run_top_level "'u sdkproc"
  | P_run_workflow execute_workflow_input
  | P_handle_signal handle_signal_input
  | P_run_update update_job
  | P_run_query query_job
  | P_run_activity nat
  | P_run_child nat
  | P_run_nexus nat
  | P_await_operation nat cancel_spec "logic_flag option" bool
  | P_shield_await nat
  | P_asyncio_wait nat
  | P_asyncio_sleep rat
  | P_asyncio_wait_for nat "rat option"
  | P_workflow_sleep rat "string option"
  | P_wait_condition "'u cond" "rat option" "string option"
  | P_start_child callable_ref start_child_input
  | P_start_nexus start_nexus_input
  | P_signal_child nat string "pyval option" "pyval list"
  | P_signal_external string "string option" string "pyval option" "pyval list"
  | P_signal_command nat
  | P_cancel_external string "string option" string

datatype 'u start_code = StartUser "'u ucode" | StartProc "'u sdkproc"

record 'u task =
  t_start :: "'u start_code"
  t_must_cancel :: bool
  t_cancel_message :: "pyval option"
  t_fut_waiter :: "nat option"
  t_num_cancels :: nat
  t_context :: pycontext

subsection \<open>Handles\<close>

record activity_handle =
  ah_seq :: nat
  ah_input :: activity_input
  ah_result_fut :: nat
  ah_started :: bool

record child_handle =
  cw_seq :: nat
  cw_input :: start_child_input
  cw_start_fut :: nat
  cw_result_fut :: nat
  cw_first_execution_run_id :: string

record nexus_handle =
  nh_seq :: nat
  nh_input :: start_nexus_input
  nh_start_fut :: nat
  nh_result_fut :: nat

record handler_execution =
  he_name :: string
  he_unfinished_policy :: unfinished_policy
  he_id :: "string option"

end
