(* ===== verification/Wf_State.thy ===== *)
theory Wf_State
  imports Wf_Types
begin

section \<open>State of a workflow instance and its primitive operations\<close>

text \<open>
  The record \<open>core\<close> holds the attributes that \<^verbatim>\<open>_WorkflowInstanceImpl.__init__\<close> creates, with the
  objects of the event loop (futures, tasks, timer handles) in the nested record
  \<open>aio\<close>.  Futures and tasks share one space of identifiers, since a task is a future.
  The primitive operations follow: the read-only and eviction guard, adding a command, sequence
  numbers, workflow logic flags, and the parts of asyncio that the instance relies on as an event
  loop (\<^verbatim>\<open>call_soon\<close>, futures and their callbacks, task creation and cancellation, timers),
  as CPython 3.12 defines them.

  The interceptor chain is the default one, and a set of tasks is iterated in insertion order.
\<close>

record 'u aio =
  a_futs :: "nat \<rightharpoonup> future"
  a_taskinfo :: "nat \<rightharpoonup> 'u task"
  a_cur_task :: "nat option"
  a_ready :: "handle list"
  a_timers :: "nat \<rightharpoonup> timer_handle"
  a_timeouts :: "nat \<rightharpoonup> timeout_obj"
  a_tasks :: "nat list"
  a_reported :: "exn list"

record 'u core =
  w_det :: "'u details"
  w_info :: workflow_info
  w_workflow_input :: "execute_workflow_input option"
  w_primary_task :: "nat option"
  w_cancel_primary_task_pending :: bool
  w_time_ns :: int
  w_cancel_reason :: "string option"
  w_deployment_version :: "worker_deployment_version option"
  w_history_length :: int
  w_history_size :: int
  w_continue_as_new_suggested :: bool
  w_target_version_changed :: bool
  w_memo_cache :: "(string, pyval) dict option"
  w_conditions :: "('u cond \<times> nat) list"
  w_pending_timers :: "nat \<rightharpoonup> nat"
  w_pending_activities :: "nat \<rightharpoonup> nat"
  w_pending_child_workflows :: "nat \<rightharpoonup> nat"
  w_pending_nexus_operations :: "nat \<rightharpoonup> nat"
  w_pending_external_signals :: "nat \<rightharpoonup> nat \<times> string"
  w_pending_external_cancels :: "nat \<rightharpoonup> nat \<times> string"
  w_curr_seqs :: "string \<rightharpoonup> nat"
  w_object :: 'u
  w_has_object :: bool
  w_is_replaying :: bool
  w_current_seed :: int
  w_seed_callbacks :: "(int \<Rightarrow> 'u \<Rightarrow> exn option \<times> 'u) list"
  w_read_only :: bool
  w_in_query_or_validator :: bool
  w_patches_notified :: "string set"
  w_patches_memoized :: "string \<rightharpoonup> bool"
  w_signals :: "(string option, 'u signal_defn) dict"
  w_queries :: "(string option, 'u query_defn) dict"
  w_updates :: "(string option, 'u update_defn) dict"
  w_handled_signals_seq :: nat
  w_in_progress_signals :: "(nat, handler_execution) dict"
  w_in_progress_updates :: "(string, handler_execution) dict"
  w_buffered_signals :: "(string, signal_job list) dict"
  w_deleting :: bool
  w_current_details :: string
  w_versioning_behavior :: "versioning_behavior option"
  w_dynamic_failure_exception_types :: "pyclass list option"
  w_commands :: "wf_command list"
  w_used_internal_flags :: "logic_flag list"
  w_current_activation_error :: "exn option"
  w_current_internal_flags :: "logic_flag list"
  w_single_batch_activation :: bool
  w_activity_handles :: "nat \<rightharpoonup> activity_handle"
  w_child_handles :: "nat \<rightharpoonup> child_handle"
  w_nexus_handles :: "nat \<rightharpoonup> nexus_handle"
  w_next_id :: nat
  w_aio :: "'u aio"

type_synonym ('u, 'a) wm = "('u core, exn, 'a) pm"

text \<open>A Python error of a helper function is raised as an exception.\<close>

definition lift_err :: "py_error + 'a \<Rightarrow> ('u, 'a) wm" where
  "lift_err r = (case r of Inl e \<Rightarrow> praise (exn_of_error e) | Inr a \<Rightarrow> pret a)"

subsection \<open>The read-only and eviction guard\<close>

definition assert_not_read_only :: "string \<Rightarrow> bool \<Rightarrow> ('u, unit) wm" where
  "assert_not_read_only action_attempted allow_during_delete = (\<lambda>s.
    if w_deleting s \<and> \<not> allow_during_delete
      then (Inl (evicted_error (''Ignoring '' @ action_attempted
              @ '' while evicting workflow. This is not an error.'')), s)
    else if w_read_only s
      then (Inl (read_only_error
              (''While in read-only function, action attempted: '' @ action_attempted)), s)
    else (Inr (), s))"

text \<open>Entering and leaving the context manager \<^verbatim>\<open>_as_read_only\<close>.  Entering returns the flags that
  leaving restores.\<close>

definition enter_read_only :: "bool \<Rightarrow> ('u, bool \<times> bool) wm" where
  "enter_read_only in_query_or_validator = (\<lambda>s.
    (Inr (w_read_only s, w_in_query_or_validator s),
     s\<lparr>w_read_only := True, w_in_query_or_validator := in_query_or_validator\<rparr>))"

definition exit_read_only :: "bool \<times> bool \<Rightarrow> ('u, unit) wm" where
  "exit_read_only prev =
     pmod (\<lambda>s. s\<lparr>w_read_only := fst prev, w_in_query_or_validator := snd prev\<rparr>)"

text \<open>\<^verbatim>\<open>with self._as_read_only(...)\<close> around code that does not suspend.\<close>

definition as_read_only :: "bool \<Rightarrow> ('u, 'a) wm \<Rightarrow> ('u, 'a) wm" where
  "as_read_only in_query_or_validator m =
     pbind (enter_read_only in_query_or_validator) (\<lambda>prev.
     pfinally m (\<lambda>s. s\<lparr>w_read_only := fst prev, w_in_query_or_validator := snd prev\<rparr>))"

subsection \<open>Commands\<close>

definition empty_command :: wf_command where
  "empty_command = \<lparr>cmd_variant = CV_Unset, cmd_metadata = None\<rparr>"

text \<open>Adding returns the position of the new, still empty command in the completion.\<close>

definition add_command :: "('u, nat) wm" where
  "add_command = pthen (assert_not_read_only ''add command'' False)
     (\<lambda>s. (Inr (length (w_commands s)), s\<lparr>w_commands := w_commands s @ [empty_command]\<rparr>))"

definition modify_command :: "nat \<Rightarrow> (wf_command \<Rightarrow> wf_command) \<Rightarrow> ('u, unit) wm" where
  "modify_command i f = pmod (\<lambda>s. s\<lparr>w_commands := list_update (w_commands s) i (f (w_commands s ! i))\<rparr>)"

definition set_variant :: "nat \<Rightarrow> command_variant \<Rightarrow> ('u, unit) wm" where
  "set_variant i v = modify_command i (\<lambda>c. c\<lparr>cmd_variant := v\<rparr>)"

definition set_metadata :: "nat \<Rightarrow> user_metadata \<Rightarrow> ('u, unit) wm" where
  "set_metadata i m = modify_command i (\<lambda>c. c\<lparr>cmd_metadata := Some m\<rparr>)"

text \<open>\<^verbatim>\<open>self._add_command()\<close> followed by filling in one variant.\<close>

definition emit :: "command_variant \<Rightarrow> ('u, unit) wm" where
  "emit v = pbind add_command (\<lambda>i. set_variant i v)"

subsection \<open>Sequence numbers and logic flags\<close>

definition next_seq :: "string \<Rightarrow> ('u, nat) wm" where
  "next_seq ty = (\<lambda>s.
     let seq = (case w_curr_seqs s ty of None \<Rightarrow> 0 | Some n \<Rightarrow> n) + 1
     in (Inr seq, s\<lparr>w_curr_seqs := (w_curr_seqs s)(ty \<mapsto> seq)\<rparr>))"

definition workflow_logic_flag_enabled :: "logic_flag \<Rightarrow> ('u, bool) wm" where
  "workflow_logic_flag_enabled flag = (\<lambda>s.
     if flag \<in> set (w_current_internal_flags s) then (Inr True, s)
     else if w_is_replaying s \<or> flag \<notin> set (d_default_workflow_logic_flags (w_det s))
       then (Inr False, s)
     else (Inr True, s\<lparr>w_used_internal_flags := w_used_internal_flags s @ [flag]\<rparr>))"

subsection \<open>Futures\<close>

definition aio_mod :: "('u aio \<Rightarrow> 'u aio) \<Rightarrow> ('u, unit) wm" where
  "aio_mod f = pmod (\<lambda>s. s\<lparr>w_aio := f (w_aio s)\<rparr>)"

definition fut_state :: "'u core \<Rightarrow> nat \<Rightarrow> fstate" where
  "fut_state s f = (case a_futs (w_aio s) f of None \<Rightarrow> FPending | Some fu \<Rightarrow> fu_state fu)"

definition fut_done :: "'u core \<Rightarrow> nat \<Rightarrow> bool" where
  "fut_done s f \<longleftrightarrow> fut_state s f \<noteq> FPending"

definition fut_cancelled :: "'u core \<Rightarrow> nat \<Rightarrow> bool" where
  "fut_cancelled s f = (case fut_state s f of FCancelled _ \<Rightarrow> True | _ \<Rightarrow> False)"

text \<open>\<^verbatim>\<open>Future.result()\<close>.\<close>

definition fut_result :: "'u core \<Rightarrow> nat \<Rightarrow> exn + pyval" where
  "fut_result s f = (case fut_state s f of
     FPending \<Rightarrow> Inl (exn_of_error (InvalidStateError ''Result is not set.''))
   | FDone v \<Rightarrow> Inr v
   | FFailed e \<Rightarrow> Inl e
   | FCancelled m \<Rightarrow> Inl (async_cancelled m))"

definition fresh_id :: "('u, nat) wm" where
  "fresh_id = (\<lambda>s. let i = w_next_id s in (Inr i, s\<lparr>w_next_id := Suc i\<rparr>))"

definition create_future :: "('u, nat) wm" where
  "create_future = pbind fresh_id (\<lambda>i. pthen
     (aio_mod (\<lambda>a. a\<lparr>a_futs := (a_futs a)(i \<mapsto> \<lparr>fu_state = FPending, fu_callbacks = []\<rparr>)\<rparr>))
     (pret i))"

definition call_soon :: "handle \<Rightarrow> ('u, unit) wm" where
  "call_soon h = pthen (assert_not_read_only ''schedule task'' True)
     (aio_mod (\<lambda>a. a\<lparr>a_ready := a_ready a @ [h]\<rparr>))"

text \<open>\<^verbatim>\<open>Future.__schedule_callbacks\<close>.\<close>

definition schedule_callbacks :: "nat \<Rightarrow> ('u, unit) wm" where
  "schedule_callbacks f = pbind
     (pget (\<lambda>s. case a_futs (w_aio s) f of None \<Rightarrow> [] | Some fu \<Rightarrow> fu_callbacks fu)) (\<lambda>cbs.
     pthen (aio_mod (\<lambda>a. a\<lparr>a_futs := (a_futs a)(f := map_option (fu_callbacks_update (\<lambda>_. []))
             (a_futs a f))\<rparr>))
       (pfor cbs (\<lambda>cb. call_soon (HCallback cb f))))"

definition set_fut_state :: "nat \<Rightarrow> fstate \<Rightarrow> ('u, unit) wm" where
  "set_fut_state f st =
     aio_mod (\<lambda>a. a\<lparr>a_futs := (a_futs a)(f :=
       Some (case a_futs a f of None \<Rightarrow> \<lparr>fu_state = st, fu_callbacks = []\<rparr>
             | Some fu \<Rightarrow> fu\<lparr>fu_state := st\<rparr>))\<rparr>)"

definition fut_finish :: "nat \<Rightarrow> fstate \<Rightarrow> ('u, unit) wm" where
  "fut_finish f st = pbind (pget (\<lambda>s. fut_done s f)) (\<lambda>d.
     if d then praise (exn_of_error (InvalidStateError ''invalid state''))
     else pthen (set_fut_state f st) (schedule_callbacks f))"

definition fut_set_result :: "nat \<Rightarrow> pyval \<Rightarrow> ('u, unit) wm" where
  "fut_set_result f v = fut_finish f (FDone v)"

definition fut_set_exception :: "nat \<Rightarrow> exn \<Rightarrow> ('u, unit) wm" where
  "fut_set_exception f e = fut_finish f (FFailed e)"

text \<open>\<^verbatim>\<open>Future.cancel\<close> of a plain future; \<^verbatim>\<open>super().cancel\<close> for a task.\<close>

definition fut_cancel :: "nat \<Rightarrow> pyval option \<Rightarrow> ('u, bool) wm" where
  "fut_cancel f msg = pbind (pget (\<lambda>s. fut_done s f)) (\<lambda>d.
     if d then pret False
     else pthen (set_fut_state f (FCancelled msg)) (pthen (schedule_callbacks f) (pret True)))"

definition add_done_callback :: "nat \<Rightarrow> callback \<Rightarrow> ('u, unit) wm" where
  "add_done_callback f cb = pbind (pget (\<lambda>s. fut_done s f)) (\<lambda>d.
     if d then call_soon (HCallback cb f)
     else aio_mod (\<lambda>a. a\<lparr>a_futs := (a_futs a)(f := map_option
            (\<lambda>fu. fu\<lparr>fu_callbacks := fu_callbacks fu @ [cb]\<rparr>) (a_futs a f))\<rparr>))"

definition remove_done_callback :: "nat \<Rightarrow> callback \<Rightarrow> ('u, unit) wm" where
  "remove_done_callback f cb =
     aio_mod (\<lambda>a. a\<lparr>a_futs := (a_futs a)(f := map_option
       (\<lambda>fu. fu\<lparr>fu_callbacks := filter (\<lambda>c. c \<noteq> cb) (fu_callbacks fu)\<rparr>) (a_futs a f))\<rparr>)"

subsection \<open>Tasks\<close>

definition current_context :: "'u core \<Rightarrow> pycontext" where
  "current_context s = (case a_cur_task (w_aio s) of
     None \<Rightarrow> empty_context
   | Some t \<Rightarrow> (case a_taskinfo (w_aio s) t of None \<Rightarrow> empty_context | Some ti \<Rightarrow> t_context ti))"

definition upd_task :: "nat \<Rightarrow> ('u task \<Rightarrow> 'u task) \<Rightarrow> ('u, unit) wm" where
  "upd_task t f = aio_mod (\<lambda>a. a\<lparr>a_taskinfo := (a_taskinfo a)(t := map_option f (a_taskinfo a t))\<rparr>)"

text \<open>\<^verbatim>\<open>asyncio.Task(coro)\<close>: the first step is scheduled by the constructor.  The code may refer to
  the task's own identifier, as the closures over \<^verbatim>\<open>handle\<close> do.\<close>

definition new_task :: "(nat \<Rightarrow> 'u start_code) \<Rightarrow> ('u, nat) wm" where
  "new_task code = pbind create_future (\<lambda>t.
     pbind (pget current_context) (\<lambda>cx.
     pthen (aio_mod (\<lambda>a. a\<lparr>a_taskinfo := (a_taskinfo a)(t \<mapsto>
       \<lparr>t_start = code t, t_must_cancel = False, t_cancel_message = None, t_fut_waiter = None,
        t_num_cancels = 0, t_context = cx\<rparr>)\<rparr>))
     (pthen (call_soon (HStep t)) (pret t))))"

definition register_task :: "nat \<Rightarrow> ('u, unit) wm" where
  "register_task t = pthen (assert_not_read_only ''create task'' False)
     (pthen (aio_mod (\<lambda>a. a\<lparr>a_tasks := List.insert t (a_tasks a)\<rparr>))
       (add_done_callback t CbTasksRemove))"

definition create_task :: "'u start_code \<Rightarrow> ('u, nat) wm" where
  "create_task code = pbind (new_task (\<lambda>_. code)) (\<lambda>t. pthen (register_task t) (pret t))"

definition task_uncancel :: "nat \<Rightarrow> ('u, unit) wm" where
  "task_uncancel t = upd_task t (\<lambda>ti. ti\<lparr>t_num_cancels := t_num_cancels ti - 1\<rparr>)"

definition activity_cancel_variant :: "activity_handle \<Rightarrow> command_variant" where
  "activity_cancel_variant h =
     (if ai_is_local (ah_input h) then CV_RequestCancelLocalActivity (ah_seq h)
      else CV_RequestCancelActivity (ah_seq h))"

text \<open>The override \<^verbatim>\<open>_ActivityHandle.cancel\<close>, up to its call of \<^verbatim>\<open>super().cancel\<close>.\<close>

definition activity_handle_cancel :: "nat \<Rightarrow> ('u, unit) wm" where
  "activity_handle_cancel t = pbind (pget (\<lambda>s. (w_activity_handles s t, w_deleting s, fut_done s t)))
     (\<lambda>(h, deleting, done). case h of
        None \<Rightarrow> pret ()
      | Some ah \<Rightarrow>
         (if deleting then pret ()
          else pthen (assert_not_read_only ''cancel activity handle'' False)
            (if \<not> ah_started ah \<and> \<not> done then emit (activity_cancel_variant ah) else pret ())))"

text \<open>\<^verbatim>\<open>cancel(msg)\<close> of a future, a task or an activity handle.  A task passes the request to the
  future it waits for, which may be another task; the first argument bounds that chain, and a
  chain longer than the number of objects is circular.\<close>

fun cancel_obj :: "nat \<Rightarrow> nat \<Rightarrow> pyval option \<Rightarrow> ('u, bool) wm" where
  "cancel_obj 0 f msg = praise (exn_of_error (RecursionError ''maximum recursion depth exceeded''))"
| "cancel_obj (Suc n) f msg = pbind (pget (\<lambda>s. a_taskinfo (w_aio s) f)) (\<lambda>ti.
     case ti of
       None \<Rightarrow> fut_cancel f msg
     | Some _ \<Rightarrow> pthen (activity_handle_cancel f)
        (pbind (pget (\<lambda>s. fut_done s f)) (\<lambda>d.
          if d then pret False
          else pthen (upd_task f (\<lambda>ti. ti\<lparr>t_num_cancels := Suc (t_num_cancels ti)\<rparr>))
            (pbind (pget (\<lambda>s. Option.bind (a_taskinfo (w_aio s) f) t_fut_waiter)) (\<lambda>w.
             pbind (case w of None \<Rightarrow> pret False | Some x \<Rightarrow> cancel_obj n x msg) (\<lambda>b.
             if b then pret True
             else pthen (upd_task f (\<lambda>ti. ti\<lparr>t_must_cancel := True, t_cancel_message := msg\<rparr>))
               (pret True)))))))"

definition cancel :: "nat \<Rightarrow> pyval option \<Rightarrow> ('u, bool) wm" where
  "cancel f msg = pbind (pget (\<lambda>s. Suc (w_next_id s))) (\<lambda>n. cancel_obj n f msg)"

subsection \<open>Timers\<close>

definition loop_time :: "'u core \<Rightarrow> rat" where
  "loop_time s = of_int (w_time_ns s) / 1000000000"

definition timer_impl :: "rat \<Rightarrow> user_metadata option \<Rightarrow> timer_callback \<Rightarrow> ('u, nat) wm" where
  "timer_impl delay options cb = pthen (assert_not_read_only ''schedule timer'' False)
     (if delay < 0
      then praise (exn_of_error (RuntimeError ''Attempting to schedule timer with negative delay''))
      else pbind (next_seq ''timer'') (\<lambda>seq.
        pthen (aio_mod (\<lambda>a. a\<lparr>a_timers := (a_timers a)(seq \<mapsto>
          \<lparr>th_callback = Some cb, th_cancelled = False\<rparr>)\<rparr>))
        (pbind add_command (\<lambda>i.
        pthen (case options of None \<Rightarrow> pret () | Some m \<Rightarrow> set_metadata i m)
        (pthen (set_variant i (CV_StartTimer seq \<lfloor>delay * 1000000000\<rfloor>))
        (pthen (pmod (\<lambda>s. s\<lparr>w_pending_timers := (w_pending_timers s)(seq \<mapsto> seq)\<rparr>))
          (pret seq)))))))"

definition call_later :: "rat \<Rightarrow> timer_callback \<Rightarrow> ('u, nat) wm" where
  "call_later delay cb = pbind (pget (\<lambda>s. cx_timer_options (current_context s)))
     (\<lambda>options. timer_impl delay options cb)"

text \<open>Python's \<^verbatim>\<open>round(x, 3)\<close>: the nearest multiple of a thousandth, ties to even.\<close>

definition round3 :: "rat \<Rightarrow> rat" where
  "round3 x = (let y = x * 1000; lo = \<lfloor>y\<rfloor>; d = y - of_int lo
     in of_int (if d < 1 / 2 then lo else if d > 1 / 2 then lo + 1
                else if even lo then lo else lo + 1) / 1000)"

definition call_at :: "rat \<Rightarrow> timer_callback \<Rightarrow> ('u, nat) wm" where
  "call_at when cb = pbind (pget (\<lambda>s. round3 (when - loop_time s))) (\<lambda>delay. call_later delay cb)"

definition timer_handle_cancelled :: "nat \<Rightarrow> ('u, unit) wm" where
  "timer_handle_cancelled seq = pbind (pget (\<lambda>s. w_pending_timers s seq)) (\<lambda>p. case p of
     None \<Rightarrow> pret ()
   | Some _ \<Rightarrow> pthen (pmod (\<lambda>s. s\<lparr>w_pending_timers := (w_pending_timers s)(seq := None)\<rparr>))
       (emit (CV_CancelTimer seq)))"

text \<open>\<^verbatim>\<open>asyncio.TimerHandle.cancel\<close>.\<close>

definition timer_cancel :: "nat \<Rightarrow> ('u, unit) wm" where
  "timer_cancel seq = pbind (pget (\<lambda>s. case a_timers (w_aio s) seq of
       None \<Rightarrow> True | Some th \<Rightarrow> th_cancelled th)) (\<lambda>c.
     if c then pret ()
     else pthen (timer_handle_cancelled seq)
       (aio_mod (\<lambda>a. a\<lparr>a_timers := (a_timers a)(seq \<mapsto>
          \<lparr>th_callback = None, th_cancelled = True\<rparr>)\<rparr>)))"

text \<open>\<^verbatim>\<open>call_exception_handler\<close> with the default handler, which logs: the model keeps what is
  reported.\<close>

definition call_exception_handler :: "exn \<Rightarrow> ('u, unit) wm" where
  "call_exception_handler e = pbind (pget w_deleting) (\<lambda>deleting.
     if deleting then pret () else aio_mod (\<lambda>a. a\<lparr>a_reported := a_reported a @ [e]\<rparr>))"

end
