(* ===== verification/Wf_Handles.thy ===== *)
theory Wf_Handles
  imports Wf_State
begin

section \<open>Converters, operation handles and the commands they issue\<close>

text \<open>
  The helpers of the workflow instance that convert payloads, and the handle classes for
  activities, child workflows, Nexus operations and external workflows.  A command is added empty
  and then filled field by field, as in the source, so that an exception between two assignments
  leaves what has been filled in so far.
\<close>

subsection \<open>Converters with a serialization context\<close>

definition payload_converter_with_context :: "'u core \<Rightarrow> ser_context \<Rightarrow> payload_converter" where
  "payload_converter_with_context s ctx = (case d_payload_with_context (w_det s) of
     None \<Rightarrow> d_payload_converter (w_det s)
   | Some f \<Rightarrow> f ctx)"

definition failure_converter_with_context :: "'u core \<Rightarrow> ser_context \<Rightarrow> failure_converter" where
  "failure_converter_with_context s ctx = (case d_failure_with_context (w_det s) of
     None \<Rightarrow> d_failure_converter (w_det s)
   | Some f \<Rightarrow> f ctx)"

definition workflow_context :: "'u core \<Rightarrow> string \<Rightarrow> ser_context" where
  "workflow_context s wid = WorkflowSerializationContext (wi_namespace (w_info s)) wid"

definition activity_context :: "'u core \<Rightarrow> activity_input \<Rightarrow> ser_context" where
  "activity_context s inp = ActivitySerializationContext (wi_namespace (w_info s))
     (wi_workflow_id (w_info s)) (wi_workflow_type (w_info s)) (ai_activity inp)
     (ai_activity_id inp)
     (case inp of RemoteAct i \<Rightarrow> str_or (sa_task_queue i) (wi_task_queue (w_info s))
      | LocalAct _ \<Rightarrow> wi_task_queue (w_info s))
     (ai_is_local inp)"

text \<open>\<^verbatim>\<open>self._workflow_context_payload_converter\<close> and \<^verbatim>\<open>self._workflow_context_failure_converter\<close>.\<close>

definition wf_payload_converter :: "'u core \<Rightarrow> payload_converter" where
  "wf_payload_converter s =
     payload_converter_with_context s (workflow_context s (wi_workflow_id (w_info s)))"

definition wf_failure_converter :: "'u core \<Rightarrow> failure_converter" where
  "wf_failure_converter s =
     failure_converter_with_context s (workflow_context s (wi_workflow_id (w_info s)))"

definition is_system_endpoint :: "string \<Rightarrow> bool" where
  "is_system_endpoint endpoint \<longleftrightarrow> endpoint = ''__temporal_system''"

definition workflow_is_failure_exception :: "'u core \<Rightarrow> exn \<Rightarrow> bool" where
  "workflow_is_failure_exception s err =
    (let wf_types = (case w_dynamic_failure_exception_types s of
           None \<Rightarrow> wd_failure_exception_types (d_defn (w_det s))
         | Some ts \<Rightarrow> ts)
     in isinstance err C_FailureError \<or> isinstance err C_PyTimeoutError
        \<or> list_ex (isinstance err) wf_types
        \<or> list_ex (isinstance err) (d_worker_level_failure_exception_types (w_det s)))"

definition convert_payloads :: "'u core \<Rightarrow> payload list \<Rightarrow> pytype list option \<Rightarrow>
    payload_converter \<Rightarrow> exn + pyval list" where
  "convert_payloads s payloads types pc =
    (if payloads = [] then Inr []
     else let types' = (case types of None \<Rightarrow> None
            | Some ts \<Rightarrow> if ts \<noteq> [] \<and> length ts \<noteq> length payloads then None else Some ts)
       in case from_payloads pc payloads types' of
            Inr vs \<Rightarrow> Inr vs
          | Inl err \<Rightarrow>
             (if isinstance err C_FailureError then Inl err
              else if \<not> isinstance err C_Exception then Inl err
              else if workflow_is_failure_exception s err then Inl err
              else Inl (raise_from (exn_of_error (RuntimeError ''Failed decoding arguments'')) err)))"

text \<open>Conversions as steps that may raise.\<close>

definition p_to_payloads :: "('u core \<Rightarrow> payload_converter) \<Rightarrow> pyval list \<Rightarrow> ('u, payload list) wm" where
  "p_to_payloads pc vs = pbind (pget (\<lambda>s. to_payloads (pc s) vs)) plift"

definition p_to_payload :: "('u core \<Rightarrow> payload_converter) \<Rightarrow> pyval \<Rightarrow> ('u, payload) wm" where
  "p_to_payload pc v = pbind (pget (\<lambda>s. to_payload (pc s) v)) plift"

text \<open>\<^verbatim>\<open>converter.to_payloads([v])[0]\<close>.\<close>

definition p_to_payloads_first :: "('u core \<Rightarrow> payload_converter) \<Rightarrow> pyval \<Rightarrow> ('u, payload) wm" where
  "p_to_payloads_first pc v = pbind (p_to_payloads pc [v]) (\<lambda>ps. case ps of
     [] \<Rightarrow> praise (exn_of_error (IndexError ''list index out of range''))
   | p # _ \<Rightarrow> pret p)"

text \<open>Arguments are converted before the command is created; no arguments are no payloads.\<close>

definition p_args_payloads :: "('u core \<Rightarrow> payload_converter) \<Rightarrow> pyval list \<Rightarrow> ('u, payload list) wm" where
  "p_args_payloads pc args = (if args = [] then pret [] else p_to_payloads pc args)"

text \<open>\<^verbatim>\<open>if policy: policy.apply_to_proto(...)\<close>.\<close>

definition p_retry_policy :: "retry_policy option \<Rightarrow> ('u, retry_policy_proto option) wm" where
  "p_retry_policy r = (case r of None \<Rightarrow> pret None
     | Some p \<Rightarrow> pbind (lift_err (retry_policy_apply_to_proto p)) (\<lambda>m. pret (Some m)))"

definition vi_proto :: "versioning_intent option \<Rightarrow> versioning_intent_proto" where
  "vi_proto v = (case v of None \<Rightarrow> VIP_UNSPECIFIED | Some i \<Rightarrow> versioning_intent_to_proto i)"

definition empty_payload :: payload where
  "empty_payload = \<lparr>p_metadata = [], p_data = []\<rparr>"

text \<open>\<^verbatim>\<open>_encode_search_attributes\<close>: one field after the other is set by \<open>put\<close>.  Indexing a
  protobuf map of messages creates the entry before its value is computed.\<close>

definition encode_search_attributes_into ::
    "search_attributes \<Rightarrow> (string \<Rightarrow> payload \<Rightarrow> ('u, unit) wm) \<Rightarrow> ('u, unit) wm" where
  "encode_search_attributes_into attrs put = (case attrs of
     SA_Typed ps \<Rightarrow> pfor ps (\<lambda>(k, v). pthen (put (sk_name k) empty_payload)
       (pbind (pget (\<lambda>s. encode_typed_search_attribute_value (d_search_to_payload (w_det s)) k v)) (\<lambda>r.
       pbind (lift_err r) (put (sk_name k)))))
   | SA_Untyped d \<Rightarrow> pfor d (\<lambda>(k, v). pthen (put k empty_payload)
       (pbind (pget (\<lambda>s. encode_search_attribute_values (d_search_to_payload (w_det s)) v)) (\<lambda>r.
       pbind (lift_err r) (put k)))))"

definition sa_truthy :: "search_attributes option \<Rightarrow> bool" where
  "sa_truthy a = (case a of None \<Rightarrow> False | Some (SA_Typed ps) \<Rightarrow> ps \<noteq> [] | Some (SA_Untyped d) \<Rightarrow> d \<noteq> [])"

subsection \<open>Activity handles\<close>

definition upd_activity_handle :: "nat \<Rightarrow> (activity_handle \<Rightarrow> activity_handle) \<Rightarrow> ('u, unit) wm" where
  "upd_activity_handle t f = pmod (\<lambda>s. s\<lparr>w_activity_handles :=
     (w_activity_handles s)(t := map_option f (w_activity_handles s t))\<rparr>)"

text \<open>Running an operation on a handle object, which the caller holds.\<close>

definition with_activity :: "nat \<Rightarrow> (activity_handle \<Rightarrow> ('u, 'a) wm) \<Rightarrow> ('u, 'a) wm" where
  "with_activity t f = pbind (pget (\<lambda>s. w_activity_handles s t)) (\<lambda>h. case h of
     None \<Rightarrow> praise (exn_of_error (AssertionError ''no such handle''))
   | Some ah \<Rightarrow> f ah)"

text \<open>The constructor: the task is created first, then the sequence number is taken.\<close>

definition new_activity_handle :: "activity_input \<Rightarrow> ('u, nat) wm" where
  "new_activity_handle inp = pbind (new_task (\<lambda>t. StartProc (P_run_activity t))) (\<lambda>t.
     pbind (next_seq ''activity'') (\<lambda>seq.
     pbind create_future (\<lambda>rf.
     pthen (pmod (\<lambda>s. s\<lparr>w_activity_handles := (w_activity_handles s)(t \<mapsto>
       \<lparr>ah_seq = seq, ah_input = inp, ah_result_fut = rf, ah_started = False\<rparr>)\<rparr>))
     (pthen (register_task t) (pret t)))))"

definition activity_resolve_success :: "nat \<Rightarrow> pyval \<Rightarrow> ('u, unit) wm" where
  "activity_resolve_success t result = with_activity t (\<lambda>h. fut_set_result (ah_result_fut h) result)"

definition activity_resolve_failure :: "nat \<Rightarrow> exn \<Rightarrow> ('u, unit) wm" where
  "activity_resolve_failure t err = with_activity t (\<lambda>h.
     if ah_started h then fut_set_exception (ah_result_fut h) err else pret ())"

definition activity_resolve_backoff :: "nat \<Rightarrow> do_backoff \<Rightarrow> ('u, unit) wm" where
  "activity_resolve_backoff t b = pbind (next_seq ''activity'') (\<lambda>seq.
     pthen (upd_activity_handle t (\<lambda>h. h\<lparr>ah_seq := seq\<rparr>))
     (pthen (with_activity t (\<lambda>h. fut_set_exception (ah_result_fut h) (backoff_error b)))
     (pbind create_future (\<lambda>rf.
       upd_activity_handle t (\<lambda>h. h\<lparr>ah_result_fut := rf, ah_started := False\<rparr>)))))"

text \<open>The fields that remote and local activities share, then the specific ones.\<close>

definition schedule_base :: "activity_input \<Rightarrow> nat \<Rightarrow> payload list \<Rightarrow> command_variant" where
  "schedule_base inp seq payloads = (case inp of
     RemoteAct i \<Rightarrow> CV_ScheduleActivity
       \<lparr>act_seq = seq, act_activity_id = str_or (ai_activity_id inp) (str_of_nat seq),
        act_activity_type = ai_activity inp, act_headers = apply_headers (Some (ai_headers inp)) [],
        act_arguments = payloads,
        act_schedule_to_close = td_field (ai_schedule_to_close inp),
        act_schedule_to_start = td_field (ai_schedule_to_start inp),
        act_start_to_close = td_field (ai_start_to_close inp),
        act_retry_policy = None, act_cancellation_type = 0, act_task_queue = [],
        act_heartbeat = None, act_do_not_eagerly_execute = False,
        act_versioning_intent = VIP_UNSPECIFIED, act_priority = None\<rparr>
   | LocalAct i \<Rightarrow> CV_ScheduleLocalActivity
       \<lparr>lact_seq = seq, lact_activity_id = str_or (ai_activity_id inp) (str_of_nat seq),
        lact_activity_type = ai_activity inp, lact_headers = apply_headers (Some (ai_headers inp)) [],
        lact_arguments = payloads,
        lact_schedule_to_close = td_field (ai_schedule_to_close inp),
        lact_schedule_to_start = td_field (ai_schedule_to_start inp),
        lact_start_to_close = td_field (ai_start_to_close inp),
        lact_retry_policy = None, lact_cancellation_type = 0,
        lact_local_retry_threshold = None, lact_attempt = 0, lact_original_schedule_time = None\<rparr>)"

fun schedule_set_retry :: "retry_policy_proto option \<Rightarrow> command_variant \<Rightarrow> command_variant" where
  "schedule_set_retry r (CV_ScheduleActivity v) = CV_ScheduleActivity (v\<lparr>act_retry_policy := r\<rparr>)"
| "schedule_set_retry r (CV_ScheduleLocalActivity v) =
     CV_ScheduleLocalActivity (v\<lparr>lact_retry_policy := r\<rparr>)"
| "schedule_set_retry r v = v"

fun schedule_finish :: "string \<Rightarrow> activity_input \<Rightarrow> do_backoff option \<Rightarrow> command_variant \<Rightarrow> command_variant" where
  "schedule_finish tq (RemoteAct i) b (CV_ScheduleActivity v) = CV_ScheduleActivity
     (v\<lparr>act_cancellation_type := sa_cancellation_type i,
        act_task_queue := str_or (sa_task_queue i) tq,
        act_heartbeat := td_field (sa_heartbeat_timeout i),
        act_do_not_eagerly_execute := sa_disable_eager_execution i,
        act_versioning_intent := vi_proto (sa_versioning_intent i),
        act_priority := Some (priority_to_proto (sa_priority i))\<rparr>)"
| "schedule_finish tq (LocalAct i) b (CV_ScheduleLocalActivity v) = CV_ScheduleLocalActivity
     (v\<lparr>lact_cancellation_type := sl_cancellation_type i,
        lact_local_retry_threshold := td_field (sl_local_retry_threshold i),
        lact_attempt := (case b of None \<Rightarrow> 0 | Some bo \<Rightarrow> bo_attempt bo),
        lact_original_schedule_time := (case b of None \<Rightarrow> None
          | Some bo \<Rightarrow> Some (case bo_original_schedule_time bo of None \<Rightarrow> 0 | Some t \<Rightarrow> t))\<rparr>)"
| "schedule_finish tq inp b v = v"

definition modify_variant :: "nat \<Rightarrow> (command_variant \<Rightarrow> command_variant) \<Rightarrow> ('u, unit) wm" where
  "modify_variant i f = modify_command i (\<lambda>c. c\<lparr>cmd_variant := f (cmd_variant c)\<rparr>)"

text \<open>\<^verbatim>\<open>command.user_metadata.summary.CopyFrom(converter.to_payload(summary))\<close> for a truthy summary.\<close>

definition p_summary :: "('u core \<Rightarrow> payload_converter) \<Rightarrow> nat \<Rightarrow> string option \<Rightarrow> ('u, unit) wm" where
  "p_summary pc i summary = (if \<not> str_truthy summary then pret ()
     else pbind (p_to_payload pc (PStr (the summary))) (\<lambda>p.
       modify_command i (\<lambda>c. c\<lparr>cmd_metadata := Some (case cmd_metadata c of
           None \<Rightarrow> \<lparr>um_summary = Some p, um_details = None\<rparr>
         | Some m \<Rightarrow> m\<lparr>um_summary := Some p\<rparr>)\<rparr>)))"

definition p_details :: "('u core \<Rightarrow> payload_converter) \<Rightarrow> nat \<Rightarrow> string option \<Rightarrow> ('u, unit) wm" where
  "p_details pc i details = (if \<not> str_truthy details then pret ()
     else pbind (p_to_payload pc (PStr (the details))) (\<lambda>p.
       modify_command i (\<lambda>c. c\<lparr>cmd_metadata := Some (case cmd_metadata c of
           None \<Rightarrow> \<lparr>um_summary = None, um_details = Some p\<rparr>
         | Some m \<Rightarrow> m\<lparr>um_details := Some p\<rparr>)\<rparr>)))"

definition activity_apply_schedule_command :: "nat \<Rightarrow> do_backoff option \<Rightarrow> ('u, unit) wm" where
  "activity_apply_schedule_command t local_backoff = with_activity t (\<lambda>h.
     let inp = ah_input h;
         pc = (\<lambda>s. payload_converter_with_context s (activity_context s inp))
     in pbind (p_args_payloads pc (ai_args inp)) (\<lambda>payloads.
        pbind add_command (\<lambda>i.
        pthen (set_variant i (schedule_base inp (ah_seq h) payloads))
        (pbind (p_retry_policy (ai_retry_policy inp)) (\<lambda>rp.
        pthen (modify_variant i (schedule_set_retry rp))
        (pthen (p_summary pc i (ai_summary inp))
        (pbind (pget (\<lambda>s. wi_task_queue (w_info s))) (\<lambda>tq.
          modify_variant i (schedule_finish tq inp local_backoff)))))))))"

subsection \<open>Child workflow handles\<close>

definition upd_child_handle :: "nat \<Rightarrow> (child_handle \<Rightarrow> child_handle) \<Rightarrow> ('u, unit) wm" where
  "upd_child_handle t f = pmod (\<lambda>s. s\<lparr>w_child_handles :=
     (w_child_handles s)(t := map_option f (w_child_handles s t))\<rparr>)"

definition with_child :: "nat \<Rightarrow> (child_handle \<Rightarrow> ('u, 'a) wm) \<Rightarrow> ('u, 'a) wm" where
  "with_child t f = pbind (pget (\<lambda>s. w_child_handles s t)) (\<lambda>h. case h of
     None \<Rightarrow> praise (exn_of_error (AssertionError ''no such handle''))
   | Some ch \<Rightarrow> f ch)"

definition new_child_handle :: "nat \<Rightarrow> start_child_input \<Rightarrow> ('u, nat) wm" where
  "new_child_handle seq inp = pbind (new_task (\<lambda>t. StartProc (P_run_child t))) (\<lambda>t.
     pbind create_future (\<lambda>sf.
     pbind create_future (\<lambda>rf.
     pthen (pmod (\<lambda>s. s\<lparr>w_child_handles := (w_child_handles s)(t \<mapsto>
       \<lparr>cw_seq = seq, cw_input = inp, cw_start_fut = sf, cw_result_fut = rf,
        cw_first_execution_run_id = ''<unknown>''\<rparr>)\<rparr>))
     (pthen (register_task t) (pret t)))))"

definition child_resolve_start_success :: "nat \<Rightarrow> string \<Rightarrow> ('u, unit) wm" where
  "child_resolve_start_success t run_id =
     pthen (upd_child_handle t (\<lambda>h. h\<lparr>cw_first_execution_run_id := run_id\<rparr>))
       (with_child t (\<lambda>h. fut_set_result (cw_start_fut h) PNone))"

definition child_resolve_success :: "nat \<Rightarrow> pyval \<Rightarrow> ('u, unit) wm" where
  "child_resolve_success t result = with_child t (\<lambda>h. fut_set_result (cw_result_fut h) result)"

text \<open>Before the start is resolved a failure goes to the start future, and the result future is
  given an empty result.  The same code is in the child and the Nexus handle.\<close>

definition resolve_start_or_result :: "nat \<Rightarrow> nat \<Rightarrow> exn \<Rightarrow> ('u, unit) wm" where
  "resolve_start_or_result sf rf err = pbind (pget (\<lambda>s. fut_done s sf)) (\<lambda>d.
     if d then fut_set_exception rf err
     else pthen (fut_set_exception sf err) (fut_set_result rf PNone))"

definition child_resolve_failure :: "nat \<Rightarrow> exn \<Rightarrow> ('u, unit) wm" where
  "child_resolve_failure t err =
     with_child t (\<lambda>h. resolve_start_or_result (cw_start_fut h) (cw_result_fut h) err)"

definition modify_child :: "nat \<Rightarrow> (start_child_workflow \<Rightarrow> start_child_workflow) \<Rightarrow> ('u, unit) wm" where
  "modify_child i f = modify_variant i (\<lambda>v. case v of
     CV_StartChildWorkflow c \<Rightarrow> CV_StartChildWorkflow (f c) | _ \<Rightarrow> v)"

definition child_apply_start_command :: "nat \<Rightarrow> ('u, unit) wm" where
  "child_apply_start_command t = with_child t (\<lambda>h.
     let inp = cw_input h;
         pc = (\<lambda>s. payload_converter_with_context s (workflow_context s (ch_id inp)))
     in pbind (p_args_payloads pc (ch_args inp)) (\<lambda>payloads.
        pbind add_command (\<lambda>i.
        pbind (pget w_info) (\<lambda>info.
        pthen (set_variant i (CV_StartChildWorkflow
          \<lparr>child_seq = cw_seq h, child_namespace = wi_namespace info, child_workflow_id = ch_id inp,
           child_workflow_type = ch_workflow inp,
           child_task_queue = str_or (ch_task_queue inp) (wi_task_queue info),
           child_input = payloads,
           child_execution_timeout = td_field (ch_execution_timeout inp),
           child_run_timeout = td_field (ch_run_timeout inp),
           child_task_timeout = td_field (ch_task_timeout inp),
           child_parent_close_policy = ch_parent_close_policy inp,
           child_id_reuse_policy = ch_id_reuse_policy inp,
           child_retry_policy = None, child_cron_schedule = [], child_headers = [],
           child_memo = [], child_search_attributes = [], child_cancellation_type = 0,
           child_versioning_intent = VIP_UNSPECIFIED, child_priority = None\<rparr>))
        (pbind (p_retry_policy (ch_retry_policy inp)) (\<lambda>rp.
        pthen (modify_child i (\<lambda>c. c\<lparr>child_retry_policy := rp,
          child_cron_schedule := ch_cron_schedule inp,
          child_headers := apply_headers (Some (ch_headers inp)) []\<rparr>))
        (pthen (pfor (case ch_memo inp of None \<Rightarrow> [] | Some m \<Rightarrow> m) (\<lambda>(k, v).
          pthen (modify_child i (\<lambda>c. c\<lparr>child_memo := dset k empty_payload (child_memo c)\<rparr>))
          (pbind (p_to_payloads_first pc v) (\<lambda>p.
            modify_child i (\<lambda>c. c\<lparr>child_memo := dset k p (child_memo c)\<rparr>)))))
        (pthen (if sa_truthy (ch_search_attributes inp)
          then encode_search_attributes_into (the (ch_search_attributes inp)) (\<lambda>k p.
            modify_child i (\<lambda>c. c\<lparr>child_search_attributes := dset k p (child_search_attributes c)\<rparr>))
          else pret ())
        (pthen (modify_child i (\<lambda>c. c\<lparr>child_cancellation_type := ch_cancellation_type inp,
          child_versioning_intent := vi_proto (ch_versioning_intent inp)\<rparr>))
        (pthen (p_summary pc i (ch_static_summary inp))
        (pthen (p_details pc i (ch_static_details inp))
        (modify_child i (\<lambda>c. c\<lparr>child_priority := Some (priority_to_proto (ch_priority inp))\<rparr>)))))))))))))"

subsection \<open>Nexus operation handles\<close>

definition with_nexus :: "nat \<Rightarrow> (nexus_handle \<Rightarrow> ('u, 'a) wm) \<Rightarrow> ('u, 'a) wm" where
  "with_nexus t f = pbind (pget (\<lambda>s. w_nexus_handles s t)) (\<lambda>h. case h of
     None \<Rightarrow> praise (exn_of_error (AssertionError ''no such handle''))
   | Some nh \<Rightarrow> f nh)"

text \<open>\<^verbatim>\<open>asyncio.Task(fn)\<close> is created directly: the handle is not registered in \<^verbatim>\<open>self._tasks\<close>.\<close>

definition new_nexus_handle :: "nat \<Rightarrow> start_nexus_input \<Rightarrow> ('u, nat) wm" where
  "new_nexus_handle seq inp = pbind (new_task (\<lambda>t. StartProc (P_run_nexus t))) (\<lambda>t.
     pbind create_future (\<lambda>sf.
     pbind create_future (\<lambda>rf.
     pthen (pmod (\<lambda>s. s\<lparr>w_nexus_handles := (w_nexus_handles s)(t \<mapsto>
       \<lparr>nh_seq = seq, nh_input = inp, nh_start_fut = sf, nh_result_fut = rf\<rparr>)\<rparr>))
     (pret t))))"

definition nexus_operation_token :: "'u core \<Rightarrow> nat \<Rightarrow> pyval" where
  "nexus_operation_token s t = (case w_nexus_handles s t of
     None \<Rightarrow> PNone
   | Some h \<Rightarrow> (case fut_result s (nh_start_fut h) of Inl _ \<Rightarrow> PNone | Inr v \<Rightarrow> v))"

definition nexus_resolve_start_success :: "nat \<Rightarrow> string option \<Rightarrow> ('u, unit) wm" where
  "nexus_resolve_start_success t token = with_nexus t (\<lambda>h.
     fut_set_result (nh_start_fut h) (case token of None \<Rightarrow> PNone | Some k \<Rightarrow> PStr k))"

definition nexus_resolve_success :: "nat \<Rightarrow> pyval \<Rightarrow> ('u, unit) wm" where
  "nexus_resolve_success t result = with_nexus t (\<lambda>h. fut_set_result (nh_result_fut h) result)"

definition nexus_resolve_failure :: "nat \<Rightarrow> exn \<Rightarrow> ('u, unit) wm" where
  "nexus_resolve_failure t err =
     with_nexus t (\<lambda>h. resolve_start_or_result (nh_start_fut h) (nh_result_fut h) err)"

text \<open>The payload converter of a handle: the system converter for the system endpoint, otherwise
  the one without a context.\<close>

definition nexus_payload_converter :: "'u core \<Rightarrow> start_nexus_input \<Rightarrow> payload_converter" where
  "nexus_payload_converter s inp =
    (if is_system_endpoint (nx_endpoint inp)
     then d_system_payload_converter (w_det s) (wf_payload_converter s) (wf_failure_converter s)
     else d_payload_converter (w_det s))"

definition nexus_apply_schedule_command :: "nat \<Rightarrow> ('u, unit) wm" where
  "nexus_apply_schedule_command t = with_nexus t (\<lambda>h.
     let inp = nh_input h; pc = (\<lambda>s. nexus_payload_converter s inp)
     in pbind (p_to_payload pc (nx_input inp)) (\<lambda>p.
        pbind add_command (\<lambda>i.
        pbind (lift_err (nexus_operation_name inp)) (\<lambda>op_name.
        pthen (set_variant i (CV_ScheduleNexusOperation
          \<lparr>nex_seq = nh_seq h, nex_endpoint = nx_endpoint inp, nex_service = nx_service inp,
           nex_operation = op_name, nex_input = p,
           nex_schedule_to_close = map_option from_timedelta (nx_schedule_to_close_timeout inp),
           nex_schedule_to_start = map_option from_timedelta (nx_schedule_to_start_timeout inp),
           nex_start_to_close = map_option from_timedelta (nx_start_to_close_timeout inp),
           nex_cancellation_type = nx_cancellation_type inp,
           nex_header = (case nx_headers inp of None \<Rightarrow> []
             | Some hs \<Rightarrow> foldl (\<lambda>d (k, v). dset k v d) [] hs)\<rparr>))
        (p_summary pc i (nx_summary inp))))))"

subsection \<open>Continue-as-new\<close>

definition modify_can :: "nat \<Rightarrow> (continue_as_new_command \<Rightarrow> continue_as_new_command) \<Rightarrow> ('u, unit) wm" where
  "modify_can i f = modify_variant i (\<lambda>v. case v of
     CV_ContinueAsNew c \<Rightarrow> CV_ContinueAsNew (f c) | _ \<Rightarrow> v)"

fun p_memo_payloads :: "(string \<times> pyval) list \<Rightarrow> ('u, (string, payload) dict) wm" where
  "p_memo_payloads [] = pret []"
| "p_memo_payloads ((k, v) # kvs) = pbind (p_to_payloads_first wf_payload_converter v) (\<lambda>p.
     pbind (p_memo_payloads kvs) (\<lambda>m. pret ((k, p) # m)))"

definition continue_as_new_apply_command :: "continue_as_new_input \<Rightarrow> ('u, unit) wm" where
  "continue_as_new_apply_command inp =
     pbind (p_args_payloads wf_payload_converter (can_args inp)) (\<lambda>payloads.
     pbind (p_memo_payloads (case can_memo inp of None \<Rightarrow> [] | Some m \<Rightarrow> m)) (\<lambda>memo_payloads.
     pbind add_command (\<lambda>i.
     pthen (set_variant i (CV_ContinueAsNew
       \<lparr>canc_workflow_type = str_or (can_workflow inp) [], canc_task_queue = str_or (can_task_queue inp) [],
        canc_arguments = payloads,
        canc_run_timeout = td_field (can_run_timeout inp),
        canc_task_timeout = td_field (can_task_timeout inp),
        canc_backoff_start_interval = td_field (can_backoff_start_interval inp),
        canc_headers = apply_headers (Some (can_headers inp)) [], canc_retry_policy = None,
        canc_memo = [], canc_search_attributes = [],
        canc_versioning_intent = VIP_UNSPECIFIED, canc_initial_versioning_behavior = 0\<rparr>))
     (pbind (p_retry_policy (can_retry_policy inp)) (\<lambda>rp.
     pthen (modify_can i (\<lambda>c. c\<lparr>canc_retry_policy := rp,
       canc_memo := foldl (\<lambda>d (k, p). dset k p d) [] memo_payloads\<rparr>))
     (pthen (if sa_truthy (can_search_attributes inp)
       then encode_search_attributes_into (the (can_search_attributes inp)) (\<lambda>k p.
         modify_can i (\<lambda>c. c\<lparr>canc_search_attributes := dset k p (canc_search_attributes c)\<rparr>))
       else pret ())
     (modify_can i (\<lambda>c. c\<lparr>canc_versioning_intent := vi_proto (can_versioning_intent inp),
       canc_initial_versioning_behavior :=
         (case can_initial_versioning_behavior inp of None \<Rightarrow> 0 | Some b \<Rightarrow> b)\<rparr>))))))))"

subsection \<open>Contexts for the payloads of a command\<close>

datatype command_type =
    CT_ScheduleActivityTask | CT_StartChildWorkflow | CT_SignalExternalWorkflow
  | CT_ScheduleNexusOperation | CT_CompleteWorkflow | CT_Other

definition get_serialization_context ::
    "'u core \<Rightarrow> (command_type \<times> nat) option \<Rightarrow> ser_context option" where
  "get_serialization_context s command_info =
    (let own = Some (workflow_context s (wi_workflow_id (w_info s)))
     in case command_info of
       None \<Rightarrow> own
     | Some (ty, seq) \<Rightarrow>
       (case (ty, w_pending_activities s seq, w_pending_child_workflows s seq,
              w_pending_external_signals s seq, w_pending_nexus_operations s seq) of
          (CT_ScheduleActivityTask, Some t, _, _, _) \<Rightarrow>
            (case w_activity_handles s t of None \<Rightarrow> own | Some h \<Rightarrow> Some (activity_context s (ah_input h)))
        | (CT_StartChildWorkflow, _, Some t, _, _) \<Rightarrow>
            (case w_child_handles s t of None \<Rightarrow> own
             | Some h \<Rightarrow> Some (workflow_context s (ch_id (cw_input h))))
        | (CT_SignalExternalWorkflow, _, _, Some (_, target), _) \<Rightarrow> Some (workflow_context s target)
        | (CT_ScheduleNexusOperation, _, _, _, Some t) \<Rightarrow>
            (case w_nexus_handles s t of None \<Rightarrow> own
             | Some h \<Rightarrow>
                (if is_system_endpoint (nx_endpoint (nh_input h))
                 then d_system_serialization_context (w_det s) (nx_service (nh_input h))
                   (case nexus_operation_name (nh_input h) of Inl _ \<Rightarrow> [] | Inr n \<Rightarrow> n)
                   (nx_input (nh_input h))
                 else None))
        | _ \<Rightarrow> own))"

record store_target =
  st_id :: string
  st_run_id :: "string option"
  st_type :: "string option"
  st_namespace :: string

definition get_external_store_context ::
    "'u core \<Rightarrow> (command_type \<times> nat) option \<Rightarrow> store_target" where
  "get_external_store_context s command_info =
    (let info = w_info s;
         current_wf = \<lparr>st_id = wi_workflow_id info, st_run_id = Some (wi_run_id info),
                       st_type = Some (wi_workflow_type info), st_namespace = wi_namespace info\<rparr>
     in case command_info of
       None \<Rightarrow> current_wf
     | Some (ty, seq) \<Rightarrow>
       (case (ty, w_pending_child_workflows s seq, w_pending_external_signals s seq, wi_parent info) of
          (CT_StartChildWorkflow, Some t, _, _) \<Rightarrow>
            (case w_child_handles s t of None \<Rightarrow> current_wf
             | Some h \<Rightarrow> \<lparr>st_id = ch_id (cw_input h), st_run_id = None,
                          st_type = Some (ch_workflow (cw_input h)), st_namespace = wi_namespace info\<rparr>)
        | (CT_SignalExternalWorkflow, _, Some (_, target), _) \<Rightarrow>
            \<lparr>st_id = target, st_run_id = None, st_type = None, st_namespace = wi_namespace info\<rparr>
        | (CT_CompleteWorkflow, _, _, Some (ns, run_id, wid)) \<Rightarrow>
            (if wi_continued_run_id info = None
             then \<lparr>st_id = wid, st_run_id = Some run_id, st_type = None, st_namespace = ns\<rparr>
             else current_wf)
        | _ \<Rightarrow> current_wf))"

end
