(* ===== verification/Wf_Calls.thy ===== *)
theory Wf_Calls
  imports Wf_Handles
begin

section \<open>Synchronous calls of workflow code into the instance\<close>

text \<open>
  The \<^verbatim>\<open>workflow_...\<close> methods of \<^verbatim>\<open>_WorkflowInstanceImpl\<close> that do not suspend, in the order of the
  source, with \<^verbatim>\<open>_process_handler_args\<close>, \<^verbatim>\<open>_process_signal_job\<close> and
  \<^verbatim>\<open>_outbound_schedule_activity\<close>, and the dispatcher \<open>exec_api\<close> that a
  \<open>UApi\<close> node of workflow code goes through.  Warnings are not modelled.
\<close>

subsection \<open>Handlers and signals\<close>

definition workflow_all_handlers_finished :: "'u core \<Rightarrow> bool" where
  "workflow_all_handlers_finished s \<longleftrightarrow> w_in_progress_updates s = [] \<and> w_in_progress_signals s = []"

text \<open>\<^verbatim>\<open>d.get(name) or d.get(None)\<close>.\<close>

definition handler_for :: "(string option, 'd) dict \<Rightarrow> string \<Rightarrow> 'd option" where
  "handler_for d name = (case dget d (Some name) of Some x \<Rightarrow> Some x | None \<Rightarrow> dget d None)"

definition process_handler_args :: "'u core \<Rightarrow> string \<Rightarrow> payload list \<Rightarrow> string option \<Rightarrow>
    pytype list option \<Rightarrow> bool \<Rightarrow> exn + pyval list" where
  "process_handler_args s job_name job_input defn_name defn_arg_types defn_dynamic_vararg =
    (if \<not> str_truthy defn_name \<and> defn_dynamic_vararg then
       map_sum id (\<lambda>vs. PStr job_name # vs)
         (convert_payloads s job_input
           (case defn_arg_types of None \<Rightarrow> None | Some ts \<Rightarrow> if ts = [] then None else Some (tl ts))
           (wf_payload_converter s))
     else if \<not> str_truthy defn_name then
       map_sum id (\<lambda>vs. [PStr job_name, PList vs])
         (convert_payloads s job_input (Some (replicate (length job_input) TRawValue))
           (wf_payload_converter s))
     else convert_payloads s job_input defn_arg_types (wf_payload_converter s))"

definition process_signal_job :: "'u signal_defn \<Rightarrow> signal_job \<Rightarrow> ('u, unit) wm" where
  "process_signal_job defn job = pbind (pget (\<lambda>s. process_handler_args s (sj_signal_name job)
       (sj_input job) (sd_name defn) (sd_arg_types defn) (sd_dynamic_vararg defn))) (\<lambda>r.
     case r of
       Inl e \<Rightarrow> if isinstance e C_Exception then pret () else praise e
     | Inr args \<Rightarrow>
        pthen (pmod (\<lambda>s. s\<lparr>w_handled_signals_seq := Suc (w_handled_signals_seq s)\<rparr>))
        (pbind (pget w_handled_signals_seq) (\<lambda>sid.
        pthen (pmod (\<lambda>s. s\<lparr>w_in_progress_signals := dset sid
           \<lparr>he_name = sj_signal_name job, he_unfinished_policy = sd_unfinished_policy defn, he_id = None\<rparr>
           (w_in_progress_signals s)\<rparr>))
        (pbind (create_task (StartProc (P_run_top_level (P_handle_signal
           \<lparr>hs_signal = sj_signal_name job, hs_args = args, hs_headers = sj_headers job\<rparr>)))) (\<lambda>t.
         add_done_callback t (CbSignalDone sid))))))"

text \<open>\<^verbatim>\<open>__post_init__\<close> of the handler definitions that are registered at run time.\<close>

definition signal_definition :: "string option \<Rightarrow> 'u ucode user_fn \<Rightarrow> exn + 'u signal_defn" where
  "signal_definition name fn =
    (case (if \<not> str_truthy name then map_sum id Not (uf_dynamic fn) else Inr False) of
       Inl e \<Rightarrow> Inl e
     | Inr vararg \<Rightarrow> Inr \<lparr>sd_name = name, sd_fn = fn, sd_unfinished_policy = WARN_AND_ABANDON,
         sd_description = None, sd_arg_types = uf_arg_types fn, sd_dynamic_vararg = vararg\<rparr>)"

definition query_definition :: "string option \<Rightarrow> 'u ucode user_fn \<Rightarrow> exn + 'u query_defn" where
  "query_definition name fn =
    (case (if \<not> str_truthy name then map_sum id Not (uf_dynamic fn) else Inr False) of
       Inl e \<Rightarrow> Inl e
     | Inr vararg \<Rightarrow> Inr \<lparr>qd_name = name, qd_fn = QueryFn fn, qd_description = None,
         qd_arg_types = uf_arg_types fn, qd_dynamic_vararg = vararg\<rparr>)"

definition update_definition :: "string option \<Rightarrow> 'u ucode user_fn \<Rightarrow> exn + 'u update_defn" where
  "update_definition name fn =
    (case (if \<not> str_truthy name then uf_dynamic fn else Inr True) of
       Inl e \<Rightarrow> Inl e
     | Inr False \<Rightarrow> Inl (exn_of_error (RuntimeError
         ''Dynamic updates do not support a vararg third param, use Sequence[RawValue]''))
     | Inr True \<Rightarrow> Inr \<lparr>ud_name = name, ud_fn = fn, ud_unfinished_policy = WARN_AND_ABANDON,
         ud_description = None, ud_arg_types = uf_arg_types fn, ud_validator = None,
         ud_dynamic_vararg = False\<rparr>)"

definition workflow_set_query_handler :: "string option \<Rightarrow> 'u ucode user_fn option \<Rightarrow> ('u, unit) wm" where
  "workflow_set_query_handler name handler = pthen (assert_not_read_only ''set query handler'' False)
     (case handler of
        None \<Rightarrow> pmod (\<lambda>s. s\<lparr>w_queries := dpop name (w_queries s)\<rparr>)
      | Some fn \<Rightarrow> pbind (plift (query_definition name fn)) (\<lambda>defn.
          pmod (\<lambda>s. s\<lparr>w_queries := dset name defn (w_queries s)\<rparr>)))"

definition workflow_set_signal_handler :: "string option \<Rightarrow> 'u ucode user_fn option \<Rightarrow> ('u, unit) wm" where
  "workflow_set_signal_handler name handler = pthen (assert_not_read_only ''set signal handler'' False)
     (case handler of
        None \<Rightarrow> pmod (\<lambda>s. s\<lparr>w_signals := dpop name (w_signals s)\<rparr>)
      | Some fn \<Rightarrow> pbind (plift (signal_definition name fn)) (\<lambda>defn.
          pthen (pmod (\<lambda>s. s\<lparr>w_signals := dset name defn (w_signals s)\<rparr>))
          (if str_truthy name
           then pbind (pget (\<lambda>s. case dget (w_buffered_signals s) (the name) of None \<Rightarrow> [] | Some js \<Rightarrow> js)) (\<lambda>jobs.
             pthen (pmod (\<lambda>s. s\<lparr>w_buffered_signals := dpop (the name) (w_buffered_signals s)\<rparr>))
               (pfor jobs (process_signal_job defn)))
           else pbind (pget (\<lambda>s. concat (dvalues (w_buffered_signals s)))) (\<lambda>jobs.
             pthen (pfor jobs (process_signal_job defn))
               (pmod (\<lambda>s. s\<lparr>w_buffered_signals := []\<rparr>))))))"

text \<open>The test of \<^verbatim>\<open>defn.dynamic_vararg\<close> after the definition is stored.\<close>

definition workflow_set_update_handler :: "string option \<Rightarrow> 'u ucode user_fn option \<Rightarrow>
    'u ucode user_fn option \<Rightarrow> ('u, unit) wm" where
  "workflow_set_update_handler name handler validator =
     pthen (assert_not_read_only ''set update handler'' False)
     (case handler of
        None \<Rightarrow> pmod (\<lambda>s. s\<lparr>w_updates := dpop name (w_updates s)\<rparr>)
      | Some fn \<Rightarrow> pbind (plift (update_definition name fn)) (\<lambda>defn0.
          let defn = defn0\<lparr>ud_validator := validator\<rparr>
          in pthen (pmod (\<lambda>s. s\<lparr>w_updates := dset name defn (w_updates s)\<rparr>))
            (if ud_dynamic_vararg defn then praise (exn_of_error (RuntimeError
                ''Dynamic updates do not support a vararg third param, use Sequence[RawValue]''))
             else pret ())))"

subsection \<open>Continue-as-new\<close>

definition workflow_continue_as_new :: "callable_ref option \<Rightarrow> continue_as_new_input \<Rightarrow> ('u, pyval) wm" where
  "workflow_continue_as_new wfref inp = pthen (assert_not_read_only ''continue as new'' False)
     (pbind (case wfref of
          None \<Rightarrow> pret (None, None)
        | Some (RefName n) \<Rightarrow> pret (Some n, None)
        | Some (RefDefn n tys _) \<Rightarrow> pret (n, tys)
        | Some RefUndecorated \<Rightarrow> praise (exn_of_error (ValueError
            ''Function missing attributes, was it decorated with @workflow.run and was its class decorated with @workflow.defn?''))
        | Some RefOther \<Rightarrow> praise (exn_of_error (TypeError ''Workflow must be None, a string, or callable'')))
      (\<lambda>(name, arg_types). praise (continue_as_new_error
         (inp\<lparr>can_workflow := name, can_headers := [], can_arg_types := arg_types\<rparr>))))"

subsection \<open>Memo\<close>

definition upd_info :: "(workflow_info \<Rightarrow> workflow_info) \<Rightarrow> ('u, unit) wm" where
  "upd_info f = pmod (\<lambda>s. s\<lparr>w_info := f (w_info s)\<rparr>)"

fun map_payload_values :: "(payload \<Rightarrow> exn + pyval) \<Rightarrow> (string \<times> payload) list \<Rightarrow> exn + (string \<times> pyval) list" where
  "map_payload_values f [] = Inr []"
| "map_payload_values f ((k, p) # kps) = (case f p of
     Inl e \<Rightarrow> Inl e
   | Inr v \<Rightarrow> map_sum id (Cons (k, v)) (map_payload_values f kps))"

definition memo_dict :: "(string, pyval) dict \<Rightarrow> pyval" where
  "memo_dict d = PDict (map (\<lambda>(k, v). (PStr k, v)) d)"

definition workflow_memo :: "('u, pyval) wm" where
  "workflow_memo = pbind (pget w_memo_cache) (\<lambda>c. case c of
     Some d \<Rightarrow> pret (memo_dict d)
   | None \<Rightarrow> pbind (pget (\<lambda>s. map_payload_values (\<lambda>p. from_payload (wf_payload_converter s) p None)
         (wi_raw_memo (w_info s)))) (\<lambda>r. pbind (plift r) (\<lambda>d.
       pthen (pmod (\<lambda>s. s\<lparr>w_memo_cache := Some d\<rparr>)) (pret (memo_dict d)))))"

definition workflow_memo_value :: "string \<Rightarrow> pyval option \<Rightarrow> pytype option \<Rightarrow> ('u, pyval) wm" where
  "workflow_memo_value key dflt type_hint = pbind (pget (\<lambda>s. dget (wi_raw_memo (w_info s)) key)) (\<lambda>p.
     case p of
       None \<Rightarrow> (case dflt of None \<Rightarrow> praise (exn_of_error (KeyError (''Memo does not have a value for key '' @ key)))
                | Some v \<Rightarrow> pret v)
     | Some payload \<Rightarrow> pbind (pget (\<lambda>s. from_payload (wf_payload_converter s) payload type_hint)) plift)"

text \<open>The first loop of \<^verbatim>\<open>workflow_upsert_memo\<close>: payloads of the updates and keys to remove.\<close>

fun split_memo_updates :: "payload_converter \<Rightarrow> (string \<times> pyval) list \<Rightarrow>
    exn + ((string, payload) dict \<times> string list)" where
  "split_memo_updates pc [] = Inr ([], [])"
| "split_memo_updates pc ((k, v) # kvs) =
    (if v = PNone then map_sum id (\<lambda>(us, rs). (us, k # rs)) (split_memo_updates pc kvs)
     else case to_payload pc v of
         Inl e \<Rightarrow> Inl e
       | Inr p \<Rightarrow> map_sum id (\<lambda>(us, rs). ((k, p) # us, rs)) (split_memo_updates pc kvs))"

definition put_all :: "(string \<times> 'v) list \<Rightarrow> (string, 'v) dict \<Rightarrow> (string, 'v) dict" where
  "put_all kvs d = foldl (\<lambda>d (k, v). dset k v d) d kvs"

definition pop_all :: "string list \<Rightarrow> (string, 'v) dict \<Rightarrow> (string, 'v) dict" where
  "pop_all ks d = foldl (\<lambda>d k. dpop k d) d ks"

definition workflow_upsert_memo :: "(string, pyval) dict \<Rightarrow> ('u, unit) wm" where
  "workflow_upsert_memo updates =
     pbind (pget (\<lambda>s. split_memo_updates (wf_payload_converter s) updates)) (\<lambda>r.
     pbind (plift r) (\<lambda>(update_payloads, removals).
     if update_payloads = [] \<and> removals = [] then pret ()
     else pbind add_command (\<lambda>i.
       pthen (if update_payloads = [] then pret ()
          else set_variant i (CV_ModifyWorkflowProperties (put_all update_payloads [])))
       (pthen (upd_info (\<lambda>info. info\<lparr>wi_raw_memo := put_all update_payloads (wi_raw_memo info)\<rparr>))
       (pthen (if removals = [] then pret ()
          else pbind (p_to_payload wf_payload_converter PNone) (\<lambda>null_payload.
            pthen (set_variant i (CV_ModifyWorkflowProperties
                (put_all (map (\<lambda>k. (k, null_payload)) removals) (put_all update_payloads []))))
              (upd_info (\<lambda>info. info\<lparr>wi_raw_memo := pop_all removals (wi_raw_memo info)\<rparr>))))
       (pbind (pget w_memo_cache) (\<lambda>c. case c of
          None \<Rightarrow> pret ()
        | Some _ \<Rightarrow>
           pthen (pfor update_payloads (\<lambda>(k, p).
             pbind (pget (\<lambda>s. from_payload (wf_payload_converter s) p None)) (\<lambda>r.
             pbind (plift r) (\<lambda>v. pmod (\<lambda>s. s\<lparr>w_memo_cache := map_option (dset k v) (w_memo_cache s)\<rparr>)))))
           (pmod (\<lambda>s. s\<lparr>w_memo_cache := map_option (pop_all removals) (w_memo_cache s)\<rparr>)))))))))"

subsection \<open>Patches\<close>

definition workflow_patch :: "string \<Rightarrow> bool \<Rightarrow> ('u, bool) wm" where
  "workflow_patch pid deprecated = pthen (assert_not_read_only ''patch'' False)
     (pbind (pget id) (\<lambda>s. case w_patches_memoized s pid of
        Some use_patch \<Rightarrow> pret use_patch
      | None \<Rightarrow>
        pbind (if deprecated \<or> w_is_replaying s \<or> pid \<in> w_patches_notified s
               then pret (\<not> w_is_replaying s \<or> pid \<in> w_patches_notified s)
               else case d_patch_activation_callback (w_det s) of
                   None \<Rightarrow> pret True
                 | Some callback \<Rightarrow> pbind (as_read_only False (plift (callback (w_info s) pid))) (\<lambda>v.
                     case v of PBool b \<Rightarrow> pret b
                     | _ \<Rightarrow> praise (exn_of_error (TypeError
                         ''Patch activation callback must return true or false''))))
        (\<lambda>use_patch. pthen (pmod (\<lambda>s. s\<lparr>w_patches_memoized := (w_patches_memoized s)(pid \<mapsto> use_patch)\<rparr>))
          (pthen (if use_patch then emit (CV_SetPatchMarker pid deprecated) else pret ())
            (pret use_patch)))))"

subsection \<open>Activities\<close>

definition outbound_schedule_activity :: "activity_input \<Rightarrow> ('u, nat) wm" where
  "outbound_schedule_activity inp =
    (if \<not> td_truthy (ai_start_to_close inp) \<and> \<not> td_truthy (ai_schedule_to_close inp)
     then praise (exn_of_error (ValueError
       ''Activity must have start_to_close_timeout or schedule_to_close_timeout''))
     else pbind (new_activity_handle inp) (\<lambda>t.
       pthen (activity_apply_schedule_command t None)
       (pthen (with_activity t (\<lambda>h. pmod (\<lambda>s. s\<lparr>w_pending_activities :=
          (w_pending_activities s)(ah_seq h \<mapsto> t)\<rparr>)))
         (pret t))))"

text \<open>The name of an activity and its return type, from the definition when it is callable.\<close>

definition activity_ref :: "callable_ref \<Rightarrow> pytype option \<Rightarrow> exn + string \<times> pytype option" where
  "activity_ref ref result_type = (case ref of
     RefName n \<Rightarrow> Inr (n, result_type)
   | RefDefn n _ ret \<Rightarrow>
      (if \<not> str_truthy n then Inl (exn_of_error (ValueError ''Cannot invoke dynamic activity explicitly''))
       else Inr (the n, ret))
   | RefUndecorated \<Rightarrow> Inl (exn_of_error (TypeError
       ''Activity missing attributes, was it decorated with @activity.defn?''))
   | RefOther \<Rightarrow> Inl (exn_of_error (TypeError ''Activity must be a string or callable'')))"

definition workflow_start_activity :: "callable_ref \<Rightarrow> start_activity_input \<Rightarrow> ('u, nat) wm" where
  "workflow_start_activity ref inp = pthen (assert_not_read_only ''start activity'' False)
     (pbind (plift (activity_ref ref (sa_ret_type inp))) (\<lambda>(name, ret).
      pbind (pget (\<lambda>s. d_disable_eager_activity_execution (w_det s))) (\<lambda>eager.
      outbound_schedule_activity (RemoteAct (inp\<lparr>sa_activity := name, sa_ret_type := ret,
        sa_headers := [], sa_disable_eager_execution := eager\<rparr>)))))"

definition workflow_start_local_activity :: "callable_ref \<Rightarrow> start_local_activity_input \<Rightarrow> ('u, nat) wm" where
  "workflow_start_local_activity ref inp = pbind (plift (activity_ref ref (sl_ret_type inp))) (\<lambda>(name, ret).
     pbind (pget (\<lambda>s. d_assert_local_activity_valid (w_det s) name)) (\<lambda>bad. case bad of
       Some e \<Rightarrow> praise e
     | None \<Rightarrow> outbound_schedule_activity (LocalAct (inp\<lparr>sl_activity := name, sl_ret_type := ret,
         sl_headers := []\<rparr>))))"

subsection \<open>Search attributes\<close>

definition typed_index :: "search_attribute_pair list \<Rightarrow> string \<Rightarrow> nat option" where
  "typed_index ps n = (if list_ex (\<lambda>p. pair_name p = n) ps
     then Some (length (takeWhile (\<lambda>p. pair_name p \<noteq> n) ps)) else None)"

definition remove_nth :: "nat \<Rightarrow> 'a list \<Rightarrow> 'a list" where
  "remove_nth i xs = take i xs @ drop (Suc i) xs"

text \<open>\<^verbatim>\<open>mut_typed_attrs.append(pair)\<close> or \<^verbatim>\<open>mut_typed_attrs[index] = pair\<close>.\<close>

definition typed_put :: "search_attribute_pair list \<Rightarrow> nat option \<Rightarrow> search_attribute_pair \<Rightarrow> search_attribute_pair list" where
  "typed_put ps index pair = (case index of None \<Rightarrow> ps @ [pair] | Some i \<Rightarrow> list_update ps i pair)"

definition typed_del :: "search_attribute_pair list \<Rightarrow> nat option \<Rightarrow> search_attribute_pair list" where
  "typed_del ps index = (case index of None \<Rightarrow> ps | Some i \<Rightarrow> remove_nth i ps)"

text \<open>The update of the typed attributes for one entry of an untyped dictionary.\<close>

definition apply_untyped :: "search_attribute_pair list \<Rightarrow> string \<Rightarrow> pyval list \<Rightarrow> search_attribute_pair list" where
  "apply_untyped ps k vals =
    (let index = typed_index ps k
     in if vals = [] then typed_del ps index
        else case guess_from_untyped_values k vals of
            None \<Rightarrow> ps
          | Some key \<Rightarrow>
             (if indexed_value_type key \<noteq> IV_KEYWORD_LIST
              then (if length vals \<noteq> 1 then ps else typed_put ps index (key, hd vals))
              else typed_put ps index (key, PList vals)))"

text \<open>Indexing a protobuf map of messages creates the entry: an empty payload is there before the
  value is encoded.\<close>

definition put_indexed_field :: "nat \<Rightarrow> string \<Rightarrow> payload \<Rightarrow> ('u, unit) wm" where
  "put_indexed_field i k p = modify_variant i (\<lambda>v. case v of
     CV_UpsertSearchAttributes d \<Rightarrow> CV_UpsertSearchAttributes (dset k p d)
   | _ \<Rightarrow> CV_UpsertSearchAttributes [(k, p)])"

fun py_list :: "pyval \<Rightarrow> pyval list" where
  "py_list (PList xs) = xs"
| "py_list (PTuple xs) = xs"
| "py_list (PStr s) = map (\<lambda>c. PStr [c]) s"
| "py_list _ = []"

definition upsert_typed :: "nat \<Rightarrow> search_attribute_update \<Rightarrow> ('u, unit) wm" where
  "upsert_typed i update =
    (let key = sau_key update; n = sk_name key;
         value = (case sau_value update of None \<Rightarrow> PNone | Some v \<Rightarrow> v)
     in pthen (put_indexed_field i n empty_payload)
        (pbind (pget (\<lambda>s. encode_typed_search_attribute_value (d_search_to_payload (w_det s)) key value)) (\<lambda>r.
        pbind (lift_err r) (\<lambda>p.
        pthen (put_indexed_field i n p)
        (upd_info (\<lambda>info.
          let ps = wi_typed_search_attributes info; index = typed_index ps n
          in if value = PNone
             then info\<lparr>wi_typed_search_attributes := typed_del ps index,
                       wi_search_attributes := dset n (PList []) (wi_search_attributes info)\<rparr>
             else info\<lparr>wi_typed_search_attributes := typed_put ps index (key, value),
                       wi_search_attributes := dset n
                         (PList (if indexed_value_type key = IV_KEYWORD_LIST then py_list value else [value]))
                         (wi_search_attributes info)\<rparr>))))))"

definition upsert_untyped :: "nat \<Rightarrow> string \<Rightarrow> pyval \<Rightarrow> ('u, unit) wm" where
  "upsert_untyped i k vals = pthen (put_indexed_field i k empty_payload)
     (pbind (pget (\<lambda>s. encode_search_attribute_values (d_search_to_payload (w_det s)) vals)) (\<lambda>r.
     pbind (lift_err r) (\<lambda>p.
     pthen (put_indexed_field i k p)
       (upd_info (\<lambda>info. info\<lparr>wi_typed_search_attributes :=
          apply_untyped (wi_typed_search_attributes info) k (py_list vals)\<rparr>)))))"

definition workflow_upsert_search_attributes ::
    "(string, pyval) dict + search_attribute_update list \<Rightarrow> ('u, unit) wm" where
  "workflow_upsert_search_attributes attributes = pbind add_command (\<lambda>i.
     (case attributes of
        Inl d \<Rightarrow> pthen (upd_info (\<lambda>info. info\<lparr>wi_search_attributes := put_all d (wi_search_attributes info)\<rparr>))
          (pfor d (\<lambda>(k, vals). upsert_untyped i k vals))
      | Inr us \<Rightarrow> pfor us (upsert_typed i)))"

subsection \<open>Other calls\<close>

definition workflow_set_current_details :: "string \<Rightarrow> ('u, unit) wm" where
  "workflow_set_current_details details = pthen (assert_not_read_only ''set current details'' False)
     (pmod (\<lambda>s. s\<lparr>w_current_details := details\<rparr>))"

definition workflow_register_random_seed_callback ::
    "(int \<Rightarrow> 'u \<Rightarrow> exn option \<times> 'u) \<Rightarrow> ('u, unit) wm" where
  "workflow_register_random_seed_callback cb =
     pthen (assert_not_read_only ''register random seed callback'' False)
       (pmod (\<lambda>s. s\<lparr>w_seed_callbacks := w_seed_callbacks s @ [cb]\<rparr>))"

definition workflow_last_completion_result :: "'u core \<Rightarrow> pytype option \<Rightarrow> exn + pyval" where
  "workflow_last_completion_result s type_hint = (case d_last_completion_result (w_det s) of
     [p] \<Rightarrow> from_payload (wf_payload_converter s) p type_hint
   | _ \<Rightarrow> Inr PNone)"

definition opt_str :: "string option \<Rightarrow> pyval" where
  "opt_str x = (case x of None \<Rightarrow> PNone | Some t \<Rightarrow> PStr t)"

definition as_unit :: "('u, unit) wm \<Rightarrow> ('u, pyval) wm" where
  "as_unit m = pthen m (pret PNone)"

definition read :: "('u core \<Rightarrow> pyval) \<Rightarrow> ('u, pyval) wm" where
  "read f = pget f"

fun exec_api :: "'u api \<Rightarrow> ('u, pyval) wm" where
  "exec_api ApiAllHandlersFinished = read (\<lambda>s. PBool (workflow_all_handlers_finished s))"
| "exec_api (ApiContinueAsNew wfref inp) = workflow_continue_as_new wfref inp"
| "exec_api ApiCancellationReason = read (\<lambda>s. opt_str (w_cancel_reason s))"
| "exec_api ApiCurrentBuildId = read (\<lambda>s. PStr (case w_deployment_version s of
      None \<Rightarrow> [] | Some v \<Rightarrow> build_id v))"
| "exec_api ApiHistoryLength = read (\<lambda>s. PInt (w_history_length s))"
| "exec_api ApiHistorySize = read (\<lambda>s. PInt (w_history_size s))"
| "exec_api ApiIsContinueAsNewSuggested = read (\<lambda>s. PBool (w_continue_as_new_suggested s))"
| "exec_api ApiIsTargetVersionChanged = read (\<lambda>s. PBool (w_target_version_changed s))"
| "exec_api ApiIsReplaying = read (\<lambda>s. PBool (w_is_replaying s))"
| "exec_api ApiIsReplayingHistoryEvents =
     read (\<lambda>s. PBool (w_is_replaying s \<and> \<not> w_in_query_or_validator s))"
| "exec_api ApiIsReadOnly = read (\<lambda>s. PBool (w_read_only s))"
| "exec_api ApiMemo = workflow_memo"
| "exec_api (ApiMemoValue k d ty) = workflow_memo_value k d ty"
| "exec_api (ApiUpsertMemo us) = as_unit (workflow_upsert_memo us)"
| "exec_api (ApiPatch pid deprecated) = pbind (workflow_patch pid deprecated) (\<lambda>b. pret (PBool b))"
| "exec_api ApiRandom = as_unit (assert_not_read_only ''random'' False)"
| "exec_api (ApiStartActivity ref inp) = pbind (workflow_start_activity ref inp) (\<lambda>t. pret (PRef t))"
| "exec_api (ApiStartLocalActivity ref inp) =
     pbind (workflow_start_local_activity ref inp) (\<lambda>t. pret (PRef t))"
| "exec_api ApiTimeNs = read (\<lambda>s. PInt (w_time_ns s))"
| "exec_api (ApiUpsertSearchAttributes us) =
     (if us = Inl [] \<or> us = Inr [] then pret PNone
      else as_unit (workflow_upsert_search_attributes us))"
| "exec_api ApiGetCurrentDetails = read (\<lambda>s. PStr (w_current_details s))"
| "exec_api (ApiSetCurrentDetails d) = as_unit (workflow_set_current_details d)"
| "exec_api ApiHasLastCompletionResult = read (\<lambda>s. PBool (d_last_completion_result (w_det s) \<noteq> []))"
| "exec_api (ApiLastCompletionResult ty) = pbind (pget (\<lambda>s. workflow_last_completion_result s ty)) plift"
| "exec_api ApiRandomSeed = read (\<lambda>s. PInt (w_current_seed s))"
| "exec_api (ApiRegisterSeedCallback cb) = as_unit (workflow_register_random_seed_callback cb)"
| "exec_api (ApiCancel f msg) = pbind (cancel f msg) (\<lambda>b. pret (PBool b))"
| "exec_api (ApiNexusOperationToken t) = read (\<lambda>s. nexus_operation_token s t)"
| "exec_api ApiCreateFuture = pbind create_future (\<lambda>f. pret (PRef f))"
| "exec_api (ApiFutureDone f) = read (\<lambda>s. PBool (fut_done s f))"
| "exec_api (ApiSetResult f v) = pbind (pget (\<lambda>s. a_taskinfo (w_aio s) f)) (\<lambda>ti. case ti of
      None \<Rightarrow> as_unit (fut_set_result f v)
    | Some _ \<Rightarrow> praise (exn_of_error (RuntimeError ''Task does not support set_result operation'')))"
| "exec_api (ApiSetException f e) = pbind (pget (\<lambda>s. a_taskinfo (w_aio s) f)) (\<lambda>ti. case ti of
      None \<Rightarrow> as_unit (fut_set_exception f e)
    | Some _ \<Rightarrow> praise (exn_of_error (RuntimeError ''Task does not support set_exception operation'')))"
| "exec_api ApiUncancel = pbind (pget (\<lambda>s. a_cur_task (w_aio s))) (\<lambda>t. case t of
      None \<Rightarrow> pret PNone | Some x \<Rightarrow> as_unit (task_uncancel x))"

subsection \<open>The metadata query and warnings about unfinished handlers\<close>

definition interaction_definitions :: "(string option \<times> string option) list \<Rightarrow> (string \<times> string) list" where
  "interaction_definitions ds = sort_key fst (map (\<lambda>(n, d). (str_or n [], str_or d [])) ds)"

record workflow_metadata =
  wm_type :: string
  wm_query_definitions :: "(string \<times> string) list"
  wm_signal_definitions :: "(string \<times> string) list"
  wm_update_definitions :: "(string \<times> string) list"
  wm_current_details :: string

definition temporal_workflow_metadata :: "'u core \<Rightarrow> workflow_metadata" where
  "temporal_workflow_metadata s =
    \<lparr>wm_type = wi_workflow_type (w_info s),
     wm_query_definitions = interaction_definitions (map (\<lambda>d. (qd_name d, qd_description d)) (dvalues (w_queries s))),
     wm_signal_definitions = interaction_definitions (map (\<lambda>d. (sd_name d, sd_description d)) (dvalues (w_signals s))),
     wm_update_definitions = interaction_definitions (map (\<lambda>d. (ud_name d, ud_description d)) (dvalues (w_updates s))),
     wm_current_details = w_current_details s\<rparr>"

definition warnable :: "handler_execution list \<Rightarrow> handler_execution list" where
  "warnable exs = filter (\<lambda>ex. he_unfinished_policy ex = WARN_AND_ABANDON) exs"

text \<open>\<^verbatim>\<open>collections.Counter(names).most_common()\<close>: the counts in order of first occurrence, sorted by
  falling count.\<close>

definition most_common :: "string list \<Rightarrow> (string \<times> nat) list" where
  "most_common names = rev (sort_key snd (rev (map (\<lambda>n. (n, count_list names n)) (rev (remdups (rev names))))))"

datatype unfinished_warning =
    UnfinishedUpdateHandlers "(string \<times> string option) list"
  | UnfinishedSignalHandlers "(string \<times> nat) list"

definition warn_if_unfinished_handlers :: "'u core \<Rightarrow> unfinished_warning list" where
  "warn_if_unfinished_handlers s =
    (let us = warnable (dvalues (w_in_progress_updates s));
         ss = warnable (dvalues (w_in_progress_signals s))
     in (if us = [] then [] else [UnfinishedUpdateHandlers (map (\<lambda>ex. (he_name ex, he_id ex)) us)])
        @ (if ss = [] then [] else [UnfinishedSignalHandlers (most_common (map he_name ss))]))"

end
