(* ===== verification/Wf_Coroutines.thy ===== *)
theory Wf_Coroutines
  imports Wf_Calls
begin

section \<open>The coroutines of the SDK\<close>

text \<open>
  A coroutine of the SDK is a value of the datatype \<open>coro\<close>: a tree of synchronous steps on
  the instance (\<open>SDo\<close>), awaits of a future, bare yields, calls of other coroutines by name,
  and runs of workflow code.  \<open>sbind\<close> continues a coroutine with its outcome, which is what
  \<^verbatim>\<open>try\<close>, \<^verbatim>\<open>except\<close> and \<^verbatim>\<open>finally\<close> around an \<^verbatim>\<open>await\<close> need.  \<open>sdk_body\<close> gives the body of every
  named coroutine; a \<^verbatim>\<open>while True\<close> loop is a call of the coroutine itself.

  The asyncio coroutines that the SDK awaits (\<^verbatim>\<open>asyncio.wait\<close>, \<^verbatim>\<open>asyncio.sleep\<close>,
  \<^verbatim>\<open>asyncio.wait_for\<close> with its \<^verbatim>\<open>timeout\<close> object) are those of CPython 3.12.
\<close>

datatype 'u coro =
    SRet pyval
  | SRaise exn
  | SDo "'u core \<Rightarrow> 'u coro \<times> 'u core"
  | SAwait nat "exn + pyval \<Rightarrow> 'u coro"
  | SYield "exn + pyval \<Rightarrow> 'u coro"
  | SCall "'u sdkproc" "exn + pyval \<Rightarrow> 'u coro"
  | SUser bool "'u ucode" "exn + pyval \<Rightarrow> 'u coro"

primrec sbind :: "'u coro \<Rightarrow> (exn + pyval \<Rightarrow> 'u coro) \<Rightarrow> 'u coro" where
  "sbind (SRet v) k = k (Inr v)"
| "sbind (SRaise e) k = k (Inl e)"
| "sbind (SDo f) k = SDo (\<lambda>s. map_prod (\<lambda>c. sbind c k) id (f s))"
| "sbind (SAwait x c) k = SAwait x (\<lambda>r. sbind (c r) k)"
| "sbind (SYield c) k = SYield (\<lambda>r. sbind (c r) k)"
| "sbind (SCall p c) k = SCall p (\<lambda>r. sbind (c r) k)"
| "sbind (SUser b u c) k = SUser b u (\<lambda>r. sbind (c r) k)"

text \<open>Returning an outcome, running a synchronous step with both outcomes, and running one whose
  exception is passed on.\<close>

definition sret :: "exn + pyval \<Rightarrow> 'u coro" where
  "sret r = (case r of Inl e \<Rightarrow> SRaise e | Inr v \<Rightarrow> SRet v)"

definition sdo :: "('u, 'a) wm \<Rightarrow> (exn + 'a \<Rightarrow> 'u coro) \<Rightarrow> 'u coro" where
  "sdo m k = SDo (\<lambda>s. case m s of (r, s') \<Rightarrow> (k r, s'))"

definition sthen :: "('u, 'a) wm \<Rightarrow> ('a \<Rightarrow> 'u coro) \<Rightarrow> 'u coro" where
  "sthen m k = sdo m (\<lambda>r. case r of Inl e \<Rightarrow> SRaise e | Inr a \<Rightarrow> k a)"

text \<open>\<^verbatim>\<open>try: c finally: m\<close>.\<close>

definition sfinally :: "'u coro \<Rightarrow> ('u, unit) wm \<Rightarrow> 'u coro" where
  "sfinally c m = sbind c (\<lambda>r. sthen m (\<lambda>_. sret r))"

definition scall :: "'u sdkproc \<Rightarrow> 'u coro" where
  "scall p = SCall p sret"

definition sawait :: "nat \<Rightarrow> 'u coro" where
  "sawait f = SAwait f sret"

subsection \<open>asyncio\<close>

definition asyncio_wait :: "nat \<Rightarrow> 'u coro" where
  "asyncio_wait f = sthen create_future (\<lambda>waiter.
     sthen (add_done_callback f (CbRelease waiter)) (\<lambda>_.
     sfinally (sawait waiter) (remove_done_callback f (CbRelease waiter))))"

definition asyncio_sleep :: "rat \<Rightarrow> 'u coro" where
  "asyncio_sleep delay = (if delay \<le> 0 then SYield (\<lambda>r. case r of Inl e \<Rightarrow> SRaise e | Inr _ \<Rightarrow> SRet PNone)
     else sthen create_future (\<lambda>fut.
       sthen (call_later delay (TcSetResult fut)) (\<lambda>h.
       sfinally (sawait fut) (timer_cancel h))))"

text \<open>\<^verbatim>\<open>timeouts.Timeout.__aenter__\<close> and \<^verbatim>\<open>__aexit__\<close>.\<close>

definition timeout_enter :: "rat option \<Rightarrow> ('u, nat) wm" where
  "timeout_enter delay = pbind (pget (\<lambda>s. a_cur_task (w_aio s))) (\<lambda>ct. case ct of
     None \<Rightarrow> praise (exn_of_error (RuntimeError ''Timeout should be used inside a task''))
   | Some t \<Rightarrow> pbind (pget (\<lambda>s. case a_taskinfo (w_aio s) t of None \<Rightarrow> 0 | Some ti \<Rightarrow> t_num_cancels ti)) (\<lambda>n.
       pbind fresh_id (\<lambda>i.
       pthen (aio_mod (\<lambda>a. a\<lparr>a_timeouts := (a_timeouts a)(i \<mapsto>
         \<lparr>tm_task = t, tm_state = TmEntered, tm_cancelling = n, tm_handler = None\<rparr>)\<rparr>))
       (case delay of
          None \<Rightarrow> pret i
        | Some d \<Rightarrow> pbind (pget (\<lambda>s. loop_time s + d)) (\<lambda>when.
            pbind (call_at when (TcTimeout i)) (\<lambda>h.
            pthen (aio_mod (\<lambda>a. a\<lparr>a_timeouts := (a_timeouts a)(i := map_option
                (\<lambda>tm. tm\<lparr>tm_handler := Some h\<rparr>) (a_timeouts a i))\<rparr>))
              (pret i)))))))"

definition set_timeout :: "nat \<Rightarrow> (timeout_obj \<Rightarrow> timeout_obj) \<Rightarrow> ('u, unit) wm" where
  "set_timeout i f = aio_mod (\<lambda>a. a\<lparr>a_timeouts := (a_timeouts a)(i := map_option f (a_timeouts a i))\<rparr>)"

definition timeout_exit :: "nat \<Rightarrow> exn + pyval \<Rightarrow> ('u, pyval) wm" where
  "timeout_exit i r = pbind (pget (\<lambda>s. a_timeouts (w_aio s) i)) (\<lambda>o_tm. case o_tm of
     None \<Rightarrow> plift r
   | Some tm \<Rightarrow>
     pthen (case tm_handler tm of None \<Rightarrow> pret ()
        | Some h \<Rightarrow> pthen (timer_cancel h) (set_timeout i (\<lambda>t. t\<lparr>tm_handler := None\<rparr>)))
     (case tm_state tm of
        TmExpiring \<Rightarrow> pthen (set_timeout i (\<lambda>t. t\<lparr>tm_state := TmExpired\<rparr>))
          (pthen (task_uncancel (tm_task tm))
          (pbind (pget (\<lambda>s. case a_taskinfo (w_aio s) (tm_task tm) of None \<Rightarrow> 0 | Some ti \<Rightarrow> t_num_cancels ti)) (\<lambda>n.
           case r of
             Inl e \<Rightarrow> (if n \<le> tm_cancelling tm \<and> e_class e = C_AsyncCancelledError
                       then praise (raise_from timeout_error_py e) else praise e)
           | Inr v \<Rightarrow> pret v)))
      | TmEntered \<Rightarrow> pthen (set_timeout i (\<lambda>t. t\<lparr>tm_state := TmExited\<rparr>)) (plift r)
      | _ \<Rightarrow> plift r))"

definition asyncio_wait_for :: "nat \<Rightarrow> rat option \<Rightarrow> 'u coro" where
  "asyncio_wait_for fut timeout =
    (if timeout \<noteq> None \<and> the timeout \<le> 0 then
       sthen (pget (\<lambda>s. (fut_done s fut, fut_result s fut))) (\<lambda>(d, res).
         if d then sret res
         else sthen create_future (\<lambda>waiter.
           sthen (add_done_callback fut (CbRelease waiter)) (\<lambda>_.
           sbind (sfinally (sthen (cancel fut None) (\<lambda>_. sawait waiter))
                    (remove_done_callback fut (CbRelease waiter))) (\<lambda>r.
             case r of
               Inl e \<Rightarrow> SRaise e
             | Inr _ \<Rightarrow> sthen (pget (\<lambda>s. fut_result s fut)) (\<lambda>res. case res of
                 Inr v \<Rightarrow> SRet v
               | Inl e \<Rightarrow> (if isinstance e C_AsyncCancelledError
                           then SRaise (raise_from timeout_error_py e) else SRaise e))))))
     else sthen (timeout_enter timeout) (\<lambda>i.
       SAwait fut (\<lambda>r. sthen (timeout_exit i r) SRet)))"

text \<open>\<^verbatim>\<open>_shield_await\<close>.\<close>

definition shield_await :: "nat \<Rightarrow> 'u coro" where
  "shield_await f = SCall (P_asyncio_wait f) (\<lambda>r. case r of
     Inl e \<Rightarrow> SRaise e
   | Inr _ \<Rightarrow> sthen (pget (\<lambda>s. fut_result s f)) sret)"

subsection \<open>Waiting for an operation of the server\<close>

text \<open>The closures passed as \<^verbatim>\<open>apply_cancel\<close>.  The child's closure tests whether the command became a
  request to cancel an external workflow.\<close>

definition cancel_reason_of :: "exn \<Rightarrow> string" where
  "cancel_reason_of err = (case e_data err of D_Cancel (Some (PStr m)) \<Rightarrow> m | _ \<Rightarrow> [])"

definition apply_cancel :: "cancel_spec \<Rightarrow> exn \<Rightarrow> nat \<Rightarrow> ('u, unit) wm" where
  "apply_cancel spec err i = (case spec of
     CancelActivity t \<Rightarrow> with_activity t (\<lambda>h. set_variant i (activity_cancel_variant h))
   | CancelChild t \<Rightarrow> with_child t (\<lambda>h.
       pthen (set_variant i (CV_CancelChildWorkflow (cw_seq h) (cancel_reason_of err)))
       (pbind (pget (\<lambda>s. cmd_variant (w_commands s ! i))) (\<lambda>v. case v of
          CV_RequestCancelExternalWorkflow c \<Rightarrow>
            pbind (next_seq ''external_cancel'') (\<lambda>seq.
            pthen (set_variant i (CV_RequestCancelExternalWorkflow (c\<lparr>rce_seq := seq\<rparr>)))
            (pbind create_future (\<lambda>f. pmod (\<lambda>s. s\<lparr>w_pending_external_cancels :=
               (w_pending_external_cancels s)(seq \<mapsto> (f, ch_id (cw_input h)))\<rparr>))))
        | _ \<Rightarrow> pret ())))
   | CancelNexus t \<Rightarrow> with_nexus t (\<lambda>h. set_variant i (CV_RequestCancelNexusOperation (nh_seq h)))
   | CancelSignal seq \<Rightarrow> set_variant i (CV_CancelSignalWorkflow seq))"

definition uncancel_current :: "('u, unit) wm" where
  "uncancel_current = pbind (pget (\<lambda>s. a_cur_task (w_aio s))) (\<lambda>t. case t of
     None \<Rightarrow> pret () | Some x \<Rightarrow> task_uncancel x)"

text \<open>What \<^verbatim>\<open>_await_temporal_operation\<close> does with a cancellation: the result says whether the error is
  raised again.\<close>

definition on_operation_cancelled ::
    "nat \<Rightarrow> cancel_spec \<Rightarrow> logic_flag option \<Rightarrow> bool \<Rightarrow> exn \<Rightarrow> ('u, bool) wm" where
  "on_operation_cancelled fut spec completed_cancellation_flag reraise err = pbind (pget id) (\<lambda>s.
     if fut_done s fut \<and> w_single_batch_activation s then pret True
     else if fut_done s fut \<and> completed_cancellation_flag \<noteq> None \<and>
       (\<not> w_is_replaying s \<or> the completed_cancellation_flag \<in> set (w_current_internal_flags s))
     then pthen (pmod (\<lambda>s. s\<lparr>w_used_internal_flags :=
            w_used_internal_flags s @ [the completed_cancellation_flag]\<rparr>)) (pret True)
     else pbind add_command (\<lambda>i.
       pthen (apply_cancel spec err i)
       (pthen uncancel_current
         (pget (\<lambda>s. reraise \<and> (w_cancel_reason s \<noteq> None \<or> w_deleting s))))))"

definition await_temporal_operation ::
    "nat \<Rightarrow> cancel_spec \<Rightarrow> logic_flag option \<Rightarrow> bool \<Rightarrow> 'u coro" where
  "await_temporal_operation fut spec flag reraise = SCall (P_shield_await fut) (\<lambda>r. case r of
     Inr v \<Rightarrow> SRet v
   | Inl err \<Rightarrow>
      (if isinstance err C_AsyncCancelledError
       then sthen (on_operation_cancelled fut spec flag reraise err) (\<lambda>again.
          if again then SRaise err else scall (P_await_operation fut spec flag reraise))
       else SRaise err))"

subsection \<open>Activities, child workflows, Nexus operations\<close>

definition run_activity :: "nat \<Rightarrow> 'u coro" where
  "run_activity t = sthen (pthen (upd_activity_handle t (\<lambda>h. h\<lparr>ah_started := True\<rparr>))
       (with_activity t (\<lambda>h. pret (ah_result_fut h)))) (\<lambda>fut.
     SCall (P_await_operation fut (CancelActivity t) (Some RAISE_ON_CANCELLING_COMPLETED_ACTIVITY) False)
     (\<lambda>r. case r of
        Inr v \<Rightarrow> SRet v
      | Inl err \<Rightarrow> (case e_data err of
          D_Backoff b \<Rightarrow>
            SCall (P_asyncio_sleep (of_int (to_timedelta (bo_backoff_duration b)) / 1000000)) (\<lambda>r2.
              case r2 of
                Inl e \<Rightarrow> SRaise e
              | Inr _ \<Rightarrow> sthen (pthen (activity_apply_schedule_command t (Some b))
                  (with_activity t (\<lambda>h. pmod (\<lambda>s. s\<lparr>w_pending_activities :=
                     (w_pending_activities s)(ah_seq h \<mapsto> t)\<rparr>)))) (\<lambda>_. scall (P_run_activity t)))
        | _ \<Rightarrow> SRaise err)))"

definition run_child :: "nat \<Rightarrow> 'u coro" where
  "run_child t = sthen (with_child t (\<lambda>h. pret (cw_result_fut h))) (\<lambda>fut.
     scall (P_await_operation fut (CancelChild t) None False))"

definition operation_handle_fn :: "nat \<Rightarrow> 'u coro" where
  "operation_handle_fn t = sthen (with_nexus t (\<lambda>h. pret (nh_result_fut h))) (\<lambda>fut.
     scall (P_await_operation fut (CancelNexus t) None False))"

definition child_ref :: "callable_ref \<Rightarrow> pytype option \<Rightarrow> exn + string \<times> pytype option" where
  "child_ref ref result_type = (case ref of
     RefName n \<Rightarrow> Inr (n, result_type)
   | RefDefn n _ ret \<Rightarrow>
      (if \<not> str_truthy n then Inl (exn_of_error (TypeError ''Cannot invoke dynamic workflow explicitly''))
       else Inr (the n, ret))
   | RefUndecorated \<Rightarrow> Inl (exn_of_error (ValueError
       ''Function missing attributes, was it decorated with @workflow.run and was its class decorated with @workflow.defn?''))
   | RefOther \<Rightarrow> Inl (exn_of_error (TypeError ''Workflow must be a string or callable'')))"

text \<open>The part of \<^verbatim>\<open>_outbound_start_child_workflow\<close> before its await.\<close>

definition outbound_start_child :: "start_child_input \<Rightarrow> ('u, nat) wm" where
  "outbound_start_child inp = pbind (next_seq ''child_workflow'') (\<lambda>seq.
     pbind (new_child_handle seq inp) (\<lambda>t.
     pthen (child_apply_start_command t)
     (pthen (with_child t (\<lambda>h. pmod (\<lambda>s. s\<lparr>w_pending_child_workflows :=
        (w_pending_child_workflows s)(cw_seq h \<mapsto> t)\<rparr>)))
       (pret t))))"

definition start_child_workflow :: "callable_ref \<Rightarrow> start_child_input \<Rightarrow> 'u coro" where
  "start_child_workflow ref inp = sthen (plift (child_ref ref (ch_ret_type inp))) (\<lambda>(name, ret).
     sthen (outbound_start_child (inp\<lparr>ch_workflow := name, ch_ret_type := ret, ch_headers := []\<rparr>)) (\<lambda>t.
     sthen (with_child t (\<lambda>h. pret (cw_start_fut h))) (\<lambda>sf.
     SCall (P_await_operation sf (CancelChild t) None True) (\<lambda>r. case r of
       Inl e \<Rightarrow> SRaise e
     | Inr _ \<Rightarrow> SRet (PRef t)))))"

definition outbound_start_nexus :: "start_nexus_input \<Rightarrow> ('u, nat) wm" where
  "outbound_start_nexus inp = pbind (next_seq ''nexus_operation'') (\<lambda>seq.
     pbind (new_nexus_handle seq inp) (\<lambda>t.
     pthen (nexus_apply_schedule_command t)
     (pthen (with_nexus t (\<lambda>h. pmod (\<lambda>s. s\<lparr>w_pending_nexus_operations :=
        (w_pending_nexus_operations s)(nh_seq h \<mapsto> t)\<rparr>)))
       (pret t))))"

definition start_nexus_operation :: "start_nexus_input \<Rightarrow> 'u coro" where
  "start_nexus_operation inp0 = sthen (lift_err (nexus_input_post_init inp0)) (\<lambda>inp.
     sthen (outbound_start_nexus inp) (\<lambda>t.
     sthen (with_nexus t (\<lambda>h. pret (nh_start_fut h))) (\<lambda>sf.
     SCall (P_await_operation sf (CancelNexus t) None True) (\<lambda>r. case r of
       Inl e \<Rightarrow> SRaise e
     | Inr _ \<Rightarrow> SRet (PRef t)))))"

subsection \<open>Signalling and cancelling other workflows\<close>

text \<open>\<^verbatim>\<open>_signal_external_workflow\<close> on the command at position \<open>i\<close>.\<close>

definition signal_external_pending :: "nat \<Rightarrow> ('u, nat \<times> nat) wm" where
  "signal_external_pending i = pbind (next_seq ''external_signal'') (\<lambda>seq.
     pbind create_future (\<lambda>f.
     pthen (modify_variant i (\<lambda>v. case v of
        CV_SignalExternalWorkflow c \<Rightarrow> CV_SignalExternalWorkflow (c\<lparr>sig_seq := seq\<rparr>) | _ \<Rightarrow> v))
     (pthen (pmod (\<lambda>s. s\<lparr>w_pending_external_signals := (w_pending_external_signals s)(seq \<mapsto> (f,
        case cmd_variant (w_commands s ! i) of
          CV_SignalExternalWorkflow c \<Rightarrow>
            (if sig_child_workflow_id c \<noteq> [] then sig_child_workflow_id c else sig_workflow_id c)
        | _ \<Rightarrow> []))\<rparr>))
       (pret (f, seq)))))"

definition signal_external_workflow :: "nat \<Rightarrow> 'u coro" where
  "signal_external_workflow i = sthen (signal_external_pending i) (\<lambda>(f, seq).
     scall (P_await_operation f (CancelSignal seq) None False))"

definition child_signal_command :: "nat \<Rightarrow> string \<Rightarrow> pyval option \<Rightarrow> pyval list \<Rightarrow> ('u, nat) wm" where
  "child_signal_command t signal arg args = with_child t (\<lambda>h.
     pthen (assert_not_read_only ''signal child handle'' False)
     (pbind (lift_err (arg_or_args arg args)) (\<lambda>vs.
      let cid = ch_id (cw_input h) in
      pbind (p_args_payloads (\<lambda>s. payload_converter_with_context s (workflow_context s cid)) vs) (\<lambda>payloads.
      pbind add_command (\<lambda>i.
      pthen (set_variant i (CV_SignalExternalWorkflow
        \<lparr>sig_seq = 0, sig_child_workflow_id = cid, sig_namespace = [], sig_workflow_id = [],
         sig_run_id = [], sig_signal_name = signal, sig_args = payloads, sig_headers = []\<rparr>))
        (pret i))))))"

definition child_signal :: "nat \<Rightarrow> string \<Rightarrow> pyval option \<Rightarrow> pyval list \<Rightarrow> 'u coro" where
  "child_signal t signal arg args =
     sthen (child_signal_command t signal arg args) (\<lambda>i. scall (P_signal_command i))"

definition external_signal_command ::
    "string \<Rightarrow> string option \<Rightarrow> string \<Rightarrow> pyval option \<Rightarrow> pyval list \<Rightarrow> ('u, nat) wm" where
  "external_signal_command wid run_id signal arg args =
     pthen (assert_not_read_only ''signal external handle'' False)
     (pbind (lift_err (arg_or_args arg args)) (\<lambda>vs.
      pbind (p_args_payloads (\<lambda>s. payload_converter_with_context s (workflow_context s wid)) vs) (\<lambda>payloads.
      pbind add_command (\<lambda>i.
      pbind (pget (\<lambda>s. wi_namespace (w_info s))) (\<lambda>ns.
      pthen (set_variant i (CV_SignalExternalWorkflow
        \<lparr>sig_seq = 0, sig_child_workflow_id = [], sig_namespace = ns, sig_workflow_id = wid,
         sig_run_id = str_or run_id [], sig_signal_name = signal, sig_args = payloads, sig_headers = []\<rparr>))
        (pret i))))))"

definition external_signal ::
    "string \<Rightarrow> string option \<Rightarrow> string \<Rightarrow> pyval option \<Rightarrow> pyval list \<Rightarrow> 'u coro" where
  "external_signal wid run_id signal arg args =
     sthen (external_signal_command wid run_id signal arg args) (\<lambda>i. scall (P_signal_command i))"

definition external_cancel_command :: "string \<Rightarrow> string option \<Rightarrow> string \<Rightarrow> ('u, nat) wm" where
  "external_cancel_command wid run_id reason = pthen (assert_not_read_only ''cancel external handle'' False)
     (pbind add_command (\<lambda>i.
      pbind (pget (\<lambda>s. wi_namespace (w_info s))) (\<lambda>ns.
      pbind (next_seq ''external_cancel'') (\<lambda>seq.
      pbind create_future (\<lambda>f.
      pthen (set_variant i (CV_RequestCancelExternalWorkflow
        \<lparr>rce_seq = seq, rce_namespace = ns, rce_workflow_id = wid, rce_run_id = str_or run_id [],
         rce_reason = reason\<rparr>))
      (pthen (pmod (\<lambda>s. s\<lparr>w_pending_external_cancels := (w_pending_external_cancels s)(seq \<mapsto> (f, wid))\<rparr>))
        (pret f)))))))"

definition external_cancel :: "string \<Rightarrow> string option \<Rightarrow> string \<Rightarrow> 'u coro" where
  "external_cancel wid run_id reason = sthen (external_cancel_command wid run_id reason) (\<lambda>f.
     SAwait f (\<lambda>r. case r of Inl e \<Rightarrow> SRaise e | Inr _ \<Rightarrow> SRet PNone))"

subsection \<open>Sleeping and waiting for a condition\<close>

definition p_user_metadata :: "string option \<Rightarrow> ('u, user_metadata option) wm" where
  "p_user_metadata summary = (if \<not> str_truthy summary then pret None
     else pbind (p_to_payload wf_payload_converter (PStr (the summary))) (\<lambda>p.
       pret (Some \<lparr>um_summary = Some p, um_details = None\<rparr>)))"

definition workflow_sleep :: "rat \<Rightarrow> string option \<Rightarrow> 'u coro" where
  "workflow_sleep duration summary = sthen (p_user_metadata summary) (\<lambda>metadata.
     sthen create_future (\<lambda>fut.
     sthen (timer_impl duration metadata (TcSetResultIfPending fut)) (\<lambda>h.
     sthen (add_done_callback fut (CbSleepCancel h)) (\<lambda>_.
     SAwait fut (\<lambda>r. case r of Inl e \<Rightarrow> SRaise e | Inr _ \<Rightarrow> SRet PNone)))))"

text \<open>\<^verbatim>\<open>_TimerOptionsCtxVar.set\<close>: the coroutine runs in the context of the awaiting task, so the
  variable is set there.\<close>

definition set_timer_options :: "user_metadata option \<Rightarrow> ('u, unit) wm" where
  "set_timer_options m = pbind (pget (\<lambda>s. a_cur_task (w_aio s))) (\<lambda>ct. case ct of
     None \<Rightarrow> pret ()
   | Some t \<Rightarrow> upd_task t (\<lambda>ti. ti\<lparr>t_context := (t_context ti)\<lparr>cx_timer_options := m\<rparr>\<rparr>))"

definition cancellation_arrived :: "bool \<Rightarrow> 'u core \<Rightarrow> bool" where
  "cancellation_arrived requested_before s \<longleftrightarrow>
     w_single_batch_activation s \<and> \<not> requested_before \<and> w_cancel_reason s \<noteq> None"

definition workflow_wait_condition :: "'u cond \<Rightarrow> rat option \<Rightarrow> string option \<Rightarrow> 'u coro" where
  "workflow_wait_condition fn timeout timeout_summary =
     sthen (assert_not_read_only ''wait condition'' False) (\<lambda>_.
     sthen (pget (\<lambda>s. w_cancel_reason s \<noteq> None)) (\<lambda>before.
     sthen create_future (\<lambda>fut.
     sthen (pmod (\<lambda>s. s\<lparr>w_conditions := w_conditions s @ [(fn, fut)]\<rparr>)) (\<lambda>_.
     sthen (p_user_metadata timeout_summary) (\<lambda>metadata.
     sthen (set_timer_options metadata) (\<lambda>_.
     SCall (P_asyncio_wait_for fut timeout) (\<lambda>r. case r of
       Inl e \<Rightarrow> sthen (pget (\<lambda>s. isinstance e C_PyTimeoutError \<and> cancellation_arrived before s)) (\<lambda>b.
         SRaise (if b then async_cancelled None else e))
     | Inr _ \<Rightarrow> sthen (pget (cancellation_arrived before)) (\<lambda>b.
         if b then SRaise (async_cancelled None) else SRet PNone))))))))"

subsection \<open>The top-level function of a workflow\<close>

definition set_workflow_failure :: "exn \<Rightarrow> ('u, unit) wm" where
  "set_workflow_failure err = pbind add_command (\<lambda>i.
     pthen (set_variant i (CV_FailWorkflow empty_failure))
     (pbind (pget (\<lambda>s. to_failure (wf_failure_converter s) err (wf_payload_converter s))) (\<lambda>r. case r of
        Inr f \<Rightarrow> set_variant i (CV_FailWorkflow f)
      | Inl inner_err \<Rightarrow>
         (if isinstance inner_err C_Exception
          then praise (raise_from (exn_of_error (ValueError ''Failed converting workflow exception'')) inner_err)
          else praise inner_err))))"

definition set_activation_error :: "exn \<Rightarrow> ('u, unit) wm" where
  "set_activation_error err = pmod (\<lambda>s. s\<lparr>w_current_activation_error := Some err\<rparr>)"

text \<open>The handler of \<^verbatim>\<open>except (Exception, asyncio.CancelledError)\<close>.\<close>

definition on_top_level_exception :: "exn \<Rightarrow> ('u, unit) wm" where
  "on_top_level_exception err0 = pbind (pget id) (\<lambda>s.
     if w_deleting s then pret ()
     else let err = (if isinstance err0 C_AsyncCancelledError then cancelled_error (str_exn err0) [] else err0)
       in if w_cancel_reason s \<noteq> None \<and> is_cancelled_exception err then emit CV_CancelWorkflow
          else if workflow_is_failure_exception s err then set_workflow_failure err
          else set_activation_error err)"

definition run_top_level_workflow_function :: "'u sdkproc \<Rightarrow> 'u coro" where
  "run_top_level_workflow_function p = SCall p (\<lambda>r. case r of
     Inr _ \<Rightarrow> SRet PNone
   | Inl err \<Rightarrow> (case e_data err of
       D_ContinueAsNew inp \<Rightarrow> sthen (continue_as_new_apply_command inp) (\<lambda>_. SRet PNone)
     | _ \<Rightarrow> (if isinstance err C_Exception \<or> isinstance err C_AsyncCancelledError
             then sthen (on_top_level_exception err) (\<lambda>_. SRet PNone)
             else SRaise err)))"

text \<open>Converting the single result of a workflow, an update or a query.\<close>

definition p_result_payload :: "pyval \<Rightarrow> ('u, payload) wm" where
  "p_result_payload v = pbind (p_to_payloads wf_payload_converter [v]) (\<lambda>ps. case ps of
     [p] \<Rightarrow> pret p
   | _ \<Rightarrow> praise (exn_of_error (ValueError (''Expected 1 result payload, got '' @ str_of_nat (length ps)))))"

definition run_workflow :: "execute_workflow_input \<Rightarrow> 'u coro" where
  "run_workflow inp = sthen (pget (\<lambda>s. wd_run_fn (d_defn (w_det s)) (ew_args inp))) (\<lambda>code.
     sbind (SUser True code (\<lambda>r. case r of
         Inl e \<Rightarrow> SRaise e
       | Inr v \<Rightarrow> sthen (pbind (p_result_payload v) (\<lambda>p. emit (CV_CompleteWorkflow p))) (\<lambda>_. SRet PNone)))
     (\<lambda>r. case r of
        Inr v \<Rightarrow> SRet v
      | Inl e \<Rightarrow> sthen (pget w_deleting) (\<lambda>deleting.
          if isinstance e C_Exception \<and> deleting then SRet PNone else SRaise e)))"

subsection \<open>Signal, update and query handlers\<close>

definition handle_signal :: "handle_signal_input \<Rightarrow> 'u coro" where
  "handle_signal inp = sthen (pget (\<lambda>s. handler_for (w_signals s) (hs_signal inp))) (\<lambda>d. case d of
     None \<Rightarrow> SRaise (exn_of_error (AssertionError []))
   | Some defn \<Rightarrow> SUser (uf_async (sd_fn defn)) (uf_body (sd_fn defn) (hs_args inp)) (\<lambda>r. case r of
       Inl e \<Rightarrow> SRaise e | Inr _ \<Rightarrow> SRet PNone))"

definition known_names :: "(string option, 'd) dict \<Rightarrow> string" where
  "known_names d = (let ks = sort (map the (filter str_truthy (dkeys d)))
     in concat (case ks of [] \<Rightarrow> [] | k # rest \<Rightarrow> k # map (\<lambda>x. '' '' @ x) rest))"

definition update_args :: "'u update_defn \<Rightarrow> update_job \<Rightarrow> ('u, pyval list) wm" where
  "update_args defn job = pbind (pget (\<lambda>s. process_handler_args s (uj_name job) (uj_input job)
     (ud_name defn) (ud_arg_types defn) (ud_dynamic_vararg defn))) plift"

text \<open>\<^verbatim>\<open>handle_update_validator\<close> looks the validator up by name.\<close>

definition update_validator :: "'u core \<Rightarrow> string \<Rightarrow> 'u ucode user_fn option" where
  "update_validator s name = (case handler_for (w_updates s) name of
     None \<Rightarrow> None | Some defn \<Rightarrow> ud_validator defn)"

text \<open>The first part of \<^verbatim>\<open>run_update\<close>, up to the acceptance; its value is the list of arguments.\<close>

definition update_validation :: "update_job \<Rightarrow> 'u coro" where
  "update_validation job = sthen (pget (\<lambda>s. handler_for (w_updates s) (uj_name job))) (\<lambda>d. case d of
     None \<Rightarrow> sthen (pget (\<lambda>s. known_names (w_updates s))) (\<lambda>ks.
       SRaise (exn_of_error (RuntimeError (''Update handler for '' @ uj_name job
         @ '' expected but not found, and there is no dynamic handler. known updates: ['' @ ks @ '']''))))
   | Some defn \<Rightarrow>
     sthen (pmod (\<lambda>s. s\<lparr>w_in_progress_updates := dset (uj_id job)
        \<lparr>he_name = uj_name job, he_unfinished_policy = ud_unfinished_policy defn, he_id = Some (uj_id job)\<rparr>
        (w_in_progress_updates s)\<rparr>)) (\<lambda>_.
     sthen (update_args defn job) (\<lambda>args.
     if uj_run_validator job \<and> ud_validator defn \<noteq> None
     then sthen (enter_read_only True) (\<lambda>prev.
       sfinally
         (sthen (pget (\<lambda>s. update_validator s (uj_name job))) (\<lambda>v. case v of
            None \<Rightarrow> sthen (update_args defn job) (\<lambda>args'. SRet (PList args'))
          | Some fn \<Rightarrow> SUser False (uf_body fn args) (\<lambda>r. case r of
              Inl e \<Rightarrow> SRaise e
            | Inr _ \<Rightarrow> sthen (update_args defn job) (\<lambda>args'. SRet (PList args')))))
         (exit_read_only prev))
     else SRet (PList args))))"

text \<open>The second part: running the handler and completing the update.\<close>

definition update_execution :: "update_job \<Rightarrow> pyval list \<Rightarrow> 'u coro" where
  "update_execution job args = sthen (pget (\<lambda>s. handler_for (w_updates s) (uj_name job))) (\<lambda>d. case d of
     None \<Rightarrow> SRaise (exn_of_error (AssertionError []))
   | Some defn \<Rightarrow> SUser (uf_async (ud_fn defn)) (uf_body (ud_fn defn) args) (\<lambda>r. case r of
       Inl e \<Rightarrow> SRaise e
     | Inr v \<Rightarrow> sthen (pbind (p_result_payload v) (\<lambda>p.
         emit (CV_UpdateResponse (uj_protocol_instance_id job) (UpdateCompleted p)))) (\<lambda>_. SRet PNone)))"

text \<open>The \<^verbatim>\<open>except\<close> clauses: whether validation is past, and the command that is still open.\<close>

definition on_update_exception :: "update_job \<Rightarrow> bool \<Rightarrow> nat option \<Rightarrow> exn \<Rightarrow> ('u, unit) wm" where
  "on_update_exception job past_validation command err0 =
    (if isinstance err0 C_Exception \<or> isinstance err0 C_AsyncCancelledError then
       let err = (if isinstance err0 C_AsyncCancelledError
                  then cancelled_error (''Cancellation raised within update '' @ str_exn err0) []
                  else err0)
       in if isinstance err C_ReadOnlyContextError then set_activation_error err
          else pbind (pget (\<lambda>s. workflow_is_failure_exception s err)) (\<lambda>failure_exn.
            if \<not> past_validation \<or> failure_exn then
              pbind (case command of Some i \<Rightarrow> pret i | None \<Rightarrow> add_command) (\<lambda>i.
              pthen (set_variant i (CV_UpdateResponse (uj_protocol_instance_id job) (UpdateRejected empty_failure)))
              (pbind (pget (\<lambda>s. to_failure (wf_failure_converter s) err (wf_payload_converter s))) (\<lambda>r.
               pbind (plift r) (\<lambda>f.
               set_variant i (CV_UpdateResponse (uj_protocol_instance_id job) (UpdateRejected f))))))
            else set_activation_error err)
     else case e_data err0 of
         D_ContinueAsNew _ \<Rightarrow> set_activation_error (exn_of_error
           (RuntimeError ''Cannot continue as new from an update handler''))
       | _ \<Rightarrow> pbind (pget w_deleting) (\<lambda>deleting. if deleting then pret () else praise err0))"

definition set_update_info :: "update_job \<Rightarrow> ('u, unit) wm" where
  "set_update_info job = pbind (pget (\<lambda>s. a_cur_task (w_aio s))) (\<lambda>ct. case ct of
     None \<Rightarrow> pret ()
   | Some t \<Rightarrow> upd_task t (\<lambda>ti. ti\<lparr>t_context := (t_context ti)\<lparr>cx_update_info := Some (uj_id job, uj_name job)\<rparr>\<rparr>))"

definition run_update :: "update_job \<Rightarrow> 'u coro" where
  "run_update job = sthen (set_update_info job) (\<lambda>_.
     sthen add_command (\<lambda>i.
     sthen (set_variant i (CV_UpdateResponse (uj_protocol_instance_id job) UpdateNotSet)) (\<lambda>_.
     sfinally
       (sbind (update_validation job) (\<lambda>r. case r of
          Inl e \<Rightarrow> sthen (on_update_exception job False (Some i) e) (\<lambda>_. SRet PNone)
        | Inr args \<Rightarrow>
           sthen (set_variant i (CV_UpdateResponse (uj_protocol_instance_id job) UpdateAccepted)) (\<lambda>_.
           sbind (update_execution job (py_list args)) (\<lambda>r2. case r2 of
             Inl e \<Rightarrow> sthen (on_update_exception job True None e) (\<lambda>_. SRet PNone)
           | Inr v \<Rightarrow> SRet PNone))))
       (pmod (\<lambda>s. s\<lparr>w_in_progress_updates := dpop (uj_id job) (w_in_progress_updates s)\<rparr>)))))"

definition metadata_value :: "workflow_metadata \<Rightarrow> pyval" where
  "metadata_value m =
    (let defs = (\<lambda>ds. PList (map (\<lambda>(n, d). PTuple [PStr n, PStr d]) ds))
     in PTuple [PStr (wm_type m), defs (wm_query_definitions m), defs (wm_signal_definitions m),
                defs (wm_update_definitions m), PStr (wm_current_details m)])"

definition handle_query :: "handle_query_input \<Rightarrow> 'u coro" where
  "handle_query inp = sthen (pget (\<lambda>s. handler_for (w_queries s) (hq_query inp))) (\<lambda>d. case d of
     None \<Rightarrow> SRaise (exn_of_error (AssertionError []))
   | Some defn \<Rightarrow> (case qd_fn defn of
       QueryFn fn \<Rightarrow> SUser (uf_async fn) (uf_body fn (hq_args inp)) sret
     | QueryMetadata \<Rightarrow> sthen (pget temporal_workflow_metadata) (\<lambda>m. SRet (metadata_value m))
     | _ \<Rightarrow> sthen (pget (\<lambda>s. d_stack_trace (w_det s) (a_tasks (w_aio s)))) (\<lambda>t. SRet (PStr t))))"

text \<open>The block under \<^verbatim>\<open>with self._as_read_only(in_query_or_validator=True)\<close>; its value is the result
  payload.\<close>

definition query_in_read_only :: "query_job \<Rightarrow> 'u coro" where
  "query_in_read_only job = sthen (pget (\<lambda>s. handler_for (w_queries s) (qj_query_type job))) (\<lambda>d. case d of
     None \<Rightarrow> sthen (pget (\<lambda>s. known_names (w_queries s))) (\<lambda>ks.
       SRaise (exn_of_error (RuntimeError (''Query handler for '' @ qj_query_type job
         @ '' expected but not found, known queries: ['' @ ks @ '']''))))
   | Some defn \<Rightarrow>
     sthen (pbind (pget (\<lambda>s. process_handler_args s (qj_query_type job) (qj_arguments job)
        (qd_name defn) (qd_arg_types defn) (qd_dynamic_vararg defn))) plift) (\<lambda>args.
     sbind (handle_query \<lparr>hq_id = qj_query_id job, hq_query = qj_query_type job, hq_args = args,
        hq_headers = qj_headers job\<rparr>) (\<lambda>r. case r of
       Inl e \<Rightarrow> SRaise e
     | Inr v \<Rightarrow> sthen (p_result_payload v) (\<lambda>p. SRet (PRaw p)))))"

definition query_failed :: "query_job \<Rightarrow> exn \<Rightarrow> ('u, unit) wm" where
  "query_failed job err = pcatch (pbind add_command (\<lambda>i.
       pthen (set_variant i (CV_RespondToQuery (qj_query_id job) (Inl empty_failure)))
       (pbind (pget (\<lambda>s. to_failure (wf_failure_converter s) err (wf_payload_converter s))) (\<lambda>r.
        pbind (plift r) (\<lambda>f. set_variant i (CV_RespondToQuery (qj_query_id job) (Inl f))))))
     )
     (\<lambda>inner_err. if isinstance inner_err C_Exception
        then praise (raise_from (exn_of_error (ValueError ''Failed converting application error'')) inner_err)
        else praise inner_err)"

definition run_query :: "query_job \<Rightarrow> 'u coro" where
  "run_query job =
     sbind (sthen (enter_read_only True) (\<lambda>prev.
         sbind (sfinally (query_in_read_only job) (exit_read_only prev)) (\<lambda>r. case r of
           Inl e \<Rightarrow> SRaise e
         | Inr v \<Rightarrow> sthen (emit (CV_RespondToQuery (qj_query_id job)
             (Inr (case v of PRaw p \<Rightarrow> p | _ \<Rightarrow> empty_payload)))) (\<lambda>_. SRet PNone))))
     (\<lambda>r. case r of
        Inr v \<Rightarrow> SRet v
      | Inl e \<Rightarrow> (if isinstance e C_Exception then sthen (query_failed job e) (\<lambda>_. SRet PNone)
                  else SRaise e))"

subsection \<open>The bodies of all named coroutines\<close>

fun sdk_body :: "'u sdkproc \<Rightarrow> 'u coro" where
  "sdk_body (P_run_top_level p) = run_top_level_workflow_function p"
| "sdk_body (P_run_workflow inp) = run_workflow inp"
| "sdk_body (P_handle_signal inp) = handle_signal inp"
| "sdk_body (P_run_update job) = run_update job"
| "sdk_body (P_run_query job) = run_query job"
| "sdk_body (P_run_activity t) = run_activity t"
| "sdk_body (P_run_child t) = run_child t"
| "sdk_body (P_run_nexus t) = operation_handle_fn t"
| "sdk_body (P_await_operation f spec flag reraise) = await_temporal_operation f spec flag reraise"
| "sdk_body (P_shield_await f) = shield_await f"
| "sdk_body (P_asyncio_wait f) = asyncio_wait f"
| "sdk_body (P_asyncio_sleep d) = asyncio_sleep d"
| "sdk_body (P_asyncio_wait_for f d) = asyncio_wait_for f d"
| "sdk_body (P_workflow_sleep d summary) = workflow_sleep d summary"
| "sdk_body (P_wait_condition fn d summary) = workflow_wait_condition fn d summary"
| "sdk_body (P_start_child ref inp) = start_child_workflow ref inp"
| "sdk_body (P_start_nexus inp) = start_nexus_operation inp"
| "sdk_body (P_signal_child t sig arg args) = child_signal t sig arg args"
| "sdk_body (P_signal_external wid run sig arg args) = external_signal wid run sig arg args"
| "sdk_body (P_signal_command i) = signal_external_workflow i"
| "sdk_body (P_cancel_external wid run reason) = external_cancel wid run reason"

text \<open>What an awaited SDK call of workflow code runs.\<close>

fun await_proc :: "'u awaitable \<Rightarrow> nat + 'u sdkproc" where
  "await_proc (AwFuture f) = Inl f"
| "await_proc (AwAsyncioSleep d) = Inr (P_asyncio_sleep d)"
| "await_proc (AwSleep d summary) = Inr (P_workflow_sleep d summary)"
| "await_proc (AwWaitCondition fn d summary) = Inr (P_wait_condition fn d summary)"
| "await_proc (AwStartChild ref inp) = Inr (P_start_child ref inp)"
| "await_proc (AwStartNexus inp) = Inr (P_start_nexus inp)"
| "await_proc (AwSignalChild t sig arg args) = Inr (P_signal_child t sig arg args)"
| "await_proc (AwSignalExternal wid run sig arg args) = Inr (P_signal_external wid run sig arg args)"
| "await_proc (AwCancelExternal wid run reason) = Inr (P_cancel_external wid run reason)"

end
