(* ===== verification/Wf_Jobs.thy ===== *)
theory Wf_Jobs
  imports Wf_Coroutines
begin

section \<open>Applying activation jobs\<close>

text \<open>
  One definition per \<^verbatim>\<open>_apply_...\<close> method of the workflow instance, and the dispatcher
  \<^verbatim>\<open>_apply\<close>.  Applying a job never runs workflow code: it resolves futures, creates tasks and
  schedules callbacks, which \<^verbatim>\<open>_run_once\<close> then executes.
\<close>

definition runtime_error :: "string \<Rightarrow> exn" where
  "runtime_error m = exn_of_error (RuntimeError m)"

definition apply_cancel_workflow :: "string \<Rightarrow> ('u, unit) wm" where
  "apply_cancel_workflow reason = pthen (pmod (\<lambda>s. s\<lparr>w_cancel_reason := Some reason\<rparr>))
     (pbind (pget id) (\<lambda>s. case w_primary_task s of
        Some t \<Rightarrow> call_soon (HTaskCancel t)
      | None \<Rightarrow> pwhen (w_single_batch_activation s)
          (pmod (\<lambda>s. s\<lparr>w_cancel_primary_task_pending := True\<rparr>))))"

definition apply_do_update :: "update_job \<Rightarrow> ('u, unit) wm" where
  "apply_do_update job = pthen (create_task (StartProc (P_run_update job))) (pret ())"

definition apply_fire_timer :: "nat \<Rightarrow> ('u, unit) wm" where
  "apply_fire_timer seq = pbind (pget (\<lambda>s. w_pending_timers s seq)) (\<lambda>h. case h of
     None \<Rightarrow> pret ()
   | Some x \<Rightarrow> pthen (pmod (\<lambda>s. s\<lparr>w_pending_timers := (w_pending_timers s)(seq := None)\<rparr>))
       (aio_mod (\<lambda>a. a\<lparr>a_ready := a_ready a @ [HTimer x]\<rparr>)))"

definition apply_query_workflow :: "query_job \<Rightarrow> ('u, unit) wm" where
  "apply_query_workflow job = pthen (create_task (StartProc (P_run_query job))) (pret ())"

definition apply_notify_has_patch :: "string \<Rightarrow> ('u, unit) wm" where
  "apply_notify_has_patch pid = pmod (\<lambda>s. s\<lparr>w_patches_notified := insert pid (w_patches_notified s)\<rparr>)"

definition apply_remove_from_cache :: "('u, unit) wm" where
  "apply_remove_from_cache = pthen (pmod (\<lambda>s. s\<lparr>w_deleting := True, w_is_replaying := True\<rparr>))
     (pbind (pget (\<lambda>s. a_tasks (w_aio s))) (\<lambda>ts. pfor ts (\<lambda>t. pthen (cancel t None) (pret ()))))"

text \<open>Converting the optional result payload of an operation with the type it declares.\<close>

definition p_convert_result :: "payload option \<Rightarrow> pytype option \<Rightarrow> ('u core \<Rightarrow> payload_converter) \<Rightarrow>
    ('u, pyval) wm" where
  "p_convert_result result ret_type pc = (case result of
     None \<Rightarrow> pret PNone
   | Some p \<Rightarrow> pbind (pget (\<lambda>s. convert_payloads s [p] (map_option (\<lambda>t. [t]) ret_type) (pc s))) (\<lambda>r.
       pbind (plift r) (\<lambda>vs. case vs of
         [] \<Rightarrow> praise (exn_of_error (IndexError ''list index out of range''))
       | v # _ \<Rightarrow> pret v)))"

definition p_from_failure :: "('u core \<Rightarrow> failure_converter) \<Rightarrow> ('u core \<Rightarrow> payload_converter) \<Rightarrow>
    failure \<Rightarrow> ('u, exn) wm" where
  "p_from_failure fc pc f = pbind (pget (\<lambda>s. from_failure (fc s) f (pc s))) plift"

definition apply_resolve_activity :: "nat \<Rightarrow> activity_resolution \<Rightarrow> ('u, unit) wm" where
  "apply_resolve_activity seq result = pbind (pget (\<lambda>s. w_pending_activities s seq)) (\<lambda>p.
     pthen (pmod (\<lambda>s. s\<lparr>w_pending_activities := (w_pending_activities s)(seq := None)\<rparr>))
     (case p of
        None \<Rightarrow> praise (runtime_error (''Failed finding activity handle for sequence '' @ str_of_nat seq))
      | Some t \<Rightarrow> with_activity t (\<lambda>h.
          let pc = (\<lambda>s. payload_converter_with_context s (activity_context s (ah_input h)));
              fc = (\<lambda>s. failure_converter_with_context s (activity_context s (ah_input h)))
          in case result of
              ActCompleted r \<Rightarrow> pbind (p_convert_result r (ai_ret_type (ah_input h)) pc) (activity_resolve_success t)
            | ActFailed f \<Rightarrow> pbind (p_from_failure fc pc f) (activity_resolve_failure t)
            | ActCancelled f \<Rightarrow> pbind (p_from_failure fc pc f) (activity_resolve_failure t)
            | ActBackoff b \<Rightarrow> activity_resolve_backoff t b
            | ActNoResult \<Rightarrow> praise (runtime_error ''Activity did not have result''))))"

text \<open>The converters that a child workflow handle keeps.\<close>

definition child_pc :: "child_handle \<Rightarrow> 'u core \<Rightarrow> payload_converter" where
  "child_pc h s = payload_converter_with_context s (workflow_context s (ch_id (cw_input h)))"

definition child_fc :: "child_handle \<Rightarrow> 'u core \<Rightarrow> failure_converter" where
  "child_fc h s = failure_converter_with_context s (workflow_context s (ch_id (cw_input h)))"

definition child_not_found :: "nat \<Rightarrow> exn" where
  "child_not_found seq = runtime_error (''Failed finding child workflow handle for sequence '' @ str_of_nat seq)"

definition apply_resolve_child_workflow_execution :: "nat \<Rightarrow> child_resolution \<Rightarrow> ('u, unit) wm" where
  "apply_resolve_child_workflow_execution seq result =
     pbind (pget (\<lambda>s. w_pending_child_workflows s seq)) (\<lambda>p.
     pthen (pmod (\<lambda>s. s\<lparr>w_pending_child_workflows := (w_pending_child_workflows s)(seq := None)\<rparr>))
     (case p of
        None \<Rightarrow> praise (child_not_found seq)
      | Some t \<Rightarrow> with_child t (\<lambda>h. case result of
            ChildCompleted r \<Rightarrow> pbind (p_convert_result r (ch_ret_type (cw_input h)) (child_pc h)) (child_resolve_success t)
          | ChildFailed f \<Rightarrow> pbind (p_from_failure (child_fc h) (child_pc h) f) (child_resolve_failure t)
          | ChildCancelled f \<Rightarrow> pbind (p_from_failure (child_fc h) (child_pc h) f) (child_resolve_failure t)
          | ChildNoResult \<Rightarrow> praise (runtime_error ''Child workflow did not have result''))))"

text \<open>The flag of \<open>ChildStartFailed\<close> says that the cause is that the workflow already exists; the
  strings are the workflow's identifier and type.\<close>

definition apply_resolve_child_workflow_execution_start ::
    "nat \<Rightarrow> child_start_resolution \<Rightarrow> ('u, unit) wm" where
  "apply_resolve_child_workflow_execution_start seq result =
     (let pop = pmod (\<lambda>s. s\<lparr>w_pending_child_workflows := (w_pending_child_workflows s)(seq := None)\<rparr>)
      in pbind (pget (\<lambda>s. w_pending_child_workflows s seq)) (\<lambda>p. case p of
        None \<Rightarrow> praise (child_not_found seq)
      | Some t \<Rightarrow> (case result of
            ChildStartSucceeded run_id \<Rightarrow> child_resolve_start_success t run_id
          | ChildStartFailed already_exists wid wty \<Rightarrow> pthen pop (child_resolve_failure t
              (if already_exists then workflow_already_started_error wid wty
               else runtime_error ''Unknown child start fail cause''))
          | ChildStartCancelled f \<Rightarrow> pthen pop (with_child t (\<lambda>h.
              pbind (p_from_failure (child_fc h) (child_pc h) f) (child_resolve_failure t)))
          | ChildStartNoStatus \<Rightarrow> praise (runtime_error ''Child workflow start did not have a known status''))))"

text \<open>A Nexus handle keeps the failure converter without a context.\<close>

definition nexus_fc :: "'u core \<Rightarrow> failure_converter" where
  "nexus_fc s = d_failure_converter (w_det s)"

definition apply_resolve_nexus_operation_start :: "nat \<Rightarrow> nexus_start_resolution \<Rightarrow> ('u, unit) wm" where
  "apply_resolve_nexus_operation_start seq result =
     pbind (pget (\<lambda>s. w_pending_nexus_operations s seq)) (\<lambda>p. case p of
        None \<Rightarrow> praise (runtime_error
          (''Failed to find nexus operation handle for job sequence number '' @ str_of_nat seq))
      | Some t \<Rightarrow> (case result of
            NexusStartToken token \<Rightarrow> nexus_resolve_start_success t (Some token)
          | NexusStartedSync \<Rightarrow> nexus_resolve_start_success t None
          | NexusStartFailed f \<Rightarrow>
             pthen (pmod (\<lambda>s. s\<lparr>w_pending_nexus_operations := (w_pending_nexus_operations s)(seq := None)\<rparr>))
               (with_nexus t (\<lambda>h. pbind (p_from_failure nexus_fc (\<lambda>s. nexus_payload_converter s (nh_input h)) f)
                 (nexus_resolve_failure t)))
          | NexusStartNoStatus \<Rightarrow> praise (exn_of_error (ValueError ''Unknown Nexus operation start status''))))"

text \<open>The converter for the result of an operation of the system endpoint.\<close>

definition nexus_result_converter :: "start_nexus_input \<Rightarrow> 'u core \<Rightarrow> payload_converter" where
  "nexus_result_converter inp s =
    (if is_system_endpoint (nx_endpoint inp) then
       (case d_system_serialization_context (w_det s) (nx_service inp)
               (case nexus_operation_name inp of Inl _ \<Rightarrow> [] | Inr n \<Rightarrow> n) (nx_input inp) of
          None \<Rightarrow> nexus_payload_converter s inp
        | Some ctx \<Rightarrow> d_system_payload_converter (w_det s) (payload_converter_with_context s ctx)
            (failure_converter_with_context s ctx))
     else nexus_payload_converter s inp)"

definition apply_resolve_nexus_operation :: "nat \<Rightarrow> nexus_resolution \<Rightarrow> ('u, unit) wm" where
  "apply_resolve_nexus_operation seq result = pbind (pget (\<lambda>s. w_pending_nexus_operations s seq)) (\<lambda>p.
     pthen (pmod (\<lambda>s. s\<lparr>w_pending_nexus_operations := (w_pending_nexus_operations s)(seq := None)\<rparr>))
     (case p of
        None \<Rightarrow> pret ()
      | Some t \<Rightarrow> with_nexus t (\<lambda>h.
          let fail = (\<lambda>f. pbind (p_from_failure nexus_fc (\<lambda>s. nexus_payload_converter s (nh_input h)) f)
                (nexus_resolve_failure t))
          in case result of
              NexusCompleted pl \<Rightarrow>
                pbind (pget (\<lambda>s. convert_payloads s [pl] (map_option (\<lambda>ty. [ty]) (nx_output_type (nh_input h)))
                   (nexus_result_converter (nh_input h) s))) (\<lambda>r.
                pbind (plift r) (\<lambda>vs. case vs of
                  [v] \<Rightarrow> nexus_resolve_success t v
                | _ \<Rightarrow> praise (exn_of_error (ValueError ''wrong number of values to unpack''))))
            | NexusFailed f \<Rightarrow> fail f
            | NexusCancelled f \<Rightarrow> fail f
            | NexusTimedOut f \<Rightarrow> fail f
            | NexusNoResult \<Rightarrow> praise (runtime_error ''Nexus operation did not have a result''))))"

text \<open>The common part of resolving an external cancel or signal: the future either fails with the
  converted failure or gets an empty result.\<close>

definition resolve_external :: "nat \<times> string \<Rightarrow> failure option \<Rightarrow> ('u, unit) wm" where
  "resolve_external pending failure = (case failure of
     None \<Rightarrow> fut_set_result (fst pending) PNone
   | Some f \<Rightarrow> pbind (p_from_failure
        (\<lambda>s. failure_converter_with_context s (workflow_context s (snd pending)))
        (\<lambda>s. payload_converter_with_context s (workflow_context s (snd pending))) f)
      (fut_set_exception (fst pending)))"

definition apply_resolve_request_cancel_external_workflow :: "nat \<Rightarrow> failure option \<Rightarrow> ('u, unit) wm" where
  "apply_resolve_request_cancel_external_workflow seq failure =
     pbind (pget (\<lambda>s. w_pending_external_cancels s seq)) (\<lambda>p.
     pthen (pmod (\<lambda>s. s\<lparr>w_pending_external_cancels := (w_pending_external_cancels s)(seq := None)\<rparr>))
     (case p of
        None \<Rightarrow> praise (runtime_error (''Failed finding pending external cancel for sequence '' @ str_of_nat seq))
      | Some pending \<Rightarrow> resolve_external pending failure))"

definition apply_resolve_signal_external_workflow :: "nat \<Rightarrow> failure option \<Rightarrow> ('u, unit) wm" where
  "apply_resolve_signal_external_workflow seq failure =
     pbind (pget (\<lambda>s. w_pending_external_signals s seq)) (\<lambda>p.
     pthen (pmod (\<lambda>s. s\<lparr>w_pending_external_signals := (w_pending_external_signals s)(seq := None)\<rparr>))
     (case p of
        None \<Rightarrow> praise (runtime_error (''Failed finding pending external signal for sequence '' @ str_of_nat seq))
      | Some pending \<Rightarrow> resolve_external pending failure))"

definition apply_signal_workflow :: "signal_job \<Rightarrow> ('u, unit) wm" where
  "apply_signal_workflow job = pbind (pget (\<lambda>s. handler_for (w_signals s) (sj_signal_name job))) (\<lambda>d.
     case d of
       None \<Rightarrow> pmod (\<lambda>s. s\<lparr>w_buffered_signals := dset (sj_signal_name job)
          ((case dget (w_buffered_signals s) (sj_signal_name job) of None \<Rightarrow> [] | Some js \<Rightarrow> js) @ [job])
          (w_buffered_signals s)\<rparr>)
     | Some defn \<Rightarrow> process_signal_job defn job)"

definition apply_initialize_workflow :: "('u, unit) wm" where
  "apply_initialize_workflow = pbind (pget w_workflow_input) (\<lambda>inp. case inp of
     None \<Rightarrow> praise (runtime_error ''Expected workflow input to be set. This is an SDK Python bug.'')
   | Some i \<Rightarrow> pbind (create_task (StartProc (P_run_top_level (P_run_workflow i)))) (\<lambda>t.
       pthen (pmod (\<lambda>s. s\<lparr>w_primary_task := Some t\<rparr>))
       (pbind (pget w_cancel_primary_task_pending) (\<lambda>pending.
        pwhen pending (pthen (pmod (\<lambda>s. s\<lparr>w_cancel_primary_task_pending := False\<rparr>))
          (call_soon (HTaskCancel t)))))))"

text \<open>A callback's exception is ignored when it is an \<^verbatim>\<open>Exception\<close>.\<close>

definition apply_update_random_seed :: "int \<Rightarrow> ('u, unit) wm" where
  "apply_update_random_seed seed = pthen (pmod (\<lambda>s. s\<lparr>w_current_seed := seed\<rparr>))
     (pbind (pget w_seed_callbacks) (\<lambda>cbs. pfor cbs (\<lambda>cb. \<lambda>s.
       case cb seed (w_object s) of (r, u) \<Rightarrow>
         (case r of None \<Rightarrow> (Inr (), s\<lparr>w_object := u\<rparr>)
          | Some e \<Rightarrow> (if isinstance e C_Exception then (Inr (), s\<lparr>w_object := u\<rparr>)
                      else (Inl e, s\<lparr>w_object := u\<rparr>))))))"

definition make_workflow_input :: "'u core \<Rightarrow> payload list \<Rightarrow> headers \<Rightarrow> exn + execute_workflow_input" where
  "make_workflow_input s arguments hdrs =
    (let defn = d_defn (w_det s); dynamic = (\<not> str_truthy (wd_name defn));
         arg_types = (if dynamic then Some (replicate (length arguments) TRawValue) else wd_arg_types defn)
     in case convert_payloads s arguments arg_types (wf_payload_converter s) of
          Inl e \<Rightarrow> Inl e
        | Inr args \<Rightarrow> Inr \<lparr>ew_args = (if dynamic then [PList args] else args), ew_headers = hdrs\<rparr>)"

fun apply_job :: "wf_job \<Rightarrow> ('u, unit) wm" where
  "apply_job (J_CancelWorkflow reason) = apply_cancel_workflow reason"
| "apply_job (J_DoUpdate job) = apply_do_update job"
| "apply_job (J_FireTimer seq) = apply_fire_timer seq"
| "apply_job (J_QueryWorkflow job) = apply_query_workflow job"
| "apply_job (J_NotifyHasPatch pid) = apply_notify_has_patch pid"
| "apply_job J_RemoveFromCache = apply_remove_from_cache"
| "apply_job (J_ResolveActivity seq r) = apply_resolve_activity seq r"
| "apply_job (J_ResolveChild seq r) = apply_resolve_child_workflow_execution seq r"
| "apply_job (J_ResolveChildStart seq r) = apply_resolve_child_workflow_execution_start seq r"
| "apply_job (J_ResolveNexusStart seq r) = apply_resolve_nexus_operation_start seq r"
| "apply_job (J_ResolveNexus seq r) = apply_resolve_nexus_operation seq r"
| "apply_job (J_ResolveRequestCancelExternal seq f) = apply_resolve_request_cancel_external_workflow seq f"
| "apply_job (J_ResolveSignalExternal seq f) = apply_resolve_signal_external_workflow seq f"
| "apply_job (J_SignalWorkflow job) = apply_signal_workflow job"
| "apply_job (J_InitializeWorkflow _ _) = apply_initialize_workflow"
| "apply_job (J_UpdateRandomSeed seed) = apply_update_random_seed seed"
| "apply_job J_Unrecognized = praise (runtime_error ''Unrecognized job'')"

end
