(* ===== verification/Wf_Run.thy ===== *)
theory Wf_Run
  imports Wf_Jobs
begin

section \<open>The event loop and activations\<close>

text \<open>
  The machine that runs tasks.  A task's coroutine stack is a list of frames: continuations of SDK
  coroutines (\<open>FSdk\<close>) and of workflow code (\<open>FUser\<close>, with a flag that says whether
  it may await).  \<open>coro_step\<close> is one step of the topmost frame, \<open>coro_run\<close> iterates
  it.  On top of it are \<^verbatim>\<open>Task.__step\<close>, the handles of the ready queue, \<^verbatim>\<open>_run_once\<close> and
  \<^verbatim>\<open>activate\<close>.

  Workflow code can loop forever, so the iterations take fuel.  Running out of it is the outcome
  \<open>OutOfFuel\<close>, which no exception handler of the model sees.
\<close>

datatype 'u frame = FSdk "exn + pyval \<Rightarrow> 'u coro" | FUser bool "exn + pyval \<Rightarrow> 'u ucode"

datatype 'u ctl = CSdk "'u coro" | CUser bool "'u ucode" | CRet "exn + pyval"

datatype 'u susp = OnFut nat "'u frame list" | OnYield "'u frame list"

datatype 'u step_out =
    Running "'u ctl" "'u frame list"
  | Blocked nat "'u frame list"
  | Yielded "'u frame list"
  | Finished "exn + pyval"

definition sync_await_error :: exn where
  "sync_await_error = new_exn C_SyntaxError ''await outside async function'' D_None"

text \<open>Running a synchronous computation from workflow code.\<close>

definition user_do :: "bool \<Rightarrow> ('u, pyval) wm \<Rightarrow> (exn + pyval \<Rightarrow> 'u ucode) \<Rightarrow> 'u frame list \<Rightarrow>
    'u core \<Rightarrow> 'u step_out \<times> 'u core" where
  "user_do b m k fs s = (case m s of (r, s') \<Rightarrow> (Running (CUser b (k r)) fs, s'))"

fun user_step :: "bool \<Rightarrow> 'u ucode \<Rightarrow> 'u frame list \<Rightarrow> 'u core \<Rightarrow> 'u step_out \<times> 'u core" where
  "user_step b c fs s = (case c of
     URet v \<Rightarrow> (Running (CRet (Inr v)) fs, s)
   | URaise e \<Rightarrow> (Running (CRet (Inl e)) fs, s)
   | UObj f \<Rightarrow> (case f (w_object s) of (u, c') \<Rightarrow> (Running (CUser b c') fs, s\<lparr>w_object := u\<rparr>))
   | UApi a k \<Rightarrow> user_do b (exec_api a) k fs s
   | UAwait aw k \<Rightarrow>
      (if \<not> b then (Running (CUser b (k (Inl sync_await_error))) fs, s)
       else case await_proc aw of
           Inl f \<Rightarrow> (if fut_done s f then (Running (CUser b (k (fut_result s f))) fs, s)
                     else (Blocked f (FUser b k # fs), s))
         | Inr p \<Rightarrow> (Running (CSdk (sdk_body p)) (FUser b k # fs), s))
   | USpawn c' k \<Rightarrow> user_do b (pbind (create_task (StartUser c')) (\<lambda>t. pret (PRef t))) k fs s
   | USetSignalHandler n h k \<Rightarrow> user_do b (as_unit (workflow_set_signal_handler n h)) k fs s
   | USetQueryHandler n h k \<Rightarrow> user_do b (as_unit (workflow_set_query_handler n h)) k fs s
   | USetUpdateHandler n h v k \<Rightarrow> user_do b (as_unit (workflow_set_update_handler n h v)) k fs s)"

fun coro_step :: "'u ctl \<Rightarrow> 'u frame list \<Rightarrow> 'u core \<Rightarrow> 'u step_out \<times> 'u core" where
  "coro_step (CRet r) [] s = (Finished r, s)"
| "coro_step (CRet r) (FSdk k # fs) s = (Running (CSdk (k r)) fs, s)"
| "coro_step (CRet r) (FUser b k # fs) s = (Running (CUser b (k r)) fs, s)"
| "coro_step (CSdk (SRet v)) fs s = (Running (CRet (Inr v)) fs, s)"
| "coro_step (CSdk (SRaise e)) fs s = (Running (CRet (Inl e)) fs, s)"
| "coro_step (CSdk (SDo f)) fs s = (case f s of (c, s') \<Rightarrow> (Running (CSdk c) fs, s'))"
| "coro_step (CSdk (SAwait f k)) fs s =
    (if fut_done s f then (Running (CSdk (k (fut_result s f))) fs, s)
     else (Blocked f (FSdk k # fs), s))"
| "coro_step (CSdk (SYield k)) fs s = (Yielded (FSdk k # fs), s)"
| "coro_step (CSdk (SCall p k)) fs s = (Running (CSdk (sdk_body p)) (FSdk k # fs), s)"
| "coro_step (CSdk (SUser b c k)) fs s = (Running (CUser b c) (FSdk k # fs), s)"
| "coro_step (CUser b c) fs s = user_step b c fs s"

fun coro_run :: "nat \<Rightarrow> 'u ctl \<Rightarrow> 'u frame list \<Rightarrow> 'u core \<Rightarrow> 'u step_out \<times> 'u core" where
  "coro_run 0 c fs s = (Running c fs, s)"
| "coro_run (Suc n) c fs s = (case coro_step c fs s of
     (Running c' fs', s') \<Rightarrow> coro_run n c' fs' s'
   | (r, s') \<Rightarrow> (r, s'))"

subsection \<open>The machine state\<close>

record 'u machine =
  m_core :: "'u core"
  m_stacks :: "nat \<rightharpoonup> 'u susp"

datatype mexn = Raised exn | OutOfFuel

type_synonym ('u, 'a) mm = "('u machine, mexn, 'a) pm"

definition lift_core :: "('u, 'a) wm \<Rightarrow> ('u, 'a) mm" where
  "lift_core m = (\<lambda>M. case m (m_core M) of (r, s) \<Rightarrow> (map_sum Raised id r, M\<lparr>m_core := s\<rparr>))"

definition set_stack :: "nat \<Rightarrow> 'u susp option \<Rightarrow> ('u, unit) mm" where
  "set_stack t x = pmod (\<lambda>M. M\<lparr>m_stacks := (m_stacks M)(t := x)\<rparr>)"

definition m_coro_run :: "nat \<Rightarrow> 'u ctl \<Rightarrow> 'u frame list \<Rightarrow> ('u, 'u step_out) mm" where
  "m_coro_run n c fs = (\<lambda>M. case coro_run n c fs (m_core M) of (r, s) \<Rightarrow> (Inr r, M\<lparr>m_core := s\<rparr>))"

subsection \<open>Task steps\<close>

definition start_ctl :: "'u start_code \<Rightarrow> 'u ctl" where
  "start_ctl c = (case c of StartUser u \<Rightarrow> CUser True u | StartProc p \<Rightarrow> CSdk (sdk_body p))"

text \<open>Where a step resumes: an exception is thrown in, which ends a coroutine that has not started.\<close>

definition resume_point :: "'u core \<Rightarrow> 'u susp option \<Rightarrow> 'u start_code \<Rightarrow> exn option \<Rightarrow> 'u ctl \<times> 'u frame list" where
  "resume_point s su code exc = (case su of
     None \<Rightarrow> (case exc of None \<Rightarrow> (start_ctl code, []) | Some e \<Rightarrow> (CRet (Inl e), []))
   | Some (OnFut f fs) \<Rightarrow> (CRet (case exc of None \<Rightarrow> fut_result s f | Some e \<Rightarrow> Inl e), fs)
   | Some (OnYield fs) \<Rightarrow> (CRet (case exc of None \<Rightarrow> Inr PNone | Some e \<Rightarrow> Inl e), fs))"

definition cancel_message_of :: "exn \<Rightarrow> pyval option" where
  "cancel_message_of e = (case e_data e of D_Cancel m \<Rightarrow> m | _ \<Rightarrow> None)"

text \<open>\<^verbatim>\<open>Task.__step\<close> up to resuming the coroutine: a pending cancellation request replaces the
  exception unless that is a cancellation already.\<close>

definition begin_step :: "nat \<Rightarrow> exn option \<Rightarrow> ('u, exn option \<times> 'u start_code) wm" where
  "begin_step t exc = pbind (pget (\<lambda>s. (fut_done s t, a_taskinfo (w_aio s) t))) (\<lambda>(d, ti). case ti of
     None \<Rightarrow> praise (exn_of_error (AssertionError ''not a task''))
   | Some info \<Rightarrow>
      (if d then praise (exn_of_error (InvalidStateError ''__step(): already done''))
       else let exc' = (if t_must_cancel info \<and>
              \<not> (case exc of None \<Rightarrow> False | Some e \<Rightarrow> isinstance e C_AsyncCancelledError)
              then Some (async_cancelled (t_cancel_message info)) else exc)
         in pthen (upd_task t (\<lambda>ti. ti\<lparr>t_must_cancel := False, t_fut_waiter := None\<rparr>))
            (pthen (aio_mod (\<lambda>a. a\<lparr>a_cur_task := Some t\<rparr>)) (pret (exc', t_start info)))))"

text \<open>How a finished coroutine resolves its task.\<close>

definition finish_task :: "nat \<Rightarrow> exn + pyval \<Rightarrow> ('u, unit) wm" where
  "finish_task t r = (case r of
     Inr v \<Rightarrow> pbind (pget (\<lambda>s. a_taskinfo (w_aio s) t)) (\<lambda>ti.
       if (case ti of None \<Rightarrow> False | Some info \<Rightarrow> t_must_cancel info)
       then pthen (upd_task t (\<lambda>ti. ti\<lparr>t_must_cancel := False\<rparr>))
         (pthen (fut_cancel t (Option.bind ti t_cancel_message)) (pret ()))
       else fut_set_result t v)
   | Inl e \<Rightarrow>
      (if isinstance e C_AsyncCancelledError
       then pthen (fut_cancel t (cancel_message_of e)) (pret ())
       else pthen (fut_set_exception t e)
         (if isinstance e C_KeyboardInterrupt \<or> isinstance e C_SystemExit then praise e else pret ())))"

definition block_task :: "nat \<Rightarrow> nat \<Rightarrow> ('u, unit) wm" where
  "block_task t f = pthen (add_done_callback f (CbWakeup t))
     (pthen (upd_task t (\<lambda>ti. ti\<lparr>t_fut_waiter := Some f\<rparr>))
     (pbind (pget (\<lambda>s. a_taskinfo (w_aio s) t)) (\<lambda>ti. case ti of
        None \<Rightarrow> pret ()
      | Some info \<Rightarrow> pwhen (t_must_cancel info)
          (pbind (cancel f (t_cancel_message info)) (\<lambda>b.
            pwhen b (upd_task t (\<lambda>ti. ti\<lparr>t_must_cancel := False\<rparr>)))))))"

definition leave_task :: "('u, unit) wm" where
  "leave_task = aio_mod (\<lambda>a. a\<lparr>a_cur_task := None\<rparr>)"

definition task_step :: "nat \<Rightarrow> nat \<Rightarrow> exn option \<Rightarrow> ('u, unit) mm" where
  "task_step fuel t exc = pbind (lift_core (begin_step t exc)) (\<lambda>(exc', code).
     pbind (pget (\<lambda>M. resume_point (m_core M) (m_stacks M t) code exc')) (\<lambda>(c, fs).
     pbind (m_coro_run fuel c fs) (\<lambda>r.
     pfinally (case r of
        Running _ _ \<Rightarrow> praise OutOfFuel
      | Finished res \<Rightarrow> lift_core (finish_task t res)
      | Yielded fs' \<Rightarrow> pthen (set_stack t (Some (OnYield fs'))) (lift_core (call_soon (HStep t)))
      | Blocked f fs' \<Rightarrow>
         (if f = t then pthen (set_stack t (Some (OnYield fs')))
            (lift_core (call_soon (HThrow t (runtime_error ''Task cannot await on itself''))))
          else pthen (set_stack t (Some (OnFut f fs'))) (lift_core (block_task t f))))
      (\<lambda>M. M\<lparr>m_core := snd (leave_task (m_core M))\<rparr>))))"

subsection \<open>Handles\<close>

text \<open>Done-callbacks that are not task wake-ups.\<close>

fun run_callback :: "callback \<Rightarrow> nat \<Rightarrow> ('u, unit) wm" where
  "run_callback (CbRelease w) f = pbind (pget (\<lambda>s. fut_done s w)) (\<lambda>d.
     if d then pret () else fut_set_result w PNone)"
| "run_callback CbTasksRemove f = aio_mod (\<lambda>a. a\<lparr>a_tasks := remove1 f (a_tasks a)\<rparr>)"
| "run_callback (CbSignalDone sid) f =
     pmod (\<lambda>s. s\<lparr>w_in_progress_signals := dpop sid (w_in_progress_signals s)\<rparr>)"
| "run_callback (CbSleepCancel seq) f = pbind (pget (\<lambda>s. fut_cancelled s f)) (\<lambda>c.
     pwhen c (timer_cancel seq))"
| "run_callback (CbWakeup t) f = pret ()"

definition on_timeout :: "nat \<Rightarrow> ('u, unit) wm" where
  "on_timeout i = pbind (pget (\<lambda>s. a_timeouts (w_aio s) i)) (\<lambda>o_tm. case o_tm of
     None \<Rightarrow> pret ()
   | Some tm \<Rightarrow>
      (if tm_state tm \<noteq> TmEntered then praise (exn_of_error (AssertionError []))
       else pthen (cancel (tm_task tm) None)
         (set_timeout i (\<lambda>t. t\<lparr>tm_state := TmExpiring, tm_handler := None\<rparr>))))"

text \<open>\<^verbatim>\<open>_run_once\<close> calls \<^verbatim>\<open>_run()\<close> without asking whether the handle is cancelled; the callback of a
  cancelled handle is \<^verbatim>\<open>None\<close>, and calling it is a \<^verbatim>\<open>TypeError\<close>.\<close>

definition run_timer :: "nat \<Rightarrow> ('u, unit) wm" where
  "run_timer seq = pbind (pget (\<lambda>s. Option.bind (a_timers (w_aio s) seq) th_callback)) (\<lambda>cb. case cb of
     None \<Rightarrow> praise (exn_of_error (TypeError ''NoneType object is not callable''))
   | Some (TcSetResult f) \<Rightarrow> pbind (pget (\<lambda>s. fut_cancelled s f)) (\<lambda>c.
       if c then pret () else fut_set_result f PNone)
   | Some (TcSetResultIfPending f) \<Rightarrow> pbind (pget (\<lambda>s. fut_done s f)) (\<lambda>d.
       if d then pret () else fut_set_result f PNone)
   | Some (TcTimeout i) \<Rightarrow> on_timeout i)"

fun handle_body :: "nat \<Rightarrow> handle \<Rightarrow> ('u, unit) mm" where
  "handle_body fuel (HStep t) = task_step fuel t None"
| "handle_body fuel (HThrow t e) = task_step fuel t (Some e)"
| "handle_body fuel (HCallback (CbWakeup t) f) = pbind (pget (\<lambda>M. fut_result (m_core M) f)) (\<lambda>r.
     task_step fuel t (case r of Inl e \<Rightarrow> Some e | Inr _ \<Rightarrow> None))"
| "handle_body fuel (HCallback cb f) = lift_core (run_callback cb f)"
| "handle_body fuel (HTaskCancel t) = lift_core (pthen (cancel t None) (pret ()))"
| "handle_body fuel (HTimer seq) = lift_core (run_timer seq)"

text \<open>\<^verbatim>\<open>Handle._run\<close>: every exception but an exit request goes to the exception handler.\<close>

definition run_handle :: "nat \<Rightarrow> handle \<Rightarrow> ('u, unit) mm" where
  "run_handle fuel h = pcatch (handle_body fuel h) (\<lambda>e. case e of
     OutOfFuel \<Rightarrow> praise OutOfFuel
   | Raised x \<Rightarrow> (if isinstance x C_KeyboardInterrupt \<or> isinstance x C_SystemExit then praise (Raised x)
                  else lift_core (call_exception_handler x)))"

subsection \<open>Creating the workflow object\<close>

definition apply_dynamic_config :: "dynamic_config \<Rightarrow> ('u, unit) wm" where
  "apply_dynamic_config c =
     pthen (case dc_failure_exception_types c of None \<Rightarrow> pret ()
        | Some ts \<Rightarrow> pmod (\<lambda>s. s\<lparr>w_dynamic_failure_exception_types := Some ts\<rparr>))
     (pwhen (dc_versioning_behavior c \<noteq> VB_UNSPECIFIED)
        (pmod (\<lambda>s. s\<lparr>w_versioning_behavior := Some (dc_versioning_behavior c)\<rparr>)))"

text \<open>The part of \<^verbatim>\<open>_instantiate_workflow_object\<close> after the constructor.\<close>

definition configure_object :: "('u, unit) wm" where
  "configure_object = pbind (pget (\<lambda>s. d_defn (w_det s))) (\<lambda>defn.
     pthen (case wd_versioning_behavior defn of
        Some b \<Rightarrow> pwhen (b \<noteq> VB_UNSPECIFIED) (pmod (\<lambda>s. s\<lparr>w_versioning_behavior := Some b\<rparr>))
      | None \<Rightarrow> pret ())
     (case (wd_name defn, wd_dynamic_config_fn defn) of
        (None, Some f) \<Rightarrow> pbind (pcatch
            (pbind (pget w_object) (\<lambda>u. as_read_only False (plift (f u))))
            (\<lambda>err. if isinstance err C_Exception then pthen (set_activation_error err) (praise err) else praise err))
          (\<lambda>cfg. case cfg of None \<Rightarrow> pret () | Some c \<Rightarrow> apply_dynamic_config c)
      | _ \<Rightarrow> pret ()))"

definition instantiate_workflow_object :: "nat \<Rightarrow> ('u, unit) mm" where
  "instantiate_workflow_object fuel = pbind (pget (\<lambda>M. w_workflow_input (m_core M))) (\<lambda>inp. case inp of
     None \<Rightarrow> praise (Raised (runtime_error ''Expected workflow input. This is a Python SDK bug.''))
   | Some i \<Rightarrow>
     pbind (pget (\<lambda>M. d_defn (w_det (m_core M)))) (\<lambda>defn.
     pthen (lift_core (pmod (\<lambda>s. s\<lparr>w_object := wd_new defn\<rparr>)))
     (pbind (m_coro_run fuel (CUser False (wd_init defn (if wd_init_takes_args defn then ew_args i else []))) []) (\<lambda>r.
      case r of
        Finished (Inr _) \<Rightarrow> lift_core configure_object
      | Finished (Inl e) \<Rightarrow> praise (Raised e)
      | _ \<Rightarrow> praise OutOfFuel))))"

subsection \<open>One run of the loop\<close>

definition cond_view :: "'u core \<Rightarrow> rt_view" where
  "cond_view s = \<lparr>rv_time_ns = w_time_ns s, rv_all_handlers_finished = workflow_all_handlers_finished s,
     rv_future_done = fut_done s\<rparr>"

definition check_condition :: "'u cond \<Rightarrow> nat \<Rightarrow> ('u, bool) wm" where
  "check_condition fn fut = pbind (pget (\<lambda>s. fn (w_object s) (cond_view s))) (\<lambda>r.
     pbind (plift r) (\<lambda>b. if b then pthen (fut_set_result fut (PBool True)) (pret True) else pret False))"

text \<open>The list comprehension over the conditions, with its effects in order; its value is the list of
  conditions that stay.\<close>

fun remaining_conditions :: "('u cond \<times> nat) list \<Rightarrow> ('u, ('u cond \<times> nat) list) wm" where
  "remaining_conditions [] = pret []"
| "remaining_conditions ((fn, fut) # cs) = pbind (pget (\<lambda>s. fut_done s fut)) (\<lambda>d.
     if d then remaining_conditions cs
     else pbind (check_condition fn fut) (\<lambda>b.
       if b then remaining_conditions cs
       else pbind (remaining_conditions cs) (\<lambda>rest. pret ((fn, fut) # rest))))"

definition check_all_conditions :: "('u, unit) wm" where
  "check_all_conditions = pbind (pget w_conditions) (\<lambda>cs. pbind (remaining_conditions cs) (\<lambda>rest.
     pmod (\<lambda>s. s\<lparr>w_conditions := rest\<rparr>)))"

definition pop_ready :: "('u, handle option) mm" where
  "pop_ready = (\<lambda>M. case a_ready (w_aio (m_core M)) of
     [] \<Rightarrow> (Inr None, M)
   | h # hs \<Rightarrow> (Inr (Some h), M\<lparr>m_core := (m_core M)\<lparr>w_aio := (w_aio (m_core M))\<lparr>a_ready := hs\<rparr>\<rparr>\<rparr>))"

definition raise_activation_error :: "('u, unit) mm" where
  "raise_activation_error = pbind (pget (\<lambda>M. (w_current_activation_error (m_core M), w_deleting (m_core M))))
     (\<lambda>(err, deleting). case err of
        Some e \<Rightarrow> if deleting then pret () else praise (Raised e)
      | None \<Rightarrow> pret ())"

text \<open>The two nested loops: the inner one empties the ready queue, the outer one checks the
  conditions and starts again while something is ready.\<close>

fun loop_ready :: "nat \<Rightarrow> bool \<Rightarrow> ('u, unit) mm" where
  "loop_ready 0 check = praise OutOfFuel"
| "loop_ready (Suc n) check = pbind pop_ready (\<lambda>o_h. case o_h of
     Some h \<Rightarrow> pthen (run_handle n h) (pthen raise_activation_error (loop_ready n check))
   | None \<Rightarrow> pthen (if check then lift_core check_all_conditions else pret ())
       (pbind (pget (\<lambda>M. a_ready (w_aio (m_core M)))) (\<lambda>rs.
         if rs = [] then pret () else loop_ready n check)))"

definition run_once :: "nat \<Rightarrow> bool \<Rightarrow> ('u, unit) mm" where
  "run_once fuel check = pbind (pget (\<lambda>M. \<not> w_has_object (m_core M) \<and> \<not> w_deleting (m_core M))) (\<lambda>fresh.
     pthen (pwhen fresh (pthen (instantiate_workflow_object fuel)
        (lift_core (pmod (\<lambda>s. s\<lparr>w_has_object := True\<rparr>)))))
     (pbind (pget (\<lambda>M. a_ready (w_aio (m_core M)))) (\<lambda>rs.
       if rs = [] then pret () else loop_ready fuel check)))"

subsection \<open>Activations\<close>

record job_sets =
  js_patches :: "wf_job list"
  js_signals_updates :: "wf_job list"
  js_others :: "wf_job list"
  js_queries :: "wf_job list"
  js_start :: "(payload list \<times> headers) option"

definition empty_job_sets :: job_sets where
  "empty_job_sets = \<lparr>js_patches = [], js_signals_updates = [], js_others = [], js_queries = [], js_start = None\<rparr>"

definition add_job :: "job_sets \<Rightarrow> wf_job \<Rightarrow> job_sets" where
  "add_job js j = (case j of
     J_NotifyHasPatch _ \<Rightarrow> js\<lparr>js_patches := js_patches js @ [j]\<rparr>
   | J_SignalWorkflow _ \<Rightarrow> js\<lparr>js_signals_updates := js_signals_updates js @ [j]\<rparr>
   | J_DoUpdate _ \<Rightarrow> js\<lparr>js_signals_updates := js_signals_updates js @ [j]\<rparr>
   | J_QueryWorkflow _ \<Rightarrow> js\<lparr>js_queries := js_queries js @ [j]\<rparr>
   | J_InitializeWorkflow args hdrs \<Rightarrow>
      js\<lparr>js_others := js_others js @ [j], js_start := Some (args, hdrs)\<rparr>
   | _ \<Rightarrow> js\<lparr>js_others := js_others js @ [j]\<rparr>)"

definition split_jobs :: "wf_job list \<Rightarrow> job_sets" where
  "split_jobs jobs = foldl add_job empty_job_sets jobs"

datatype completion =
    Successful "wf_command list" "logic_flag list" "versioning_behavior option"
  | FailedTask failure

record activation_result =
  ar_completion :: completion
  ar_warnings :: "unfinished_warning list"

text \<open>The assignments before the \<^verbatim>\<open>try\<close>.\<close>

definition begin_activation :: "activation \<Rightarrow> ('u, unit) wm" where
  "begin_activation act = pthen (pmod (\<lambda>s. s\<lparr>w_commands := [], w_used_internal_flags := [],
       w_current_activation_error := None, w_deployment_version := ac_deployment_version act,
       w_history_length := ac_history_length act, w_history_size := ac_history_size_bytes act,
       w_continue_as_new_suggested := ac_continue_as_new_suggested act,
       w_target_version_changed := ac_target_version_changed act,
       w_time_ns := ac_timestamp_ns act, w_is_replaying := ac_is_replaying act,
       w_current_internal_flags := ac_available_internal_flags act\<rparr>))
     (pbind (workflow_logic_flag_enabled PROCESS_WORKFLOW_ACTIVATION_JOBS_AS_SINGLE_BATCH) (\<lambda>b.
       pmod (\<lambda>s. s\<lparr>w_single_batch_activation := b\<rparr>)))"

definition check_query_jobs :: "job_sets \<Rightarrow> ('u, unit) wm" where
  "check_query_jobs js =
    (if js_queries js = [] \<or> (js_patches js = [] \<and> js_signals_updates js = [] \<and> js_others js = [])
     then pret ()
     else praise (exn_of_error (AssertionError
       ''Query jobs must not share an activation with non-query jobs. This is an SDK Core bug.'')))"

definition set_start_input :: "job_sets \<Rightarrow> ('u, unit) wm" where
  "set_start_input js = (case js_start js of
     None \<Rightarrow> pret ()
   | Some (args, hdrs) \<Rightarrow> pbind (pget (\<lambda>s. make_workflow_input s args hdrs)) (\<lambda>r.
       pbind (plift r) (\<lambda>inp. pmod (\<lambda>s. s\<lparr>w_workflow_input := Some inp\<rparr>))))"

definition apply_all :: "wf_job list \<Rightarrow> ('u, unit) mm" where
  "apply_all jobs = lift_core (pfor jobs apply_job)"

text \<open>The legacy scheduling: one run of the loop after every set that is not empty.\<close>

definition run_job_set :: "nat \<Rightarrow> wf_job list \<times> bool \<Rightarrow> ('u, unit) mm" where
  "run_job_set fuel = (\<lambda>(jobs, check).
     if jobs = [] then pret () else pthen (apply_all jobs) (run_once fuel check))"

definition process_jobs :: "nat \<Rightarrow> job_sets \<Rightarrow> ('u, unit) mm" where
  "process_jobs fuel js = pbind (pget (\<lambda>M. w_single_batch_activation (m_core M))) (\<lambda>single.
     if single then
       let jobs = js_patches js @ js_signals_updates js @ js_others js @ js_queries js
       in pthen (apply_all jobs)
          (pwhen (jobs \<noteq> []) (run_once fuel (js_signals_updates js \<noteq> [] \<or> js_others js \<noteq> [])))
     else pfor [(js_patches js, False), (js_signals_updates js, True), (js_others js, True),
                (js_queries js, False)] (run_job_set fuel))"

definition activation_body :: "nat \<Rightarrow> activation \<Rightarrow> ('u, unit) mm" where
  "activation_body fuel act = (let js = split_jobs (ac_jobs act)
     in pthen (lift_core (check_query_jobs js))
        (pthen (lift_core (set_start_input js)) (process_jobs fuel js)))"

text \<open>The \<^verbatim>\<open>except Exception\<close> clause; its value is the activation error.\<close>

definition on_activation_exception :: "exn \<Rightarrow> ('u, exn option) wm" where
  "on_activation_exception err = pbind
     (pbind (pget (\<lambda>s. workflow_is_failure_exception s err)) (\<lambda>b.
       if b then pcatch (pthen (set_workflow_failure err) (pret None))
         (\<lambda>inner_err. if isinstance inner_err C_Exception then pret (Some inner_err) else praise inner_err)
       else pret (Some err)))
     (\<lambda>activation_err. pbind (pget w_deleting) (\<lambda>deleting. pret (if deleting then None else activation_err)))"

definition failed_completion :: "'u core \<Rightarrow> exn \<Rightarrow> exn + failure" where
  "failed_completion s err = (case to_failure (wf_failure_converter s) err (wf_payload_converter s) of
     Inr f \<Rightarrow> Inr f
   | Inl inner_err \<Rightarrow>
      (if isinstance inner_err C_Exception
       then Inr (Failure (''Failed converting activation exception: '' @ str_exn inner_err) [] None None
         (Some (ApplicationFailureInfo [] False None None 0)))
       else Inl inner_err))"

text \<open>What \<^verbatim>\<open>activate\<close> does after the \<^verbatim>\<open>try\<close> statement.  Setting the failure clears the successful
  part of the completion.\<close>

definition end_activation :: "exn option \<Rightarrow> ('u, activation_result) wm" where
  "end_activation activation_err = pbind (pget id) (\<lambda>s.
     if w_deleting s \<and> a_tasks (w_aio s) \<noteq> []
     then praise (runtime_error (''Eviction processed, but '' @ str_of_nat (length (a_tasks (w_aio s)))
       @ '' tasks remain. Stack traces below:'' @ d_stack_trace (w_det s) (a_tasks (w_aio s))))
     else case activation_err of
         Some err \<Rightarrow> pbind (plift (failed_completion s err)) (\<lambda>f.
           pret \<lparr>ar_completion = FailedTask f, ar_warnings = []\<rparr>)
       | None \<Rightarrow> pret \<lparr>ar_completion = Successful (w_commands s) (w_used_internal_flags s) (w_versioning_behavior s),
           ar_warnings = (if list_ex is_completion (w_commands s) then warn_if_unfinished_handlers s else [])\<rparr>)"

definition activate :: "nat \<Rightarrow> activation \<Rightarrow> ('u, activation_result) mm" where
  "activate fuel act = pthen (lift_core (begin_activation act))
     (pbind (pcatch (pthen (activation_body fuel act) (pret None)) (\<lambda>e. case e of
         OutOfFuel \<Rightarrow> praise OutOfFuel
       | Raised err \<Rightarrow> (if isinstance err C_Exception then lift_core (on_activation_exception err)
                        else praise (Raised err))))
      (\<lambda>activation_err. lift_core (end_activation activation_err)))"

subsection \<open>A new instance\<close>

definition builtin_query :: "string \<Rightarrow> 'u query_fn \<Rightarrow> 'u query_defn" where
  "builtin_query name fn = \<lparr>qd_name = Some name, qd_fn = fn, qd_description = None,
     qd_arg_types = Some [], qd_dynamic_vararg = False\<rparr>"

definition initial_queries :: "(string option, 'u query_defn) dict \<Rightarrow> (string option, 'u query_defn) dict" where
  "initial_queries qs =
     dset (Some ''__temporal_workflow_metadata'') (builtin_query ''__temporal_workflow_metadata'' QueryMetadata)
     (dset (Some ''__enhanced_stack_trace'') (builtin_query ''__enhanced_stack_trace'' QueryEnhancedStackTrace)
     (dset (Some ''__stack_trace'') (builtin_query ''__stack_trace'' QueryStackTrace) qs))"

definition initial_aio :: "'u aio" where
  "initial_aio = \<lparr>a_futs = Map.empty, a_taskinfo = Map.empty, a_cur_task = None,
     a_ready = [], a_timers = Map.empty, a_timeouts = Map.empty, a_tasks = [], a_reported = []\<rparr>"

definition initial_core :: "'u details \<Rightarrow> 'u core" where
  "initial_core det = \<lparr>w_det = det, w_info = d_info det, w_workflow_input = None, w_primary_task = None,
     w_cancel_primary_task_pending = False, w_time_ns = 0, w_cancel_reason = None,
     w_deployment_version = None, w_history_length = 0, w_history_size = 0,
     w_continue_as_new_suggested = False, w_target_version_changed = False, w_memo_cache = None,
     w_conditions = [], w_pending_timers = Map.empty, w_pending_activities = Map.empty,
     w_pending_child_workflows = Map.empty, w_pending_nexus_operations = Map.empty,
     w_pending_external_signals = Map.empty, w_pending_external_cancels = Map.empty,
     w_curr_seqs = Map.empty, w_object = wd_new (d_defn det), w_has_object = False,
     w_is_replaying = False, w_current_seed = d_randomness_seed det, w_seed_callbacks = [],
     w_read_only = False, w_in_query_or_validator = False, w_patches_notified = {},
     w_patches_memoized = Map.empty, w_signals = wd_signals (d_defn det),
     w_queries = initial_queries (wd_queries (d_defn det)), w_updates = wd_updates (d_defn det),
     w_handled_signals_seq = 0, w_in_progress_signals = [], w_in_progress_updates = [],
     w_buffered_signals = [], w_deleting = False, w_current_details = [],
     w_versioning_behavior = None, w_dynamic_failure_exception_types = None, w_commands = [],
     w_used_internal_flags = [], w_current_activation_error = None, w_current_internal_flags = [],
     w_single_batch_activation = False, w_activity_handles = Map.empty, w_child_handles = Map.empty,
     w_nexus_handles = Map.empty, w_next_id = 0, w_aio = initial_aio\<rparr>"

definition new_instance :: "'u details \<Rightarrow> 'u machine" where
  "new_instance det = \<lparr>m_core = initial_core det, m_stacks = Map.empty\<rparr>"

end
