(* ===== verification/Wf_Invariants.thy ===== *)
theory Wf_Invariants
  imports Wf_Run
begin

section \<open>Invariants of a workflow instance under arbitrary workflow code\<close>

text \<open>
  The interfaces between an invariant \<open>I\<close> of the instance and the code.
  \<^item> \<open>core_invariant\<close>: adding and filling in a command keep \<open>I\<close>, and \<open>I\<close> depends on
    nothing but the fields that \<open>same_view\<close> compares.
  \<^item> \<open>api_invariant\<close>: scheduling an activity keeps it as well.  Then every synchronous call of
    workflow code into the SDK keeps it.
  \<^item> \<open>wf_invariant\<close>: creating, resolving and forgetting an operation of the server, marking
    the instance as deleted and the read-only flags keep it.  Then every SDK coroutine, every job
    and every run of the event loop keeps it, whatever the workflow code does.
  \<open>wf_invariant\<close> gives \<open>api_invariant\<close>.  The interpretations are in the theory
  \<open>Wf_Safety\<close>.
\<close>

subsection \<open>What an invariant may depend on\<close>

definition same_view :: "'u core \<Rightarrow> 'u core \<Rightarrow> bool" where
  "same_view s s' \<longleftrightarrow>
     w_commands s = w_commands s' \<and> w_deleting s = w_deleting s' \<and> w_curr_seqs s = w_curr_seqs s' \<and>
     w_pending_timers s = w_pending_timers s' \<and> w_pending_activities s = w_pending_activities s' \<and>
     w_pending_child_workflows s = w_pending_child_workflows s' \<and>
     w_pending_nexus_operations s = w_pending_nexus_operations s' \<and>
     w_pending_external_signals s = w_pending_external_signals s' \<and>
     w_pending_external_cancels s = w_pending_external_cancels s' \<and>
     w_activity_handles s = w_activity_handles s' \<and> w_child_handles s = w_child_handles s' \<and>
     w_nexus_handles s = w_nexus_handles s' \<and> w_read_only s = w_read_only s' \<and>
     w_next_id s \<le> w_next_id s'"

text \<open>A coroutine whose synchronous steps all keep \<open>I\<close>, at whatever point it is resumed.\<close>

inductive coro_ok :: "('u core \<Rightarrow> bool) \<Rightarrow> 'u coro \<Rightarrow> bool" for I where
  ok_ret: "coro_ok I (SRet v)"
| ok_raise: "coro_ok I (SRaise e)"
| ok_do: "(\<And>s. I s \<Longrightarrow> I (snd (f s))) \<Longrightarrow> (\<And>s. coro_ok I (fst (f s))) \<Longrightarrow> coro_ok I (SDo f)"
| ok_await: "(\<And>r. coro_ok I (k r)) \<Longrightarrow> coro_ok I (SAwait x k)"
| ok_yield: "(\<And>r. coro_ok I (k r)) \<Longrightarrow> coro_ok I (SYield k)"
| ok_call: "(\<And>r. coro_ok I (k r)) \<Longrightarrow> coro_ok I (SCall p k)"
| ok_user: "(\<And>r. coro_ok I (k r)) \<Longrightarrow> coro_ok I (SUser b c k)"

inductive_cases coro_ok_doE: "coro_ok I (SDo f)"
inductive_cases coro_ok_awaitE: "coro_ok I (SAwait x k)"
inductive_cases coro_ok_yieldE: "coro_ok I (SYield k)"
inductive_cases coro_ok_callE: "coro_ok I (SCall p k)"
inductive_cases coro_ok_userE: "coro_ok I (SUser b c k)"

named_theorems cok \<open>rules for coroutines that keep an invariant\<close>

declare ok_ret [cok] ok_raise [cok] ok_await [cok] ok_yield [cok] ok_call [cok] ok_user [cok]

lemma cok_sdo [cok]: "preserves I m \<Longrightarrow> (\<And>r. coro_ok I (k r)) \<Longrightarrow> coro_ok I (sdo m k)"
  unfolding sdo_def by (rule ok_do) (auto simp: split_beta dest: preservesD)

lemma cok_sret [cok]: "coro_ok I (sret r)"
  by (simp add: sret_def ok_ret ok_raise split: sum.split)

lemma cok_sthen [cok]: "preserves I m \<Longrightarrow> (\<And>a. coro_ok I (k a)) \<Longrightarrow> coro_ok I (sthen m k)"
  unfolding sthen_def by (rule cok_sdo) (simp_all add: ok_raise split: sum.split)

lemma cok_sbind [cok]: "coro_ok I c \<Longrightarrow> (\<And>r. coro_ok I (k r)) \<Longrightarrow> coro_ok I (sbind c k)"
  by (induction rule: coro_ok.induct) (auto intro!: coro_ok.intros)

lemma cok_sfinally [cok]: "coro_ok I c \<Longrightarrow> preserves I m \<Longrightarrow> coro_ok I (sfinally c m)"
  unfolding sfinally_def by (intro cok)

lemma cok_scall [cok]: "coro_ok I (scall p)"
  unfolding scall_def by (intro cok)

lemma cok_sawait [cok]: "coro_ok I (sawait f)"
  unfolding sawait_def by (intro cok)

lemma cok_if [cok]: "(b \<Longrightarrow> coro_ok I c) \<Longrightarrow> (\<not> b \<Longrightarrow> coro_ok I d) \<Longrightarrow> coro_ok I (if b then c else d)"
  by simp

lemma cok_option [cok]: "coro_ok I c \<Longrightarrow> (\<And>x. coro_ok I (f x)) \<Longrightarrow>
    coro_ok I (case v of None \<Rightarrow> c | Some x \<Rightarrow> f x)"
  by (simp split: option.split)

lemma cok_prod [cok]: "(\<And>x y. coro_ok I (f x y)) \<Longrightarrow> coro_ok I (case v of (x, y) \<Rightarrow> f x y)"
  by (simp split: prod.split)

lemma cok_sum [cok]: "(\<And>x. coro_ok I (f x)) \<Longrightarrow> (\<And>y. coro_ok I (g y)) \<Longrightarrow>
    coro_ok I (case v of Inl x \<Rightarrow> f x | Inr y \<Rightarrow> g y)"
  by (simp split: sum.split)

lemma cok_let [cok]: "coro_ok I (f v) \<Longrightarrow> coro_ok I (let x = v in f x)"
  by simp

subsection \<open>Invariants of the machine\<close>

fun frame_ok :: "('u core \<Rightarrow> bool) \<Rightarrow> 'u frame \<Rightarrow> bool" where
  "frame_ok I (FSdk k) \<longleftrightarrow> (\<forall>r. coro_ok I (k r))"
| "frame_ok I (FUser b k) \<longleftrightarrow> True"

fun ctl_ok :: "('u core \<Rightarrow> bool) \<Rightarrow> 'u ctl \<Rightarrow> bool" where
  "ctl_ok I (CSdk c) \<longleftrightarrow> coro_ok I c"
| "ctl_ok I c \<longleftrightarrow> True"

fun out_ok :: "('u core \<Rightarrow> bool) \<Rightarrow> 'u step_out \<Rightarrow> bool" where
  "out_ok I (Running c fs) \<longleftrightarrow> ctl_ok I c \<and> list_all (frame_ok I) fs"
| "out_ok I (Blocked f fs) \<longleftrightarrow> list_all (frame_ok I) fs"
| "out_ok I (Yielded fs) \<longleftrightarrow> list_all (frame_ok I) fs"
| "out_ok I (Finished r) \<longleftrightarrow> True"

fun susp_ok :: "('u core \<Rightarrow> bool) \<Rightarrow> 'u susp \<Rightarrow> bool" where
  "susp_ok I (OnFut f fs) \<longleftrightarrow> list_all (frame_ok I) fs"
| "susp_ok I (OnYield fs) \<longleftrightarrow> list_all (frame_ok I) fs"

definition stacks_ok :: "('u core \<Rightarrow> bool) \<Rightarrow> 'u machine \<Rightarrow> bool" where
  "stacks_ok I M \<longleftrightarrow> (\<forall>t su. m_stacks M t = Some su \<longrightarrow> susp_ok I su)"

text \<open>The suspended coroutines keep \<open>I\<close> whether or not it holds now; the flag says whether it
  does.\<close>

definition machine_inv :: "bool \<Rightarrow> ('u core \<Rightarrow> bool) \<Rightarrow> 'u machine \<Rightarrow> bool" where
  "machine_inv q I M \<longleftrightarrow> (q \<longrightarrow> I (m_core M)) \<and> stacks_ok I M"

text \<open>The states an instance can be in between activations, for any sequence of activations.\<close>

inductive reachable :: "'u details \<Rightarrow> 'u machine \<Rightarrow> bool" for det where
  reach_new: "reachable det (new_instance det)"
| reach_step: "reachable det M \<Longrightarrow> reachable det (snd (activate n act M))"

lemma begin_activation_returns: "fst (begin_activation act s) = Inr ()"
  by (simp add: begin_activation_def pm_simps workflow_logic_flag_enabled_def split: if_split)

subsection \<open>The interfaces\<close>

locale core_invariant =
  fixes I :: "'u core \<Rightarrow> bool"
  assumes view: "same_view s s' \<Longrightarrow> I s \<Longrightarrow> I s'"
    and add_cmd: "preserves I add_command"
    and mod_cmd: "preserves I (modify_command i f)"
begin

declare add_cmd [pres] mod_cmd [pres]

lemma pmod_view: "(\<And>s. same_view s (f s)) \<Longrightarrow> preserves I (pmod f)"
  by (metis preserves_pmod view)

lemma fn_view: "(\<And>s. same_view s (snd (m s))) \<Longrightarrow> preserves I m"
  by (metis preservesI view)

lemma p_aio_mod [pres]: "preserves I (aio_mod f)"
  unfolding aio_mod_def by (rule pmod_view) (simp add: same_view_def)

lemma p_assert [pres]: "preserves I (assert_not_read_only a b)"
  by (rule fn_view) (simp add: assert_not_read_only_def same_view_def)

lemma p_as_read_only_lift [pres]: "preserves I (as_read_only b (plift r))"
  by (rule fn_view) (simp add: as_read_only_def enter_read_only_def pm_simps same_view_def)

lemma p_lift_err [pres]: "preserves I (lift_err r)"
  by (simp add: lift_err_def pres split: sum.split)

lemma p_commands [pres]:
  "preserves I (set_variant i v)" "preserves I (set_metadata i m)" "preserves I (modify_variant i g)"
  "preserves I (emit v)" "preserves I (modify_child i f1)" "preserves I (modify_can i f2)"
  "preserves I (put_indexed_field i k p)"
  by (auto simp: set_variant_def set_metadata_def modify_variant_def emit_def modify_child_def
      modify_can_def put_indexed_field_def intro!: pres)

lemma p_fresh_id [pres]: "preserves I fresh_id"
  by (rule fn_view) (simp add: fresh_id_def Let_def same_view_def)

lemma p_aio [pres]:
  "preserves I create_future" "preserves I (call_soon h)" "preserves I (set_fut_state x st)"
  "preserves I (upd_task x g)" "preserves I (schedule_callbacks x)" "preserves I (fut_finish x st)"
  "preserves I (fut_set_result x v)" "preserves I (fut_set_exception x e)"
  "preserves I (fut_cancel x msg)" "preserves I (add_done_callback x cb)"
  "preserves I (remove_done_callback x cb)" "preserves I (new_task code)"
  "preserves I (register_task x)" "preserves I (create_task code1)" "preserves I (task_uncancel x)"
  by (auto simp: create_future_def call_soon_def set_fut_state_def upd_task_def
      schedule_callbacks_def fut_finish_def fut_set_result_def fut_set_exception_def fut_cancel_def
      add_done_callback_def remove_done_callback_def new_task_def register_task_def create_task_def
      task_uncancel_def intro!: pres)

lemma p_activity_handle_cancel [pres]: "preserves I (activity_handle_cancel x)"
  unfolding activity_handle_cancel_def by (intro pres)

lemma p_cancel_obj [pres]: "preserves I (cancel_obj n x msg)"
  by (induction n arbitrary: x) (auto intro!: pres)

lemma p_cancel [pres]: "preserves I (cancel x msg)"
  unfolding cancel_def by (intro pres)

lemma p_conversions [pres]:
  "preserves I (p_to_payloads pc vs)" "preserves I (p_to_payload pc v)"
  "preserves I (p_to_payloads_first pc v)" "preserves I (p_args_payloads pc vs)"
  "preserves I (p_retry_policy rp)" "preserves I (p_summary pc i sm)" "preserves I (p_details pc i sm)"
  "preserves I (p_user_metadata sm)" "preserves I (p_result_payload v)"
  "preserves I (p_convert_result res ty pc)" "preserves I (p_from_failure fcv pc fl)"
  by (auto simp: p_to_payloads_def p_to_payload_def p_to_payloads_first_def p_args_payloads_def
      p_retry_policy_def p_summary_def p_details_def p_user_metadata_def p_result_payload_def
      p_convert_result_def p_from_failure_def intro!: pres split: list.splits)

lemma p_memo_payloads_ok [pres]: "preserves I (p_memo_payloads kvs)"
  by (induction kvs rule: p_memo_payloads.induct) (auto intro!: pres)

lemma p_encode_into [pres]:
  "(\<And>k p. preserves I (put k p)) \<Longrightarrow> preserves I (encode_search_attributes_into a put)"
  by (auto simp: encode_search_attributes_into_def intro!: pres split: search_attributes.split)

lemma p_with_handle [pres]:
  "(\<And>h. preserves I (g1 h)) \<Longrightarrow> preserves I (with_activity t g1)"
  "(\<And>h. preserves I (g2 h)) \<Longrightarrow> preserves I (with_child t g2)"
  "(\<And>h. preserves I (g3 h)) \<Longrightarrow> preserves I (with_nexus t g3)"
  by (auto simp: with_activity_def with_child_def with_nexus_def intro!: pres)

lemma p_command_builders [pres]:
  "preserves I (activity_apply_schedule_command t b)" "preserves I (child_apply_start_command t)"
  "preserves I (nexus_apply_schedule_command t)" "preserves I (continue_as_new_apply_command ci)"
  unfolding activity_apply_schedule_command_def child_apply_start_command_def
    nexus_apply_schedule_command_def continue_as_new_apply_command_def Let_def
  by (intro pres)+

lemma p_signal_job [pres]: "preserves I (process_signal_job defn job)"
  unfolding process_signal_job_def by (intro pres pmod_view; simp add: same_view_def)

lemma p_set_handlers [pres]:
  "preserves I (workflow_set_query_handler n qh)" "preserves I (workflow_set_signal_handler n sh)"
  "preserves I (workflow_set_update_handler n uh uv)"
  unfolding workflow_set_query_handler_def workflow_set_signal_handler_def
    workflow_set_update_handler_def Let_def
  by (intro pres pmod_view; simp add: same_view_def)+

lemma p_upd_info [pres]: "preserves I (upd_info f)"
  unfolding upd_info_def by (rule pmod_view) (simp add: same_view_def)

lemma p_memo [pres]:
  "preserves I workflow_memo" "preserves I (workflow_memo_value k d ty)" "preserves I (workflow_upsert_memo us)"
  unfolding workflow_memo_def workflow_memo_value_def workflow_upsert_memo_def
  by (intro pres pmod_view; simp add: same_view_def)+

lemma p_patch [pres]: "preserves I (workflow_patch pid b)"
  unfolding workflow_patch_def
  by (intro pres pmod_view; (simp add: same_view_def)?; auto split: pyval.split intro!: pres)

lemma p_search_attributes [pres]:
  "preserves I (upsert_typed i u)" "preserves I (upsert_untyped i k v)"
  "preserves I (workflow_upsert_search_attributes us)"
  unfolding upsert_typed_def upsert_untyped_def workflow_upsert_search_attributes_def Let_def
  by (intro pres)+

lemma p_other_calls [pres]:
  "preserves I (workflow_set_current_details det)" "preserves I (workflow_register_random_seed_callback scb)"
  "preserves I (workflow_continue_as_new wfr ci)" "preserves I (read rd)"
  "preserves I m \<Longrightarrow> preserves I (as_unit m)"
  unfolding workflow_set_current_details_def workflow_register_random_seed_callback_def
    workflow_continue_as_new_def read_def as_unit_def
  by (intro pres pmod_view; (simp add: same_view_def)?; auto split: callable_ref.split intro!: pres)+

lemma p_signal_commands [pres]:
  "preserves I (child_signal_command t sig arg args)"
  "preserves I (external_signal_command wid run sig arg args)"
  unfolding child_signal_command_def external_signal_command_def Let_def by (intro pres)+

end

locale api_invariant = core_invariant +
  assumes schedule: "preserves I (outbound_schedule_activity inp)"
begin

declare schedule [pres]

lemma p_start_activity [pres]:
  "preserves I (workflow_start_activity ref inp)" "preserves I (workflow_start_local_activity ref linp)"
  unfolding workflow_start_activity_def workflow_start_local_activity_def by (intro pres)+

lemma p_exec_api [pres]: "preserves I (exec_api a)"
  by (cases a) (auto intro!: pres)

end

text \<open>Workflow code that may not await never leaves the synchronous interface.\<close>

fun sync_ctl :: "'u ctl \<Rightarrow> bool" where
  "sync_ctl (CSdk c) \<longleftrightarrow> False"
| "sync_ctl (CUser b c) \<longleftrightarrow> \<not> b"
| "sync_ctl (CRet r) \<longleftrightarrow> True"

fun sync_out :: "'u step_out \<Rightarrow> bool" where
  "sync_out (Running c fs) \<longleftrightarrow> sync_ctl c \<and> fs = []"
| "sync_out (Finished r) \<longleftrightarrow> True"
| "sync_out (Blocked f fs) \<longleftrightarrow> False"
| "sync_out (Yielded fs) \<longleftrightarrow> False"

context api_invariant
begin

lemma sync_user_do:
  "preserves I m \<Longrightarrow> I s \<Longrightarrow> I (snd (user_do False m k [] s)) \<and> sync_out (fst (user_do False m k [] s))"
  using preservesD[of I m s] by (simp add: user_do_def split_beta)

lemma sync_user_step:
  assumes "I s"
  shows "I (snd (user_step False c [] s)) \<and> sync_out (fst (user_step False c [] s))"
proof (cases c)
  case (UObj f)
  have "I (s\<lparr>w_object := u\<rparr>)" for u
    using assms view[of s "s\<lparr>w_object := u\<rparr>"] by (simp add: same_view_def)
  with UObj show ?thesis
    by (simp add: split_beta)
qed (use assms in \<open>simp_all add: sync_user_do pres\<close>)

lemma sync_step:
  assumes "I s" "sync_ctl c"
  shows "I (snd (coro_step c [] s)) \<and> sync_out (fst (coro_step c [] s))"
  using assms sync_user_step by (cases c) (simp_all del: user_step.simps)

lemma sync_run:
  "I s \<Longrightarrow> sync_ctl c \<Longrightarrow> I (snd (coro_run n c [] s)) \<and> sync_out (fst (coro_run n c [] s))"
proof (induction n arbitrary: c s)
  case (Suc n)
  obtain r s1 where step: "coro_step c [] s = (r, s1)"
    by fastforce
  with sync_step[OF Suc.prems] have "I s1" "sync_out r"
    by simp_all
  with Suc.IH step show ?case
    by (cases r) simp_all
qed simp

end

locale wf_invariant = core_invariant +
  assumes read_only: "I s \<Longrightarrow> I (s\<lparr>w_read_only := ro, w_in_query_or_validator := iq\<rparr>)"
    and delete: "I s \<Longrightarrow> I (s\<lparr>w_deleting := True\<rparr>)"
    and timer_new: "preserves I (timer_impl d opts cb)"
    and timer_pop: "I s \<Longrightarrow> I (s\<lparr>w_pending_timers := (w_pending_timers s)(seq := None)\<rparr>)"
    and act_new: "preserves I (new_activity_handle inp)"
    and act_upd: "(\<And>h. ah_seq (fa h) = ah_seq h) \<Longrightarrow> preserves I (upd_activity_handle t fa)"
    and act_pending: "w_activity_handles s t = Some ah \<Longrightarrow> I s \<Longrightarrow>
      I (s\<lparr>w_pending_activities := (w_pending_activities s)(ah_seq ah \<mapsto> t)\<rparr>)"
    and act_resolve: "preserves I (apply_resolve_activity seq ar)"
    and child_new: "preserves I (pbind (next_seq ''child_workflow'') (\<lambda>seq. new_child_handle seq cinp))"
    and child_upd: "(\<And>h. cw_seq (fc h) = cw_seq h) \<Longrightarrow> preserves I (upd_child_handle t fc)"
    and child_pending: "w_child_handles s t = Some ch \<Longrightarrow> I s \<Longrightarrow>
      I (s\<lparr>w_pending_child_workflows := (w_pending_child_workflows s)(cw_seq ch \<mapsto> t)\<rparr>)"
    and child_pop: "I s \<Longrightarrow> I (s\<lparr>w_pending_child_workflows := (w_pending_child_workflows s)(seq := None)\<rparr>)"
    and nexus_new: "preserves I (pbind (next_seq ''nexus_operation'') (\<lambda>seq. new_nexus_handle seq ninp))"
    and nexus_pending: "w_nexus_handles s t = Some nh \<Longrightarrow> I s \<Longrightarrow>
      I (s\<lparr>w_pending_nexus_operations := (w_pending_nexus_operations s)(nh_seq nh \<mapsto> t)\<rparr>)"
    and nexus_pop: "I s \<Longrightarrow> I (s\<lparr>w_pending_nexus_operations := (w_pending_nexus_operations s)(seq := None)\<rparr>)"
    and signal_new: "preserves I (signal_external_pending i)"
    and signal_pop: "I s \<Longrightarrow> I (s\<lparr>w_pending_external_signals := (w_pending_external_signals s)(seq := None)\<rparr>)"
    and cancel_new: "preserves I (external_cancel_command wid run_id reason)"
    and cancel_pop: "I s \<Longrightarrow> I (s\<lparr>w_pending_external_cancels := (w_pending_external_cancels s)(seq := None)\<rparr>)"
    and cancel_op: "preserves I (apply_cancel spec err i)"
begin

declare timer_new [pres] act_new [pres] act_upd [pres]
  act_resolve [pres] child_upd [pres] signal_new [pres] cancel_new [pres] cancel_op [pres]

lemma p_read_only [pres]: "preserves I (enter_read_only b)" "preserves I (exit_read_only prev)"
  by (auto simp: preserves_def enter_read_only_def exit_read_only_def pm_simps intro: read_only)

lemma p_timers [pres]:
  "preserves I (call_later d cb)" "preserves I (call_at w cb)"
  "preserves I (call_exception_handler e)"
  by (auto simp: call_later_def call_at_def call_exception_handler_def intro!: pres)

lemma p_timer_pop [pres]:
  "preserves I (pmod (\<lambda>s. s\<lparr>w_pending_timers := (w_pending_timers s)(seq := None)\<rparr>))"
  by (rule preserves_pmod) (rule timer_pop)

lemma p_timer_cancel [pres]: "preserves I (timer_handle_cancelled seq)" "preserves I (timer_cancel seq)"
  by (auto simp: timer_handle_cancelled_def timer_cancel_def intro!: pres)

lemma p_pending:
  "preserves I (with_activity t (\<lambda>h. pmod (\<lambda>s. s\<lparr>w_pending_activities := (w_pending_activities s)(ah_seq h \<mapsto> t)\<rparr>)))"
  "preserves I (with_child t (\<lambda>h. pmod (\<lambda>s. s\<lparr>w_pending_child_workflows := (w_pending_child_workflows s)(cw_seq h \<mapsto> t)\<rparr>)))"
  "preserves I (with_nexus t (\<lambda>h. pmod (\<lambda>s. s\<lparr>w_pending_nexus_operations := (w_pending_nexus_operations s)(nh_seq h \<mapsto> t)\<rparr>)))"
  by (auto simp: preserves_def with_activity_def with_child_def with_nexus_def pm_simps
      intro: act_pending child_pending nexus_pending split: option.split)

lemma p_schedule_activity [pres]: "preserves I (outbound_schedule_activity inp)"
  unfolding outbound_schedule_activity_def by (intro pres p_pending)

end

sublocale wf_invariant \<subseteq> api_invariant I
  by unfold_locales (rule p_schedule_activity)

context wf_invariant
begin

lemma p_resolutions [pres]:
  "preserves I (activity_resolve_success t v)" "preserves I (activity_resolve_failure t e)"
  "preserves I (child_resolve_start_success t rid)" "preserves I (child_resolve_success t v)"
  "preserves I (resolve_start_or_result sf rf e)" "preserves I (child_resolve_failure t e)"
  "preserves I (nexus_resolve_start_success t tok)" "preserves I (nexus_resolve_success t v)"
  "preserves I (nexus_resolve_failure t e)"
  unfolding activity_resolve_success_def activity_resolve_failure_def child_resolve_start_success_def
    child_resolve_success_def resolve_start_or_result_def child_resolve_failure_def
    nexus_resolve_start_success_def nexus_resolve_success_def nexus_resolve_failure_def
  by (intro pres; simp)+

text \<open>Coroutines.\<close>

lemma p_coroutine_steps [pres]:
  "preserves I (set_timeout j g)" "preserves I (timeout_enter d)" "preserves I (timeout_exit j r)"
  "preserves I uncancel_current" "preserves I (on_operation_cancelled f spec flag rr err)"
  "preserves I (set_timer_options m)" "preserves I (set_update_info job)"
  "preserves I (set_activation_error err)" "preserves I (set_workflow_failure err)"
  "preserves I (on_top_level_exception err)" "preserves I (update_args ud job)"
  "preserves I (on_update_exception job past cmd err)" "preserves I (query_failed qjob err)"
  unfolding set_timeout_def timeout_enter_def timeout_exit_def uncancel_current_def
    on_operation_cancelled_def set_timer_options_def set_update_info_def set_activation_error_def
    set_workflow_failure_def on_top_level_exception_def update_args_def on_update_exception_def
    query_failed_def Let_def
  by (auto split: timeout_state.split exn_data.split sum.split simp: same_view_def
      intro!: pres pmod_view)+

lemma p_outbound [pres]: "preserves I (outbound_start_child cinp)" "preserves I (outbound_start_nexus ninp)"
  unfolding outbound_start_child_def outbound_start_nexus_def pbind_assoc[symmetric]
  by (intro pres p_pending child_new nexus_new)+

lemma c_asyncio [cok]:
  "coro_ok I (asyncio_wait f)" "coro_ok I (asyncio_sleep d)" "coro_ok I (asyncio_wait_for f dl)"
  "coro_ok I (shield_await f)" "coro_ok I (await_temporal_operation f spec flag rr)"
  unfolding asyncio_wait_def asyncio_sleep_def asyncio_wait_for_def shield_await_def
    await_temporal_operation_def
  by (intro cok pres)+

lemma c_operations [cok]:
  "coro_ok I (run_activity t)" "coro_ok I (run_child t)" "coro_ok I (operation_handle_fn t)"
  "coro_ok I (start_child_workflow ref cinp)" "coro_ok I (start_nexus_operation ninp)"
  "coro_ok I (signal_external_workflow i)" "coro_ok I (child_signal t sig arg args)"
  "coro_ok I (external_signal wid run sig arg args)" "coro_ok I (external_cancel wid run reason)"
  unfolding run_activity_def run_child_def operation_handle_fn_def start_child_workflow_def
    start_nexus_operation_def signal_external_workflow_def child_signal_def external_signal_def
    external_cancel_def
  by (auto split: exn_data.split intro!: cok pres p_pending)+

lemma c_waiting [cok]: "coro_ok I (workflow_sleep d sm)" "coro_ok I (workflow_wait_condition fn dl sm)"
  unfolding workflow_sleep_def workflow_wait_condition_def
  by (intro cok pres pmod_view; simp add: same_view_def)+

lemma c_handlers [cok]:
  "coro_ok I (run_top_level_workflow_function p)" "coro_ok I (run_workflow ew)"
  "coro_ok I (handle_signal hs)" "coro_ok I (update_validation job)"
  "coro_ok I (update_execution job args)" "coro_ok I (run_update job)"
  "coro_ok I (handle_query hq)" "coro_ok I (query_in_read_only qjob)" "coro_ok I (run_query qjob)"
  unfolding run_top_level_workflow_function_def run_workflow_def handle_signal_def
    update_validation_def update_execution_def run_update_def handle_query_def
    query_in_read_only_def run_query_def
  by (auto split: exn_data.split query_fn.split simp: same_view_def intro!: cok pres pmod_view)+

lemma c_sdk_body: "coro_ok I (sdk_body p)"
  by (cases p) (auto intro!: cok)

text \<open>Jobs.\<close>

lemma p_pops [pres]:
  "preserves I (pmod (\<lambda>s. s\<lparr>w_pending_child_workflows := (w_pending_child_workflows s)(seq := None)\<rparr>))"
  "preserves I (pmod (\<lambda>s. s\<lparr>w_pending_nexus_operations := (w_pending_nexus_operations s)(seq := None)\<rparr>))"
  "preserves I (pmod (\<lambda>s. s\<lparr>w_pending_external_signals := (w_pending_external_signals s)(seq := None)\<rparr>))"
  "preserves I (pmod (\<lambda>s. s\<lparr>w_pending_external_cancels := (w_pending_external_cancels s)(seq := None)\<rparr>))"
  by (auto intro!: preserves_pmod child_pop nexus_pop signal_pop cancel_pop)

lemma p_delete [pres]: "preserves I (pmod (\<lambda>s. s\<lparr>w_deleting := True, w_is_replaying := True\<rparr>))"
proof (rule preserves_pmod)
  fix s
  assume "I s"
  then have "I (s\<lparr>w_deleting := True\<rparr>)"
    by (rule delete)
  then show "I (s\<lparr>w_deleting := True, w_is_replaying := True\<rparr>)"
    by (rule view[rotated]) (simp add: same_view_def)
qed

lemma p_seed_callback: "preserves I (\<lambda>s. case cb seed (w_object s) of (r, u) \<Rightarrow>
    (case r of None \<Rightarrow> (Inr (), s\<lparr>w_object := u\<rparr>)
     | Some e \<Rightarrow> (if isinstance e C_Exception then (Inr (), s\<lparr>w_object := u\<rparr>) else (Inl e, s\<lparr>w_object := u\<rparr>))))"
  by (rule fn_view) (simp add: same_view_def split: prod.split option.split)

lemma p_resolve_external [pres]: "preserves I (resolve_external pd fl)"
  unfolding resolve_external_def by (intro pres)

lemma p_apply_job [pres]: "preserves I (apply_job j)"
  unfolding apply_cancel_workflow_def apply_do_update_def
  by (cases j) (auto simp: apply_cancel_workflow_def apply_do_update_def apply_fire_timer_def
      apply_query_workflow_def apply_notify_has_patch_def apply_remove_from_cache_def
      apply_resolve_child_workflow_execution_def apply_resolve_child_workflow_execution_start_def
      apply_resolve_nexus_operation_start_def apply_resolve_nexus_operation_def
      apply_resolve_request_cancel_external_workflow_def apply_resolve_signal_external_workflow_def
      apply_signal_workflow_def apply_initialize_workflow_def apply_update_random_seed_def Let_def
      same_view_def
      split: child_resolution.split child_start_resolution.split nexus_start_resolution.split
        nexus_resolution.split list.split intro!: pres pmod_view p_seed_callback)

text \<open>Steps of the machine.\<close>

lemma user_do_ok:
  "preserves I m \<Longrightarrow> q \<longrightarrow> I s \<Longrightarrow> list_all (frame_ok I) fs \<Longrightarrow>
     (q \<longrightarrow> I (snd (user_do b m k fs s))) \<and> out_ok I (fst (user_do b m k fs s))"
  using preservesD[of I m s] by (simp add: user_do_def split_beta)

lemma user_step_ok:
  assumes "q \<longrightarrow> I s" "list_all (frame_ok I) fs"
  shows "(q \<longrightarrow> I (snd (user_step b c fs s))) \<and> out_ok I (fst (user_step b c fs s))"
proof (cases c)
  case (UObj f)
  have "q \<longrightarrow> I (s\<lparr>w_object := u\<rparr>)" for u
    using assms(1) view[of s "s\<lparr>w_object := u\<rparr>"] by (simp add: same_view_def)
  with UObj assms show ?thesis
    by (simp add: split_beta)
next
  case (UAwait aw k)
  then show ?thesis
    using assms c_sdk_body by (simp split: sum.split)
qed (use assms in \<open>simp_all add: user_do_ok pres\<close>)

lemma coro_step_ok:
  assumes "q \<longrightarrow> I s" "ctl_ok I c" "list_all (frame_ok I) fs"
  shows "(q \<longrightarrow> I (snd (coro_step c fs s))) \<and> out_ok I (fst (coro_step c fs s))"
  using assms
  by (cases "(c, fs, s)" rule: coro_step.cases)
    (simp_all add: c_sdk_body user_step_ok split_beta del: user_step.simps;
     blast elim: coro_ok_doE coro_ok_awaitE coro_ok_yieldE coro_ok_callE coro_ok_userE)+

lemma coro_run_ok:
  "q \<longrightarrow> I s \<Longrightarrow> ctl_ok I c \<Longrightarrow> list_all (frame_ok I) fs \<Longrightarrow>
     (q \<longrightarrow> I (snd (coro_run n c fs s))) \<and> out_ok I (fst (coro_run n c fs s))"
proof (induction n arbitrary: c fs s)
  case (Suc n)
  obtain out1 s1 where step: "coro_step c fs s = (out1, s1)"
    by fastforce
  with coro_step_ok[OF Suc.prems] have "q \<longrightarrow> I s1" "out_ok I out1"
    by simp_all
  with Suc.IH step show ?case
    by (cases out1) simp_all
qed simp

lemma m_lift [pres]: "preserves I m \<Longrightarrow> preserves (machine_inv q I) (lift_core m)"
  by (auto simp: preserves_def lift_core_def machine_inv_def stacks_ok_def split_beta)

lemma lift_core_apply: "lift_core m M = (map_sum Raised id (fst (m (m_core M))), M\<lparr>m_core := snd (m (m_core M))\<rparr>)"
  by (simp add: lift_core_def split_beta)

lemma m_set_stack: "susp_ok I su \<Longrightarrow> preserves (machine_inv q I) (set_stack t (Some su))"
  by (auto simp: preserves_def set_stack_def pm_simps machine_inv_def stacks_ok_def)

lemma p_task [pres]:
  "preserves I (begin_step t exc)" "preserves I (finish_task t r)" "preserves I (block_task t f)"
  "preserves I leave_task"
  unfolding begin_step_def finish_task_def block_task_def leave_task_def Let_def
  by (intro pres)+

lemma resume_ok:
  assumes "machine_inv q I M" "resume_point (m_core M) (m_stacks M t) code exc = (c, fs)"
  shows "ctl_ok I c \<and> list_all (frame_ok I) fs"
proof (cases "m_stacks M t")
  case None
  then show ?thesis
    using assms c_sdk_body
    by (auto simp: resume_point_def start_ctl_def split: option.splits start_code.splits)
next
  case (Some su)
  then have "susp_ok I su"
    using assms by (simp add: machine_inv_def stacks_ok_def)
  with Some assms show ?thesis
    by (cases su) (auto simp: resume_point_def split: option.splits)
qed

text \<open>What a task does with the outcome of its coroutine.\<close>

lemma m_outcome:
  assumes "out_ok I r"
  shows "preserves (machine_inv q I) (case r of
        Running _ _ \<Rightarrow> praise OutOfFuel
      | Finished res \<Rightarrow> lift_core (finish_task t res)
      | Yielded fs' \<Rightarrow> pthen (set_stack t (Some (OnYield fs'))) (lift_core (call_soon (HStep t)))
      | Blocked f fs' \<Rightarrow>
         (if f = t then pthen (set_stack t (Some (OnYield fs')))
            (lift_core (call_soon (HThrow t (runtime_error ''Task cannot await on itself''))))
          else pthen (set_stack t (Some (OnFut f fs'))) (lift_core (block_task t f))))"
  using assms by (cases r) (auto intro!: pres m_set_stack)

lemma m_leave: "machine_inv q I M \<Longrightarrow> machine_inv q I (M\<lparr>m_core := snd (leave_task (m_core M))\<rparr>)"
  using preservesD[OF p_task(4)] by (simp add: machine_inv_def stacks_ok_def)

lemma m_run_then:
  assumes "\<And>r. out_ok I r \<Longrightarrow> preserves (machine_inv q I) (k r)"
    and "ctl_ok I c" "list_all (frame_ok I) fs"
  shows "preserves (machine_inv q I) (pbind (m_coro_run n c fs) k)"
proof
  fix M
  assume "machine_inv q I M"
  moreover obtain r s where run: "coro_run n c fs (m_core M) = (r, s)"
    by fastforce
  ultimately have "machine_inv q I (M\<lparr>m_core := s\<rparr>)" "out_ok I r"
    using coro_run_ok[of q "m_core M" c fs n] assms(2,3) by (auto simp: machine_inv_def stacks_ok_def)
  with assms(1) run show "machine_inv q I (snd (pbind (m_coro_run n c fs) k M))"
    by (auto simp: pbind_def m_coro_run_def preserves_def)
qed

lemma m_resume_then:
  assumes "\<And>c fs. ctl_ok I c \<Longrightarrow> list_all (frame_ok I) fs \<Longrightarrow> preserves (machine_inv q I) (k (c, fs))"
  shows "preserves (machine_inv q I) (pbind (pget (\<lambda>M. resume_point (m_core M) (m_stacks M t) code exc)) k)"
proof
  fix M
  assume M: "machine_inv q I M"
  obtain c fs where res: "resume_point (m_core M) (m_stacks M t) code exc = (c, fs)"
    by fastforce
  from assms resume_ok[OF M res] M
  show "machine_inv q I (snd (pbind (pget (\<lambda>M. resume_point (m_core M) (m_stacks M t) code exc)) k M))"
    by (auto simp: pbind_def pget_def res preserves_def)
qed

lemma m_task_step [pres]: "preserves (machine_inv q I) (task_step n t exc)"
  unfolding task_step_def
  by (rule preserves_pbind, intro pres, rule preserves_case_prod, rule m_resume_then)
    (auto intro!: m_run_then preserves_pfinally m_outcome m_leave)

lemma p_handles [pres]: "preserves I (run_callback cb f)" "preserves I (run_timer seq)"
proof -
  show "preserves I (run_callback cb f)"
    by (cases cb) (auto simp: same_view_def intro!: pres pmod_view)
  show "preserves I (run_timer seq)"
    unfolding run_timer_def on_timeout_def by (auto split: timer_callback.split intro!: pres)
qed

lemma m_run_handle [pres]: "preserves (machine_inv q I) (run_handle n h)"
proof -
  have "preserves (machine_inv q I) (handle_body n h)"
    by (cases "(n, h)" rule: handle_body.cases) (auto intro!: pres simp del: run_callback.simps)
  then show ?thesis
    unfolding run_handle_def by (auto split: mexn.split intro!: pres)
qed

lemma p_configure [pres]: "preserves I configure_object"
  unfolding configure_object_def apply_dynamic_config_def
  by (auto simp: same_view_def split: option.split intro!: pres pmod_view)

lemma m_instantiate [pres]: "preserves (machine_inv q I) (instantiate_workflow_object n)"
proof -
  have obj: "preserves I (pmod (\<lambda>s. s\<lparr>w_object := u\<rparr>))" for u
    by (rule pmod_view) (simp add: same_view_def)
  show ?thesis
    unfolding instantiate_workflow_object_def
    by (intro pres m_run_then obj) (auto split: step_out.split sum.split intro!: pres)
qed

lemma p_check_condition [pres]: "preserves I (check_condition fn f)"
  unfolding check_condition_def by (intro pres)

lemma p_remaining [pres]: "preserves I (remaining_conditions cs)"
  by (induction cs rule: remaining_conditions.induct) (auto intro!: pres)

lemma p_check_all [pres]: "preserves I check_all_conditions"
  unfolding check_all_conditions_def by (intro pres pmod_view) (simp add: same_view_def)

lemma m_pop_ready [pres]: "preserves (machine_inv q I) pop_ready"
proof -
  have "I (s\<lparr>w_aio := a\<rparr>)" if "I s" for s a
    using that by (rule view[rotated]) (simp add: same_view_def)
  then show ?thesis
    by (auto simp: preserves_def pop_ready_def machine_inv_def stacks_ok_def split: list.split)
qed

lemma m_raise_activation_error [pres]: "preserves (machine_inv q I) raise_activation_error"
  unfolding raise_activation_error_def by (intro pres)

lemma m_loop_ready [pres]: "preserves (machine_inv q I) (loop_ready n check)"
  by (induction n) (auto intro!: pres)

lemma m_run_once [pres]: "preserves (machine_inv q I) (run_once n check)"
proof -
  have "preserves I (pmod (\<lambda>s. s\<lparr>w_has_object := True\<rparr>))"
    by (rule pmod_view) (simp add: same_view_def)
  then show ?thesis
    unfolding run_once_def by (intro pres)
qed

lemma m_process_jobs [pres]: "preserves (machine_inv q I) (process_jobs n js)"
  unfolding process_jobs_def run_job_set_def apply_all_def Let_def by (intro pres)

lemma p_start_input [pres]: "preserves I (set_start_input js)"
  unfolding set_start_input_def by (intro pres pmod_view) (simp add: same_view_def)

lemma p_check_query_jobs [pres]: "preserves I (check_query_jobs js)"
  unfolding check_query_jobs_def by (intro pres)

lemma m_activation_body [pres]: "preserves (machine_inv q I) (activation_body n act)"
  unfolding activation_body_def Let_def by (intro pres)

lemma p_activation_end [pres]:
  "preserves I (on_activation_exception err)" "preserves I (end_activation oerr)"
  unfolding on_activation_exception_def end_activation_def by (intro pres)+

text \<open>An activation is its first assignments, which may reset the commands, and a rest that keeps
  every invariant.\<close>

lemma m_activate:
  assumes "q \<longrightarrow> I (snd (begin_activation act (m_core M)))" "stacks_ok I M"
  shows "machine_inv q I (snd (activate n act M))"
proof -
  have rest: "preserves (machine_inv q I)
     (pbind (pcatch (pthen (activation_body n act) (pret None)) (\<lambda>e. case e of
         OutOfFuel \<Rightarrow> praise OutOfFuel
       | Raised err \<Rightarrow> (if isinstance err C_Exception then lift_core (on_activation_exception err)
                        else praise (Raised err))))
      (\<lambda>activation_err. lift_core (end_activation activation_err)))"
    by (auto split: mexn.split intro!: pres)
  obtain s where b: "begin_activation act (m_core M) = (Inr (), s)"
    using begin_activation_returns[of act "m_core M"] by (metis prod.collapse)
  have "machine_inv q I (M\<lparr>m_core := s\<rparr>)"
    using assms b by (simp add: machine_inv_def stacks_ok_def)
  from preservesD[OF rest this] show ?thesis
    by (simp add: activate_def pthen_def[of "lift_core (begin_activation act)"]
        pbind_def[of "lift_core (begin_activation act)"] lift_core_apply b)
qed

lemma reachable_stacks: "reachable det M \<Longrightarrow> stacks_ok I M"
proof (induction rule: reachable.induct)
  case reach_new
  then show ?case
    by (simp add: stacks_ok_def new_instance_def)
next
  case (reach_step M n act)
  then show ?case
    using m_activate[of False act M n] by (simp add: machine_inv_def)
qed

lemma reachable_inv:
  assumes "reachable det M" "I (initial_core det)" "\<And>s act. I s \<Longrightarrow> I (snd (begin_activation act s))"
  shows "I (m_core M)"
  using assms(1)
proof (induction rule: reachable.induct)
  case reach_new
  with assms(2) show ?case
    by (simp add: new_instance_def)
next
  case (reach_step M n act)
  then show ?case
    using m_activate[of True act M n] assms(3) reachable_stacks[OF reach_step.hyps]
    by (simp add: machine_inv_def)
qed

end

end
