(* ===== verification/Wf_Example.thy ===== *)
theory Wf_Example
  imports Wf_Run
begin

section \<open>A concrete workflow\<close>

text \<open>
  Converters, a worker's details and activations that the witnesses of the properties run on.  The
  payload converter drops the value; the failure converter keeps the message.
\<close>

definition ex_payload_converter :: payload_converter where
  "ex_payload_converter = \<lparr>to_payload = (\<lambda>_. Inr empty_payload),
     to_payloads = (\<lambda>vs. Inr (map (\<lambda>_. empty_payload) vs)),
     from_payload = (\<lambda>_ _. Inr PNone), from_payloads = (\<lambda>ps _. Inr (map (\<lambda>_. PNone) ps))\<rparr>"

definition ex_failure_converter :: failure_converter where
  "ex_failure_converter = \<lparr>to_failure = (\<lambda>e _. Inr (Failure (str_exn e) [] None None None)),
     from_failure = (\<lambda>f _. Inr (application_error ''failed'' [] None False None 0))\<rparr>"

definition ex_info :: workflow_info where
  "ex_info = \<lparr>wi_namespace = ''ns'', wi_workflow_id = ''wid'', wi_run_id = ''run'',
     wi_workflow_type = ''type'', wi_task_queue = ''tq'', wi_parent = None, wi_continued_run_id = None,
     wi_raw_memo = [], wi_search_attributes = [], wi_typed_search_attributes = []\<rparr>"

definition ex_defn :: "(pyval list \<Rightarrow> unit ucode) \<Rightarrow> unit workflow_defn" where
  "ex_defn run = \<lparr>wd_name = Some ''type'', wd_new = (), wd_init = (\<lambda>_. URet PNone),
     wd_init_takes_args = False, wd_run_fn = run, wd_signals = [], wd_queries = [], wd_updates = [],
     wd_failure_exception_types = [], wd_arg_types = None, wd_versioning_behavior = None,
     wd_dynamic_config_fn = None\<rparr>"

definition ex_details :: "(pyval list \<Rightarrow> unit ucode) \<Rightarrow> unit details" where
  "ex_details run = \<lparr>d_payload_converter = ex_payload_converter, d_payload_with_context = None,
     d_failure_converter = ex_failure_converter, d_failure_with_context = None,
     d_defn = ex_defn run, d_info = ex_info, d_randomness_seed = 0,
     d_disable_eager_activity_execution = False, d_worker_level_failure_exception_types = [],
     d_patch_activation_callback = None, d_last_completion_result = [], d_last_failure = None,
     d_default_workflow_logic_flags = [], d_search_to_payload = (\<lambda>_. Inr empty_payload),
     d_assert_local_activity_valid = (\<lambda>_. None), d_system_payload_converter = (\<lambda>pc _. pc),
     d_system_serialization_context = (\<lambda>_ _ _. None), d_stack_trace = (\<lambda>_. [])\<rparr>"

definition ex_activation :: "wf_job list \<Rightarrow> activation" where
  "ex_activation jobs = \<lparr>ac_timestamp_ns = 0, ac_is_replaying = False, ac_history_length = 3,
     ac_history_size_bytes = 100, ac_continue_as_new_suggested = False, ac_target_version_changed = False,
     ac_deployment_version = None, ac_available_internal_flags = [], ac_jobs = jobs\<rparr>"


text \<open>The activation succeeded with commands that satisfy a predicate.\<close>

definition completes_with :: "(wf_command list \<Rightarrow> bool) \<Rightarrow> (mexn + activation_result) \<times> 'u machine \<Rightarrow> bool" where
  "completes_with P r = (case fst r of Inr ar \<Rightarrow> (case ar_completion ar of Successful cs _ _ \<Rightarrow> P cs | _ \<Rightarrow> False) | _ \<Rightarrow> False)"


text \<open>Running the model with the simplifier: the combinators on a given state, and the definitions that
  a run goes through.\<close>

lemma prun:
  "pret a s = (Inr a, s)" "praise e s = (Inl e, s)" "pget f s = (Inr (f s), s)" "pmod g s = (Inr (), g s)"
  "plift r s = (r, s)"
  "pbind m1 k s = (case m1 s of (Inl x, s') \<Rightarrow> (Inl x, s') | (Inr y, s') \<Rightarrow> k y s')"
  "pthen m2 n s = (case m2 s of (Inl x, s') \<Rightarrow> (Inl x, s') | (Inr y, s') \<Rightarrow> n s')"
  "pcatch m3 h s = (case m3 s of (Inl x, s') \<Rightarrow> h x s' | (Inr y, s') \<Rightarrow> (Inr y, s'))"
  "pfinally m4 fin s = (case m4 s of (r4, s') \<Rightarrow> (r4, fin s'))"
  "pwhen b m5 s = (if b then m5 s else (Inr (), s))"
  by (simp_all add: pm_simps)

lemma ex_details_sel:
  "d_payload_converter (ex_details run) = ex_payload_converter" "d_payload_with_context (ex_details run) = None"
  "d_failure_converter (ex_details run) = ex_failure_converter" "d_failure_with_context (ex_details run) = None"
  "d_defn (ex_details run) = ex_defn run" "d_info (ex_details run) = ex_info" "d_randomness_seed (ex_details run) = 0"
  "d_default_workflow_logic_flags (ex_details run) = []" "d_patch_activation_callback (ex_details run) = None"
  by (simp_all add: ex_details_def)

lemmas run_defs = prun Let_def eval_nat_numeral map_sum.simps
  activate_def begin_activation_def activation_body_def split_jobs_def add_job_def empty_job_sets_def
  check_query_jobs_def set_start_input_def process_jobs_def run_job_set_def apply_all_def run_once_def
  lift_core_def workflow_logic_flag_enabled_def end_activation_def make_workflow_input_def convert_payloads_def
  apply_initialize_workflow_def create_task_def new_task_def create_future_def fresh_id_def aio_mod_def
  call_soon_def assert_not_read_only_def register_task_def add_done_callback_def fut_done_def fut_state_def
  current_context_def instantiate_workflow_object_def m_coro_run_def configure_object_def
  pop_ready_def run_handle_def task_step_def begin_step_def upd_task_def resume_point_def start_ctl_def
  run_top_level_workflow_function_def run_workflow_def sthen_def sdo_def user_do_def sret_def
  finish_task_def fut_set_result_def fut_finish_def set_fut_state_def schedule_callbacks_def leave_task_def
  raise_activation_error_def check_all_conditions_def block_task_def set_stack_def
  workflow_sleep_def p_user_metadata_def timer_impl_def next_seq_def add_command_def set_variant_def
  modify_command_def empty_command_def str_truthy_def p_result_payload_def p_to_payloads_def emit_def
  wf_payload_converter_def payload_converter_with_context_def

lemmas ex_defs = ex_details_sel ex_defn_def ex_activation_def ex_info_def ex_payload_converter_def
  ex_failure_converter_def new_instance_def initial_core_def initial_aio_def

text \<open>A workflow that sleeps for a second and returns, right after its first activation.\<close>

definition ex_sleeper :: "pyval list \<Rightarrow> unit ucode" where
  "ex_sleeper args = UAwait (AwSleep 1 None) (\<lambda>r. case r of Inl e \<Rightarrow> URaise e | Inr v \<Rightarrow> URet v)"

definition ex_started :: "unit machine" where
  "ex_started = snd (activate 20 (ex_activation [J_InitializeWorkflow [] []]) (new_instance (ex_details ex_sleeper)))"

lemma ex_start: "completes_with (\<lambda>cs. cs = [\<lparr>cmd_variant = CV_StartTimer 1 1000000000, cmd_metadata = None\<rparr>])
   (activate 20 (ex_activation [J_InitializeWorkflow [] []]) (new_instance (ex_details ex_sleeper)))"
  by (simp add: run_defs completes_with_def ex_defs ex_sleeper_def)

lemma ex_fire: "completes_with (\<lambda>cs. cs = [\<lparr>cmd_variant = CV_CompleteWorkflow empty_payload, cmd_metadata = None\<rparr>])
   (activate 20 (ex_activation [J_FireTimer 1]) ex_started)"
  by (simp add: run_defs completes_with_def ex_defs ex_sleeper_def ex_started_def apply_fire_timer_def
      run_timer_def fut_cancelled_def fut_result_def)

lemma ex_evict: "completes_with (\<lambda>cs. cs = []) (activate 20 (ex_activation [J_RemoveFromCache]) ex_started)"
  by (simp add: run_defs completes_with_def ex_defs ex_sleeper_def ex_started_def apply_remove_from_cache_def cancel_def
    activity_handle_cancel_def fut_cancel_def on_top_level_exception_def timer_cancel_def timer_handle_cancelled_def fut_cancelled_def
    fut_result_def async_cancelled_def new_exn_def isinstance_def evicted_error_def call_exception_handler_def)

end
