(* ===== verification/Wf_Safety.thy ===== *)
theory Wf_Safety
  imports Wf_Invariants Wf_Example
begin

section \<open>Safety of a workflow instance\<close>

text \<open>
  What every activation of an instance guarantees, whatever the workflow code does: the invariants
  are interpretations of the interfaces of \<open>Wf_Invariants\<close>.
  \<^item> \<open>evicting\<close>: an instance that is being evicted adds no command.
  \<^item> \<open>seq_inv\<close>: the numbers of pending operations lead to the handles that own them.
  \<^item> \<open>seqs_above\<close>: sequence numbers only grow.
  \<^item> \<open>frozen\<close>: synchronous code in a read-only context has no effect on the server's operations.
\<close>

subsection \<open>Eviction\<close>

definition evicting :: "'u core \<Rightarrow> bool" where
  "evicting s \<longleftrightarrow> w_deleting s \<and> w_commands s = []"

lemma evicting_add [pres]: "preserves evicting add_command"
  by (simp add: preserves_def evicting_def add_command_def assert_not_read_only_def pm_simps)

lemma evicting_mod [pres]: "preserves evicting (modify_command i f)"
  by (simp add: preserves_def evicting_def modify_command_def pm_simps)

lemma evicting_pmod:
  "(\<And>s. w_deleting (f s) = w_deleting s \<and> w_commands (f s) = w_commands s) \<Longrightarrow> preserves evicting (pmod f)"
  by (simp add: preserves_def evicting_def pm_simps)

interpretation evc: core_invariant evicting
  by unfold_locales (auto simp: evicting_def same_view_def intro!: pres)

lemma evicting_next_seq [pres]: "preserves evicting (next_seq ty)"
  by (simp add: preserves_def evicting_def next_seq_def Let_def)

interpretation evi: wf_invariant evicting
  by unfold_locales
    (auto simp: evicting_def timer_impl_def new_activity_handle_def upd_activity_handle_def
       apply_resolve_activity_def activity_resolve_success_def activity_resolve_failure_def
       activity_resolve_backoff_def
       new_child_handle_def upd_child_handle_def new_nexus_handle_def signal_external_pending_def
       external_cancel_command_def apply_cancel_def Let_def
       intro!: pres evicting_pmod split: activity_resolution.split cancel_spec.split command_variant.split)

text \<open>Computations that lead from one condition to another, on their error paths too.\<close>

definition achieves :: "('s \<Rightarrow> bool) \<Rightarrow> ('s \<Rightarrow> bool) \<Rightarrow> ('s, 'e, 'a) pm \<Rightarrow> bool" where
  "achieves P Q m \<longleftrightarrow> (\<forall>s. P s \<longrightarrow> Q (snd (m s)))"

lemma achieves_pthen: "achieves P Q m \<Longrightarrow> preserves Q n \<Longrightarrow> achieves P Q (pthen m n)"
  by (force simp: achieves_def preserves_def pm_simps split: prod.splits sum.splits)

lemma achieves_evicting: "achieves (\<lambda>s. w_commands s = []) evicting (apply_remove_from_cache)"
  unfolding apply_remove_from_cache_def
  by (rule achieves_pthen) (simp add: achieves_def evicting_def pmod_def, intro pres)

lemma split_jobs_evict: "split_jobs [J_RemoveFromCache] = empty_job_sets\<lparr>js_others := [J_RemoveFromCache]\<rparr>"
  by (simp add: split_jobs_def add_job_def empty_job_sets_def)

definition ready_to_evict :: "'u machine \<Rightarrow> bool" where
  "ready_to_evict M \<longleftrightarrow> w_commands (m_core M) = [] \<and> stacks_ok evicting M"

lemma achieves_apply_all:
  "achieves ready_to_evict (machine_inv True evicting) (apply_all [J_RemoveFromCache])"
proof -
  have "achieves (\<lambda>s. w_commands s = []) evicting (pfor [J_RemoveFromCache] apply_job)"
    by (auto intro!: achieves_pthen achieves_evicting pres)
  then show ?thesis
    by (auto simp: achieves_def ready_to_evict_def apply_all_def evi.lift_core_apply machine_inv_def stacks_ok_def)
qed

lemma eviction_body:
  assumes "ac_jobs act = [J_RemoveFromCache]"
  shows "activation_body n act = pthen (apply_all [J_RemoveFromCache]) (run_once n True)"
proof -
  have "activation_body n act = process_jobs n (empty_job_sets\<lparr>js_others := [J_RemoveFromCache]\<rparr>)"
    by (simp add: activation_body_def assms split_jobs_evict check_query_jobs_def set_start_input_def
        empty_job_sets_def lift_core_def pm_simps)
  also have "\<dots> = pthen (apply_all [J_RemoveFromCache]) (run_once n True)"
    by (rule ext) (simp add: process_jobs_def empty_job_sets_def run_job_set_def pm_simps apply_all_def
        lift_core_def split: prod.split sum.split)
  finally show ?thesis .
qed

lemma achieves_eviction_body:
  "ac_jobs act = [J_RemoveFromCache] \<Longrightarrow>
     achieves ready_to_evict (machine_inv True evicting) (activation_body n act)"
  unfolding eviction_body by (rule achieves_pthen[OF achieves_apply_all]) (rule pres)

lemma error_dropped:
  "preserves evicting m \<Longrightarrow> evicting s \<Longrightarrow>
   fst (pbind m (\<lambda>err. pbind (pget w_deleting) (\<lambda>d. pret (if d then None else err))) s) = Inr x \<Longrightarrow> x = None"
  using preservesD[of evicting m s]
  by (auto simp: pm_simps evicting_def split: prod.splits sum.splits)

lemma evicting_no_error:
  "evicting s \<Longrightarrow> fst (on_activation_exception err s) = Inr x \<Longrightarrow> x = None"
  unfolding on_activation_exception_def by (rule error_dropped) (auto intro!: pres)

lemma map_sum_Inr_iff [simp]: "map_sum f id x = Inr y \<longleftrightarrow> x = Inr y"
  by (cases x) auto

lemma eviction_completion_empty:
  assumes "reachable det M" "ac_jobs act = [J_RemoveFromCache]" "activate n act M = (Inr res, M')"
  shows "\<exists>flags vb. ar_completion res = Successful [] flags vb"
proof -
  obtain s where b: "begin_activation act (m_core M) = (Inr (), s)"
    using begin_activation_returns[of act "m_core M"] by (metis prod.collapse)
  then have "w_commands s = []"
    by (auto simp: begin_activation_def pm_simps workflow_logic_flag_enabled_def split: if_splits)
  then have ready: "ready_to_evict (M\<lparr>m_core := s\<rparr>)"
    using evi.reachable_stacks[OF assms(1)] by (simp add: ready_to_evict_def stacks_ok_def)
  obtain r M1 where body: "activation_body n act (M\<lparr>m_core := s\<rparr>) = (r, M1)"
    by fastforce
  have ev: "evicting (m_core M1)"
    using achieves_eviction_body[OF assms(2), of n] ready body
    by (force simp: achieves_def machine_inv_def)
  have fin: "fst (end_activation None s1) = Inr r1 \<Longrightarrow> evicting s1 \<Longrightarrow>
      \<exists>flags vb. ar_completion r1 = Successful [] flags vb" for s1 :: "'a core" and r1
    by (auto simp: end_activation_def pm_simps evicting_def split: if_splits)
  have exc: "fst (on_activation_exception err s1) = Inr x \<Longrightarrow>
      fst (end_activation x (snd (on_activation_exception err s1))) = Inr r1 \<Longrightarrow> evicting s1 \<Longrightarrow>
      \<exists>flags vb. ar_completion r1 = Successful [] flags vb" for s1 :: "'a core" and r1 err x
    using evicting_no_error[of s1 err x] preservesD[OF evi.p_activation_end(1), of s1 err] by (auto intro: fin)
  show ?thesis
  proof (cases r)
    case (Inr u)
    with assms(3) b body ev show ?thesis
      by (auto simp: activate_def pthen_def pbind_def pcatch_def evi.lift_core_apply pret_def
          split: prod.splits sum.splits mexn.splits intro: fin)
  next
    case (Inl e)
    with assms(3) b body ev show ?thesis
      by (auto simp: activate_def pthen_def pbind_def pcatch_def evi.lift_core_apply pret_def praise_def
          split: prod.splits sum.splits mexn.splits if_splits intro: exc)
  qed
qed

subsection \<open>Sequence numbers\<close>

definition curr_seq :: "'u core \<Rightarrow> string \<Rightarrow> nat" where
  "curr_seq s ty = (case w_curr_seqs s ty of None \<Rightarrow> 0 | Some n \<Rightarrow> n)"

text \<open>For one kind of operation with handle objects, whose numbers are \<open>num\<close>: a pending entry
  leads to the handle that has its number, the handles have different numbers, all of them already
  taken, and the identifiers of the handles are taken as well.\<close>

definition handles_ok :: "nat \<Rightarrow> nat \<Rightarrow> (nat \<rightharpoonup> nat) \<Rightarrow> (nat \<rightharpoonup> nat) \<Rightarrow> bool" where
  "handles_ok nid hi pending num \<longleftrightarrow>
     (\<forall>n t. pending n = Some t \<longrightarrow> num t = Some n) \<and>
     (\<forall>t k. num t = Some k \<longrightarrow> 0 < k \<and> k \<le> hi \<and> t < nid) \<and>
     (\<forall>t t' k. num t = Some k \<longrightarrow> num t' = Some k \<longrightarrow> t = t')"

definition numbers :: "('h \<Rightarrow> nat) \<Rightarrow> (nat \<rightharpoonup> 'h) \<Rightarrow> (nat \<rightharpoonup> nat)" where
  "numbers f hs = (\<lambda>t. map_option f (hs t))"

definition keys_below :: "nat \<Rightarrow> (nat \<rightharpoonup> 'v) \<Rightarrow> bool" where
  "keys_below hi m \<longleftrightarrow> (\<forall>n v. m n = Some v \<longrightarrow> 0 < n \<and> n \<le> hi)"

definition seq_inv :: "'u core \<Rightarrow> bool" where
  "seq_inv s \<longleftrightarrow>
     keys_below (curr_seq s ''timer'') (w_pending_timers s) \<and>
     (\<forall>n x. w_pending_timers s n = Some x \<longrightarrow> x = n) \<and>
     handles_ok (w_next_id s) (curr_seq s ''activity'') (w_pending_activities s) (numbers ah_seq (w_activity_handles s)) \<and>
     handles_ok (w_next_id s) (curr_seq s ''child_workflow'') (w_pending_child_workflows s) (numbers cw_seq (w_child_handles s)) \<and>
     handles_ok (w_next_id s) (curr_seq s ''nexus_operation'') (w_pending_nexus_operations s) (numbers nh_seq (w_nexus_handles s)) \<and>
     keys_below (curr_seq s ''external_signal'') (w_pending_external_signals s) \<and>
     keys_below (curr_seq s ''external_cancel'') (w_pending_external_cancels s)"

lemma numbers_simps [simp]:
  "numbers f (hs(t \<mapsto> h)) = (numbers f hs)(t \<mapsto> f h)"
  "(\<And>h. f (g h) = f h) \<Longrightarrow> numbers f (hs(t := map_option g (hs t))) = numbers f hs"
  by (auto simp: numbers_def option.map_comp o_def)

lemma handles_ok_mono:
  "handles_ok nid hi p num \<Longrightarrow> nid \<le> nid' \<Longrightarrow> hi \<le> hi' \<Longrightarrow> handles_ok nid' hi' p num"
  unfolding handles_ok_def by (meson le_trans less_le_trans)

lemma handles_ok_put:
  assumes "handles_ok nid hi p num" "\<And>n. p n \<noteq> Some t" "t < nid" "hi < k" "k \<le> hi'"
  shows "handles_ok nid hi' p (num(t \<mapsto> k))"
proof -
  have "k' < k" "k' \<le> hi'" if "num t' = Some k'" for t' k'
    using assms that by (fastforce simp: handles_ok_def)+
  with assms show ?thesis
    unfolding handles_ok_def by (auto split: if_splits)
qed

lemma handles_ok_pending: "handles_ok nid hi p num \<Longrightarrow> num t = Some n \<Longrightarrow> handles_ok nid hi (p(n \<mapsto> t)) num"
  unfolding handles_ok_def by simp

lemma handles_ok_pop: "handles_ok nid hi p num \<Longrightarrow> handles_ok nid hi (p(n := None)) num"
  unfolding handles_ok_def by simp

lemma handles_ok_fresh: "handles_ok nid hi p num \<Longrightarrow> nid \<le> t \<Longrightarrow> p n \<noteq> Some t"
  unfolding handles_ok_def by (meson leD)

lemma handles_ok_popped: "handles_ok nid hi p num \<Longrightarrow> p n = Some t \<Longrightarrow> (p(n := None)) n' \<noteq> Some t"
  unfolding handles_ok_def by (metis fun_upd_apply option.distinct(1) option.inject)

lemma keys_below_mono: "keys_below n m \<Longrightarrow> n \<le> n' \<Longrightarrow> keys_below n' m"
  unfolding keys_below_def by (meson le_trans)

lemma keys_below_pop: "keys_below n m \<Longrightarrow> keys_below n (m(k := None))"
  unfolding keys_below_def by simp

lemma keys_below_new: "keys_below n m \<Longrightarrow> 0 < k \<Longrightarrow> k \<le> n \<Longrightarrow> keys_below n (m(k \<mapsto> v))"
  unfolding keys_below_def by simp

text \<open>Fields of two states that look the same.\<close>

lemma same_viewD:
  assumes "same_view s s'"
  shows "w_curr_seqs s' = w_curr_seqs s" "w_pending_timers s' = w_pending_timers s"
    "w_pending_activities s' = w_pending_activities s"
    "w_pending_child_workflows s' = w_pending_child_workflows s"
    "w_pending_nexus_operations s' = w_pending_nexus_operations s"
    "w_pending_external_signals s' = w_pending_external_signals s"
    "w_pending_external_cancels s' = w_pending_external_cancels s"
    "w_activity_handles s' = w_activity_handles s" "w_child_handles s' = w_child_handles s"
    "w_nexus_handles s' = w_nexus_handles s" "w_next_id s \<le> w_next_id s'"
    "w_commands s' = w_commands s" "w_deleting s' = w_deleting s" "w_read_only s' = w_read_only s"
  using assms by (simp_all add: same_view_def)

lemma same_view_trans: "same_view s s1 \<Longrightarrow> same_view s1 s2 \<Longrightarrow> same_view s s2"
  by (simp add: same_view_def)

lemma same_view_refl [simp]: "same_view s s"
  by (simp add: same_view_def)

lemma create_future_view:
  "same_view s (snd (create_future s))" "fst (create_future s) = Inr (w_next_id s)"
  "w_next_id (snd (create_future s)) = Suc (w_next_id s)"
  by (simp_all add: create_future_def fresh_id_def aio_mod_def pm_simps same_view_def Let_def)

lemma call_soon_view: "same_view s (snd (call_soon h s))"
  by (simp add: call_soon_def assert_not_read_only_def aio_mod_def pm_simps same_view_def)

lemma aio_mod_view: "same_view s (snd (aio_mod f s))" "w_next_id (snd (aio_mod f s)) = w_next_id s"
  by (simp_all add: aio_mod_def pmod_def same_view_def)

lemma pthen_view:
  "(\<And>s. same_view s (snd (m s))) \<Longrightarrow> (\<And>s. same_view s (snd (n s))) \<Longrightarrow> same_view s (snd (pthen m n s))"
  by (force simp: pthen_def pbind_def intro: same_view_trans split: prod.splits sum.splits)

lemma new_task_view:
  assumes "new_task c s = (r, s')"
  shows "same_view s s'" "r = Inr t \<Longrightarrow> w_next_id s \<le> t \<and> t < w_next_id s'"
proof -
  let ?s1 = "snd (create_future s)"
  define m where "m = pbind (pget current_context) (\<lambda>cx.
     pthen (aio_mod (\<lambda>a. a\<lparr>a_taskinfo := (a_taskinfo a)(w_next_id s \<mapsto>
       \<lparr>t_start = c (w_next_id s), t_must_cancel = False, t_cancel_message = None, t_fut_waiter = None,
        t_num_cancels = 0, t_context = cx\<rparr>)\<rparr>))
     (pthen (call_soon (HStep (w_next_id s))) (pret (w_next_id s))))"
  have eq: "new_task c s = m ?s1"
    using create_future_view(2)[of s] by (simp add: new_task_def m_def pbind_def[of create_future] split_beta)
  have "same_view s1 (snd (m s1))" for s1
    unfolding m_def pbind_def pget_def
    by (simp del: fun_upd_apply, intro pthen_view call_soon_view aio_mod_view) (simp add: pret_def)
  then have "same_view ?s1 s'"
    using assms eq by (metis snd_conv)
  then show "same_view s s'"
    using create_future_view(1) by (rule same_view_trans[rotated])
  assume "r = Inr t"
  then have "t = w_next_id s"
    using assms unfolding eq by (auto simp: m_def pthen_def pbind_def pget_def pret_def split: prod.splits sum.splits)
  with \<open>same_view ?s1 s'\<close> show "w_next_id s \<le> t \<and> t < w_next_id s'"
    using create_future_view(3)[of s] same_viewD(11)[of ?s1 s'] by simp
qed

lemma register_task_view: "same_view s (snd (register_task t s))"
proof -
  have "same_view s1 (snd (add_done_callback t cb s1))" for s1 :: "'a core" and cb
    by (simp add: add_done_callback_def pbind_def pget_def call_soon_view aio_mod_view)
  moreover have "same_view s1 (snd (assert_not_read_only a b s1))" for s1 :: "'a core" and a b
    by (simp add: assert_not_read_only_def)
  ultimately show ?thesis
    unfolding register_task_def by (intro pthen_view aio_mod_view)
qed

text \<open>The invariant together with a number that is taken, and together with a handle that is not
  pending: both are kept by the steps between taking a number and using it.\<close>

definition seq_inv_at :: "string \<Rightarrow> nat \<Rightarrow> 'u core \<Rightarrow> bool" where
  "seq_inv_at ty n s \<longleftrightarrow> seq_inv s \<and> 0 < n \<and> n \<le> curr_seq s ty"

definition seq_inv_idle :: "nat \<Rightarrow> 'u core \<Rightarrow> bool" where
  "seq_inv_idle t s \<longleftrightarrow> seq_inv s \<and> t < w_next_id s \<and> (\<forall>n. w_pending_activities s n \<noteq> Some t)"

lemma seq_inv_mono:
  assumes "seq_inv s" "w_pending_timers s' = w_pending_timers s"
    "w_pending_activities s' = w_pending_activities s"
    "w_pending_child_workflows s' = w_pending_child_workflows s"
    "w_pending_nexus_operations s' = w_pending_nexus_operations s"
    "w_pending_external_signals s' = w_pending_external_signals s"
    "w_pending_external_cancels s' = w_pending_external_cancels s"
    "w_activity_handles s' = w_activity_handles s" "w_child_handles s' = w_child_handles s"
    "w_nexus_handles s' = w_nexus_handles s" "w_next_id s \<le> w_next_id s'"
    "\<And>ty. curr_seq s ty \<le> curr_seq s' ty"
  shows "seq_inv s'"
  using assms unfolding seq_inv_def by (auto intro: handles_ok_mono keys_below_mono)

lemma curr_seq_cong: "w_curr_seqs s' = w_curr_seqs s \<Longrightarrow> curr_seq s' = curr_seq s"
  by (simp add: curr_seq_def fun_eq_iff)

lemma curr_seq_next: "next_seq ty s = (Inr (Suc (curr_seq s ty)), s\<lparr>w_curr_seqs := (w_curr_seqs s)(ty \<mapsto> Suc (curr_seq s ty))\<rparr>)"
  by (simp add: next_seq_def curr_seq_def)

lemma curr_seq_upd: "curr_seq (s\<lparr>w_curr_seqs := (w_curr_seqs s)(ty \<mapsto> n)\<rparr>) ty' = (if ty' = ty then n else curr_seq s ty')"
  by (simp add: curr_seq_def)

lemma seq_inv_view:
  assumes "same_view s s'" "seq_inv s"
  shows "seq_inv s'"
  by (rule seq_inv_mono[of s]) (use assms(2) same_viewD[OF assms(1)] curr_seq_cong[of s' s] in simp_all)

lemma seq_inv_taken: "seq_inv s \<Longrightarrow> seq_inv (s\<lparr>w_curr_seqs := (w_curr_seqs s)(ty \<mapsto> Suc (curr_seq s ty))\<rparr>)"
  by (rule seq_inv_mono[of s]) (simp_all add: curr_seq_upd)

lemma seq_inv_commands: "seq_inv s \<Longrightarrow> seq_inv (s\<lparr>w_commands := cs\<rparr>)"
  by (rule seq_inv_mono[of s]) (simp_all add: curr_seq_def)

lemma add_command_cases:
  "snd (add_command s) = s \<or> snd (add_command s) = s\<lparr>w_commands := w_commands s @ [empty_command]\<rparr>"
  by (simp add: add_command_def assert_not_read_only_def pm_simps)

lemma core_invariantI:
  assumes "\<And>s s'. same_view s s' \<Longrightarrow> I s \<Longrightarrow> I s'" "\<And>s cs. I s \<Longrightarrow> I (s\<lparr>w_commands := cs\<rparr>)"
  shows "core_invariant I"
proof
  show "preserves I add_command"
    using assms(2) add_command_cases by (metis preservesI)
qed (use assms in \<open>simp_all add: modify_command_def preserves_pmod\<close>)

interpretation sqc: core_invariant seq_inv
  by (rule core_invariantI) (simp_all add: seq_inv_view seq_inv_commands)

interpretation sqa: core_invariant "seq_inv_at ty n" for ty n
  by (rule core_invariantI)
    (auto simp: seq_inv_at_def seq_inv_commands curr_seq_def dest: same_viewD(1) intro: seq_inv_view)

interpretation sqh: core_invariant "seq_inv_idle t" for t
  by (rule core_invariantI)
    (auto simp: seq_inv_idle_def seq_inv_commands dest: same_viewD(3,11) intro: seq_inv_view)

lemma seq_next:
  "(\<And>n. preserves (seq_inv_at ty n) (k n)) \<Longrightarrow> preserves seq_inv (pbind (next_seq ty) k)"
proof
  fix s :: "'a core"
  assume k: "\<And>n. preserves (seq_inv_at ty n) (k n)" and s: "seq_inv s"
  let ?n = "Suc (curr_seq s ty)"
  have "seq_inv_at ty ?n (s\<lparr>w_curr_seqs := (w_curr_seqs s)(ty \<mapsto> ?n)\<rparr>)"
    using s by (simp add: seq_inv_at_def seq_inv_taken curr_seq_upd)
  from preservesD[OF k this] show "seq_inv (snd (pbind (next_seq ty) k s))"
    by (simp add: pbind_def curr_seq_next seq_inv_at_def)
qed

lemma seq_pending_new:
  "preserves (seq_inv_at ''timer'' n) (pmod (\<lambda>s. s\<lparr>w_pending_timers := (w_pending_timers s)(n \<mapsto> n)\<rparr>))"
  "preserves (seq_inv_at ''external_signal'' n)
     (pmod (\<lambda>s. s\<lparr>w_pending_external_signals := (w_pending_external_signals s)(n \<mapsto> v s)\<rparr>))"
  "preserves (seq_inv_at ''external_cancel'' n)
     (pmod (\<lambda>s. s\<lparr>w_pending_external_cancels := (w_pending_external_cancels s)(n \<mapsto> v s)\<rparr>))"
  by (auto simp: preserves_def pmod_def seq_inv_at_def seq_inv_def curr_seq_def intro: keys_below_new)

lemma seq_timer_new: "preserves seq_inv (timer_impl d opts cb)"
  unfolding timer_impl_def by (intro pres seq_next seq_pending_new)

lemma seq_signal_new: "preserves seq_inv (signal_external_pending i)"
  unfolding signal_external_pending_def by (intro pres seq_next seq_pending_new)

lemma seq_cancel_new: "preserves seq_inv (external_cancel_command wid run reason)"
  unfolding external_cancel_command_def by (intro pres seq_next seq_pending_new)

lemma seq_cancel_op: "preserves seq_inv (apply_cancel spec err i)"
  unfolding apply_cancel_def
  by (auto split: cancel_spec.split command_variant.split intro!: pres seq_next seq_pending_new)

text \<open>A new handle, or a new number for a handle that is not pending.\<close>

lemma seq_inv_put:
  assumes "seq_inv s" "w_next_id s \<le> nid" "t < nid"
  shows "(\<And>n. w_pending_activities s n \<noteq> Some t) \<Longrightarrow>
      numbers ah_seq ahs = (numbers ah_seq (w_activity_handles s))(t \<mapsto> Suc (curr_seq s ''activity'')) \<Longrightarrow>
      seq_inv (s\<lparr>w_next_id := nid, w_activity_handles := ahs,
        w_curr_seqs := (w_curr_seqs s)(''activity'' \<mapsto> Suc (curr_seq s ''activity''))\<rparr>)"
    and "(\<And>n. w_pending_child_workflows s n \<noteq> Some t) \<Longrightarrow>
      numbers cw_seq chs = (numbers cw_seq (w_child_handles s))(t \<mapsto> Suc (curr_seq s ''child_workflow'')) \<Longrightarrow>
      seq_inv (s\<lparr>w_next_id := nid, w_child_handles := chs,
        w_curr_seqs := (w_curr_seqs s)(''child_workflow'' \<mapsto> Suc (curr_seq s ''child_workflow''))\<rparr>)"
    and "(\<And>n. w_pending_nexus_operations s n \<noteq> Some t) \<Longrightarrow>
      numbers nh_seq nhs = (numbers nh_seq (w_nexus_handles s))(t \<mapsto> Suc (curr_seq s ''nexus_operation'')) \<Longrightarrow>
      seq_inv (s\<lparr>w_next_id := nid, w_nexus_handles := nhs,
        w_curr_seqs := (w_curr_seqs s)(''nexus_operation'' \<mapsto> Suc (curr_seq s ''nexus_operation''))\<rparr>)"
proof -
  have m: "handles_ok nid hi p num" if "handles_ok (w_next_id s) hi p num" for hi p num
    using that assms(2) by (rule handles_ok_mono) simp
  note parts = assms(1)[unfolded seq_inv_def]
  note put = handles_ok_put[OF m _ assms(3) lessI order_refl]
  have cs: "curr_seq (s\<lparr>w_next_id := nid, w_activity_handles := ahs, w_curr_seqs := q\<rparr>) ty =
      (case q ty of None \<Rightarrow> 0 | Some n \<Rightarrow> n)"
    "curr_seq (s\<lparr>w_next_id := nid, w_child_handles := chs, w_curr_seqs := q\<rparr>) ty =
      (case q ty of None \<Rightarrow> 0 | Some n \<Rightarrow> n)"
    "curr_seq (s\<lparr>w_next_id := nid, w_nexus_handles := nhs, w_curr_seqs := q\<rparr>) ty =
      (case q ty of None \<Rightarrow> 0 | Some n \<Rightarrow> n)" for q ty
    by (simp_all add: curr_seq_def)
  have old: "(case w_curr_seqs s ty of None \<Rightarrow> 0 | Some n \<Rightarrow> n) = curr_seq s ty" for ty
    by (simp add: curr_seq_def)
  show "seq_inv (s\<lparr>w_next_id := nid, w_activity_handles := ahs,
        w_curr_seqs := (w_curr_seqs s)(''activity'' \<mapsto> Suc (curr_seq s ''activity''))\<rparr>)"
    if "\<And>n. w_pending_activities s n \<noteq> Some t"
      "numbers ah_seq ahs = (numbers ah_seq (w_activity_handles s))(t \<mapsto> Suc (curr_seq s ''activity''))"
    unfolding seq_inv_def cs using that parts by (simp add: old put m)
  show "seq_inv (s\<lparr>w_next_id := nid, w_child_handles := chs,
        w_curr_seqs := (w_curr_seqs s)(''child_workflow'' \<mapsto> Suc (curr_seq s ''child_workflow''))\<rparr>)"
    if "\<And>n. w_pending_child_workflows s n \<noteq> Some t"
      "numbers cw_seq chs = (numbers cw_seq (w_child_handles s))(t \<mapsto> Suc (curr_seq s ''child_workflow''))"
    unfolding seq_inv_def cs using that parts by (simp add: old put m)
  show "seq_inv (s\<lparr>w_next_id := nid, w_nexus_handles := nhs,
        w_curr_seqs := (w_curr_seqs s)(''nexus_operation'' \<mapsto> Suc (curr_seq s ''nexus_operation''))\<rparr>)"
    if "\<And>n. w_pending_nexus_operations s n \<noteq> Some t"
      "numbers nh_seq nhs = (numbers nh_seq (w_nexus_handles s))(t \<mapsto> Suc (curr_seq s ''nexus_operation''))"
    unfolding seq_inv_def cs using that parts by (simp add: old put m)
qed

lemma seq_inv_fresh:
  assumes "seq_inv s" "w_next_id s \<le> t"
  shows "w_pending_activities s n \<noteq> Some t" "w_pending_child_workflows s n \<noteq> Some t"
    "w_pending_nexus_operations s n \<noteq> Some t"
  using assms handles_ok_fresh unfolding seq_inv_def by blast+

lemma create_future_bind: "pbind create_future k s = k (w_next_id s) (snd (create_future s))"
  using create_future_view(2)[of s] by (simp add: pbind_def split_beta)

lemma pmod_then: "pthen (pmod f) n s = n (f s)"
  by (simp add: pthen_def pbind_def pmod_def)

lemma pget_bind: "pbind (pget f) k s = k (f s) s"
  by (simp add: pbind_def pget_def)

lemma seq_act_new: "preserves seq_inv (new_activity_handle inp)"
proof
  fix s :: "'a core"
  assume s: "seq_inv s"
  obtain r s1 where nt: "new_task (\<lambda>t. StartProc (P_run_activity t)) s = (r, s1)"
    by fastforce
  note v1 = new_task_view(1)[OF nt]
  have s1: "seq_inv s1"
    using v1 s by (rule seq_inv_view)
  show "seq_inv (snd (new_activity_handle inp s))"
  proof (cases r)
    case (Inl e)
    with nt s1 show ?thesis
      by (simp add: new_activity_handle_def pbind_def)
  next
    case (Inr t)
    let ?n = "Suc (curr_seq s1 ''activity'')"
    let ?s2 = "s1\<lparr>w_curr_seqs := (w_curr_seqs s1)(''activity'' \<mapsto> ?n)\<rparr>"
    let ?s3 = "snd (create_future ?s2)"
    let ?h = "\<lparr>ah_seq = ?n, ah_input = inp, ah_result_fut = w_next_id ?s2, ah_started = False\<rparr>"
    let ?s4 = "?s3\<lparr>w_activity_handles := (w_activity_handles ?s3)(t \<mapsto> ?h)\<rparr>"
    have id: "w_next_id s \<le> t" "t < w_next_id s1"
      using new_task_view(2)[OF nt Inr] by simp_all
    have eq: "snd (new_activity_handle inp s) = snd (pthen (register_task t) (pret t) ?s4)"
      using nt Inr
      by (simp add: new_activity_handle_def pbind_def[of "new_task _"] pbind_def[of "next_seq _"]
          create_future_bind curr_seq_next pmod_then)
    have "seq_inv (s1\<lparr>w_next_id := w_next_id s1, w_activity_handles := (w_activity_handles s1)(t \<mapsto> ?h),
        w_curr_seqs := (w_curr_seqs s1)(''activity'' \<mapsto> ?n)\<rparr>)"
      using seq_inv_fresh(1)[OF s id(1)] id same_viewD(3)[OF v1]
      by (intro seq_inv_put(1)[OF s1 order_refl id(2)]) simp_all
    moreover have "same_view (s1\<lparr>w_next_id := w_next_id s1, w_activity_handles := (w_activity_handles s1)(t \<mapsto> ?h),
        w_curr_seqs := (w_curr_seqs s1)(''activity'' \<mapsto> ?n)\<rparr>) ?s4"
      using create_future_view(1)[of ?s2] by (simp add: same_view_def)
    ultimately have "seq_inv ?s4"
      by (rule seq_inv_view[rotated])
    moreover have "same_view ?s4 (snd (pthen (register_task t) (pret t) ?s4))"
      by (rule pthen_view) (simp_all add: register_task_view pret_def)
    ultimately show ?thesis
      unfolding eq by (rule seq_inv_view[rotated])
  qed
qed

lemma seq_child_new: "preserves seq_inv (pbind (next_seq ''child_workflow'') (\<lambda>n. new_child_handle n inp))"
proof
  fix s :: "'a core"
  assume s: "seq_inv s"
  let ?n = "Suc (curr_seq s ''child_workflow'')"
  let ?s1 = "s\<lparr>w_curr_seqs := (w_curr_seqs s)(''child_workflow'' \<mapsto> ?n)\<rparr>"
  obtain r s2 where nt: "new_task (\<lambda>t. StartProc (P_run_child t)) ?s1 = (r, s2)"
    by fastforce
  note v2 = new_task_view(1)[OF nt]
  show "seq_inv (snd (pbind (next_seq ''child_workflow'') (\<lambda>n. new_child_handle n inp) s))"
  proof (cases r)
    case (Inl e)
    moreover have "seq_inv s2"
      using v2 seq_inv_taken[OF s] by (rule seq_inv_view)
    ultimately show ?thesis
      using nt by (simp add: new_child_handle_def pbind_def curr_seq_next)
  next
    case (Inr t)
    let ?s3 = "snd (create_future s2)" and ?s4 = "snd (create_future (snd (create_future s2)))"
    let ?h = "\<lparr>cw_seq = ?n, cw_input = inp, cw_start_fut = w_next_id s2, cw_result_fut = w_next_id ?s3,
        cw_first_execution_run_id = ''<unknown>''\<rparr>"
    let ?s5 = "?s4\<lparr>w_child_handles := (w_child_handles ?s4)(t \<mapsto> ?h)\<rparr>"
    let ?t5 = "s\<lparr>w_next_id := w_next_id s2, w_child_handles := (w_child_handles s)(t \<mapsto> ?h),
        w_curr_seqs := (w_curr_seqs s)(''child_workflow'' \<mapsto> ?n)\<rparr>"
    have id: "w_next_id s \<le> t" "t < w_next_id s2"
      using new_task_view(2)[OF nt Inr] by simp_all
    have "w_next_id s \<le> w_next_id s2"
      using same_viewD(11)[OF v2] by simp
    then have "seq_inv ?t5"
      using seq_inv_fresh(2)[OF s id(1)] by (intro seq_inv_put(2)[OF s _ id(2)]) simp_all
    moreover have "same_view ?t5 ?s5"
      using v2 create_future_view(1)[of s2] create_future_view(1)[of ?s3] by (simp add: same_view_def)
    ultimately have "seq_inv ?s5"
      by (rule seq_inv_view[rotated])
    moreover have "same_view ?s5 (snd (pthen (register_task t) (pret t) ?s5))"
      by (rule pthen_view) (simp_all add: register_task_view pret_def)
    moreover have "snd (pbind (next_seq ''child_workflow'') (\<lambda>n. new_child_handle n inp) s) = snd (pthen (register_task t) (pret t) ?s5)"
      using nt Inr create_future_view(3)[of s2]
      by (simp add: new_child_handle_def pbind_def[of "new_task _"] pbind_def[of "next_seq _"]
          create_future_bind curr_seq_next pmod_then)
    ultimately show ?thesis
      by (metis seq_inv_view)
  qed
qed

lemma seq_nexus_new: "preserves seq_inv (pbind (next_seq ''nexus_operation'') (\<lambda>n. new_nexus_handle n inp))"
proof
  fix s :: "'a core"
  assume s: "seq_inv s"
  let ?n = "Suc (curr_seq s ''nexus_operation'')"
  let ?s1 = "s\<lparr>w_curr_seqs := (w_curr_seqs s)(''nexus_operation'' \<mapsto> ?n)\<rparr>"
  obtain r s2 where nt: "new_task (\<lambda>t. StartProc (P_run_nexus t)) ?s1 = (r, s2)"
    by fastforce
  note v2 = new_task_view(1)[OF nt]
  show "seq_inv (snd (pbind (next_seq ''nexus_operation'') (\<lambda>n. new_nexus_handle n inp) s))"
  proof (cases r)
    case (Inl e)
    moreover have "seq_inv s2"
      using v2 seq_inv_taken[OF s] by (rule seq_inv_view)
    ultimately show ?thesis
      using nt by (simp add: new_nexus_handle_def pbind_def curr_seq_next)
  next
    case (Inr t)
    let ?s3 = "snd (create_future s2)" and ?s4 = "snd (create_future (snd (create_future s2)))"
    let ?h = "\<lparr>nh_seq = ?n, nh_input = inp, nh_start_fut = w_next_id s2, nh_result_fut = w_next_id ?s3\<rparr>"
    let ?s5 = "?s4\<lparr>w_nexus_handles := (w_nexus_handles ?s4)(t \<mapsto> ?h)\<rparr>"
    let ?t5 = "s\<lparr>w_next_id := w_next_id s2, w_nexus_handles := (w_nexus_handles s)(t \<mapsto> ?h),
        w_curr_seqs := (w_curr_seqs s)(''nexus_operation'' \<mapsto> ?n)\<rparr>"
    have id: "w_next_id s \<le> t" "t < w_next_id s2"
      using new_task_view(2)[OF nt Inr] by simp_all
    have "w_next_id s \<le> w_next_id s2"
      using same_viewD(11)[OF v2] by simp
    then have "seq_inv ?t5"
      using seq_inv_fresh(3)[OF s id(1)] by (intro seq_inv_put(3)[OF s _ id(2)]) simp_all
    moreover have "same_view ?t5 ?s5"
      using v2 create_future_view(1)[of s2] create_future_view(1)[of ?s3] by (simp add: same_view_def)
    ultimately have "seq_inv ?s5"
      by (rule seq_inv_view[rotated])
    moreover have "same_view ?s5 (snd (pret t ?s5))"
      by (simp add: pret_def)
    moreover have "snd (pbind (next_seq ''nexus_operation'') (\<lambda>n. new_nexus_handle n inp) s) = snd (pret t ?s5)"
      using nt Inr create_future_view(3)[of s2]
      by (simp add: new_nexus_handle_def pbind_def[of "new_task _"] pbind_def[of "next_seq _"]
          create_future_bind curr_seq_next pmod_then pret_def)
    ultimately show ?thesis
      by (metis seq_inv_view)
  qed
qed

text \<open>Resolving an activity: the entry is removed first, so the handle may take a new number.\<close>

lemma seq_backoff: "preserves (seq_inv_idle t) (activity_resolve_backoff t b)"
proof -
  let ?rest = "pthen (with_activity t (\<lambda>h. fut_set_exception (ah_result_fut h) (backoff_error b)))
     (pbind create_future (\<lambda>rf.
       upd_activity_handle t (\<lambda>h. h\<lparr>ah_result_fut := rf, ah_started := False\<rparr>)))"
  have upd: "preserves (seq_inv_idle t) (upd_activity_handle t (\<lambda>h. h\<lparr>ah_result_fut := rf, ah_started := False\<rparr>))" for rf
    by (auto simp: preserves_def upd_activity_handle_def pmod_def seq_inv_idle_def seq_inv_def curr_seq_def)
  have rest: "preserves (seq_inv_idle t) ?rest"
    by (intro pres upd)
  show ?thesis
  proof
    fix s :: "'a core"
    assume s: "seq_inv_idle t s"
    let ?n = "Suc (curr_seq s ''activity'')"
    let ?hs = "(w_activity_handles s)(t := map_option (\<lambda>h. h\<lparr>ah_seq := ?n\<rparr>) (w_activity_handles s t))"
    let ?s' = "s\<lparr>w_curr_seqs := (w_curr_seqs s)(''activity'' \<mapsto> ?n), w_activity_handles := ?hs\<rparr>"
    have "seq_inv ?s'"
    proof (cases "w_activity_handles s t")
      case None
      then have "?hs = w_activity_handles s"
        by (simp add: fun_upd_idem)
      with s show ?thesis
        using seq_inv_taken[of s "''activity''"] by (simp add: seq_inv_idle_def)
    next
      case (Some h)
      then have "numbers ah_seq ?hs = (numbers ah_seq (w_activity_handles s))(t \<mapsto> ?n)"
        by simp
      then have "seq_inv (s\<lparr>w_next_id := w_next_id s, w_activity_handles := ?hs,
          w_curr_seqs := (w_curr_seqs s)(''activity'' \<mapsto> ?n)\<rparr>)"
        using s by (intro seq_inv_put(1)) (auto simp: seq_inv_idle_def)
      then show ?thesis
        by (rule seq_inv_view[rotated]) (simp add: same_view_def)
    qed
    then have "seq_inv_idle t ?s'"
      using s by (simp add: seq_inv_idle_def)
    moreover have "activity_resolve_backoff t b s = ?rest ?s'"
      unfolding activity_resolve_backoff_def pbind_def[of "next_seq _"] curr_seq_next
        upd_activity_handle_def[of t "ah_seq_update _"]
      by (simp add: pmod_then)
    ultimately show "seq_inv_idle t (snd (activity_resolve_backoff t b s))"
      using preservesD[OF rest] by metis
  qed
qed

lemma seq_idle_weaken: "preserves (seq_inv_idle t) m \<Longrightarrow> seq_inv_idle t s \<Longrightarrow> seq_inv (snd (m s))"
  using preservesD[of "seq_inv_idle t" m s] by (simp add: seq_inv_idle_def)

lemma seq_act_resolve: "preserves seq_inv (apply_resolve_activity seq res)"
proof
  fix s :: "'a core"
  assume s: "seq_inv s"
  let ?s1 = "s\<lparr>w_pending_activities := (w_pending_activities s)(seq := None)\<rparr>"
  have s1: "seq_inv ?s1"
    using s by (simp add: seq_inv_def curr_seq_def handles_ok_pop)
  show "seq_inv (snd (apply_resolve_activity seq res s))"
  proof (cases "w_pending_activities s seq")
    case None
    with s1 show ?thesis
      by (simp add: apply_resolve_activity_def pm_simps)
  next
    case (Some t)
    have hok: "handles_ok (w_next_id s) (curr_seq s ''activity'') (w_pending_activities s)
        (numbers ah_seq (w_activity_handles s))"
      using s by (simp add: seq_inv_def)
    then have "numbers ah_seq (w_activity_handles s) t = Some seq"
      using Some by (simp add: handles_ok_def)
    then have "t < w_next_id s"
      using hok by (simp add: handles_ok_def)
    then have idle: "seq_inv_idle t ?s1"
      using s1 handles_ok_popped[OF hok Some] by (simp add: seq_inv_idle_def)
    have "preserves (seq_inv_idle t) (with_activity t (\<lambda>h.
          let pc = (\<lambda>s. payload_converter_with_context s (activity_context s (ah_input h)));
              fc = (\<lambda>s. failure_converter_with_context s (activity_context s (ah_input h)))
          in case res of
              ActCompleted r \<Rightarrow> pbind (p_convert_result r (ai_ret_type (ah_input h)) pc) (activity_resolve_success t)
            | ActFailed f \<Rightarrow> pbind (p_from_failure fc pc f) (activity_resolve_failure t)
            | ActCancelled f \<Rightarrow> pbind (p_from_failure fc pc f) (activity_resolve_failure t)
            | ActBackoff b \<Rightarrow> activity_resolve_backoff t b
            | ActNoResult \<Rightarrow> praise (runtime_error ''Activity did not have result'')))"
      unfolding Let_def activity_resolve_success_def activity_resolve_failure_def
      by (cases res) (auto intro!: pres seq_backoff)
    from seq_idle_weaken[OF this idle] Some show ?thesis
      by (simp add: apply_resolve_activity_def pget_bind pmod_then)
  qed
qed

lemma seq_pending:
  "w_activity_handles s t = Some ah \<Longrightarrow> seq_inv s \<Longrightarrow>
     seq_inv (s\<lparr>w_pending_activities := (w_pending_activities s)(ah_seq ah \<mapsto> t)\<rparr>)"
  "w_child_handles s t = Some ch \<Longrightarrow> seq_inv s \<Longrightarrow>
     seq_inv (s\<lparr>w_pending_child_workflows := (w_pending_child_workflows s)(cw_seq ch \<mapsto> t)\<rparr>)"
  "w_nexus_handles s t = Some nh \<Longrightarrow> seq_inv s \<Longrightarrow>
     seq_inv (s\<lparr>w_pending_nexus_operations := (w_pending_nexus_operations s)(nh_seq nh \<mapsto> t)\<rparr>)"
  by (auto simp: seq_inv_def curr_seq_def numbers_def intro!: handles_ok_pending)

lemma seq_upd:
  "(\<And>h. ah_seq (fa h) = ah_seq h) \<Longrightarrow> preserves seq_inv (upd_activity_handle t fa)"
  "(\<And>h. cw_seq (fc h) = cw_seq h) \<Longrightarrow> preserves seq_inv (upd_child_handle t fc)"
  by (auto simp: preserves_def upd_activity_handle_def upd_child_handle_def pmod_def seq_inv_def curr_seq_def)

interpretation sqi: wf_invariant seq_inv
  by unfold_locales
    (simp_all add: seq_timer_new seq_signal_new seq_cancel_new seq_cancel_op seq_act_new seq_child_new
      seq_nexus_new seq_act_resolve seq_pending seq_upd,
     auto simp: seq_inv_def curr_seq_def intro: handles_ok_pop keys_below_pop)

text \<open>Numbers are handed out in increasing order and never taken back.\<close>

definition seqs_above :: "(string \<Rightarrow> nat) \<Rightarrow> 'u core \<Rightarrow> bool" where
  "seqs_above base s \<longleftrightarrow> (\<forall>ty. base ty \<le> curr_seq s ty)"

interpretation smc: core_invariant "seqs_above base" for base
  by (rule core_invariantI) (simp_all add: seqs_above_def curr_seq_def same_view_def)

lemma seqs_above_next [pres]: "preserves (seqs_above base) (next_seq ty)"
proof
  fix s :: "'a core"
  assume above: "seqs_above base s"
  have "base ty' \<le> (if ty' = ty then Suc (curr_seq s ty) else curr_seq s ty')" for ty'
    using above le_SucI[of "base ty" "curr_seq s ty"] by (simp add: seqs_above_def)
  then show "seqs_above base (snd (next_seq ty s))"
    by (simp add: curr_seq_next seqs_above_def curr_seq_upd)
qed

lemma seqs_above_pmod: "(\<And>s. w_curr_seqs (f s) = w_curr_seqs s) \<Longrightarrow> preserves (seqs_above base) (pmod f)"
  by (rule preserves_pmod) (simp add: seqs_above_def curr_seq_def)

interpretation smi: wf_invariant "seqs_above base" for base
  by unfold_locales
    (auto simp: seqs_above_def curr_seq_def timer_impl_def new_activity_handle_def upd_activity_handle_def
       apply_resolve_activity_def activity_resolve_success_def activity_resolve_failure_def
       activity_resolve_backoff_def
       new_child_handle_def upd_child_handle_def new_nexus_handle_def signal_external_pending_def
       external_cancel_command_def apply_cancel_def Let_def
       intro!: pres seqs_above_pmod split: activity_resolution.split cancel_spec.split command_variant.split)

lemma begin_activation_seqs: "w_curr_seqs (snd (begin_activation act s)) = w_curr_seqs s"
  by (simp add: begin_activation_def pm_simps workflow_logic_flag_enabled_def)

subsection \<open>Read-only code\<close>

text \<open>Workflow code that may not await, run while the instance is read-only: what it must leave alone.\<close>

definition frozen :: "'u core \<Rightarrow> 'u core \<Rightarrow> bool" where
  "frozen s0 s \<longleftrightarrow> w_read_only s \<and> length (w_commands s) = length (w_commands s0) \<and>
     w_deleting s = w_deleting s0 \<and> w_curr_seqs s = w_curr_seqs s0 \<and>
     w_pending_timers s = w_pending_timers s0 \<and> w_pending_activities s = w_pending_activities s0 \<and>
     w_pending_child_workflows s = w_pending_child_workflows s0 \<and>
     w_pending_nexus_operations s = w_pending_nexus_operations s0 \<and>
     w_pending_external_signals s = w_pending_external_signals s0 \<and>
     w_pending_external_cancels s = w_pending_external_cancels s0 \<and>
     w_activity_handles s = w_activity_handles s0 \<and> w_child_handles s = w_child_handles s0 \<and>
     w_nexus_handles s = w_nexus_handles s0"

interpretation roc: core_invariant "frozen s0" for s0
proof
  show "frozen s0 s'" if "same_view s s'" "frozen s0 s" for s s'
    using that by (simp add: frozen_def same_view_def)
  show "preserves (frozen s0) add_command"
    by (simp add: preserves_def frozen_def add_command_def assert_not_read_only_def pm_simps)
  show "preserves (frozen s0) (modify_command i f)" for i f
    by (simp add: preserves_def frozen_def modify_command_def pm_simps)
qed

lemma read_only_no_task: "w_read_only s \<Longrightarrow> new_task c s = (r, s') \<Longrightarrow> isl r"
  by (auto simp: new_task_def create_future_def fresh_id_def call_soon_def aio_mod_def assert_not_read_only_def
      pm_simps Let_def)

lemma frozen_schedule: "preserves (frozen s0) (outbound_schedule_activity inp)"
proof
  fix s
  assume s: "frozen s0 s"
  obtain r s1 where nt: "new_task (\<lambda>t. StartProc (P_run_activity t)) s = (r, s1)"
    by fastforce
  have "frozen s0 s1"
    using preservesD[OF roc.p_aio(12) s, of "\<lambda>t. StartProc (P_run_activity t)"] nt by simp
  moreover obtain e where "r = Inl e"
    using read_only_no_task[OF _ nt] s by (cases r) (auto simp: frozen_def)
  ultimately show "frozen s0 (snd (outbound_schedule_activity inp s))"
    using s nt by (simp add: outbound_schedule_activity_def new_activity_handle_def pbind_def praise_def)
qed

interpretation roa: api_invariant "frozen s0" for s0
  by unfold_locales (rule frozen_schedule)

subsection \<open>Properties\<close>

lemma reachable_started: "reachable (ex_details ex_sleeper) ex_started"
  unfolding ex_started_def by (intro reachable.intros)

text \<open>C1 Eviction: an activation whose only job is \<^verbatim>\<open>remove_from_cache\<close> never answers with a command or
  with a failed workflow task, whatever the workflow code does when its tasks are cancelled.\<close>

theorem eviction_has_no_commands:
  assumes "reachable det M" "ac_jobs act = [J_RemoveFromCache]" "activate n act M = (Inr res, M')"
  shows "\<exists>flags vb. ar_completion res = Successful [] flags vb"
  using assms by (rule eviction_completion_empty)

theorem eviction_has_no_commands_witness:
  "\<exists>res M'. activate 20 (ex_activation [J_RemoveFromCache]) ex_started = (Inr res, M') \<and>
     (\<exists>flags vb. ar_completion res = Successful [] flags vb)"
proof -
  obtain res M' where run: "activate 20 (ex_activation [J_RemoveFromCache]) ex_started = (Inr res, M')"
    using ex_evict by (cases "activate 20 (ex_activation [J_RemoveFromCache]) ex_started")
      (auto simp: completes_with_def split: sum.splits)
  moreover have "ac_jobs (ex_activation [J_RemoveFromCache]) = [J_RemoveFromCache]"
    by (simp add: ex_activation_def)
  ultimately show ?thesis
    using eviction_has_no_commands[OF reachable_started] by blast
qed

text \<open>C2 Sequence numbers: after any sequence of activations every pending timer, external signal and
  external cancel has a number that was handed out, every pending activity, child workflow and Nexus
  operation leads to the one handle that has its number, and no two handles of a kind share one.\<close>

theorem reachable_numbers:
  assumes "reachable det M"
  shows "seq_inv (m_core M)"
proof (rule sqi.reachable_inv[OF assms])
  show "seq_inv (initial_core det)"
    by (simp add: seq_inv_def initial_core_def handles_ok_def keys_below_def numbers_def)
  show "seq_inv (snd (begin_activation act s))" if "seq_inv s" for act s
    by (rule seq_inv_mono[OF that])
      (simp_all add: begin_activation_def pm_simps workflow_logic_flag_enabled_def curr_seq_def)
qed

theorem reachable_numbers_witness:
  "w_pending_timers (m_core ex_started) 1 = Some 1 \<and> seq_inv (m_core ex_started)"
proof
  show "w_pending_timers (m_core ex_started) 1 = Some 1"
    by (simp add: run_defs ex_defs ex_sleeper_def ex_started_def)
  show "seq_inv (m_core ex_started)"
    by (rule reachable_numbers[OF reachable_started])
qed



text \<open>C9 Read-only contexts: a synchronous query handler or update validator, run with the read-only
  flag set, adds no command, takes no sequence number, changes no pending operation and no handle, and
  leaves the flag set, whatever SDK calls it makes and however long it runs.\<close>

theorem read_only_code_is_safe:
  assumes "w_read_only s"
  shows "frozen s (snd (coro_run n (CUser False code) [] s))"
  using roa.sync_run[of s s "CUser False code" n] assms by (simp add: frozen_def)

theorem read_only_code_is_safe_witness:
  "let s = (initial_core (ex_details ex_sleeper))\<lparr>w_read_only := True\<rparr>;
       code = UApi (ApiPatch ''p'' False) (\<lambda>r. URet (PBool (isl r)))
   in w_read_only s \<and> frozen s (snd (coro_run 9 (CUser False code) [] s))"
  unfolding Let_def by (intro conjI read_only_code_is_safe) simp_all

end
