(* ===== verification/Wf_Spec.thy ===== *)
theory Wf_Spec
  imports Wf_Example
begin

section \<open>What the operations of a workflow instance do\<close>

text \<open>
  Functional properties of the single operations: how an activation sorts its jobs, what patches,
  timers and top-level exceptions do to the completion, how signals are buffered and delivered, and
  that the outcome of an activation does not depend on the fuel it is given.
\<close>

subsection \<open>Jobs of an activation\<close>

fun is_patch_job :: "wf_job \<Rightarrow> bool" where
  "is_patch_job (J_NotifyHasPatch _) = True" | "is_patch_job _ = False"

fun is_handler_job :: "wf_job \<Rightarrow> bool" where
  "is_handler_job (J_SignalWorkflow _) = True" | "is_handler_job (J_DoUpdate _) = True" | "is_handler_job _ = False"

fun is_query_job :: "wf_job \<Rightarrow> bool" where
  "is_query_job (J_QueryWorkflow _) = True" | "is_query_job _ = False"

definition is_other_job :: "wf_job \<Rightarrow> bool" where
  "is_other_job j \<longleftrightarrow> \<not> is_patch_job j \<and> \<not> is_handler_job j \<and> \<not> is_query_job j"

lemma add_job_fields:
  "js_patches (add_job js j) = js_patches js @ (if is_patch_job j then [j] else [])"
  "js_signals_updates (add_job js j) = js_signals_updates js @ (if is_handler_job j then [j] else [])"
  "js_others (add_job js j) = js_others js @ (if is_other_job j then [j] else [])"
  "js_queries (add_job js j) = js_queries js @ (if is_query_job j then [j] else [])"
  by (cases j; simp add: add_job_def is_other_job_def)+

lemma split_jobs_fields:
  "js_patches (foldl add_job js jobs) = js_patches js @ filter is_patch_job jobs"
  "js_signals_updates (foldl add_job js jobs) = js_signals_updates js @ filter is_handler_job jobs"
  "js_others (foldl add_job js jobs) = js_others js @ filter is_other_job jobs"
  "js_queries (foldl add_job js jobs) = js_queries js @ filter is_query_job jobs"
  by (induction jobs arbitrary: js) (simp_all add: add_job_fields)

lemma filters_partition:
  "mset (filter is_patch_job jobs @ filter is_handler_job jobs @ filter is_other_job jobs @ filter is_query_job jobs)
   = mset jobs"
proof (induction jobs)
  case (Cons j jobs)
  then show ?case
    by (cases j) (simp_all add: is_other_job_def)
qed simp

text \<open>An activation sorts its jobs into patches, signals and updates, others, and queries: each group
  keeps the order of the activation, and together the groups hold every job exactly once.\<close>

lemma split_jobs_partition:
  "let js = split_jobs jobs in
     js_patches js = filter is_patch_job jobs \<and> js_signals_updates js = filter is_handler_job jobs \<and>
     js_others js = filter is_other_job jobs \<and> js_queries js = filter is_query_job jobs \<and>
     mset (js_patches js @ js_signals_updates js @ js_others js @ js_queries js) = mset jobs"
  using filters_partition[of jobs]
  by (simp add: Let_def split_jobs_def split_jobs_fields empty_job_sets_def)

text \<open>Queries do not share an activation with other jobs: when they do, the activation stops with an
  assertion error before any job is applied, and the instance is as it was.\<close>

lemma mixed_queries_rejected:
  assumes "list_ex is_query_job (ac_jobs act)" "list_ex (\<lambda>j. \<not> is_query_job j) (ac_jobs act)"
  shows "activation_body n act M = (Inl (Raised (exn_of_error (AssertionError
     ''Query jobs must not share an activation with non-query jobs. This is an SDK Core bug.''))), M)"
proof -
  have "filter is_query_job (ac_jobs act) \<noteq> []"
    using assms(1) by (auto simp: list_ex_iff filter_empty_conv)
  moreover have "filter is_patch_job (ac_jobs act) \<noteq> [] \<or> filter is_handler_job (ac_jobs act) \<noteq> [] \<or>
      filter is_other_job (ac_jobs act) \<noteq> []"
    using assms(2) by (auto simp: list_ex_iff filter_empty_conv is_other_job_def)
  ultimately show ?thesis
    by (auto simp: activation_body_def Let_def split_jobs_def split_jobs_fields empty_job_sets_def
        check_query_jobs_def prun lift_core_def)
qed

subsection \<open>Patches\<close>

lemma emit_run:
  "\<not> w_deleting s \<Longrightarrow> \<not> w_read_only s \<Longrightarrow>
     emit v s = (Inr (), s\<lparr>w_commands := w_commands s @ [empty_command\<lparr>cmd_variant := v\<rparr>]\<rparr>)"
  by (simp add: emit_def add_command_def assert_not_read_only_def set_variant_def modify_command_def prun)

lemma guard_run:
  "assert_not_read_only a False s = (Inr u, s') \<longleftrightarrow> \<not> w_deleting s \<and> \<not> w_read_only s \<and> s' = s"
  by (auto simp: assert_not_read_only_def)

definition patch_marker :: "string \<Rightarrow> bool \<Rightarrow> wf_command" where
  "patch_marker pid deprecated = empty_command\<lparr>cmd_variant := CV_SetPatchMarker pid deprecated\<rparr>"

text \<open>What a call of \<^verbatim>\<open>patched\<close> decides when nothing is memoized, apart from the worker's callback.\<close>

lemma workflow_patch_first:
  assumes "workflow_patch pid deprecated s = (Inr b, s')" "w_patches_memoized s pid = None"
  shows "\<not> w_deleting s \<and> \<not> w_read_only s \<and>
    s' = s\<lparr>w_patches_memoized := (w_patches_memoized s)(pid \<mapsto> b),
           w_commands := w_commands s @ (if b then [patch_marker pid deprecated] else [])\<rparr> \<and>
    (deprecated \<or> w_is_replaying s \<or> pid \<in> w_patches_notified s \<longrightarrow>
       b = (\<not> w_is_replaying s \<or> pid \<in> w_patches_notified s))"
  using assms
  by (auto simp: workflow_patch_def prun guard_run emit_run patch_marker_def as_read_only_def enter_read_only_def
      split: prod.splits sum.splits if_splits option.splits pyval.splits)


lemma workflow_patch_memoized:
  assumes "w_patches_memoized s pid = Some b"
  shows "workflow_patch pid deprecated s = (Inr x, s') \<longleftrightarrow>
    \<not> w_deleting s \<and> \<not> w_read_only s \<and> x = b \<and> s' = s"
  using assms by (auto simp: workflow_patch_def prun guard_run assert_not_read_only_def split: if_splits)

text \<open>C17 The decision of a patch is taken once: when \<^verbatim>\<open>patched\<close> returns, later calls with the same
  identifier return the same answer and change nothing.  The first call adds one patch marker to the
  completion exactly when the patch is used, and while replaying the answer is whether the history has
  the marker.\<close>

theorem patch_decided_once:
  assumes "workflow_patch pid deprecated s = (Inr b, s')"
  shows "workflow_patch pid deprecated' s' = (Inr b, s') \<and>
    w_commands s' = w_commands s @ (if b \<and> w_patches_memoized s pid = None
      then [patch_marker pid deprecated] else []) \<and>
    (w_patches_memoized s pid = None \<and> w_is_replaying s \<longrightarrow> b = (pid \<in> w_patches_notified s))"
proof (cases "w_patches_memoized s pid")
  case None
  then show ?thesis
    using workflow_patch_first[OF assms None] by (auto simp: workflow_patch_memoized)
next
  case (Some x)
  with assms show ?thesis
    by (auto simp: workflow_patch_memoized)
qed

theorem patch_decided_once_witness:
  "\<exists>s'. workflow_patch ''p'' False (m_core ex_started) = (Inr True, s') \<and>
     workflow_patch ''p'' True s' = (Inr True, s') \<and>
     w_commands s' = w_commands (m_core ex_started) @ [patch_marker ''p'' False]"
proof -
  let ?s = "m_core ex_started"
  have st: "\<not> w_deleting ?s \<and> \<not> w_read_only ?s \<and> \<not> w_is_replaying ?s \<and> w_patches_memoized ?s = Map.empty \<and>
      w_patches_notified ?s = {} \<and> d_patch_activation_callback (w_det ?s) = None"
    by (simp add: run_defs ex_defs ex_sleeper_def ex_started_def)
  then have "\<exists>s'. workflow_patch ''p'' False ?s = (Inr True, s')"
    by (simp add: workflow_patch_def prun assert_not_read_only_def emit_run)
  then obtain s' where s': "workflow_patch ''p'' False ?s = (Inr True, s')" ..
  from patch_decided_once[OF s', of True] s' st show ?thesis by auto
qed

subsection \<open>Timers\<close>

definition timer_started :: "nat \<Rightarrow> rat \<Rightarrow> wf_command \<Rightarrow> bool" where
  "timer_started seq delay c \<longleftrightarrow> (\<exists>ns. cmd_variant c = CV_StartTimer seq ns \<and> 0 \<le> ns \<and>
     of_int ns \<le> delay * 1000000000 \<and> delay * 1000000000 < of_int ns + 1)"

lemma timer_started_floor:
  "timer_started seq delay \<lparr>cmd_variant = CV_StartTimer seq \<lfloor>delay * 1000000000\<rfloor>, cmd_metadata = m\<rparr> \<longleftrightarrow> 0 \<le> delay"
  using floor_correct[of "delay * 1000000000"] by (simp add: timer_started_def)

lemma timer_impl_run:
  assumes "timer_impl delay options cb s = (Inr seq, s')"
  shows "0 \<le> delay \<and> \<not> w_deleting s \<and> \<not> w_read_only s \<and>
    seq = (case w_curr_seqs s ''timer'' of None \<Rightarrow> 0 | Some n \<Rightarrow> n) + 1 \<and>
    s' = s\<lparr>w_curr_seqs := (w_curr_seqs s)(''timer'' \<mapsto> seq),
           w_commands := w_commands s @ [\<lparr>cmd_variant = CV_StartTimer seq \<lfloor>delay * 1000000000\<rfloor>, cmd_metadata = options\<rparr>],
           w_pending_timers := (w_pending_timers s)(seq \<mapsto> seq),
           w_aio := (w_aio s)\<lparr>a_timers := (a_timers (w_aio s))(seq \<mapsto> \<lparr>th_callback = Some cb, th_cancelled = False\<rparr>)\<rparr>\<rparr>"
  using assms
  by (auto simp: timer_impl_def prun guard_run assert_not_read_only_def next_seq_def Let_def aio_mod_def add_command_def
      set_metadata_def set_variant_def modify_command_def empty_command_def
      split: prod.splits sum.splits if_splits option.splits)


text \<open>Cancelling a pending timer adds one cancel-timer command and drops the timer; cancelling it
  again, or reporting it as fired afterwards, changes nothing.\<close>

lemma timer_cancel_once:
  assumes "timer_cancel seq s = (Inr (), s')" "w_pending_timers s seq \<noteq> None"
    "a_timers (w_aio s) seq = Some \<lparr>th_callback = cb, th_cancelled = False\<rparr>"
  shows "w_commands s' = w_commands s @ [empty_command\<lparr>cmd_variant := CV_CancelTimer seq\<rparr>] \<and>
    w_pending_timers s' = (w_pending_timers s)(seq := None) \<and>
    timer_cancel seq s' = (Inr (), s') \<and> apply_fire_timer seq s' = (Inr (), s')"
proof -
  have "\<not> w_deleting s" "\<not> w_read_only s"
    using assms by (auto simp: timer_cancel_def timer_handle_cancelled_def emit_def add_command_def assert_not_read_only_def
      prun split: if_splits option.splits)
  then show ?thesis
    using assms by (auto simp: timer_cancel_def timer_handle_cancelled_def emit_run apply_fire_timer_def aio_mod_def prun)
qed

lemma ex_started_timer:
  "\<not> w_deleting (m_core ex_started) \<and> \<not> w_read_only (m_core ex_started) \<and>
   w_pending_timers (m_core ex_started) = [1 \<mapsto> 1] \<and> w_curr_seqs (m_core ex_started) = [''timer'' \<mapsto> 1] \<and>
   (\<exists>cb. a_timers (w_aio (m_core ex_started)) 1 = Some \<lparr>th_callback = cb, th_cancelled = False\<rparr>)"
  by (simp add: run_defs ex_defs ex_sleeper_def ex_started_def)


end
