(* ===== verification/Wf_Query.thy ===== *)
theory Wf_Query
  imports Wf_Safety Wf_Spec
begin

section \<open>Queries are answered once\<close>

text \<open>
  A calculus for coroutines of the SDK that run workflow code which may not await: \<open>swp c Q s\<close> says
  that the outcome and final state of \<open>c\<close>, started in \<open>s\<close>, satisfy \<open>Q\<close>.
  Workflow code counts with all it may do to a read-only instance, as \<open>frozen\<close> describes it.
\<close>

primrec swp :: "'u coro \<Rightarrow> (exn + pyval \<Rightarrow> 'u core \<Rightarrow> bool) \<Rightarrow> 'u core \<Rightarrow> bool" where
  "swp (SRet v) Q = Q (Inr v)"
| "swp (SRaise e) Q = Q (Inl e)"
| "swp (SDo f) Q = (\<lambda>s. case map_prod (\<lambda>c. swp c Q) id (f s) of (p, s') \<Rightarrow> p s')"
| "swp (SAwait x k) Q = (\<lambda>s. False)"
| "swp (SYield k) Q = (\<lambda>s. False)"
| "swp (SCall p k) Q = (\<lambda>s. False)"
| "swp (SUser b c k) Q = (\<lambda>s. \<not> b \<and> w_read_only s \<and> (\<forall>r s'. frozen s s' \<longrightarrow> swp (k r) Q s'))"

lemma coro_do_induct [case_names SRet SRaise SDo SAwait SYield SCall SUser]:
  assumes "\<And>v. P (SRet v)" "\<And>e. P (SRaise e)" "\<And>f. (\<And>s. P (fst (f s))) \<Longrightarrow> P (SDo f)"
    "\<And>x k. (\<And>r. P (k r)) \<Longrightarrow> P (SAwait x k)" "\<And>k. (\<And>r. P (k r)) \<Longrightarrow> P (SYield k)"
    "\<And>p k. (\<And>r. P (k r)) \<Longrightarrow> P (SCall p k)" "\<And>b c k. (\<And>r. P (k r)) \<Longrightarrow> P (SUser b c k)"
  shows "P c"
proof (induction c)
  case (SDo f)
  have "P (fst (f s))" for s
    by (rule SDo[of "f s"]) (simp, cases "f s", simp add: prod_set_simps)
  then show ?case by (rule assms(3))
qed (auto intro: assms)

lemma swp_SDo: "swp (SDo f) Q s = swp (fst (f s)) Q (snd (f s))"
  by (cases "f s") simp

declare swp.simps(3) [simp del]
declare swp_SDo [simp]

lemma swp_sbind: "swp (sbind c k) Q = swp c (\<lambda>r. swp (k r) Q)"
  by (induction c rule: coro_do_induct) (auto simp: fun_eq_iff)

lemma swp_sdo: "swp (sdo m k) Q s = (case m s of (r, s') \<Rightarrow> swp (k r) Q s')"
  by (simp add: sdo_def split: prod.split)

lemma swp_sret: "swp (sret r) Q = Q r"
  by (cases r) (simp_all add: sret_def)

lemma swp_sthen: "swp (sthen m k) Q s = (case m s of (Inl e, s') \<Rightarrow> Q (Inl e) s' | (Inr a, s') \<Rightarrow> swp (k a) Q s')"
  by (simp add: sthen_def swp_sdo split: prod.split sum.split)

lemma swp_mono: "swp c Q s \<Longrightarrow> (\<And>r s'. Q r s' \<Longrightarrow> Q' r s') \<Longrightarrow> swp c Q' s"
  by (induction c arbitrary: s rule: coro_do_induct) auto

lemmas swp_rules = swp_sbind swp_sthen swp_sret sfinally_def

subsection \<open>Soundness\<close>

lemma sync_step_frames:
  "\<exists>c'. coro_step (CUser False c) fs s = (Running c' fs, snd (coro_step (CUser False c) [] s)) \<and>
     ((\<exists>r. c' = CRet r) \<or> (\<exists>u. c' = CUser False u))"
  by (cases c) (auto simp: user_do_def split: prod.splits)

lemma frozen_trans: "frozen s s1 \<Longrightarrow> frozen s1 s2 \<Longrightarrow> frozen s s2"
  by (simp add: frozen_def)

lemma frozen_step: "w_read_only s \<Longrightarrow> frozen s (snd (coro_step (CUser False c) [] s))"
  using roa.sync_step[of s s "CUser False c"] by (simp add: frozen_def)

lemma user_run_returns:
  assumes "coro_run n (CUser False c) fs s = (Finished out, s')" "w_read_only s"
  shows "\<exists>m r s1. frozen s s1 \<and> coro_run m (CRet r) fs s1 = (Finished out, s')"
  using assms
proof (induction n arbitrary: c s)
  case (Suc n)
  let ?s1 = "snd (coro_step (CUser False c) [] s)"
  obtain c' where step: "coro_step (CUser False c) fs s = (Running c' fs, ?s1)"
    and c': "(\<exists>r. c' = CRet r) \<or> (\<exists>u. c' = CUser False u)"
    using sync_step_frames by blast
  with Suc.prems have run: "coro_run n c' fs ?s1 = (Finished out, s')"
    by (simp del: coro_step.simps user_step.simps)
  have fr: "frozen s ?s1" using Suc.prems(2) by (rule frozen_step)
  from c' show ?case
  proof
    assume "\<exists>r. c' = CRet r"
    with run fr show ?thesis by blast
  next
    assume "\<exists>u. c' = CUser False u"
    then obtain u where "coro_run n (CUser False u) fs ?s1 = (Finished out, s')" using run by blast
    moreover have "w_read_only ?s1" using fr unfolding frozen_def by (elim conjE)
    ultimately obtain m r s1 where "frozen ?s1 s1" "coro_run m (CRet r) fs s1 = (Finished out, s')"
      using Suc.IH by blast
    with frozen_trans[OF fr] show ?thesis by blast
  qed
qed simp

lemma swp_run:
  assumes "swp c Q s" "coro_run n (CSdk c) fs s = (Finished out, s')"
  shows "\<exists>m r s1. Q r s1 \<and> coro_run m (CRet r) fs s1 = (Finished out, s')"
  using assms
proof (induction c arbitrary: s n rule: coro_do_induct)
  case (SRet v)
  then show ?case by (cases n) auto
next
  case (SRaise e)
  then show ?case by (cases n) auto
next
  case (SDo f)
  from SDo.prems(2) obtain m where "coro_run m (CSdk (fst (f s))) fs (snd (f s)) = (Finished out, s')"
    by (cases n) (auto split: prod.splits)
  with SDo.IH SDo.prems(1) show ?case by simp
next
  case (SUser b c k)
  then obtain m where run: "coro_run m (CUser False c) (FSdk k # fs) s = (Finished out, s')" and ro: "w_read_only s"
    and k: "\<And>r s1. frozen s s1 \<Longrightarrow> swp (k r) Q s1"
    by (cases n) auto
  from user_run_returns[OF run ro] obtain m' r s1 where
    ret: "frozen s s1" "coro_run m' (CRet r) (FSdk k # fs) s1 = (Finished out, s')" by blast
  then obtain m'' where "coro_run m'' (CSdk (k r)) fs s1 = (Finished out, s')"
    by (cases m') auto
  with SUser.IH k[OF ret(1)] show ?case by blast
qed simp_all

lemma swp_finished:
  assumes "swp c Q s" "coro_run n (CSdk c) [] s = (Finished out, s')"
  shows "Q out s'"
proof -
  from swp_run[OF assms] obtain m r s1 where q: "Q r s1" "coro_run m (CRet r) [] s1 = (Finished out, s')" by blast
  then show ?thesis by (cases m) auto
qed

subsection \<open>The query coroutine\<close>

definition sync_query :: "'u core \<Rightarrow> string \<Rightarrow> bool" where
  "sync_query s name = (case handler_for (w_queries s) name of
     Some d \<Rightarrow> (case qd_fn d of QueryFn fn \<Rightarrow> \<not> uf_async fn | _ \<Rightarrow> True)
   | None \<Rightarrow> True)"

lemma frozen_refl: "w_read_only s \<Longrightarrow> frozen s s"
  by (simp add: frozen_def)

lemma p_result_payload_state: "p_result_payload v s = (r, s') \<Longrightarrow> s' = s"
  by (auto simp: p_result_payload_def p_to_payloads_def prun split: sum.splits list.splits)

lemma query_frozen:
  assumes "w_read_only s" "sync_query s (qj_query_type job)"
  shows "swp (query_in_read_only job) (\<lambda>r s'. frozen s s') s"
proof -
  have res: "swp (case r of Inl e \<Rightarrow> SRaise e | Inr v \<Rightarrow> sthen (p_result_payload v) (\<lambda>p. SRet (PRaw p)))
      (\<lambda>r s'. frozen s s') s1" if "frozen s s1" for r s1
    using that by (auto simp: swp_rules split: sum.split prod.split dest: p_result_payload_state)
  have "swp (handle_query inp) (\<lambda>r s1. swp (case r of Inl e \<Rightarrow> SRaise e
      | Inr v \<Rightarrow> sthen (p_result_payload v) (\<lambda>p. SRet (PRaw p))) (\<lambda>r s'. frozen s s') s1) s"
    if "hq_query inp = qj_query_type job" for inp
    using assms that res
    by (auto simp: handle_query_def swp_sthen swp_sret sync_query_def pget_def frozen_refl dest!: p_result_payload_state
        split: option.splits query_fn.splits sum.split)
  then show ?thesis
    using assms by (auto simp: query_in_read_only_def swp_rules prun frozen_refl split: option.split sum.split)
qed

text \<open>What is left when a query has been answered: one more command, the response, and the rest as
  before.\<close>

definition answered :: "query_job \<Rightarrow> 'u core \<Rightarrow> 'u core \<Rightarrow> bool" where
  "answered job s s' \<longleftrightarrow> length (w_commands s') = Suc (length (w_commands s)) \<and>
     (\<exists>res. cmd_variant (last (w_commands s')) = CV_RespondToQuery (qj_query_id job) res) \<and>
     w_read_only s' = w_read_only s \<and> w_in_query_or_validator s' = w_in_query_or_validator s \<and>
     w_curr_seqs s' = w_curr_seqs s \<and> w_pending_timers s' = w_pending_timers s \<and>
     w_pending_activities s' = w_pending_activities s \<and> w_pending_child_workflows s' = w_pending_child_workflows s"

lemma answered_add:
  assumes "frozen s1 s2" "\<not> w_deleting s" "\<not> w_read_only s"
    "s1 = s\<lparr>w_read_only := True, w_in_query_or_validator := True\<rparr>"
    "s3 = s2\<lparr>w_read_only := False, w_in_query_or_validator := w_in_query_or_validator s\<rparr>"
  shows "\<not> w_deleting s3 \<and> \<not> w_read_only s3 \<and>
    answered job s (s3\<lparr>w_commands := w_commands s3 @ [empty_command\<lparr>cmd_variant := CV_RespondToQuery (qj_query_id job) res\<rparr>]\<rparr>)"
  using assms by (simp add: frozen_def answered_def)

lemma query_failed_run:
  assumes "\<not> w_deleting s" "\<not> w_read_only s" "query_failed job e s = (Inr (), s')"
  shows "\<exists>res. s' = s\<lparr>w_commands := w_commands s @ [empty_command\<lparr>cmd_variant := CV_RespondToQuery (qj_query_id job) res\<rparr>]\<rparr>"
  using assms
  by (auto simp: query_failed_def prun add_command_def assert_not_read_only_def set_variant_def modify_command_def
      split: sum.splits if_splits)

lemma query_answered_swp:
  assumes "\<not> w_deleting s" "\<not> w_read_only s" "sync_query s (qj_query_type job)"
  shows "swp (run_query job) (\<lambda>r s'. case r of Inl _ \<Rightarrow> True | Inr _ \<Rightarrow> answered job s s') s"
proof -
  define s1 where "s1 = s\<lparr>w_read_only := True, w_in_query_or_validator := True\<rparr>"
  have enter: "enter_read_only True s = (Inr (False, w_in_query_or_validator s), s1)"
    using assms(2) by (simp add: enter_read_only_def s1_def)
  have "w_read_only s1" "sync_query s1 (qj_query_type job)"
    using assms(3) by (simp_all add: s1_def sync_query_def)
  note frozen_query = query_frozen[OF this]
  have rest: "swp (case r of Inl e \<Rightarrow> SRaise e
         | Inr v \<Rightarrow> sthen (emit (CV_RespondToQuery (qj_query_id job)
             (Inr (case v of PRaw p \<Rightarrow> p | _ \<Rightarrow> empty_payload)))) (\<lambda>_. SRet PNone))
      (\<lambda>r. swp (case r of Inr v \<Rightarrow> SRet v
        | Inl e \<Rightarrow> (if isinstance e C_Exception then sthen (query_failed job e) (\<lambda>_. SRet PNone) else SRaise e))
        (\<lambda>r s'. case r of Inl _ \<Rightarrow> True | Inr _ \<Rightarrow> answered job s s'))
      (s2\<lparr>w_read_only := False, w_in_query_or_validator := w_in_query_or_validator s\<rparr>)"
    if "frozen s1 s2" for r s2
  proof -
    define s3 where "s3 = s2\<lparr>w_read_only := False, w_in_query_or_validator := w_in_query_or_validator s\<rparr>"
    have s3: "\<not> w_deleting s3" "\<not> w_read_only s3" "\<And>res. answered job s (s3\<lparr>w_commands := w_commands s3 @
        [empty_command\<lparr>cmd_variant := CV_RespondToQuery (qj_query_id job) res\<rparr>]\<rparr>)"
      using answered_add[OF that assms(1,2) s1_def s3_def] by auto
    show ?thesis
      unfolding s3_def[symmetric] using s3
      by (auto simp: swp_rules emit_run dest!: query_failed_run[OF s3(1,2)] split: sum.splits prod.splits)
  qed
  show ?thesis
    unfolding run_query_def swp_rules enter
    by (simp, rule swp_mono[OF frozen_query]) (simp add: rest swp_rules exit_read_only_def prun)
qed

text \<open>C10 A query with a synchronous handler is answered exactly once: when its coroutine ends normally, the
  completion has one command more, the response to that query, successful or failed; the read-only
  flags are back to what they were, and no sequence number was taken.\<close>

theorem query_answered_once:
  assumes "coro_run n (CSdk (sdk_body (P_run_query job))) [] s = (Finished (Inr v), s')"
    "\<not> w_deleting s" "\<not> w_read_only s" "sync_query s (qj_query_type job)"
  shows "answered job s s'"
  using swp_finished[OF query_answered_swp[OF assms(2-4)], of n "Inr v" s'] assms(1) by simp


definition ex_query :: query_job where
  "ex_query = \<lparr>qj_query_id = ''q1'', qj_query_type = ''__temporal_workflow_metadata'', qj_arguments = [], qj_headers = []\<rparr>"

theorem query_answered_once_witness:
  "\<exists>v s'. coro_run 20 (CSdk (sdk_body (P_run_query ex_query))) [] (m_core ex_started) = (Finished (Inr v), s') \<and>
     answered ex_query (m_core ex_started) s'"
proof -
  let ?s = "m_core ex_started"
  have q: "\<exists>d. handler_for (w_queries ?s) ''__temporal_workflow_metadata'' = Some d \<and> qd_fn d = QueryMetadata
      \<and> qd_name d = Some ''__temporal_workflow_metadata'' \<and> qd_arg_types d = Some []"
    by (simp add: run_defs ex_defs ex_sleeper_def ex_started_def handler_for_def initial_queries_def builtin_query_def
      dset_def dget_def)
  then have sync: "sync_query ?s (qj_query_type ex_query)"
    by (auto simp: sync_query_def ex_query_def)
  have conv: "wf_payload_converter ?s = ex_payload_converter"
    by (simp add: run_defs ex_defs ex_sleeper_def ex_started_def)
  have conv': "wf_payload_converter (?s\<lparr>w_read_only := ro, w_in_query_or_validator := iq\<rparr>) = ex_payload_converter" for ro iq
    using conv by (simp add: wf_payload_converter_def payload_converter_with_context_def workflow_context_def
      cong: option.case_cong)
  have "\<exists>v s'. coro_run 20 (CSdk (sdk_body (P_run_query ex_query))) [] ?s = (Finished (Inr v), s')"
    using q ex_started_timer
    by (auto simp: eval_nat_numeral run_query_def query_in_read_only_def handle_query_def sthen_def sdo_def sfinally_def
      prun enter_read_only_def exit_read_only_def process_handler_args_def convert_payloads_def p_result_payload_def
      p_to_payloads_def conv' str_truthy_def ex_query_def ex_payload_converter_def emit_run sret_def)
  then show ?thesis
    using query_answered_once[OF _ _ _ sync] ex_started_timer by blast
qed

end
