(* ===== verification/Wf_Fuel.thy ===== *)
theory Wf_Fuel
  imports Wf_Spec
begin

section \<open>Fuel and quiescence\<close>

text \<open>
  The fuel of the model only bounds the number of steps: a computation that does not run out of it has
  the same outcome with more.  \<open>fuel_le m m'\<close> is the flat order in which running out of fuel
  is the least outcome, and every part of the machine is monotone for it.  The second part shows that
  the event loop only stops when nothing is ready.
\<close>

named_theorems fuel \<open>monotonicity rules for the fuel order\<close>

definition fuel_le :: "('u, 'a) mm \<Rightarrow> ('u, 'a) mm \<Rightarrow> bool" where
  "fuel_le m m' \<longleftrightarrow> (\<forall>M. fst (m M) \<noteq> Inl OutOfFuel \<longrightarrow> m' M = m M)"

lemma fuel_leD: "fuel_le m m' \<Longrightarrow> m M = (r, M') \<Longrightarrow> r \<noteq> Inl OutOfFuel \<Longrightarrow> m' M = (r, M')"
  by (auto simp: fuel_le_def)

lemma fuel_le_refl [fuel]: "fuel_le m m"
  by (simp add: fuel_le_def)

lemma fuel_le_least [fuel]: "fuel_le (praise OutOfFuel) m"
  by (simp add: fuel_le_def prun)

lemma fuel_le_pbind [fuel]:
  assumes "fuel_le m m'" "\<And>a. fuel_le (f a) (f' a)"
  shows "fuel_le (pbind m f) (pbind m' f')"
  unfolding fuel_le_def
proof (intro allI impI)
  fix M
  assume ok: "fst (pbind m f M) \<noteq> Inl OutOfFuel"
  obtain r M1 where m: "m M = (r, M1)" by (cases "m M")
  with ok have "r \<noteq> Inl OutOfFuel" by (auto simp: prun)
  with fuel_leD[OF assms(1) m] m ok assms(2) show "pbind m' f' M = pbind m f M"
    by (cases r) (auto simp: prun fuel_le_def)
qed

lemma fuel_le_pthen [fuel]: "fuel_le m m' \<Longrightarrow> fuel_le k k' \<Longrightarrow> fuel_le (pthen m k) (pthen m' k')"
  by (simp add: pthen_def fuel_le_pbind)

lemma fuel_le_pcatch [fuel]:
  assumes "fuel_le m m'" "\<And>e. fuel_le (h e) (h' e)" "h OutOfFuel = praise OutOfFuel"
  shows "fuel_le (pcatch m h) (pcatch m' h')"
  unfolding fuel_le_def
proof (intro allI impI)
  fix M
  assume ok: "fst (pcatch m h M) \<noteq> Inl OutOfFuel"
  obtain r M1 where m: "m M = (r, M1)" by (cases "m M")
  with ok assms(3) have "r \<noteq> Inl OutOfFuel" by (auto simp: prun)
  with fuel_leD[OF assms(1) m] m ok assms(2) show "pcatch m' h' M = pcatch m h M"
    by (cases r) (auto simp: prun fuel_le_def)
qed

lemma fuel_le_pfinally [fuel]: "fuel_le m m' \<Longrightarrow> fuel_le (pfinally m g) (pfinally m' g)"
  by (auto simp: fuel_le_def prun split: prod.splits)

lemma fuel_le_pwhen [fuel]: "fuel_le m m' \<Longrightarrow> fuel_le (pwhen b m) (pwhen b m')"
  by (simp add: fuel_le_def prun)

lemma fuel_le_pfor [fuel]: "(\<And>x. fuel_le (f x) (f' x)) \<Longrightarrow> fuel_le (pfor xs f) (pfor xs f')"
  by (induction xs) (simp_all add: fuel_le_refl fuel_le_pthen)

lemma fuel_le_if [fuel]: "fuel_le m m' \<Longrightarrow> fuel_le k k' \<Longrightarrow> fuel_le (if b then m else k) (if b then m' else k')"
  by simp

lemma fuel_le_option [fuel]: "fuel_le m m' \<Longrightarrow> (\<And>x. fuel_le (f x) (f' x)) \<Longrightarrow>
    fuel_le (case v of None \<Rightarrow> m | Some x \<Rightarrow> f x) (case v of None \<Rightarrow> m' | Some x \<Rightarrow> f' x)"
  by (simp split: option.split)

lemma fuel_le_prod [fuel]: "(\<And>x y. fuel_le (f x y) (f' x y)) \<Longrightarrow>
    fuel_le (case v of (x, y) \<Rightarrow> f x y) (case v of (x, y) \<Rightarrow> f' x y)"
  by (simp split: prod.split)

subsection \<open>The machine\<close>

lemma coro_run_mono:
  assumes "coro_run n c fs s = (r, s')" "n \<le> n'" "\<And>c fs. r \<noteq> Running c fs"
  shows "coro_run n' c fs s = (r, s')"
  using assms
proof (induction n arbitrary: n' c fs s)
  case (Suc n)
  then obtain m where "n' = Suc m" "n \<le> m" by (cases n') auto
  with Suc show ?case
    by (auto split: prod.splits step_out.splits)
qed auto

text \<open>A coroutine whose unfinished run counts as running out of fuel.\<close>

lemma fuel_le_coro [fuel]:
  assumes "n \<le> n'" "\<And>r. fuel_le (g r) (g' r)" "\<And>c fs M. fst (g (Running c fs) M) = Inl OutOfFuel"
  shows "fuel_le (pbind (m_coro_run n c fs) g) (pbind (m_coro_run n' c fs) g')"
  unfolding fuel_le_def
proof (intro allI impI)
  fix M
  assume ok: "fst (pbind (m_coro_run n c fs) g M) \<noteq> Inl OutOfFuel"
  obtain r s where run: "coro_run n c fs (m_core M) = (r, s)" by (cases "coro_run n c fs (m_core M)")
  have "r \<noteq> Running c' fs'" for c' fs'
    using ok assms(3)[of c' fs'] by (auto simp: prun m_coro_run_def run)
  from coro_run_mono[OF run assms(1) this] ok assms(2)[of r]
  show "pbind (m_coro_run n' c fs) g' M = pbind (m_coro_run n c fs) g M"
    by (auto simp: prun m_coro_run_def run fuel_le_def)
qed

lemma fuel_le_task_step [fuel]: "n \<le> n' \<Longrightarrow> fuel_le (task_step n t exc) (task_step n' t exc)"
  unfolding task_step_def
  by (intro fuel) (auto simp: prun intro!: fuel split: step_out.split)

lemma fuel_le_handle_body [fuel]: "n \<le> n' \<Longrightarrow> fuel_le (handle_body n h) (handle_body n' h)"
  by (cases "(n, h)" rule: handle_body.cases) (auto intro!: fuel)

lemma fuel_le_run_handle [fuel]: "n \<le> n' \<Longrightarrow> fuel_le (run_handle n h) (run_handle n' h)"
  unfolding run_handle_def by (intro fuel) simp_all

lemma fuel_le_loop_ready [fuel]: "n \<le> n' \<Longrightarrow> fuel_le (loop_ready n check) (loop_ready n' check)"
proof (induction n arbitrary: n')
  case (Suc n)
  then obtain m where "n' = Suc m" "n \<le> m" by (cases n') auto
  with Suc.IH[of m] show ?case
    unfolding \<open>n' = Suc m\<close> loop_ready.simps by (intro fuel) simp_all
qed (simp add: fuel_le_least)

lemma fuel_le_instantiate [fuel]:
  "n \<le> n' \<Longrightarrow> fuel_le (instantiate_workflow_object n) (instantiate_workflow_object n')"
  unfolding instantiate_workflow_object_def
  by (intro fuel) (auto simp: prun intro!: fuel split: step_out.split sum.split)

lemma fuel_le_run_once [fuel]: "n \<le> n' \<Longrightarrow> fuel_le (run_once n check) (run_once n' check)"
  unfolding run_once_def by (intro fuel) simp_all

lemma fuel_le_process_jobs [fuel]: "n \<le> n' \<Longrightarrow> fuel_le (process_jobs n js) (process_jobs n' js)"
  unfolding process_jobs_def run_job_set_def Let_def by (intro fuel) simp_all

lemma fuel_le_activate [fuel]: "n \<le> n' \<Longrightarrow> fuel_le (activate n act) (activate n' act)"
  unfolding activate_def activation_body_def Let_def by (intro fuel) simp_all



subsection \<open>Quiescence\<close>

definition nothing_ready :: "'u machine \<Rightarrow> bool" where
  "nothing_ready M \<longleftrightarrow> a_ready (w_aio (m_core M)) = []"

lemma loop_ready_quiescent: "loop_ready n check M = (Inr (), M') \<Longrightarrow> nothing_ready M'"
  by (induction n arbitrary: M)
    (auto simp: prun nothing_ready_def split: prod.splits sum.splits option.splits if_splits)

lemma run_once_quiescent: "run_once n check M = (Inr (), M') \<Longrightarrow> nothing_ready M'"
  by (auto simp: run_once_def prun nothing_ready_def dest: loop_ready_quiescent[unfolded nothing_ready_def]
      split: prod.splits sum.splits if_splits)

lemma job_sets_quiescent:
  "pfor sets (run_job_set n) M = (Inr (), M') \<Longrightarrow> nothing_ready M \<or> (\<exists>x\<in>set sets. fst x \<noteq> []) \<Longrightarrow> nothing_ready M'"
proof (induction sets arbitrary: M)
  case (Cons x sets)
  then obtain M1 where M1: "run_job_set n x M = (Inr (), M1)" "pfor sets (run_job_set n) M1 = (Inr (), M')"
    by (auto simp: prun split: prod.splits sum.splits)
  show ?case
  proof (cases "fst x = []")
    case True
    with M1(1) have "M1 = M" by (cases x) (simp add: run_job_set_def prun)
    with Cons.IH[OF M1(2)] Cons.prems(2) True show ?thesis by auto
  next
    case False
    with M1(1) have "nothing_ready M1"
      by (cases x) (auto simp: run_job_set_def prun run_once_quiescent split: prod.splits sum.splits)
    with Cons.IH[OF M1(2)] show ?thesis by auto
  qed
qed (simp add: prun)

text \<open>C12 When the jobs of an activation have been processed without an exception, nothing is left to run:
  the ready queue is empty, whichever way the jobs are batched.\<close>

theorem activation_quiescent:
  assumes "activation_body n act M = (Inr (), M')" "ac_jobs act \<noteq> []"
  shows "a_ready (w_aio (m_core M')) = []"
proof -
  let ?js = "split_jobs (ac_jobs act)"
  let ?jobs = "js_patches ?js @ js_signals_updates ?js @ js_others ?js @ js_queries ?js"
  have "mset ?jobs = mset (ac_jobs act)"
    using filters_partition[of "ac_jobs act"] by (simp add: split_jobs_def split_jobs_fields empty_job_sets_def)
  with assms(2) have some: "?jobs \<noteq> []" by (metis mset_zero_iff)
  from assms(1) obtain M1 where M1: "process_jobs n ?js M1 = (Inr (), M')"
    by (auto simp: activation_body_def Let_def prun split: prod.splits sum.splits)
  show ?thesis
  proof (cases "w_single_batch_activation (m_core M1)")
    case True
    with M1 some have "\<exists>M2 check. run_once n check M2 = (Inr (), M')"
      by (auto simp: process_jobs_def prun Let_def split: prod.splits sum.splits)
    then show ?thesis by (auto dest: run_once_quiescent simp: nothing_ready_def)
  next
    case False
    with M1 have "pfor [(js_patches ?js, False), (js_signals_updates ?js, True), (js_others ?js, True),
        (js_queries ?js, False)] (run_job_set n) M1 = (Inr (), M')"
      by (simp add: process_jobs_def prun)
    from job_sets_quiescent[OF this] some show ?thesis by (auto simp: nothing_ready_def)
  qed
qed

theorem activation_quiescent_witness:
  "\<exists>M'. activation_body 20 (ex_activation [J_FireTimer 1]) ex_started = (Inr (), M') \<and>
     a_ready (w_aio (m_core M')) = []"
proof -
  have "\<exists>M'. activation_body 20 (ex_activation [J_FireTimer 1]) ex_started = (Inr (), M')"
    by (simp add: run_defs ex_defs ex_sleeper_def ex_started_def apply_fire_timer_def
      run_timer_def fut_cancelled_def fut_result_def)
  then obtain M' where M': "activation_body 20 (ex_activation [J_FireTimer 1]) ex_started = (Inr (), M')" ..
  with activation_quiescent[OF M'] show ?thesis by (simp add: ex_activation_def)
qed

end
