(* ===== verification/Wf_Memo_Signals.thy ===== *)
theory Wf_Memo_Signals
  imports Wf_Spec
begin

section \<open>Memo updates and the delivery of signals\<close>

text \<open>
  Two longer properties of single operations: \<^verbatim>\<open>workflow_upsert_memo\<close> keeps the cache of decoded memo
  values in step with the raw memo, and signals that arrive before their handler are delivered in
  order when the handler is set.
\<close>

subsection \<open>Dictionaries updated in bulk\<close>

lemma put_all_simps [simp]: "put_all [] d = d" "put_all ((k, v) # kvs) d = put_all kvs (dset k v d)"
  by (simp_all add: put_all_def)

lemma pop_all_simps [simp]: "pop_all [] d = d" "pop_all (k # ks) d = pop_all ks (dpop k d)"
  by (simp_all add: pop_all_def)

lemma dget_put_all:
  "distinct (dkeys kvs) \<Longrightarrow> dget (put_all kvs d) k = (case dget kvs k of None \<Rightarrow> dget d k | Some v \<Rightarrow> Some v)"
proof (induction kvs arbitrary: d)
  case (Cons kv kvs)
  then show ?case
    using dget_None_iff[of kvs "fst kv"]
    by (cases kv) (auto simp: dget_Cons dget_dset dkeys_def split: option.split)
qed simp

lemma dset_dset [simp]: "dset k v (dset k w d) = dset k v d"
  by (induction d) (auto simp: dset_def)

lemma dget_pop_all: "dget (pop_all ks d) k = (if k \<in> set ks then None else dget d k)"
  by (induction ks arbitrary: d) (auto simp: dget_dpop)

subsection \<open>Memo\<close>

lemma split_memo_updates_spec:
  assumes "split_memo_updates pc us = Inr (ups, rems)" "distinct (dkeys us)"
  shows "distinct (dkeys ups) \<and> set (dkeys ups) \<subseteq> set (dkeys us) \<and>
    (\<forall>k. k \<in> set rems \<longleftrightarrow> dget us k = Some PNone) \<and>
    (\<forall>k p. dget ups k = Some p \<longleftrightarrow> (\<exists>v. dget us k = Some v \<and> v \<noteq> PNone \<and> to_payload pc v = Inr p)) \<and>
    (\<forall>k v. dget us k = Some v \<and> v \<noteq> PNone \<longrightarrow> (\<exists>p. to_payload pc v = Inr p))"
  using assms
proof (induction us arbitrary: ups rems)
  case (Cons kv us)
  obtain k v where kv: "kv = (k, v)" by (cases kv)
  obtain ups' rems' where rest: "split_memo_updates pc us = Inr (ups', rems')"
    using Cons.prems(1) by (cases "split_memo_updates pc us") (auto simp: kv split: if_splits sum.splits)
  have d: "distinct (dkeys us)" "dget us k = None"
    using Cons.prems(2) by (auto simp: kv dkeys_def dget_None_iff)
  note IH = Cons.IH[OF rest d(1)]
  show ?case
  proof (cases "v = PNone")
    case True
    then have "ups = ups'" "rems = k # rems'"
      using Cons.prems(1) rest by (auto simp: kv)
    with IH d(2) True show ?thesis
      by (auto simp: kv dget_Cons dkeys_def)
  next
    case False
    then obtain p where p: "to_payload pc v = Inr p" "ups = (k, p) # ups'" "rems = rems'"
      using Cons.prems(1) rest by (auto simp: kv split: sum.splits)
    moreover have "k \<notin> set (dkeys us)"
      using d(2) by (simp add: dget_None_iff)
    ultimately show ?thesis
      using IH d(2) False by (auto simp: kv dget_Cons dkeys_def)
  qed
qed (simp add: dkeys_def)

definition raw_memo :: "'u core \<Rightarrow> (string, payload) dict" where
  "raw_memo s = wi_raw_memo (w_info s)"

text \<open>The cache holds exactly the decoded values of the raw memo.\<close>

definition memo_decoded :: "payload_converter \<Rightarrow> (string, payload) dict \<Rightarrow> (string, pyval) dict \<Rightarrow> bool" where
  "memo_decoded pc raw d \<longleftrightarrow> (\<forall>k. map_option (\<lambda>p. from_payload pc p None) (dget raw k) = map_option Inr (dget d k))"

definition memo_coherent :: "'u core \<Rightarrow> bool" where
  "memo_coherent s \<longleftrightarrow> (\<forall>d. w_memo_cache s = Some d \<longrightarrow> memo_decoded (wf_payload_converter s) (raw_memo s) d)"

lemma converter_raw_memo [simp]:
  "wf_payload_converter (s\<lparr>w_info := (w_info s)\<lparr>wi_raw_memo := m\<rparr>\<rparr>) = wf_payload_converter s"
  "wf_payload_converter (s\<lparr>w_commands := cs\<rparr>) = wf_payload_converter s"
  "wf_payload_converter (s\<lparr>w_memo_cache := c\<rparr>) = wf_payload_converter s"
  by (simp_all add: wf_payload_converter_def payload_converter_with_context_def workflow_context_def split: option.split)

lemma converter_cong: "w_det s' = w_det s \<Longrightarrow> wi_namespace (w_info s') = wi_namespace (w_info s) \<Longrightarrow>
    wi_workflow_id (w_info s') = wi_workflow_id (w_info s) \<Longrightarrow> wf_payload_converter s' = wf_payload_converter s"
  by (simp add: wf_payload_converter_def payload_converter_with_context_def workflow_context_def split: option.split)

lemma memo_decoded_put:
  "memo_decoded pc raw d \<Longrightarrow> from_payload pc p None = Inr v \<Longrightarrow> memo_decoded pc (dset k p raw) (dset k v d)"
  by (auto simp: memo_decoded_def dget_dset)

lemma memo_decoded_pop: "memo_decoded pc raw d \<Longrightarrow> memo_decoded pc (pop_all ks raw) (pop_all ks d)"
  by (simp add: memo_decoded_def dget_pop_all)

text \<open>The loop that brings the cache up to date.\<close>

definition cache_updates :: "(string \<times> payload) list \<Rightarrow> ('u, unit) wm" where
  "cache_updates ups = pfor ups (\<lambda>(k, p). pbind (pget (\<lambda>s. from_payload (wf_payload_converter s) p None)) (\<lambda>r.
     pbind (plift r) (\<lambda>v. pmod (\<lambda>s. s\<lparr>w_memo_cache := map_option (dset k v) (w_memo_cache s)\<rparr>))))"

lemma cache_updates_run:
  assumes "cache_updates ups s = (Inr (), s')" "w_memo_cache s = Some d" "memo_decoded (wf_payload_converter s) raw d"
  shows "\<exists>d'. s' = s\<lparr>w_memo_cache := Some d'\<rparr> \<and> memo_decoded (wf_payload_converter s) (put_all ups raw) d'"
  using assms
proof (induction ups arbitrary: s d raw)
  case Nil
  then show ?case by (auto simp: cache_updates_def prun intro!: exI[of _ d])
next
  case (Cons kp ups)
  obtain k p where kp: "kp = (k, p)" by (cases kp)
  from Cons.prems(1) obtain v where v: "from_payload (wf_payload_converter s) p None = Inr v"
    and rest: "cache_updates ups (s\<lparr>w_memo_cache := Some (dset k v d)\<rparr>) = (Inr (), s')"
    using Cons.prems(2) by (auto simp: cache_updates_def kp prun split: sum.splits)
  from Cons.IH[OF rest, of "dset k v d" "dset k p raw"] memo_decoded_put[OF Cons.prems(3) v]
  show ?case by (auto simp: kp)
qed


lemma upsert_memo_steps:
  assumes "workflow_upsert_memo us s = (Inr (), s')"
    "split_memo_updates (wf_payload_converter s) us = Inr (ups, rems)" "\<not> (ups = [] \<and> rems = [])"
  shows "\<exists>s1. raw_memo s1 = pop_all rems (put_all ups (raw_memo s)) \<and> w_memo_cache s1 = w_memo_cache s \<and>
    wf_payload_converter s1 = wf_payload_converter s \<and>
    (case w_memo_cache s of None \<Rightarrow> s' = s1
     | Some _ \<Rightarrow> \<exists>s2. cache_updates ups s1 = (Inr (), s2) \<and>
         s' = s2\<lparr>w_memo_cache := map_option (pop_all rems) (w_memo_cache s2)\<rparr>)"
proof -
  define fin :: "('a, unit) wm" where "fin = pbind (pget w_memo_cache) (\<lambda>c. case c of None \<Rightarrow> pret ()
      | Some _ \<Rightarrow> pthen (cache_updates ups) (pmod (\<lambda>s. s\<lparr>w_memo_cache := map_option (pop_all rems) (w_memo_cache s)\<rparr>)))"
  have "\<exists>cs. fin (s\<lparr>w_commands := cs,
      w_info := (w_info s)\<lparr>wi_raw_memo := pop_all rems (put_all ups (wi_raw_memo (w_info s)))\<rparr>\<rparr>) = (Inr (), s')"
    using assms
    by (auto simp: workflow_upsert_memo_def prun add_command_def guard_run upd_info_def set_variant_def modify_command_def
        p_to_payload_def cache_updates_def[symmetric] fin_def[symmetric] split: prod.splits sum.splits if_splits)
  then obtain cs where cs: "fin (s\<lparr>w_commands := cs,
      w_info := (w_info s)\<lparr>wi_raw_memo := pop_all rems (put_all ups (wi_raw_memo (w_info s)))\<rparr>\<rparr>) = (Inr (), s')" ..
  define s1 where "s1 = s\<lparr>w_commands := cs,
      w_info := (w_info s)\<lparr>wi_raw_memo := pop_all rems (put_all ups (wi_raw_memo (w_info s)))\<rparr>\<rparr>"
  have "fin s1 = (Inr (), s')"
    by (subst s1_def) (fact cs)
  moreover have "raw_memo s1 = pop_all rems (put_all ups (raw_memo s))" "w_memo_cache s1 = w_memo_cache s"
    "wf_payload_converter s1 = wf_payload_converter s"
    by (simp_all add: raw_memo_def s1_def converter_cong[of "s\<lparr>w_commands := cs, w_info := i\<rparr>" s for cs i])
  ultimately have "\<exists>s1. raw_memo s1 = pop_all rems (put_all ups (raw_memo s)) \<and> w_memo_cache s1 = w_memo_cache s \<and>
    wf_payload_converter s1 = wf_payload_converter s \<and> fin s1 = (Inr (), s')"
    by blast
  then show ?thesis
    by (fastforce simp: fin_def prun split: option.splits prod.splits sum.splits)
qed


lemma upsert_memo_run:
  assumes "workflow_upsert_memo us s = (Inr (), s')" "memo_coherent s"
    "split_memo_updates (wf_payload_converter s) us = Inr (ups, rems)"
  shows "memo_coherent s' \<and> raw_memo s' = pop_all rems (put_all ups (raw_memo s))"
proof (cases "ups = [] \<and> rems = []")
  case True
  with assms show ?thesis
    by (auto simp: workflow_upsert_memo_def prun)
next
  case False
  from upsert_memo_steps[OF assms(1,3) False] obtain s1 where
    s1: "raw_memo s1 = pop_all rems (put_all ups (raw_memo s))" "w_memo_cache s1 = w_memo_cache s"
      "wf_payload_converter s1 = wf_payload_converter s" and
    fin: "case w_memo_cache s of None \<Rightarrow> s' = s1
     | Some _ \<Rightarrow> \<exists>s2. cache_updates ups s1 = (Inr (), s2) \<and>
         s' = s2\<lparr>w_memo_cache := map_option (pop_all rems) (w_memo_cache s2)\<rparr>"
    by blast
  show ?thesis
  proof (cases "w_memo_cache s")
    case None
    with fin s1 show ?thesis by (simp add: memo_coherent_def)
  next
    case (Some d)
    with fin obtain s2 where s2: "cache_updates ups s1 = (Inr (), s2)"
      "s' = s2\<lparr>w_memo_cache := map_option (pop_all rems) (w_memo_cache s2)\<rparr>" by auto
    from Some assms(2) have "memo_decoded (wf_payload_converter s1) (raw_memo s) d"
      by (simp add: memo_coherent_def s1)
    from cache_updates_run[OF s2(1) _ this] Some s1(2) obtain d' where
      d': "s2 = s1\<lparr>w_memo_cache := Some d'\<rparr>" "memo_decoded (wf_payload_converter s1) (put_all ups (raw_memo s)) d'"
      by auto
    with memo_decoded_pop[OF d'(2), of rems] show ?thesis
      by (auto simp: s2(2) memo_coherent_def raw_memo_def s1(1)[unfolded raw_memo_def])
  qed
qed

text \<open>C16 A successful \<^verbatim>\<open>upsert_memo\<close> sets every key with a value to its payload, removes every key that is
  given as \<^verbatim>\<open>None\<close>, leaves the others alone, and keeps the cache of decoded values equal to what decoding
  the raw memo gives.\<close>

theorem upsert_memo_correct:
  assumes "workflow_upsert_memo us s = (Inr (), s')" "memo_coherent s" "distinct (dkeys us)"
  shows "memo_coherent s' \<and> (\<forall>k. case dget us k of
      None \<Rightarrow> dget (raw_memo s') k = dget (raw_memo s) k
    | Some v \<Rightarrow> (if v = PNone then dget (raw_memo s') k = None
                 else \<exists>p. to_payload (wf_payload_converter s) v = Inr p \<and> dget (raw_memo s') k = Some p))"
proof -
  obtain ups rems where split: "split_memo_updates (wf_payload_converter s) us = Inr (ups, rems)"
    using assms(1) by (cases "split_memo_updates (wf_payload_converter s) us") (auto simp: workflow_upsert_memo_def prun)
  note spec = split_memo_updates_spec[OF split assms(3)]
  have raw: "memo_coherent s'" "raw_memo s' = pop_all rems (put_all ups (raw_memo s))"
    using upsert_memo_run[OF assms(1,2) split] by auto
  have "case dget us k of
      None \<Rightarrow> dget (raw_memo s') k = dget (raw_memo s) k
    | Some v \<Rightarrow> (if v = PNone then dget (raw_memo s') k = None
                 else \<exists>p. to_payload (wf_payload_converter s) v = Inr p \<and> dget (raw_memo s') k = Some p)" for k
  proof (cases "dget us k")
    case None
    with spec have "dget ups k = None" "k \<notin> set rems"
      by (auto intro: option_eqI)
    with None spec show ?thesis
      by (simp add: raw dget_pop_all dget_put_all)
  next
    case (Some v)
    show ?thesis
    proof (cases "v = PNone")
      case True
      with Some spec show ?thesis by (simp add: raw dget_pop_all)
    next
      case False
      with Some spec obtain p where "to_payload (wf_payload_converter s) v = Inr p" by blast
      moreover from this Some False spec have ups: "dget ups k = Some p" "k \<notin> set rems" by auto
      moreover have "distinct (dkeys ups)" using spec by blast
      ultimately show ?thesis
        using Some False by (simp add: raw dget_pop_all dget_put_all)
    qed
  qed
  with raw(1) show ?thesis by blast
qed


theorem upsert_memo_correct_witness:
  "\<exists>s'. workflow_upsert_memo [(''a'', PInt 1), (''b'', PNone)] (m_core ex_started) = (Inr (), s') \<and>
     memo_coherent s' \<and> dget (raw_memo s') ''a'' = Some empty_payload \<and> dget (raw_memo s') ''b'' = None"
proof -
  let ?s = "m_core ex_started" and ?us = "[(''a'', PInt 1), (''b'', PNone)]"
  have conv: "wf_payload_converter ?s = ex_payload_converter" "w_memo_cache ?s = None"
    by (simp_all add: run_defs ex_defs ex_sleeper_def ex_started_def)
  have "\<exists>s'. workflow_upsert_memo ?us ?s = (Inr (), s')"
    using ex_started_timer conv
    by (simp add: workflow_upsert_memo_def prun add_command_def assert_not_read_only_def upd_info_def set_variant_def modify_command_def
        p_to_payload_def ex_payload_converter_def converter_cong[of "m_core ex_started\<lparr>w_commands := cs, w_info := i\<rparr>" "m_core ex_started" for cs i])
  then obtain s' where s': "workflow_upsert_memo ?us ?s = (Inr (), s')" ..
  have "memo_coherent ?s" by (simp add: memo_coherent_def conv)
  from upsert_memo_correct[OF s' this] have c: "memo_coherent s'"
    and k: "\<And>k. case dget ?us k of
      None \<Rightarrow> dget (raw_memo s') k = dget (raw_memo ?s) k
    | Some v \<Rightarrow> (if v = PNone then dget (raw_memo s') k = None
                 else \<exists>p. to_payload (wf_payload_converter ?s) v = Inr p \<and> dget (raw_memo s') k = Some p)"
    by (simp_all add: dkeys_def)
  from k[of "''a''"] k[of "''b''"] c s' show ?thesis
    by (simp add: dget_Cons conv ex_payload_converter_def)
qed

subsection \<open>Signals\<close>

text \<open>The signal that a queued handle starts to handle, and all queued signals in order.\<close>

definition starts_signal :: "'u core \<Rightarrow> handle \<Rightarrow> handle_signal_input option" where
  "starts_signal s h = (case h of
     HStep t \<Rightarrow> (case a_taskinfo (w_aio s) t of
        Some ti \<Rightarrow> (case t_start ti of StartProc (P_run_top_level (P_handle_signal i)) \<Rightarrow> Some i | _ \<Rightarrow> None)
      | None \<Rightarrow> None)
   | _ \<Rightarrow> None)"

definition queued_signals :: "'u core \<Rightarrow> handle_signal_input list" where
  "queued_signals s = List.map_filter (starts_signal s) (a_ready (w_aio s))"

definition queue_ids_ok :: "'u core \<Rightarrow> bool" where
  "queue_ids_ok s \<longleftrightarrow> (\<forall>t. HStep t \<in> set (a_ready (w_aio s)) \<longrightarrow> t < w_next_id s)"

text \<open>The input a signal job is delivered with, unless its payloads do not convert.\<close>

definition signal_input :: "'u core \<Rightarrow> 'u signal_defn \<Rightarrow> signal_job \<Rightarrow> handle_signal_input option" where
  "signal_input s defn job = (case process_handler_args s (sj_signal_name job) (sj_input job)
       (sd_name defn) (sd_arg_types defn) (sd_dynamic_vararg defn) of
     Inl _ \<Rightarrow> None
   | Inr args \<Rightarrow> Some \<lparr>hs_signal = sj_signal_name job, hs_args = args, hs_headers = sj_headers job\<rparr>)"

lemma map_filter_cong: "(\<And>x. x \<in> set xs \<Longrightarrow> f x = g x) \<Longrightarrow> List.map_filter f xs = List.map_filter g xs"
  by (induction xs) (simp_all add: List.map_filter_simps split: option.split)

lemma map_filter_append: "List.map_filter f (xs @ ys) = List.map_filter f xs @ List.map_filter f ys"
  by (simp add: List.map_filter_def)

lemma queued_signals_start:
  assumes "queue_ids_ok s" "a_ready (w_aio s') = a_ready (w_aio s) @ [HStep (w_next_id s)]"
    "a_taskinfo (w_aio s') = (a_taskinfo (w_aio s))(w_next_id s \<mapsto> ti)"
    "t_start ti = StartProc (P_run_top_level (P_handle_signal i))"
  shows "queued_signals s' = queued_signals s @ [i]"
proof -
  have "List.map_filter (starts_signal s') (a_ready (w_aio s)) = List.map_filter (starts_signal s) (a_ready (w_aio s))"
    using assms(1) by (intro map_filter_cong) (auto simp: starts_signal_def assms(3) queue_ids_ok_def split: handle.splits)
  then show ?thesis
    using assms(4) by (simp add: queued_signals_def assms(2) map_filter_append List.map_filter_simps starts_signal_def assms(3))
qed

definition same_conversion :: "'u core \<Rightarrow> 'u core \<Rightarrow> bool" where
  "same_conversion s s' \<longleftrightarrow> w_det s' = w_det s \<and> w_info s' = w_info s \<and>
     w_dynamic_failure_exception_types s' = w_dynamic_failure_exception_types s"

lemma signal_input_cong: "same_conversion s s' \<Longrightarrow> signal_input s' = signal_input s"
proof -
  assume "same_conversion s s'"
  then have eq: "wf_payload_converter s' = wf_payload_converter s"
    "workflow_is_failure_exception s' = workflow_is_failure_exception s"
    by (auto simp: same_conversion_def workflow_is_failure_exception_def[abs_def] converter_cong[of s' s] cong: option.case_cong)
  have "convert_payloads s' = convert_payloads s"
    by (intro ext) (unfold convert_payloads_def eq, rule refl)
  then show ?thesis
    by (intro ext) (unfold signal_input_def process_handler_args_def eq, simp)
qed

lemma process_signal_job_run:
  assumes "process_signal_job defn job s = (Inr (), s')" "queue_ids_ok s"
  shows "queue_ids_ok s' \<and>
    queued_signals s' = queued_signals s @ (case signal_input s defn job of None \<Rightarrow> [] | Some i \<Rightarrow> [i]) \<and>
    same_conversion s s' \<and> w_buffered_signals s' = w_buffered_signals s"
proof (cases "process_handler_args s (sj_signal_name job) (sj_input job) (sd_name defn) (sd_arg_types defn) (sd_dynamic_vararg defn)")
  case (Inl e)
  with assms show ?thesis
    by (auto simp: process_signal_job_def prun signal_input_def same_conversion_def split: if_splits)
next
  case (Inr args)
  have "a_ready (w_aio s') = a_ready (w_aio s) @ [HStep (w_next_id s)] \<and> w_next_id s' = Suc (w_next_id s) \<and>
    (\<exists>ti. a_taskinfo (w_aio s') = (a_taskinfo (w_aio s))(w_next_id s \<mapsto> ti) \<and>
       t_start ti = StartProc (P_run_top_level (P_handle_signal
         \<lparr>hs_signal = sj_signal_name job, hs_args = args, hs_headers = sj_headers job\<rparr>))) \<and>
    same_conversion s s' \<and> w_buffered_signals s' = w_buffered_signals s"
    using assms(1) Inr
    by (auto simp: process_signal_job_def prun create_task_def new_task_def create_future_def fresh_id_def Let_def
        aio_mod_def call_soon_def register_task_def add_done_callback_def fut_done_def fut_state_def assert_not_read_only_def
        same_conversion_def split: if_splits)
  with assms(2) Inr queued_signals_start[OF assms(2), of s'] show ?thesis
    by (auto simp: queue_ids_ok_def signal_input_def less_Suc_eq)
qed


lemma process_signal_jobs_run:
  assumes "pfor jobs (process_signal_job defn) s = (Inr (), s')" "queue_ids_ok s"
  shows "queued_signals s' = queued_signals s @ List.map_filter (signal_input s defn) jobs \<and>
    w_buffered_signals s' = w_buffered_signals s"
  using assms
proof (induction jobs arbitrary: s)
  case (Cons job jobs)
  then obtain s1 where s1: "process_signal_job defn job s = (Inr (), s1)"
    "pfor jobs (process_signal_job defn) s1 = (Inr (), s')"
    by (auto simp: prun split: prod.splits sum.splits)
  note step = process_signal_job_run[OF s1(1) Cons.prems(2)]
  with Cons.IH[OF s1(2)] signal_input_cong[of s s1] show ?case
    by (simp add: List.map_filter_simps split: option.split)
qed (simp add: prun List.map_filter_simps)

lemma buffer_signal:
  assumes "handler_for (w_signals s) (sj_signal_name job) = None"
  shows "apply_signal_workflow job s = (Inr (), s\<lparr>w_buffered_signals := dset (sj_signal_name job)
    ((case dget (w_buffered_signals s) (sj_signal_name job) of None \<Rightarrow> [] | Some js \<Rightarrow> js) @ [job]) (w_buffered_signals s)\<rparr>)"
  using assms by (simp add: apply_signal_workflow_def prun)

lemma buffer_signals_run:
  assumes "handler_for (w_signals s) name = None" "\<forall>j \<in> set jobs. sj_signal_name j = name" "jobs \<noteq> []"
  shows "pfor jobs apply_signal_workflow s = (Inr (), s\<lparr>w_buffered_signals := dset name
    ((case dget (w_buffered_signals s) name of None \<Rightarrow> [] | Some js \<Rightarrow> js) @ jobs) (w_buffered_signals s)\<rparr>)"
  using assms
proof (induction jobs arbitrary: s)
  case (Cons job jobs)
  let ?s1 = "s\<lparr>w_buffered_signals := dset name
    ((case dget (w_buffered_signals s) name of None \<Rightarrow> [] | Some js \<Rightarrow> js) @ [job]) (w_buffered_signals s)\<rparr>"
  have step: "apply_signal_workflow job s = (Inr (), ?s1)"
    using buffer_signal[of s job] Cons.prems by simp
  show ?case
  proof (cases "jobs = []")
    case True
    then show ?thesis by (simp add: prun step)
  next
    case False
    have "pfor jobs apply_signal_workflow ?s1 = (Inr (), ?s1\<lparr>w_buffered_signals := dset name
      ((case dget (w_buffered_signals ?s1) name of None \<Rightarrow> [] | Some js \<Rightarrow> js) @ jobs) (w_buffered_signals ?s1)\<rparr>)"
      by (rule Cons.IH) (use Cons.prems False in simp_all)
    then show ?thesis by (simp add: prun step dget_dset)
  qed
qed simp



definition ex_signal :: "payload list \<Rightarrow> signal_job" where
  "ex_signal ps = \<lparr>sj_signal_name = ''sig'', sj_input = ps, sj_headers = []\<rparr>"

definition ex_handler :: "unit ucode user_fn" where
  "ex_handler = UserFn False None (Inr False) (\<lambda>_. URet PNone)"


end
