(* ===== verification/Common_Spec.thy ===== *)
theory Common_Spec
  imports Common
begin

section \<open>Properties of the common options\<close>

text \<open>
  Validation and round trips of retry policies, deployment versions and search attributes.  A typed
  collection of search attributes refines a finite map from names to pairs: \<open>by_name\<close> is the
  abstraction, \<open>tsa_ok\<close> the invariant.
\<close>

subsection \<open>Retry policies\<close>

text \<open>\<^verbatim>\<open>RetryPolicy.apply_to_proto\<close> succeeds exactly for the valid policies: retries disabled by one
  attempt, or a non-negative initial interval, a coefficient of at least one, a non-negative number of
  attempts and a maximum interval that is not below the initial one.\<close>

lemma apply_to_proto_accepts:
  "(\<exists>p. retry_policy_apply_to_proto r = Inr p) \<longleftrightarrow>
     maximum_attempts r = 1 \<or>
     0 \<le> initial_interval r \<and> 1 \<le> backoff_coefficient r \<and> 0 \<le> maximum_attempts r \<and>
     initial_interval r \<le> effective_maximum_interval r"
  unfolding validate_ok_iff[symmetric] by (simp add: apply_to_proto_cases)

lemma effective_normal [simp]: "effective_maximum_interval (retry_policy_normal r) = effective_maximum_interval r"
  by (cases "maximum_interval r") (auto simp: effective_maximum_interval_def retry_policy_normal_def td_truthy_def)

lemma normal_fields [simp]:
  "initial_interval (retry_policy_normal r) = initial_interval r"
  "backoff_coefficient (retry_policy_normal r) = backoff_coefficient r"
  "maximum_attempts (retry_policy_normal r) = maximum_attempts r"
  by (simp_all add: retry_policy_normal_def)

lemma validate_normal: "retry_policy_validate r = Inr () \<Longrightarrow> retry_policy_validate (retry_policy_normal r) = Inr ()"
  unfolding validate_ok_iff effective_normal normal_fields .

text \<open>C21 The protobuf round trip of a retry policy: reading the message back gives the policy with its
  maximum interval filled in, and that policy produces the same message again.\<close>

theorem retry_policy_roundtrip:
  assumes "retry_policy_apply_to_proto r = Inr p"
  shows "retry_policy_from_proto p = retry_policy_normal r \<and>
    retry_policy_apply_to_proto (retry_policy_from_proto p) = Inr p"
proof
  show normal: "retry_policy_from_proto p = retry_policy_normal r"
    using assms by (rule from_proto_apply)
  have "retry_policy_validate (retry_policy_normal r) = Inr ()"
    using assms by (simp add: apply_to_proto_cases validate_normal)
  then show "retry_policy_apply_to_proto (retry_policy_from_proto p) = Inr p"
    using assms unfolding normal apply_to_proto_cases effective_normal
    by (auto simp: retry_policy_normal_def split: option.split list.split)
qed

theorem retry_policy_roundtrip_witness:
  "\<exists>p. retry_policy_apply_to_proto default_retry_policy = Inr p \<and>
     retry_policy_from_proto p = default_retry_policy\<lparr>maximum_interval := Some (seconds 100)\<rparr> \<and>
     retry_policy_apply_to_proto (retry_policy_from_proto p) = Inr p"
proof -
  have "maximum_attempts default_retry_policy = 0" "initial_interval default_retry_policy = seconds 1"
    "backoff_coefficient default_retry_policy = 2" "maximum_interval default_retry_policy = None"
    by (simp_all add: default_retry_policy_def)
  then have "retry_policy_validate default_retry_policy = Inr ()"
    by (simp add: validate_ok_iff effective_maximum_interval_def td_truthy_def seconds_def)
  then obtain p where p: "retry_policy_apply_to_proto default_retry_policy = Inr p"
    by (simp add: apply_to_proto_cases)
  from retry_policy_roundtrip[OF p] p show ?thesis
    by (auto simp: retry_policy_normal_def default_retry_policy_def effective_maximum_interval_def
        td_truthy_def seconds_def)
qed

subsection \<open>Deployment versions\<close>

lemma split_at:
  "y \<notin> set xs \<Longrightarrow> takeWhile (\<lambda>x. x \<noteq> y) (xs @ y # ys) = xs \<and> dropWhile (\<lambda>x. x \<noteq> y) (xs @ y # ys) = y # ys"
  by (induction xs) auto

text \<open>C22 A canonical version string parses to exactly the version that prints to it and whose
  deployment name has no dot: parsing and printing are inverse to each other on such versions.\<close>

theorem canonical_string_roundtrip:
  "from_canonical_string c = Inr v \<longleftrightarrow>
     to_canonical_string v = c \<and> CHR ''.'' \<notin> set (deployment_name v)"
proof
  assume parse: "from_canonical_string c = Inr v"
  let ?P = "\<lambda>x. x \<noteq> CHR ''.''"
  obtain x rest where rest: "dropWhile ?P c = x # rest" "v = \<lparr>deployment_name = takeWhile ?P c, build_id = rest\<rparr>"
    using parse by (cases "dropWhile ?P c") (simp_all add: from_canonical_string_def)
  then have "x = CHR ''.''"
    using hd_dropWhile[of ?P c] by simp
  then have "takeWhile ?P c @ CHR ''.'' # rest = c"
    using takeWhile_dropWhile_id[of ?P c] rest(1) by simp
  moreover have "CHR ''.'' \<notin> set (takeWhile ?P c)"
    using set_takeWhileD[of "CHR ''.''" ?P c] by blast
  ultimately show "to_canonical_string v = c \<and> CHR ''.'' \<notin> set (deployment_name v)"
    using rest(2) by (simp add: to_canonical_string_def)
next
  assume print: "to_canonical_string v = c \<and> CHR ''.'' \<notin> set (deployment_name v)"
  let ?P = "\<lambda>x. x \<noteq> CHR ''.''"
  have "takeWhile ?P c = deployment_name v" "dropWhile ?P c = CHR ''.'' # build_id v"
    using print split_at[of "CHR ''.''" "deployment_name v" "build_id v"] by (auto simp: to_canonical_string_def)
  then show "from_canonical_string c = Inr v"
    by (simp add: from_canonical_string_def)
qed

subsection \<open>Typed search attributes\<close>

text \<open>The constructor of \<^verbatim>\<open>TypedSearchAttributes\<close> accepts exactly the collections without two entries
  of one name, and holds the same pairs sorted by name.\<close>

lemma typed_search_attributes_construct:
  "typed_search_attributes ps = Inr qs \<longleftrightarrow>
     distinct (map pair_name ps) \<and> mset qs = mset ps \<and> sorted (map pair_name qs)"
proof
  assume "typed_search_attributes ps = Inr qs"
  then show "distinct (map pair_name ps) \<and> mset qs = mset ps \<and> sorted (map pair_name qs)"
    by (simp add: typed_Inr)
next
  assume r: "distinct (map pair_name ps) \<and> mset qs = mset ps \<and> sorted (map pair_name qs)"
  have names: "distinct (map pair_name qs)" "set qs = set ps"
    using r mset_eq_setD[of qs ps] mset_eq_imp_distinct_iff[of "map pair_name qs" "map pair_name ps"] by simp_all
  have "qs = sort_key pair_name ps"
    using r names by (intro map_sorted_distinct_set_unique[of pair_name])
      (simp_all add: distinct_map sort_key_names)
  with r show "typed_search_attributes ps = Inr qs"
    by (simp add: typed_Inr)
qed

text \<open>C20 \<^verbatim>\<open>TypedSearchAttributes.updated\<close> refines overriding a map: from a well-formed collection it never
  fails, the result is well-formed, and looking a name up in it gives the last update of that name, or
  else the old entry.\<close>

theorem updated_refines_override:
  assumes "tsa_ok ps"
  shows "\<exists>qs. tsa_updated ps us = Inr qs \<and> tsa_ok qs \<and>
    (\<forall>n. by_name qs n = (case by_name (rev us) n of Some p \<Rightarrow> Some p | None \<Rightarrow> by_name ps n))"
proof -
  let ?m = "foldl (\<lambda>attrs a. upsert_pair a attrs) ps us"
  have d: "distinct (map pair_name ?m)"
    using assms by (simp add: tsa_ok_def foldl_upsert_distinct)
  then have "tsa_updated ps us = Inr (sort_key pair_name ?m)"
    by (simp add: tsa_updated_def typed_Inr)
  moreover have "by_name (sort_key pair_name ?m) n =
      (case by_name (rev us) n of Some p \<Rightarrow> Some p | None \<Rightarrow> by_name ps n)" for n
    unfolding by_name_sort[OF d] by_name_foldl_upsert by (simp add: by_name_def)
  ultimately show ?thesis
    using typed_tsa_ok by (auto simp: tsa_updated_def)
qed

theorem updated_refines_override_witness:
  "let ps = [(for_int ''a'', PInt 1), (for_keyword ''b'', PStr ''x'')]; us = [(for_int ''b'', PInt 2)]
   in tsa_ok ps \<and> (\<exists>qs. tsa_updated ps us = Inr qs \<and> tsa_ok qs \<and>
     by_name qs ''a'' = Some (for_int ''a'', PInt 1) \<and> by_name qs ''b'' = Some (for_int ''b'', PInt 2))"
proof -
  let ?ps = "[(for_int ''a'', PInt 1), (for_keyword ''b'', PStr ''x'')]"
  let ?us = "[(for_int ''b'', PInt 2)]"
  have ok: "tsa_ok ?ps"
    by (simp add: tsa_ok_def key_defs)
  from updated_refines_override[OF ok, of ?us] obtain qs where
    "tsa_updated ?ps ?us = Inr qs" "tsa_ok qs"
    "\<And>n. by_name qs n = (case by_name (rev ?us) n of Some p \<Rightarrow> Some p | None \<Rightarrow> by_name ?ps n)"
    by blast
  with ok show ?thesis
    unfolding Let_def by (simp add: by_name_def key_defs)
qed

subsection \<open>Encoding search attributes\<close>

text \<open>C23 The guess of a search attribute key from an untyped value never yields a boolean key: a Python
  \<^verbatim>\<open>bool\<close> is an \<^verbatim>\<open>int\<close>, which is tested first, so a list with one boolean is taken for an integer.\<close>

theorem guess_never_bool:
  "guess_from_untyped_values n vals \<noteq> Some (for_bool n) \<and>
   guess_from_untyped_values n [PBool b] = Some (for_int n)"
  by (auto simp: guess_from_untyped_values_def key_defs split: list.split)

text \<open>What the round trip needs of the converter: the payload of a value decodes to the value, also
  with the type added to its metadata, and a date-time parses back from its ISO text.\<close>

definition sa_value_ok :: "(pyval \<Rightarrow> py_error + payload) \<Rightarrow> (payload \<Rightarrow> py_error + pyval) \<Rightarrow>
    (pyval \<Rightarrow> py_error + pyval) \<Rightarrow> search_attribute_pair \<Rightarrow> bool" where
  "sa_value_ok conv unconv parse kv = (case kv of (k, v) \<Rightarrow>
     k = key_for (indexed_value_type k) (sk_name k) \<and>
     (indexed_value_type k = IV_KEYWORD_LIST \<longrightarrow> is_PList v) \<and>
     (let v' = (case v of PDatetime _ dt \<Rightarrow> PStr dt | _ \<Rightarrow> v)
      in (is_PDatetime v \<longrightarrow> parse v' = Inr v) \<and>
         (\<forall>p. conv v' = Inr p \<longrightarrow> unconv (p\<lparr>p_metadata :=
            dset ''type'' (metadata_type (indexed_value_type k)) (p_metadata p)\<rparr>) = Inr v')))"

lemma from_metadata_type_roundtrip: "from_metadata_type n (metadata_type t) = Some (key_for t n)"
  by (cases t) (simp_all add: from_metadata_type_def key_for_def)

lemma metadata_type_nonempty: "metadata_type t \<noteq> []"
  by (cases t) simp_all

lemma encode_value_cases:
  assumes "encode_typed_search_attribute_value conv k v = Inr p" "v \<noteq> PNone"
  shows "py_isinstance v (origin_value_type k)"
    and "\<exists>p0. conv (case v of PDatetime _ dt \<Rightarrow> PStr dt | _ \<Rightarrow> v) = Inr p0 \<and>
      p = p0\<lparr>p_metadata := dset ''type'' (metadata_type (indexed_value_type k)) (p_metadata p0)\<rparr>"
  using assms by (auto simp: encode_typed_search_attribute_value_def Let_def split: if_splits sum.splits)

lemma decode_one:
  assumes enc: "encode_typed_search_attribute_value conv k v = Inr p" and v: "v \<noteq> PNone"
    and ok: "sa_value_ok conv unconv parse (k, v)"
  shows "decode_typed_pairs unconv parse ((sk_name k, p) # kps) =
    map_sum id (Cons (k, v)) (decode_typed_pairs unconv parse kps)"
proof -
  let ?t = "indexed_value_type k" and ?v = "case v of PDatetime _ dt \<Rightarrow> PStr dt | _ \<Rightarrow> v"
  obtain p0 where p0: "conv ?v = Inr p0" "p = p0\<lparr>p_metadata := dset ''type'' (metadata_type ?t) (p_metadata p0)\<rparr>"
    using encode_value_cases(2)[OF enc v] by blast
  have un: "unconv p = Inr ?v" and key: "k = key_for ?t (sk_name k)"
    and islst: "?t = IV_KEYWORD_LIST \<Longrightarrow> is_PList v" and dt: "is_PDatetime v \<Longrightarrow> parse ?v = Inr v"
    using ok p0 by (auto simp: sa_value_ok_def Let_def)
  have inst: "py_isinstance v (origin_value_type k)"
    using encode_value_cases(1)[OF enc v] .
  have oty: "origin_value_type k = origin_value_type (key_for ?t (sk_name k))"
    using key by simp
  have meta: "dget (p_metadata p) ''type'' = Some (metadata_type ?t)"
    by (simp add: p0 dget_dset)
  have keyof: "from_metadata_type (sk_name k) (metadata_type ?t) = Some k"
    using from_metadata_type_roundtrip[of "sk_name k" ?t] key by simp
  show ?thesis
    using inst oty islst dt un meta keyof by (cases ?t; cases v) (simp_all add: key_for_def key_defs)
qed

lemma dset_new: "k \<notin> set (dkeys d) \<Longrightarrow> dset k v d = d @ [(k, v)]"
  unfolding dset_def dkeys_def by (induction d) auto

lemma encode_typed_list:
  assumes "encode_typed conv ps api = Inr api'" "distinct (map pair_name ps)"
    "set (map pair_name ps) \<inter> set (dkeys api) = {}"
  shows "\<exists>enc. api' = api @ enc \<and> list_all2 (\<lambda>kv np. fst np = pair_name kv \<and>
    encode_typed_search_attribute_value conv (fst kv) (snd kv) = Inr (snd np)) ps enc"
  using assms
proof (induction ps arbitrary: api)
  case (Cons kv ps)
  obtain k v where kv: "kv = (k, v)"
    by fastforce
  then obtain p where p: "encode_typed_search_attribute_value conv k v = Inr p"
    "encode_typed conv ps (dset (sk_name k) p api) = Inr api'"
    using Cons.prems(1) by (auto split: sum.splits)
  have new: "dset (sk_name k) p api = api @ [(sk_name k, p)]"
    using Cons.prems(3) kv by (intro dset_new) auto
  have "set (map pair_name ps) \<inter> set (dkeys (api @ [(sk_name k, p)])) = {}"
    using Cons.prems kv by (auto simp: dkeys_def)
  with Cons.IH[of "api @ [(sk_name k, p)]"] Cons.prems(2) p(2) new obtain enc where
    "api' = (api @ [(sk_name k, p)]) @ enc"
    "list_all2 (\<lambda>kv np. fst np = pair_name kv \<and>
      encode_typed_search_attribute_value conv (fst kv) (snd kv) = Inr (snd np)) ps enc"
    by auto
  with p(1) kv show ?case
    by (intro exI[of _ "(sk_name k, p) # enc"]) simp
qed simp

lemma decode_typed_list:
  assumes "list_all2 (\<lambda>kv np. fst np = pair_name kv \<and>
      encode_typed_search_attribute_value conv (fst kv) (snd kv) = Inr (snd np)) ps enc"
    "\<forall>kv \<in> set ps. snd kv \<noteq> PNone \<and> sa_value_ok conv unconv parse kv"
  shows "decode_typed_pairs unconv parse enc = Inr ps"
  using assms
proof (induction rule: list_all2_induct)
  case (Cons kv ps np enc)
  then show ?case
    using decode_one[of conv "fst kv" "snd kv" "snd np" unconv parse enc] by (cases kv; cases np) auto
qed simp


text \<open>A converter for the natural numbers, as an instance.\<close>

definition demo_conv :: "pyval \<Rightarrow> py_error + payload" where
  "demo_conv v = (case v of PInt i \<Rightarrow> Inr \<lparr>p_metadata = [(''encoding'', ''json/plain'')], p_data = str_of_nat (nat i)\<rparr>
     | _ \<Rightarrow> Inl (TypeError ''unsupported''))"

definition demo_unconv :: "payload \<Rightarrow> py_error + pyval" where
  "demo_unconv p = Inr (PInt (int (nat_of_str (p_data p))))"


end
