(* ===== verification/Failure_Converter.thy ===== *)
theory Failure_Converter
  imports Wf_Types
begin

section \<open>The default failure converter\<close>

text \<open>
  \<^verbatim>\<open>converter/_failure_converter.py\<close>: exceptions to protobuf failures and back, with causes.  The record
  \<open>nexus_lib\<close> holds what the code asks of the package nexusrpc: which names are members of
  \<^verbatim>\<open>HandlerErrorType\<close>, whether a handler error is retryable, and \<^verbatim>\<open>json.dumps\<close> of a Nexus failure object.
  The JSON form of a failure (\<^verbatim>\<open>MessageToDict\<close>, \<^verbatim>\<open>ParseDict\<close>) is kept as the failure itself.
\<close>

record nexus_lib =
  nx_known_type :: "string \<Rightarrow> bool"
  nx_retryable :: "exn \<Rightarrow> bool"
  nx_dumps :: "nexus_failure \<Rightarrow> exn + string"

definition TEMPORAL_FAILURE_PROTO_TYPE :: string where
  "TEMPORAL_FAILURE_PROTO_TYPE = ''temporal.api.failure.v1.Failure''"

subsection \<open>From exceptions to failures\<close>

text \<open>\<^verbatim>\<open>exception.__class__.__name__\<close>.\<close>

fun class_name :: "pyclass \<Rightarrow> string" where
  "class_name C_BaseException = ''BaseException''"
| "class_name C_Exception = ''Exception''"
| "class_name C_ValueError = ''ValueError''"
| "class_name C_TypeError = ''TypeError''"
| "class_name C_KeyError = ''KeyError''"
| "class_name C_RuntimeError = ''RuntimeError''"
| "class_name C_AssertionError = ''AssertionError''"
| "class_name C_InvalidStateError = ''InvalidStateError''"
| "class_name C_RecursionError = ''RecursionError''"
| "class_name C_SyntaxError = ''SyntaxError''"
| "class_name C_IndexError = ''IndexError''"
| "class_name C_PyTimeoutError = ''TimeoutError''"
| "class_name C_AsyncCancelledError = ''CancelledError''"
| "class_name C_KeyboardInterrupt = ''KeyboardInterrupt''"
| "class_name C_SystemExit = ''SystemExit''"
| "class_name C_GeneratorExit = ''GeneratorExit''"
| "class_name C_TemporalError = ''TemporalError''"
| "class_name C_FailureError = ''FailureError''"
| "class_name C_ApplicationError = ''ApplicationError''"
| "class_name C_CancelledError = ''CancelledError''"
| "class_name C_TerminatedError = ''TerminatedError''"
| "class_name C_TimeoutError = ''TimeoutError''"
| "class_name C_ServerError = ''ServerError''"
| "class_name C_ActivityError = ''ActivityError''"
| "class_name C_ChildWorkflowError = ''ChildWorkflowError''"
| "class_name C_NexusOperationError = ''NexusOperationError''"
| "class_name C_WorkflowAlreadyStartedError = ''WorkflowAlreadyStartedError''"
| "class_name C_ReadOnlyContextError = ''ReadOnlyContextError''"
| "class_name C_NondeterminismError = ''NondeterminismError''"
| "class_name C_NexusHandlerError = ''HandlerError''"
| "class_name C_ContinueAsNewError = ''ContinueAsNewError''"
| "class_name C_WorkflowBeingEvictedError = ''_WorkflowBeingEvictedError''"
| "class_name C_ActivityDoBackoffError = ''_ActivityDoBackoffError''"
| "class_name (C_User n _) = n"

text \<open>The application error that stands for any other exception.  Assigning \<^verbatim>\<open>__cause__\<close> also sets
  \<^verbatim>\<open>__suppress_context__\<close>; \<^verbatim>\<open>__context__\<close> of the new object is empty.\<close>

definition as_application_error :: "exn \<Rightarrow> exn" where
  "as_application_error e = Exn C_ApplicationError (str_exn e)
     (D_Application [] (Some (class_name (e_class e))) False None 0) (e_cause e) None True (e_traceback e) None"

text \<open>\<^verbatim>\<open>if values: field.CopyFrom(payload_converter.to_payloads_wrapper(values))\<close>.\<close>

definition details_field :: "payload_converter \<Rightarrow> pyval list \<Rightarrow> exn + payload list option" where
  "details_field pc vs = (if vs = [] then Inr None else map_sum id Some (to_payloads pc vs))"

definition enum_or_0 :: "int option \<Rightarrow> int" where
  "enum_or_0 x = (case x of None \<Rightarrow> 0 | Some i \<Rightarrow> i)"

text \<open>The chain of \<^verbatim>\<open>isinstance\<close> tests that sets the specific information.\<close>

definition error_info :: "payload_converter \<Rightarrow> exn \<Rightarrow> exn + failure_info option" where
  "error_info pc e =
    (if isinstance e C_ApplicationError then (case e_data e of
       D_Application ds ty nr delay cat \<Rightarrow> map_sum id (\<lambda>d. Some (ApplicationFailureInfo (str_or ty []) nr d (td_field delay) cat))
         (details_field pc ds)
     | _ \<Rightarrow> Inr None)
     else if isinstance e C_TimeoutError then (case e_data e of
       D_Timeout ty ds \<Rightarrow> map_sum id (\<lambda>d. Some (TimeoutFailureInfo (enum_or_0 ty) d)) (details_field pc ds)
     | _ \<Rightarrow> Inr None)
     else if isinstance e C_CancelledError then (case e_data e of
       D_Details ds \<Rightarrow> map_sum id (\<lambda>d. Some (CanceledFailureInfo d)) (details_field pc ds)
     | _ \<Rightarrow> Inr None)
     else if isinstance e C_TerminatedError then Inr (Some TerminatedFailureInfo)
     else if isinstance e C_ServerError then (case e_data e of
       D_Server nr \<Rightarrow> Inr (Some (ServerFailureInfo nr)) | _ \<Rightarrow> Inr None)
     else if isinstance e C_ActivityError then (case e_data e of
       D_Activity sched started ident ty i st \<Rightarrow> Inr (Some (ActivityFailureInfo sched started ident ty i (enum_or_0 st)))
     | _ \<Rightarrow> Inr None)
     else if isinstance e C_ChildWorkflowError then (case e_data e of
       D_Child ns wid run ty initiated started st \<Rightarrow>
         Inr (Some (ChildWorkflowFailureInfo ns wid run ty initiated started (enum_or_0 st)))
     | _ \<Rightarrow> Inr None)
     else if isinstance e C_NexusOperationError then (case e_data e of
       D_NexusOperation sched ep sv op tok \<Rightarrow> Inr (Some (NexusOperationFailureInfo sched ep sv op tok))
     | _ \<Rightarrow> Inr None)
     else Inr None)"

definition trace_text :: "string option \<Rightarrow> string" where
  "trace_text t = (case t of None \<Rightarrow> [] | Some x \<Rightarrow> x)"

text \<open>\<^verbatim>\<open>_error_to_failure\<close>, given the failure of the cause.\<close>

definition error_to_failure :: "payload_converter \<Rightarrow> exn \<Rightarrow> failure option \<Rightarrow> exn + failure" where
  "error_to_failure pc e cause = (case e_failure e of
     Some f \<Rightarrow> Inr f
   | None \<Rightarrow> map_sum id (Failure (e_message e) (trace_text (e_traceback e)) cause None) (error_info pc e))"

text \<open>\<^verbatim>\<open>_nexus_failure_to_temporal_failure\<close>.\<close>

definition nexus_failure_to_temporal_failure :: "nexus_lib \<Rightarrow> nexus_failure \<Rightarrow> bool \<Rightarrow> exn + failure" where
  "nexus_failure_to_temporal_failure nx nf retryable =
    (if nf_type nf = Some TEMPORAL_FAILURE_PROTO_TYPE then
       (let d = (case nf_details nf of None \<Rightarrow> empty_failure | Some f \<Rightarrow> f)
        in Inr (Failure (nf_message nf) (str_or (nf_stack_trace nf) []) (f_cause d) (f_encoded_attributes d) (f_info d)))
     else map_sum id (\<lambda>text. Failure (nf_message nf) (str_or (nf_stack_trace nf) []) None None
         (Some (ApplicationFailureInfo ''NexusFailure'' (\<not> retryable)
           (Some [\<lparr>p_metadata = [(''encoding'', ''json/plain'')], p_data = text\<rparr>]) None 0)))
       (nx_dumps nx (nf\<lparr>nf_message := []\<rparr>)))"

definition retry_behavior_of :: "bool option \<Rightarrow> int" where
  "retry_behavior_of override = (case override of Some True \<Rightarrow> 1 | Some False \<Rightarrow> 2 | None \<Rightarrow> 0)"

text \<open>The attributes of a \<^verbatim>\<open>nexusrpc.HandlerError\<close>: name of its type, retryable override, stack trace and
  original failure.\<close>

fun handler_data :: "exn_data \<Rightarrow> string \<times> bool option \<times> string option \<times> nexus_failure option" where
  "handler_data (D_NexusHandler ty ov st orig) = (ty, ov, st, orig)"
| "handler_data _ = ([], None, None, None)"

definition original_failure :: "exn \<Rightarrow> nexus_failure option" where
  "original_failure e = snd (snd (snd (handler_data (e_data e))))"

definition nexus_handler_error_to_failure :: "nexus_lib \<Rightarrow> exn \<Rightarrow> failure option \<Rightarrow> exn + failure" where
  "nexus_handler_error_to_failure nx e cause = (case original_failure e of
     Some nf \<Rightarrow> nexus_failure_to_temporal_failure nx nf (nx_retryable nx e)
   | None \<Rightarrow> (case handler_data (e_data e) of (ty, ov, st, _) \<Rightarrow>
       Inr (Failure (e_message e) (if str_truthy st then the st else trace_text (e_traceback e)) cause None
         (Some (NexusHandlerFailureInfo ty (retry_behavior_of ov))))))"

text \<open>The part of \<^verbatim>\<open>to_failure\<close> that moves the message and the stack trace into a payload.\<close>

definition common_attributes :: "string \<Rightarrow> string \<Rightarrow> pyval" where
  "common_attributes m st = PDict [(PStr ''message'', PStr m), (PStr ''stack_trace'', PStr st)]"

definition encode_common_attributes :: "bool \<Rightarrow> payload_converter \<Rightarrow> failure \<Rightarrow> exn + failure" where
  "encode_common_attributes encode pc f = (if \<not> encode then Inr f
     else case to_payloads pc [common_attributes (f_message f) (f_stack_trace f)] of
         Inl x \<Rightarrow> Inl x
       | Inr [] \<Rightarrow> Inl (exn_of_error (IndexError ''list index out of range''))
       | Inr (p # _) \<Rightarrow> Inr (Failure ''Encoded failure'' [] (f_cause f) (Some p) (f_info f)))"

text \<open>Which exception becomes the cause of the failure: none for an exception with an underlying
  message, else the explicit cause, else, for a failure error, the context unless it is suppressed.\<close>

definition failure_cause :: "exn \<Rightarrow> exn option" where
  "failure_cause e =
    (if isinstance e C_FailureError then
       (if e_failure e \<noteq> None then None
        else case e_cause e of Some c \<Rightarrow> Some c | None \<Rightarrow> if e_suppress_context e then None else e_context e)
     else if isinstance e C_NexusHandlerError then (if original_failure e \<noteq> None then None else e_cause e)
     else e_cause e)"

lemma failure_cause_smaller [termination_simp]: "failure_cause e = Some c \<Longrightarrow> size c < size e"
  by (cases e) (auto simp: failure_cause_def split: if_splits option.splits)

fun default_to_failure :: "nexus_lib \<Rightarrow> bool \<Rightarrow> payload_converter \<Rightarrow> exn \<Rightarrow> exn + failure" where
  "default_to_failure nx encode pc e =
    (case (case failure_cause e of None \<Rightarrow> Inr None | Some c \<Rightarrow> map_sum id Some (default_to_failure nx encode pc c)) of
       Inl x \<Rightarrow> Inl x
     | Inr cause \<Rightarrow>
        (case (if isinstance e C_FailureError then error_to_failure pc e cause
               else if isinstance e C_NexusHandlerError then nexus_handler_error_to_failure nx e cause
               else error_to_failure pc (as_application_error e) cause) of
           Inl x \<Rightarrow> Inl x
         | Inr f \<Rightarrow> encode_common_attributes encode pc f))"

subsection \<open>From failures to exceptions\<close>

definition dict_str :: "(pyval \<times> pyval) list \<Rightarrow> string \<Rightarrow> string option" where
  "dict_str d k = (case map_of d (PStr k) of Some (PStr v) \<Rightarrow> Some v | _ \<Rightarrow> None)"

text \<open>Extracting the encoded attributes; whatever goes wrong is ignored.\<close>

definition decode_common_attributes :: "payload_converter \<Rightarrow> failure \<Rightarrow> failure" where
  "decode_common_attributes pc f = (case f_encoded_attributes f of
     None \<Rightarrow> f
   | Some p \<Rightarrow> (case from_payloads pc [p] None of
       Inr (PDict d # _) \<Rightarrow> Failure
         (case dict_str d ''message'' of None \<Rightarrow> f_message f | Some m \<Rightarrow> m)
         (case dict_str d ''stack_trace'' of None \<Rightarrow> f_stack_trace f | Some t \<Rightarrow> t)
         (f_cause f) (Some p) (f_info f)
     | _ \<Rightarrow> f))"

definition from_payloads_wrapper :: "payload_converter \<Rightarrow> payload list option \<Rightarrow> exn + pyval list" where
  "from_payloads_wrapper pc ps = (case ps of None \<Rightarrow> Inr [] | Some [] \<Rightarrow> Inr [] | Some qs \<Rightarrow> from_payloads pc qs None)"

text \<open>\<^verbatim>\<open>TimeoutType(int(x)) if x else None\<close> and \<^verbatim>\<open>RetryState(int(x)) if x else None\<close>: a number that is no
  member of the enumeration is a \<^verbatim>\<open>ValueError\<close>.\<close>

definition enum_member :: "int \<Rightarrow> int \<Rightarrow> int \<Rightarrow> exn + int" where
  "enum_member lo hi i = (if lo \<le> i \<and> i \<le> hi then Inr i
     else Inl (exn_of_error (ValueError (str_of_int i @ '' is not a valid member''))))"

definition optional_member :: "int \<Rightarrow> int \<Rightarrow> exn + int option" where
  "optional_member hi i = (if i = 0 then Inr None else map_sum id Some (enum_member 1 hi i))"

definition clear_common_attributes :: "failure \<Rightarrow> failure" where
  "clear_common_attributes f = Failure [] [] (f_cause f) (f_encoded_attributes f) (f_info f)"

definition temporal_failure_to_nexus_failure :: "failure \<Rightarrow> nexus_failure" where
  "temporal_failure_to_nexus_failure f = \<lparr>nf_message = f_message f, nf_stack_trace = Some (f_stack_trace f),
     nf_type = Some TEMPORAL_FAILURE_PROTO_TYPE, nf_details = Some (clear_common_attributes f)\<rparr>"

definition retryable_override_of :: "int \<Rightarrow> bool option" where
  "retryable_override_of i = (if i = 1 then Some True else if i = 2 then Some False else None)"

definition message_or :: "failure \<Rightarrow> string \<Rightarrow> string" where
  "message_or f d = (if f_message f = [] then d else f_message f)"

text \<open>The \<^verbatim>\<open>match\<close> statement over the kind of information.\<close>

definition error_of_info :: "nexus_lib \<Rightarrow> payload_converter \<Rightarrow> failure \<Rightarrow> exn + exn" where
  "error_of_info nx pc f = (case f_info f of
     Some (ApplicationFailureInfo ty nr ds delay cat) \<Rightarrow>
       (case from_payloads_wrapper pc ds of
          Inl x \<Rightarrow> Inl x
        | Inr vs \<Rightarrow> map_sum id (\<lambda>c. new_exn C_ApplicationError (message_or f ''Application error'')
            (D_Application vs (if ty = [] then None else Some ty) nr (Some (to_timedelta (case delay of None \<Rightarrow> 0 | Some d \<Rightarrow> d))) c))
            (enum_member 0 1 cat))
   | Some (TimeoutFailureInfo ty ds) \<Rightarrow>
       (case optional_member 4 ty of
          Inl x \<Rightarrow> Inl x
        | Inr t \<Rightarrow> map_sum id (\<lambda>vs. new_exn C_TimeoutError (message_or f ''Timeout'') (D_Timeout t vs))
            (from_payloads_wrapper pc ds))
   | Some (CanceledFailureInfo ds) \<Rightarrow>
       map_sum id (\<lambda>vs. new_exn C_CancelledError (message_or f ''Cancelled'') (D_Details vs)) (from_payloads_wrapper pc ds)
   | Some TerminatedFailureInfo \<Rightarrow> Inr (new_exn C_TerminatedError (message_or f ''Terminated'') (D_Details []))
   | Some (ServerFailureInfo nr) \<Rightarrow> Inr (new_exn C_ServerError (message_or f ''Server error'') (D_Server nr))
   | Some (ActivityFailureInfo sched started ident ty i st) \<Rightarrow>
       map_sum id (\<lambda>s. new_exn C_ActivityError (message_or f ''Activity error'')
         (D_Activity sched started ident ty i s)) (optional_member 7 st)
   | Some (ChildWorkflowFailureInfo ns wid run ty initiated started st) \<Rightarrow>
       map_sum id (\<lambda>s. new_exn C_ChildWorkflowError (message_or f ''Child workflow error'')
         (D_Child ns wid run ty initiated started s)) (optional_member 7 st)
   | Some (NexusHandlerFailureInfo ty behavior) \<Rightarrow>
       Inr (new_exn C_NexusHandlerError (message_or f ''Nexus handler error'')
         (D_NexusHandler (if nx_known_type nx ty then ty else ''INTERNAL'') (retryable_override_of behavior)
           (if f_stack_trace f = [] then None else Some (f_stack_trace f))
           (Some (temporal_failure_to_nexus_failure f))))
   | Some (NexusOperationFailureInfo sched ep sv op tok) \<Rightarrow>
       Inr (new_exn C_NexusOperationError (message_or f ''Nexus operation error'') (D_NexusOperation sched ep sv op tok))
   | Some ResetWorkflowFailureInfo \<Rightarrow> Inr (new_exn C_FailureError (message_or f ''Failure error'') D_None)
   | None \<Rightarrow> Inr (new_exn C_FailureError (message_or f ''Failure error'') D_None))"

fun default_from_failure :: "nexus_lib \<Rightarrow> payload_converter \<Rightarrow> failure \<Rightarrow> exn + exn" where
  "default_from_failure nx pc (Failure m st cause enc info) =
    (let f = decode_common_attributes pc (Failure m st cause enc info)
     in case error_of_info nx pc f of
          Inl x \<Rightarrow> Inl x
        | Inr err0 \<Rightarrow>
           let err = (if isinstance err0 C_FailureError then set_failure err0 f else err0)
           in (case cause of
                 None \<Rightarrow> Inr err
               | Some c \<Rightarrow> map_sum id (raise_from err) (default_from_failure nx pc c)))"

definition DefaultFailureConverter :: "nexus_lib \<Rightarrow> bool \<Rightarrow> failure_converter" where
  "DefaultFailureConverter nx encode = \<lparr>to_failure = (\<lambda>e pc. default_to_failure nx encode pc e),
     from_failure = (\<lambda>f pc. default_from_failure nx pc f)\<rparr>"

declare default_to_failure.simps [simp del]

end
