(* ===== verification/Failure_Spec.thy ===== *)
theory Failure_Spec
  imports Failure_Converter
begin

section \<open>Properties of the failure converter\<close>

text \<open>
  A failure that was received and is sent on is unchanged; an error of the SDK that is sent arrives as an
  error of the same class with the same message, attributes and causes, also when the common
  attributes are encoded.
\<close>

lemma map_sum_eq_Inr: "map_sum f g x = Inr y \<longleftrightarrow> (\<exists>z. x = Inr z \<and> y = g z)"
  by (cases x) auto

subsection \<open>Received failures are sent on unchanged\<close>

lemma from_failure_cases:
  assumes "default_from_failure nx pc f = Inr e" "f_encoded_attributes f = None"
  obtains err where "error_of_info nx pc f = Inr err" "e_class e = e_class err" "e_data e = e_data err"
    "e_failure e = (if isinstance err C_FailureError then Some f else e_failure err)"
proof (cases f)
  case (Failure m st cause enc info)
  with assms obtain err where err: "error_of_info nx pc f = Inr err"
    by (auto simp: decode_common_attributes_def Let_def split: sum.splits)
  have "e_class e = e_class err \<and> e_data e = e_data err \<and>
      e_failure e = (if isinstance err C_FailureError then Some f else e_failure err)"
    using assms err Failure
    by (cases cause; cases "default_from_failure nx pc (the cause)")
      (auto simp: decode_common_attributes_def Let_def raise_from_def set_failure_def split: sum.splits if_splits)
  with err that show thesis by blast
qed

lemma handler_info:
  assumes "error_of_info nx pc f = Inr err" "\<not> isinstance err C_FailureError"
  shows "isinstance err C_NexusHandlerError \<and> original_failure err = Some (temporal_failure_to_nexus_failure f)"
  using assms
  by (auto simp: error_of_info_def original_failure_def map_sum_eq_Inr split: option.splits failure_info.splits sum.splits)

lemma nexus_failure_back:
  "nexus_failure_to_temporal_failure nx (temporal_failure_to_nexus_failure f) r = Inr f"
  by (cases f) (simp add: nexus_failure_to_temporal_failure_def temporal_failure_to_nexus_failure_def
    clear_common_attributes_def str_or_def Let_def)



subsection \<open>Errors of the SDK arrive as they were\<close>

definition details_ok :: "payload_converter \<Rightarrow> pyval list \<Rightarrow> bool" where
  "details_ok pc vs \<longleftrightarrow> vs = [] \<or> (\<exists>ps. to_payloads pc vs = Inr ps \<and> ps \<noteq> [] \<and> from_payloads pc ps None = Inr vs)"

definition member_ok :: "int \<Rightarrow> int option \<Rightarrow> bool" where
  "member_ok hi x = (case x of None \<Rightarrow> True | Some i \<Rightarrow> 1 \<le> i \<and> i \<le> hi)"

text \<open>The attributes that belong to a class of the SDK and can be encoded.\<close>

definition attributes_ok :: "payload_converter \<Rightarrow> pyclass \<Rightarrow> exn_data \<Rightarrow> bool" where
  "attributes_ok pc c d = (case d of
     D_Application ds ty nr delay cat \<Rightarrow>
       c = C_ApplicationError \<and> details_ok pc ds \<and> ty \<noteq> Some [] \<and> 0 \<le> cat \<and> cat \<le> 1
   | D_Timeout ty ds \<Rightarrow> c = C_TimeoutError \<and> details_ok pc ds \<and> member_ok 4 ty
   | D_Details ds \<Rightarrow> c = C_CancelledError \<and> details_ok pc ds \<or> c = C_TerminatedError \<and> ds = []
   | D_Server nr \<Rightarrow> c = C_ServerError
   | D_Activity _ _ _ _ _ st \<Rightarrow> c = C_ActivityError \<and> member_ok 7 st
   | D_Child _ _ _ _ _ _ st \<Rightarrow> c = C_ChildWorkflowError \<and> member_ok 7 st
   | D_NexusOperation _ _ _ _ _ \<Rightarrow> c = C_NexusOperationError
   | D_None \<Rightarrow> c = C_FailureError
   | _ \<Rightarrow> False)"

text \<open>An absent retry delay arrives as a delay of zero.\<close>

fun attributes_received :: "exn_data \<Rightarrow> exn_data" where
  "attributes_received (D_Application ds ty nr delay cat) =
     D_Application ds ty nr (Some (case delay of None \<Rightarrow> 0 | Some d \<Rightarrow> d)) cat"
| "attributes_received d = d"

fun sendable :: "payload_converter \<Rightarrow> exn \<Rightarrow> bool" where
  "sendable pc e \<longleftrightarrow> e_failure e = None \<and> e_message e \<noteq> [] \<and> attributes_ok pc (e_class e) (e_data e) \<and>
     (case failure_cause e of None \<Rightarrow> True | Some c \<Rightarrow> sendable pc c)"

declare sendable.simps [simp del]

inductive same_error :: "exn \<Rightarrow> exn \<Rightarrow> bool" where
  same_error: "e_class e' = e_class e \<Longrightarrow> e_message e' = e_message e \<Longrightarrow> e_data e' = attributes_received (e_data e) \<Longrightarrow>
     rel_option same_error (failure_cause e) (e_cause e') \<Longrightarrow> same_error e e'"

definition encodes_common :: "payload_converter \<Rightarrow> bool" where
  "encodes_common pc \<longleftrightarrow> (\<forall>m st. \<exists>p. to_payloads pc [common_attributes m st] = Inr [p] \<and>
     from_payloads pc [p] None = Inr [common_attributes m st])"

lemma member_back: "member_ok hi x \<Longrightarrow> optional_member hi (enum_or_0 x) = Inr x"
  by (auto simp: member_ok_def optional_member_def enum_or_0_def enum_member_def split: option.splits)

lemma details_back: "details_ok pc ds \<Longrightarrow> \<exists>ps. details_field pc ds = Inr ps \<and> from_payloads_wrapper pc ps = Inr ds"
  by (auto simp: details_ok_def details_field_def from_payloads_wrapper_def neq_Nil_conv)

lemma delay_back: "to_timedelta (case td_field delay of None \<Rightarrow> 0 | Some d \<Rightarrow> d) = (case delay of None \<Rightarrow> 0 | Some d \<Rightarrow> d)"
  by (cases delay) (auto simp: td_field_def td_truthy_def, simp_all add: to_timedelta_def)

lemma attributes_back:
  assumes "attributes_ok pc (e_class e) (e_data e)" "e_message e \<noteq> []"
  shows "isinstance e C_FailureError \<and> (\<exists>info. error_info pc e = Inr info \<and>
    (\<forall>f. f_message f = e_message e \<and> f_info f = info \<longrightarrow>
       error_of_info nx pc f = Inr (new_exn (e_class e) (e_message e) (attributes_received (e_data e)))))"
  using assms
  by (cases "e_data e")
    (auto simp: attributes_ok_def isinstance_def error_info_def error_of_info_def message_or_def member_back enum_member_def delay_back str_or_def
      dest!: details_back split: option.splits)

lemma encode_decode:
  assumes "encode \<longrightarrow> encodes_common pc"
  shows "\<exists>f'. encode_common_attributes encode pc (Failure m st cause None info) = Inr f' \<and>
    f_cause f' = cause \<and> f_message (decode_common_attributes pc f') = m \<and> f_info (decode_common_attributes pc f') = info"
proof (cases encode)
  case True
  with assms obtain p where "to_payloads pc [common_attributes m st] = Inr [p]"
    "from_payloads pc [p] None = Inr [common_attributes m st]"
    unfolding encodes_common_def by blast
  with True show ?thesis
    by (simp add: encode_common_attributes_def decode_common_attributes_def common_attributes_def dict_str_def)
next
  case False
  then show ?thesis
    by (simp add: encode_common_attributes_def decode_common_attributes_def)
qed

lemma from_failure_step:
  assumes "error_of_info nx pc (decode_common_attributes pc f) = Inr (new_exn c m d)" "C_FailureError \<in> set (mro c)"
    "case f_cause f of None \<Rightarrow> cause' = None | Some g \<Rightarrow> \<exists>x. default_from_failure nx pc g = Inr x \<and> cause' = Some x"
  shows "\<exists>e'. default_from_failure nx pc f = Inr e' \<and> e_class e' = c \<and> e_message e' = m \<and> e_data e' = d \<and> e_cause e' = cause'"
  using assms
  by (cases f; cases "f_cause f") (auto simp: Let_def set_failure_def raise_from_def new_exn_def isinstance_def)

lemma sendable_roundtrip:
  assumes "encode \<longrightarrow> encodes_common pc" "sendable pc e"
  shows "\<exists>f e'. default_to_failure nx encode pc e = Inr f \<and> default_from_failure nx pc f = Inr e' \<and> same_error e e'"
  using assms(2)
proof (induction "size e" arbitrary: e rule: less_induct)
  case (less e)
  then have e: "e_failure e = None" "e_message e \<noteq> []" "attributes_ok pc (e_class e) (e_data e)"
    and cause: "\<And>c. failure_cause e = Some c \<Longrightarrow> sendable pc c"
    by (auto simp: sendable.simps[of pc e])
  from attributes_back[OF e(3,2), of nx] obtain info where inst: "isinstance e C_FailureError"
    and info: "error_info pc e = Inr info" "\<And>f. f_message f = e_message e \<Longrightarrow> f_info f = info \<Longrightarrow>
       error_of_info nx pc f = Inr (new_exn (e_class e) (e_message e) (attributes_received (e_data e)))"
    by blast
  obtain g x where g: "(case failure_cause e of None \<Rightarrow> Inr None
        | Some c \<Rightarrow> map_sum id Some (default_to_failure nx encode pc c)) = Inr g"
      "case g of None \<Rightarrow> x = None | Some h \<Rightarrow> \<exists>y. default_from_failure nx pc h = Inr y \<and> x = Some y"
      "rel_option same_error (failure_cause e) x"
  proof (cases "failure_cause e")
    case None
    with that[of None None] show ?thesis by simp
  next
    case (Some c)
    from less.hyps[OF failure_cause_smaller[OF Some] cause[OF Some]] obtain h y where
      "default_to_failure nx encode pc c = Inr h" "default_from_failure nx pc h = Inr y" "same_error c y" by blast
    with Some that[of "Some h" "Some y"] show ?thesis by simp
  qed
  from encode_decode[OF assms(1), of "e_message e" "trace_text (e_traceback e)" g info] obtain f where
    f: "encode_common_attributes encode pc (Failure (e_message e) (trace_text (e_traceback e)) g None info) = Inr f"
      "f_cause f = g" "f_message (decode_common_attributes pc f) = e_message e"
      "f_info (decode_common_attributes pc f) = info" by blast
  have "default_to_failure nx encode pc e = Inr f"
    using inst info(1) e(1) f(1) by (simp add: default_to_failure.simps[of nx encode pc e] g(1) error_to_failure_def)
  moreover from from_failure_step[OF info(2)[OF f(3,4)], of x] g(2) inst obtain e' where
    "default_from_failure nx pc f = Inr e'" "e_class e' = e_class e" "e_message e' = e_message e"
    "e_data e' = attributes_received (e_data e)" "e_cause e' = x"
    by (auto simp: f(2) isinstance_def)
  moreover from this g(3) have "same_error e e'" by (intro same_error) simp_all
  ultimately show ?case by blast
qed



text \<open>C25 An exception that is neither an error of the SDK nor a Nexus handler error becomes an application
  failure with its class name as the type and its text as the message, retryable and without details.
  The exception that was being handled when it was raised is not part of the failure: without an
  explicit cause there is none.\<close>

theorem other_exception_failure:
  assumes "to_failure (DefaultFailureConverter nx encode) e pc = Inr f"
    "\<not> isinstance e C_FailureError" "\<not> isinstance e C_NexusHandlerError"
  shows "f_info f = Some (ApplicationFailureInfo (class_name (e_class e)) False None None 0) \<and>
    (\<not> encode \<longrightarrow> f_message f = str_exn e) \<and> (e_cause e = None \<longrightarrow> f_cause f = None)"
proof -
  from assms have "\<exists>cause. (e_cause e = None \<longrightarrow> cause = None) \<and>
      encode_common_attributes encode pc (Failure (str_exn e) (trace_text (e_traceback e)) cause None
      (Some (ApplicationFailureInfo (class_name (e_class e)) False None None 0))) = Inr f"
    by (cases "e_cause e") (auto simp: DefaultFailureConverter_def default_to_failure.simps[of nx encode pc e] failure_cause_def
        error_to_failure_def as_application_error_def error_info_def isinstance_def details_field_def td_field_def td_truthy_def
        str_or_def map_sum_eq_Inr split: sum.splits if_splits)
  then show ?thesis
    by (auto simp: encode_common_attributes_def split: if_splits sum.splits list.splits)
qed

subsection \<open>Witnesses\<close>

definition ex_nexus :: nexus_lib where
  "ex_nexus = \<lparr>nx_known_type = (\<lambda>t. t = ''NOT_FOUND''), nx_retryable = (\<lambda>_. True), nx_dumps = (\<lambda>_. Inr ''{}'')\<rparr>"

text \<open>A converter that can encode the common attributes.\<close>

definition ex_codec :: payload_converter where
  "ex_codec = \<lparr>to_payload = (\<lambda>_. Inr \<lparr>p_metadata = [], p_data = []\<rparr>),
     to_payloads = (\<lambda>vs. case vs of [PDict [(_, PStr m), (_, PStr st)]] \<Rightarrow> Inr [\<lparr>p_metadata = [(m, st)], p_data = []\<rparr>]
        | _ \<Rightarrow> Inr []),
     from_payload = (\<lambda>_ _. Inr PNone),
     from_payloads = (\<lambda>ps _. case ps of [p] \<Rightarrow> (case p_metadata p of [(m, st)] \<Rightarrow> Inr [common_attributes m st] | _ \<Rightarrow> Inr [])
        | _ \<Rightarrow> Inr [])\<rparr>"

definition ex_activity_error :: exn where
  "ex_activity_error = raise_from (new_exn C_ActivityError ''activity failed'' (D_Activity 5 6 ''id'' ''type'' ''1'' (Some 4)))
     (application_error ''broken'' [] (Some ''Kind'') True None 1)"



theorem other_exception_failure_witness:
  "let e = Exn C_ValueError ''bad'' D_None None (Some (new_exn C_KeyError ''key'' D_None)) False None None
   in \<exists>f. to_failure (DefaultFailureConverter ex_nexus False) e ex_codec = Inr f \<and> f_message f = ''bad'' \<and> f_cause f = None"
proof -
  let ?e = "Exn C_ValueError ''bad'' D_None None (Some (new_exn C_KeyError ''key'' D_None)) False None None"
  have "\<exists>f. to_failure (DefaultFailureConverter ex_nexus False) ?e ex_codec = Inr f"
    by (simp add: DefaultFailureConverter_def default_to_failure.simps failure_cause_def isinstance_def error_to_failure_def
        as_application_error_def error_info_def details_field_def encode_common_attributes_def)
  then obtain f where f: "to_failure (DefaultFailureConverter ex_nexus False) ?e ex_codec = Inr f" ..
  from other_exception_failure[OF f] f show ?thesis
    unfolding Let_def by (auto simp: isinstance_def str_exn_def)
qed

end
