(* ===== verification/Sandbox.thy ===== *)
theory Sandbox
  imports Py_Values
begin

section \<open>Restrictions of the workflow sandbox\<close>

text \<open>
  \<^verbatim>\<open>worker/workflow_sandbox/_restrictions.py\<close>: the matchers that say which modules and members workflow
  code may touch, and the check a restricted module makes on every access; and the decisions of
  \<^verbatim>\<open>worker/workflow_sandbox/_importer.py\<close> about a module that is imported.  Sets are sets, the mapping
  \<^verbatim>\<open>children\<close> is a dictionary; a matcher object is always true as a condition.  The proxies that
  intercept Python's operators, the loading of modules and the replacement of builtins are not modelled.
\<close>

datatype matcher = Matcher
  (m_access: "string set")
  (m_use: "string set")
  (m_children: "(string \<times> matcher) list")
  (m_match_self: bool)
  (m_only_runtime: bool)
  (m_leaf_message: "string option")
  (m_leaf_warning: "string option")
  (m_exclude: "string set")

text \<open>The constructor with its validations in \<^verbatim>\<open>__post_init__\<close>.\<close>

definition post_init :: "matcher \<Rightarrow> py_error + matcher" where
  "post_init m =
    (if str_truthy (m_leaf_message m) \<and> \<not> m_match_self m
       then Inl (ValueError ''Cannot set leaf_message without match_self'')
     else if m_leaf_warning m \<noteq> None \<and> \<not> m_match_self m
       then Inl (ValueError ''Cannot set leaf_warning without match_self'')
     else Inr m)"

definition matcher_all :: matcher where
  "matcher_all = Matcher {} {} [] True False None None {}"

definition matcher_all_runtime :: matcher where
  "matcher_all_runtime = Matcher {} {} [] True True None None {}"

definition matcher_none :: matcher where
  "matcher_none = Matcher {} {} [] False False None None {}"

definition matcher_all_uses :: matcher where
  "matcher_all_uses = Matcher {} {''*''} [] False False None None {}"

definition matcher_all_uses_runtime :: matcher where
  "matcher_all_uses_runtime = Matcher {} {''*''} [] False True None None {}"

definition nested_child :: "string list \<Rightarrow> matcher \<Rightarrow> matcher" where
  "nested_child path child = foldl (\<lambda>ret key. Matcher {} {} [(key, ret)] False False None None {}) child (rev path)"

text \<open>\<^verbatim>\<open>children.get(v) or children.get("*")\<close>.\<close>

definition child_of :: "matcher \<Rightarrow> string \<Rightarrow> matcher option" where
  "child_of m v = (case dget (m_children m) v of Some c \<Rightarrow> Some c | None \<Rightarrow> dget (m_children m) ''*'')"

definition in_set :: "string \<Rightarrow> string set \<Rightarrow> bool" where
  "in_set v S \<longleftrightarrow> v \<in> S \<or> ''*'' \<in> S"

fun access_matcher :: "matcher \<Rightarrow> bool \<Rightarrow> string list \<Rightarrow> bool \<Rightarrow> matcher option" where
  "access_matcher m is_runtime [] include_use =
    (if \<not> is_runtime \<and> m_only_runtime m then None
     else if \<not> m_match_self m then None
     else Some m)"
| "access_matcher m is_runtime (v # vs) include_use =
    (if v \<in> m_exclude m then None
     else if \<not> is_runtime \<and> m_only_runtime m then None
     else if m_match_self m \<or> in_set v (m_access m) then Some m
     else if include_use \<and> in_set v (m_use m) then Some m
     else case child_of m v of None \<Rightarrow> None | Some c \<Rightarrow> access_matcher c is_runtime vs include_use)"

definition match_access :: "matcher \<Rightarrow> bool \<Rightarrow> string list \<Rightarrow> bool \<Rightarrow> bool" where
  "match_access m is_runtime path include_use \<longleftrightarrow> access_matcher m is_runtime path include_use \<noteq> None"

fun child_matcher_loop :: "matcher \<Rightarrow> bool \<Rightarrow> string list \<Rightarrow> matcher option" where
  "child_matcher_loop m only_runtime [] = Some m"
| "child_matcher_loop m only_runtime (v # vs) =
    (if v \<in> m_exclude m then None
     else if m_match_self m \<or> in_set v (m_access m) \<or> in_set v (m_use m)
       then Some (if only_runtime then matcher_all_runtime else matcher_all)
     else case child_of m v of
         None \<Rightarrow> None
       | Some c \<Rightarrow> child_matcher_loop c (only_runtime \<or> m_only_runtime c) vs)"

definition child_matcher :: "matcher \<Rightarrow> string list \<Rightarrow> matcher option" where
  "child_matcher m path = child_matcher_loop m (m_only_runtime m) path"

text \<open>\<^verbatim>\<open>__or__\<close>, with the loop over the other matcher's children.\<close>

fun matcher_or :: "matcher \<Rightarrow> matcher \<Rightarrow> py_error + matcher"
  and or_children :: "(string \<times> matcher) list \<Rightarrow> (string \<times> matcher) list \<Rightarrow> py_error + (string \<times> matcher) list" where
  "matcher_or m (Matcher acc us ch self rt msg warn excl) =
    (if m_only_runtime m \<noteq> rt then Inl (ValueError ''Cannot combine only-runtime and non-only-runtime'')
     else if m_leaf_message m \<noteq> msg then Inl (ValueError ''Cannot combine different messages'')
     else if m_leaf_warning m \<noteq> warn then Inl (ValueError ''Cannot combine different warning values'')
     else if m_match_self m \<or> self then Inr matcher_all
     else case or_children (m_children m) ch of
         Inl e \<Rightarrow> Inl e
       | Inr new_children \<Rightarrow> post_init (Matcher (m_access m \<union> acc) (m_use m \<union> us) new_children False
           (m_only_runtime m) (m_leaf_message m) (m_leaf_warning m) {}))"
| "or_children new_children [] = Inr new_children"
| "or_children new_children ((k, v) # rest) = (case dget new_children k of
     Some w \<Rightarrow> (case matcher_or w v of Inl e \<Rightarrow> Inl e | Inr u \<Rightarrow> or_children (dset k u new_children) rest)
   | None \<Rightarrow> or_children (dset k v new_children) rest)"

text \<open>The path is not empty; the source asserts it.\<close>

fun with_child_unrestricted :: "matcher \<Rightarrow> string list \<Rightarrow> py_error + matcher" where
  "with_child_unrestricted m [] = Inl (AssertionError [])"
| "with_child_unrestricted m [v] = Inr (Matcher (m_access m - {v}) (m_use m - {v}) (dpop v (m_children m))
     (m_match_self m) (m_only_runtime m) (m_leaf_message m) (m_leaf_warning m) (m_exclude m))"
| "with_child_unrestricted m (v # w # ws) = (case dget (m_children m) v of
     None \<Rightarrow> Inr m
   | Some c \<Rightarrow> map_sum id (\<lambda>c'. Matcher (m_access m) (m_use m) (dset v c' (m_children m))
       (m_match_self m) (m_only_runtime m) (m_leaf_message m) (m_leaf_warning m) (m_exclude m))
       (with_child_unrestricted c (w # ws)))"

subsection \<open>Restricted access\<close>

definition default_message :: "string \<Rightarrow> string" where
  "default_message qualified_name = ''Cannot access '' @ qualified_name @ '' from inside a workflow. '' @
     ''If this is code from a module not used in a workflow or known to '' @
     ''only be used deterministically from a workflow, mark the import '' @ ''as pass through.''"

datatype access_result = Allowed | Warned string string | RestrictedWorkflowAccessError string string

text \<open>\<^verbatim>\<open>_RestrictionState.assert_child_not_restricted\<close>; \<open>unrestricted\<close> is
  \<^verbatim>\<open>workflow.unsafe.is_sandbox_unrestricted()\<close>.\<close>

definition assert_child_not_restricted :: "bool \<Rightarrow> string \<Rightarrow> bool \<Rightarrow> matcher \<Rightarrow> string \<Rightarrow> access_result" where
  "assert_child_not_restricted unrestricted self_name is_runtime m name =
    (if unrestricted then Allowed
     else case access_matcher m is_runtime [name] False of
         None \<Rightarrow> Allowed
       | Some found \<Rightarrow>
          (let q = self_name @ ''.'' @ name; msg = str_or (m_leaf_message found) (default_message q)
           in case m_leaf_warning found of
                Some w \<Rightarrow> Warned w msg
              | None \<Rightarrow> RestrictedWorkflowAccessError q msg))"

text \<open>A \<^verbatim>\<open>_RestrictedProxy\<close>: its name and matcher.  \<open>restrictable\<close> says that the value the operation
  finds is one that is wrapped again (\<^verbatim>\<open>_is_restrictable\<close>).\<close>

record proxy =
  px_name :: string
  px_matcher :: matcher

fun is_error :: "access_result \<Rightarrow> bool" where
  "is_error (RestrictedWorkflowAccessError _ _) = True" | "is_error _ = False"

definition proxy_getattribute :: "bool \<Rightarrow> bool \<Rightarrow> proxy \<Rightarrow> string \<Rightarrow> bool \<Rightarrow> access_result \<times> proxy option" where
  "proxy_getattribute unrestricted is_runtime px name restrictable =
    (let r = (if name \<noteq> ''__spec__'' \<and> name \<noteq> ''__name__''
              then assert_child_not_restricted unrestricted (px_name px) is_runtime (px_matcher px) name else Allowed)
     in (r, if is_error r \<or> name = ''__spec__'' \<or> \<not> restrictable then None
            else map_option (\<lambda>c. \<lparr>px_name = px_name px @ ''.'' @ name, px_matcher = c\<rparr>) (child_matcher (px_matcher px) [name])))"

definition proxy_setattr :: "bool \<Rightarrow> bool \<Rightarrow> proxy \<Rightarrow> string \<Rightarrow> access_result" where
  "proxy_setattr unrestricted is_runtime px name =
     assert_child_not_restricted unrestricted (px_name px) is_runtime (px_matcher px) name"

definition proxy_call :: "bool \<Rightarrow> bool \<Rightarrow> proxy \<Rightarrow> bool \<Rightarrow> access_result \<times> proxy option" where
  "proxy_call unrestricted is_runtime px restrictable =
    (let r = assert_child_not_restricted unrestricted (px_name px) is_runtime (px_matcher px) ''__call__''
     in (r, if is_error r \<or> \<not> restrictable then None else Some px))"

text \<open>\<^verbatim>\<open>__getitem__\<close>; a key that is not a string is not checked.\<close>

definition proxy_getitem :: "bool \<Rightarrow> bool \<Rightarrow> proxy \<Rightarrow> string option \<Rightarrow> bool \<Rightarrow> access_result \<times> proxy option" where
  "proxy_getitem unrestricted is_runtime px key restrictable = (case key of
     None \<Rightarrow> (Allowed, None)
   | Some k \<Rightarrow>
      let r = assert_child_not_restricted unrestricted (px_name px) is_runtime (px_matcher px) k
      in (r, if is_error r \<or> \<not> restrictable then None
             else map_option (\<lambda>c. \<lparr>px_name = px_name px @ ''.'' @ k, px_matcher = c\<rparr>) (child_matcher (px_matcher px) [k])))"

subsection \<open>Importing a module\<close>

datatype import_policy = WARN_ON_DYNAMIC_IMPORT | WARN_ON_UNINTENTIONAL_PASSTHROUGH | RAISE_ON_UNINTENTIONAL_PASSTHROUGH

record sandbox_restrictions =
  passthrough_modules :: "string set"
  invalid_modules :: matcher
  invalid_module_members :: matcher
  import_notification_policy :: "import_policy set"
  passthrough_all_modules :: bool

definition with_passthrough_modules :: "sandbox_restrictions \<Rightarrow> string set \<Rightarrow> sandbox_restrictions" where
  "with_passthrough_modules r mods = r\<lparr>passthrough_modules := passthrough_modules r \<union> mods\<rparr>"

definition with_passthrough_all_modules :: "sandbox_restrictions \<Rightarrow> sandbox_restrictions" where
  "with_passthrough_all_modules r = r\<lparr>passthrough_all_modules := True\<rparr>"

abbreviation dot :: char where "dot \<equiv> CHR ''.''"

text \<open>\<^verbatim>\<open>name.split(".")\<close>.\<close>

function split_dots :: "string \<Rightarrow> string list" where
  "split_dots s = (case dropWhile (\<lambda>c. c \<noteq> dot) s of
     [] \<Rightarrow> [s]
   | _ # rest \<Rightarrow> takeWhile (\<lambda>c. c \<noteq> dot) s # split_dots rest)"
  by auto
termination
proof (relation "measure length")
  fix s x rest
  assume "dropWhile (\<lambda>c. c \<noteq> dot) s = x # rest"
  then have "length (x # rest) \<le> length s" by (metis length_dropWhile_le)
  then show "(rest, s) \<in> measure length" by simp
qed simp

text \<open>\<^verbatim>\<open>name.find(".", k)\<close>, where absent is \<^verbatim>\<open>-1\<close> in the source.\<close>

definition find_dot :: "string \<Rightarrow> nat \<Rightarrow> nat option" where
  "find_dot name k = (let e = k + length (takeWhile (\<lambda>c. c \<noteq> dot) (drop k name))
     in if e < length name then Some e else None)"

lemma find_dot_bounds: "find_dot name k = Some e \<Longrightarrow> k \<le> e \<and> e < length name"
  by (auto simp: find_dot_def Let_def split: if_splits)

function passthrough_loop :: "string set \<Rightarrow> string \<Rightarrow> nat \<Rightarrow> bool" where
  "passthrough_loop mods name k = (case find_dot name k of
     None \<Rightarrow> False
   | Some end_dot \<Rightarrow> if take end_dot name \<in> mods then True else passthrough_loop mods name (end_dot + 1))"
  by auto
termination
  by (relation "measure (\<lambda>(mods, name, k). length name - k)") (auto dest!: find_dot_bounds)

definition module_configured_passthrough :: "sandbox_restrictions \<Rightarrow> string \<Rightarrow> bool" where
  "module_configured_passthrough r name =
    (if passthrough_all_modules r \<or> name \<in> passthrough_modules r then True
     else passthrough_loop (passthrough_modules r) name 0)"

definition import_policy_applied :: "sandbox_restrictions \<Rightarrow> import_policy set option \<Rightarrow> import_policy \<Rightarrow> bool" where
  "import_policy_applied r override policy = (case override of
     None \<Rightarrow> policy \<in> import_notification_policy r
   | Some ps \<Rightarrow> if ps = {} then policy \<in> import_notification_policy r else policy \<in> ps)"

datatype import_outcome =
    ImportInvalid string
  | UnintentionalPassthroughError string
  | Sandboxed bool
  | PassedThrough

text \<open>\<^verbatim>\<open>_assert_valid_module\<close> and \<^verbatim>\<open>_maybe_passthrough_module\<close>: what happens to a module that is not loaded
  yet.  The flag of \<open>Sandboxed\<close> says that a warning is issued.\<close>

definition assert_valid_module :: "sandbox_restrictions \<Rightarrow> bool \<Rightarrow> bool \<Rightarrow> string \<Rightarrow> bool" where
  "assert_valid_module r is_runtime unrestricted name \<longleftrightarrow>
     \<not> (match_access (invalid_modules r) is_runtime (split_dots name) False \<and> \<not> unrestricted)"

definition import_decision :: "sandbox_restrictions \<Rightarrow> import_policy set option \<Rightarrow> bool \<Rightarrow> bool \<Rightarrow> bool \<Rightarrow> string \<Rightarrow> import_outcome" where
  "import_decision r override is_runtime unrestricted imports_passed_through name =
    (if \<not> assert_valid_module r is_runtime unrestricted name then ImportInvalid name
     else if \<not> imports_passed_through \<and> \<not> module_configured_passthrough r name then
       (if import_policy_applied r override RAISE_ON_UNINTENTIONAL_PASSTHROUGH then UnintentionalPassthroughError name
        else Sandboxed (import_policy_applied r override WARN_ON_UNINTENTIONAL_PASSTHROUGH))
     else PassedThrough)"

text \<open>The matcher that an imported module is wrapped with, if any.\<close>

definition maybe_restrict_module :: "sandbox_restrictions \<Rightarrow> string \<Rightarrow> matcher option" where
  "maybe_restrict_module r name = child_matcher (invalid_module_members r) (split_dots name)"

declare split_dots.simps [simp del] passthrough_loop.simps [simp del]

end
