(* ===== verification/Sandbox_Spec.thy ===== *)
theory Sandbox_Spec
  imports Sandbox
begin

section \<open>Properties of the sandbox restrictions\<close>

text \<open>
  What a matcher forbids is forbidden however the member is reached; combining matchers and lifting a
  restriction have the expected effect on every path, where the combination has three exceptions; and
  the search for a pass-through parent finds exactly the dotted prefixes.
\<close>

subsection \<open>Using a restricted member\<close>

text \<open>A child matcher forbids at least what its parent forbids below it.\<close>

lemma matcher_all_access:
  "access_matcher matcher_all rt path iu = Some matcher_all"
  "rt \<Longrightarrow> access_matcher matcher_all_runtime rt path iu = Some matcher_all_runtime"
  by (cases path; simp add: matcher_all_def matcher_all_runtime_def)+

lemma child_matcher_loop_strict:
  assumes "access_matcher m rt (p @ q) iu \<noteq> None" "only_rt \<longrightarrow> rt"
  shows "\<exists>c. child_matcher_loop m only_rt p = Some c \<and> access_matcher c rt q iu \<noteq> None"
  using assms
proof (induction p arbitrary: m only_rt)
  case (Cons v p)
  show ?case
  proof (cases "m_match_self m \<or> in_set v (m_access m) \<or> in_set v (m_use m)")
    case True
    with Cons.prems show ?thesis
      by (auto simp: matcher_all_access split: if_splits)
  next
    case False
    with Cons.prems(1) obtain c where c: "child_of m v = Some c" "access_matcher c rt (p @ q) iu \<noteq> None" "v \<notin> m_exclude m"
      by (auto split: if_splits option.splits)
    then have "m_only_runtime c \<longrightarrow> rt"
      by (cases "p @ q") (auto split: if_splits)
    with Cons.IH[OF c(2), of "only_rt \<or> m_only_runtime c"] Cons.prems(2) c False show ?thesis by auto
  qed
qed simp

lemma runtime_only: "access_matcher m rt path iu \<noteq> None \<Longrightarrow> m_only_runtime m \<longrightarrow> rt"
  by (cases path) (auto split: if_splits)

lemma child_matcher_strict:
  "access_matcher m rt (p @ q) iu \<noteq> None \<Longrightarrow> \<exists>c. child_matcher m p = Some c \<and> access_matcher c rt q iu \<noteq> None"
  unfolding child_matcher_def by (rule child_matcher_loop_strict, assumption, erule runtime_only)

text \<open>Workflow code that reads a chain of attributes and calls what it finds.\<close>

fun proxy_use :: "bool \<Rightarrow> proxy \<Rightarrow> string list \<Rightarrow> access_result" where
  "proxy_use rt px [] = fst (proxy_call False rt px True)"
| "proxy_use rt px (n # ns) = (case proxy_getattribute False rt px n True of
     (r, None) \<Rightarrow> r
   | (r, Some c) \<Rightarrow> if r = Allowed then proxy_use rt c ns else r)"

lemma assert_allowed:
  "assert_child_not_restricted False nm rt m name = Allowed \<longleftrightarrow> access_matcher m rt [name] False = None"
  by (auto simp: assert_child_not_restricted_def Let_def split: option.splits)

lemma call_blocked:
  assumes "access_matcher m rt [v] True \<noteq> None" "access_matcher m rt [v] False = None" "child_matcher m [v] = Some c"
  shows "access_matcher c rt [''__call__''] False \<noteq> None"
proof -
  have "in_set v (m_use m) \<and> v \<notin> m_exclude m \<and> (m_only_runtime m \<longrightarrow> rt)"
    using assms(1,2) by (auto split: if_splits option.splits)
  with assms(3) have "c = matcher_all \<or> rt \<and> c = matcher_all_runtime"
    by (auto simp: child_matcher_def)
  then show ?thesis
    using matcher_all_access[of rt "[''__call__'']" False] by (auto simp del: access_matcher.simps)
qed

lemma use_blocked:
  assumes "access_matcher (px_matcher px) rt path True \<noteq> None" "path \<noteq> []"
    "''__spec__'' \<notin> set path" "''__name__'' \<notin> set path"
  shows "proxy_use rt px path \<noteq> Allowed"
  using assms
proof (induction path arbitrary: px)
  case (Cons v path)
  let ?m = "px_matcher px"
  let ?r = "assert_child_not_restricted False (px_name px) rt ?m v"
  from child_matcher_strict[of ?m rt "[v]" path True] Cons.prems(1) obtain c where
    c: "child_matcher ?m [v] = Some c" "access_matcher c rt path True \<noteq> None" by auto
  let ?px = "\<lparr>px_name = px_name px @ ''.'' @ v, px_matcher = c\<rparr>"
  show ?case
  proof (cases "?r = Allowed")
    case False
    with Cons.prems(3,4) show ?thesis
      by (auto simp: proxy_getattribute_def Let_def split: option.split)
  next
    case True
    have get: "proxy_getattribute False rt px v True = (Allowed, Some ?px)"
      using True Cons.prems(3,4) c(1) by (auto simp: proxy_getattribute_def Let_def)
    show ?thesis
    proof (cases "path = []")
      case True
      have "access_matcher c rt [''__call__''] False \<noteq> None"
        using call_blocked[of ?m rt v c] Cons.prems(1) True \<open>?r = Allowed\<close> c(1) by (simp add: assert_allowed)
      with get True show ?thesis
        by (simp add: proxy_call_def Let_def assert_allowed)
    next
      case False
      with Cons.IH[of ?px] Cons.prems(3,4) c(2) get show ?thesis by simp
    qed
  qed
qed simp

text \<open>C26 A restriction on a member of a module holds however workflow code gets there: when the configured
  restrictions match the path of the module and the member, including matches on use only, the imported
  module is wrapped, and reading the member's path and calling the result raises the access error or
  issues the configured warning at some step.\<close>

theorem restricted_member_blocked:
  assumes "match_access (invalid_module_members r) is_runtime (split_dots modname @ path) True" "path \<noteq> []"
    "''__spec__'' \<notin> set path" "''__name__'' \<notin> set path"
  shows "\<exists>m. maybe_restrict_module r modname = Some m \<and>
    proxy_use is_runtime \<lparr>px_name = modname, px_matcher = m\<rparr> path \<noteq> Allowed"
proof -
  from assms(1) child_matcher_strict[of "invalid_module_members r" is_runtime "split_dots modname" path True] obtain m where
    "child_matcher (invalid_module_members r) (split_dots modname) = Some m" "access_matcher m is_runtime path True \<noteq> None"
    by (auto simp: match_access_def)
  with use_blocked[of "\<lparr>px_name = modname, px_matcher = m\<rparr>"] assms(2-4) show ?thesis
    by (auto simp: maybe_restrict_module_def)
qed

theorem restricted_member_blocked_witness:
  "let r = \<lparr>passthrough_modules = {}, invalid_modules = matcher_none,
        invalid_module_members = nested_child [''urllib'', ''request''] matcher_all_uses,
        import_notification_policy = {}, passthrough_all_modules = False\<rparr>
   in \<exists>m. maybe_restrict_module r ''urllib.request'' = Some m \<and>
        proxy_use True \<lparr>px_name = ''urllib.request'', px_matcher = m\<rparr> [''urlopen''] \<noteq> Allowed"
  unfolding Let_def
  by (rule restricted_member_blocked)
    (simp_all add: match_access_def split_dots.simps nested_child_def matcher_all_uses_def child_of_def dget_def in_set_def)


subsection \<open>Combining matchers\<close>

text \<open>Matchers without exclusions, runtime-only parts and wildcard children.\<close>

fun plain :: "matcher \<Rightarrow> bool" where
  "plain (Matcher acc us ch self rt msg warn excl) \<longleftrightarrow> excl = {} \<and> \<not> rt \<and> distinct (map fst ch) \<and>
     ''*'' \<notin> fst ` set ch \<and> (\<forall>kc \<in> set ch. plain (snd kc))"

definition plain_children :: "(string \<times> matcher) list \<Rightarrow> bool" where
  "plain_children ch \<longleftrightarrow> distinct (map fst ch) \<and> ''*'' \<notin> fst ` set ch \<and> (\<forall>kc \<in> set ch. plain (snd kc))"

lemma plain_iff: "plain m \<longleftrightarrow> m_exclude m = {} \<and> \<not> m_only_runtime m \<and> plain_children (m_children m)"
  by (cases m) (auto simp: plain_children_def)

definition child_match :: "(string \<times> matcher) list \<Rightarrow> string \<Rightarrow> bool \<Rightarrow> string list \<Rightarrow> bool \<Rightarrow> bool" where
  "child_match ch k rt path iu = (case dget ch k of None \<Rightarrow> False | Some c \<Rightarrow> match_access c rt path iu)"

lemma plain_match_Cons:
  "plain m \<Longrightarrow> match_access m rt (v # vs) iu \<longleftrightarrow>
     m_match_self m \<or> in_set v (m_access m) \<or> iu \<and> in_set v (m_use m) \<or> child_match (m_children m) v rt vs iu"
proof -
  assume m: "plain m"
  then have ex: "m_exclude m = {}" "\<not> m_only_runtime m" "plain_children (m_children m)"
    unfolding plain_iff by blast+
  then have "dget (m_children m) ''*'' = None"
    unfolding plain_children_def dget_None_iff dkeys_def by simp
  then have "child_of m v = dget (m_children m) v"
    by (simp add: child_of_def split: option.split)
  with ex(1,2) show ?thesis
    unfolding match_access_def child_match_def by (auto split: option.split)
qed

lemma plain_match_Nil: "plain m \<Longrightarrow> match_access m rt [] iu \<longleftrightarrow> m_match_self m"
  by (simp add: match_access_def plain_iff)

lemma set_update: "set (AList.update k u d) \<subseteq> insert (k, u) (set d)"
  by (induction d) auto

lemma plain_children_dset:
  "plain_children d \<Longrightarrow> plain u \<Longrightarrow> k \<noteq> ''*'' \<Longrightarrow> plain_children (dset k u d)"
  using set_update[of k u d] unfolding plain_children_def dset_def
  by (auto simp: distinct_update)

lemma matcher_all_match: "plain matcher_all" "match_access matcher_all rt path iu"
  by (simp_all add: matcher_all_def match_access_def matcher_all_access[unfolded matcher_all_def])


lemma or_is_union:
  "matcher_or a b = Inr c \<Longrightarrow> plain a \<Longrightarrow> plain b \<Longrightarrow>
     plain c \<and> (\<forall>path. match_access c rt path iu \<longleftrightarrow> match_access a rt path iu \<or> match_access b rt path iu)"
  "or_children d ch = Inr d' \<Longrightarrow> plain_children d \<Longrightarrow> plain_children ch \<Longrightarrow>
     plain_children d' \<and> (\<forall>k path. child_match d' k rt path iu \<longleftrightarrow> child_match d k rt path iu \<or> child_match ch k rt path iu)"
proof (induction a b and d ch arbitrary: c and d' rule: matcher_or_or_children.induct)
  case (1 m acc us ch self r msg warn excl)
  let ?b = "Matcher acc us ch self r msg warn excl"
  have b: "plain_children ch" using 1(4) by (simp add: plain_children_def)
  show ?case
  proof (cases "m_match_self m \<or> self")
    case True
    with 1(2) have "c = matcher_all" by (auto split: if_splits)
    moreover have "match_access m rt path iu \<or> match_access ?b rt path iu" for path
      using True 1(3,4) by (cases path) (auto simp: plain_match_Cons plain_match_Nil)
    ultimately show ?thesis by (simp add: matcher_all_match)
  next
    case False
    then obtain d' where d': "or_children (m_children m) ch = Inr d'"
      and c: "c = Matcher (m_access m \<union> acc) (m_use m \<union> us) d' False (m_only_runtime m) (m_leaf_message m) (m_leaf_warning m) {}"
      using 1(2) by (auto simp: post_init_def split: if_splits sum.splits)
    have IH: "plain_children d' \<and> (\<forall>k path. child_match d' k rt path iu \<longleftrightarrow>
        child_match (m_children m) k rt path iu \<or> child_match ch k rt path iu)"
      using 1(1)[OF _ _ _ _ d'] 1(2,3) b False by (auto simp: plain_iff split: if_splits)
    then have pc: "plain c" using 1(3) by (simp add: c plain_iff)
    have "match_access c rt path iu \<longleftrightarrow> match_access m rt path iu \<or> match_access ?b rt path iu" for path
    proof (cases path)
      case Nil
      then show ?thesis using pc 1(3,4) False by (simp add: plain_match_Nil c)
    next
      case (Cons v vs)
      have "match_access c rt (v # vs) iu \<longleftrightarrow> in_set v (m_access m \<union> acc) \<or> iu \<and> in_set v (m_use m \<union> us) \<or> child_match d' v rt vs iu"
        unfolding plain_match_Cons[OF pc] by (simp add: c)
      moreover have "match_access ?b rt (v # vs) iu \<longleftrightarrow> in_set v acc \<or> iu \<and> in_set v us \<or> child_match ch v rt vs iu"
        unfolding plain_match_Cons[OF 1(4)] using False by simp
      moreover have "match_access m rt (v # vs) iu \<longleftrightarrow> in_set v (m_access m) \<or> iu \<and> in_set v (m_use m) \<or> child_match (m_children m) v rt vs iu"
        unfolding plain_match_Cons[OF 1(3)] using False by simp
      ultimately show ?thesis using IH Cons by (auto simp: in_set_def)
    qed
    with pc show ?thesis by blast
  qed
next
  case (2 d)
  then show ?case by (simp add: child_match_def)
next
  case (3 d k v rest)
  have v: "plain v" "k \<noteq> ''*''" "plain_children rest" "dget rest k = None"
    using 3(6) by (auto simp: plain_children_def dget_None_iff dkeys_def)
  show ?case
  proof (cases "dget d k")
    case None
    with 3(4) have r: "or_children (dset k v d) rest = Inr d'" by simp
    from 3(1)[OF None r plain_children_dset[OF 3(5) v(1,2)] v(3)] None v(4) show ?thesis
      by (auto simp: child_match_def dget_dset dget_Cons split: option.splits)
  next
    case (Some w)
    with 3(4) obtain u where u: "matcher_or w v = Inr u" "or_children (dset k u d) rest = Inr d'"
      by (auto split: sum.splits)
    have "plain w" using Some 3(5) by (auto simp: plain_children_def dest!: dget_SomeD)
    from 3(2)[OF Some u(1) this v(1)] have pu: "plain u" and mu: "\<And>path. match_access u rt path iu \<longleftrightarrow>
        match_access w rt path iu \<or> match_access v rt path iu" by auto
    from 3(3)[OF Some u(1) u(2) plain_children_dset[OF 3(5) pu v(2)] v(3)] Some v(4) mu show ?thesis
      by (auto simp: child_match_def dget_dset dget_Cons split: option.splits)
  qed
qed

text \<open>C27 Combining two matchers with \<^verbatim>\<open>|\<close> gives their union: the result matches exactly the paths that one of
  them matches, for matchers without exclusions, runtime-only parts and wildcard children.\<close>

theorem matcher_or_union:
  assumes "matcher_or a b = Inr c" "plain a" "plain b"
  shows "match_access c is_runtime path include_use \<longleftrightarrow>
    match_access a is_runtime path include_use \<or> match_access b is_runtime path include_use"
  using or_is_union(1)[OF assms, of is_runtime include_use] by blast

theorem matcher_or_union_witness:
  "\<exists>c. matcher_or (nested_child [''os''] matcher_all_uses) (nested_child [''os'', ''path''] matcher_all) = Inr c \<and>
     (match_access c False [''os'', ''path'', ''join''] False \<longleftrightarrow>
        match_access (nested_child [''os''] matcher_all_uses) False [''os'', ''path'', ''join''] False \<or>
        match_access (nested_child [''os'', ''path''] matcher_all) False [''os'', ''path'', ''join''] False)"
proof -
  let ?a = "nested_child [''os''] matcher_all_uses" and ?b = "nested_child [''os'', ''path''] matcher_all"
  have "\<exists>c. matcher_or ?a ?b = Inr c"
    by (simp add: nested_child_def matcher_all_uses_def matcher_all_def post_init_def dget_def dset_def str_truthy_def)
  then obtain c where c: "matcher_or ?a ?b = Inr c" ..
  have "plain ?a" "plain ?b" by (simp_all add: nested_child_def matcher_all_uses_def matcher_all_def)
  from matcher_or_union[OF c this] c show ?thesis by blast
qed


subsection \<open>Lifting a restriction\<close>

text \<open>Nothing on the way to the child matches by itself or by a wildcard.\<close>

fun clear_path :: "matcher \<Rightarrow> string list \<Rightarrow> bool" where
  "clear_path m [] = True"
| "clear_path m [v] \<longleftrightarrow> \<not> m_match_self m \<and> ''*'' \<notin> m_access m \<and> ''*'' \<notin> m_use m \<and> dget (m_children m) ''*'' = None"
| "clear_path m (v # w # ws) \<longleftrightarrow> \<not> m_match_self m \<and> \<not> in_set v (m_access m) \<and> \<not> in_set v (m_use m) \<and>
     dget (m_children m) ''*'' = None \<and> (case dget (m_children m) v of None \<Rightarrow> True | Some c \<Rightarrow> clear_path c (w # ws))"

lemma match_access_Nil: "match_access m rt [] iu \<longleftrightarrow> (m_only_runtime m \<longrightarrow> rt) \<and> m_match_self m"
  by (simp add: match_access_def)

lemma match_access_Cons: "match_access m rt (v # vs) iu \<longleftrightarrow> v \<notin> m_exclude m \<and> (m_only_runtime m \<longrightarrow> rt) \<and>
    (m_match_self m \<or> in_set v (m_access m) \<or> iu \<and> in_set v (m_use m) \<or>
      (case child_of m v of None \<Rightarrow> False | Some c \<Rightarrow> match_access c rt vs iu))"
  unfolding match_access_def by (auto split: option.split)

lemma in_set_remove: "x \<noteq> v \<Longrightarrow> v \<noteq> ''*'' \<Longrightarrow> in_set x (S - {v}) = in_set x S" "in_set v (S - {v}) \<longleftrightarrow> v \<noteq> ''*'' \<and> ''*'' \<in> S"
  by (auto simp: in_set_def)

lemma unrestricted_others:
  assumes "with_child_unrestricted m p = Inr m'" "''*'' \<notin> set p" "\<not> prefix p q"
  shows "match_access m' rt q iu = match_access m rt q iu"
  using assms
proof (induction m p arbitrary: m' q rule: with_child_unrestricted.induct)
  case (2 m v)
  show ?case
  proof (cases q)
    case Nil
    with 2(1) show ?thesis by (auto simp: match_access_Nil)
  next
    case (Cons x xs)
    with 2(2,3) have x: "x \<noteq> v" "v \<noteq> ''*''" by auto
    then have "child_of m' x = child_of m x"
      using 2(1) by (auto simp: child_of_def dget_dpop split: option.split)
    with 2(1) x show ?thesis by (auto simp: Cons match_access_Cons in_set_remove)
  qed
next
  case (3 m v w ws)
  show ?case
  proof (cases "dget (m_children m) v")
    case None
    with 3(2) show ?thesis by simp
  next
    case (Some c)
    with 3(2) obtain c' where c': "with_child_unrestricted c (w # ws) = Inr c'"
      "m' = Matcher (m_access m) (m_use m) (dset v c' (m_children m))
       (m_match_self m) (m_only_runtime m) (m_leaf_message m) (m_leaf_warning m) (m_exclude m)"
      by (cases "with_child_unrestricted c (w # ws)") auto
    show ?thesis
    proof (cases q)
      case Nil
      then show ?thesis by (simp add: match_access_Nil c'(2))
    next
      case (Cons x xs)
      show ?thesis
      proof (cases "x = v")
        case True
        then have "match_access c' rt xs iu = match_access c rt xs iu"
          using 3(1)[OF Some c'(1), of xs] 3(3,4) Cons by simp
        moreover have "child_of m' v = Some c'" "child_of m v = Some c"
          using Some by (simp_all add: child_of_def c'(2) dget_dset)
        ultimately show ?thesis using True by (simp add: Cons match_access_Cons c'(2))
      next
        case False
        with 3(3) have "child_of m' x = child_of m x"
          by (simp add: child_of_def c'(2) dget_dset split: option.split)
        then show ?thesis by (simp add: Cons match_access_Cons c'(2))
      qed
    qed
  qed
qed simp

lemma unrestricted_child:
  assumes "with_child_unrestricted m p = Inr m'" "clear_path m p" "''*'' \<notin> set p" "prefix p q" "p \<noteq> []"
  shows "\<not> match_access m' rt q iu"
  using assms
proof (induction m p arbitrary: m' q rule: with_child_unrestricted.induct)
  case (2 m v)
  obtain xs where q: "q = v # xs" using 2(4) by (cases q) auto
  have "child_of m' v = None"
    using 2(1,2) by (auto simp: child_of_def dget_dpop)
  with 2(1-3) show ?case by (auto simp: q match_access_Cons in_set_remove)
next
  case (3 m v w ws)
  obtain xs where q: "q = v # xs" "prefix (w # ws) xs" using 3(5) by (cases q) auto
  show ?case
  proof (cases "dget (m_children m) v")
    case None
    with 3(2,3) show ?thesis by (auto simp: q match_access_Cons child_of_def)
  next
    case (Some c)
    with 3(2) obtain c' where c': "with_child_unrestricted c (w # ws) = Inr c'"
      "m' = Matcher (m_access m) (m_use m) (dset v c' (m_children m))
       (m_match_self m) (m_only_runtime m) (m_leaf_message m) (m_leaf_warning m) (m_exclude m)"
      by (cases "with_child_unrestricted c (w # ws)") auto
    have "\<not> match_access c' rt xs iu"
      using 3(1)[OF Some c'(1) _ _ q(2)] 3(3,4) Some by simp
    moreover have "child_of m' v = Some c'"
      by (simp add: child_of_def c'(2) dget_dset)
    ultimately show ?thesis
      using 3(3) by (simp add: q match_access_Cons c'(2))
  qed
qed simp



subsection \<open>Pass-through modules\<close>

lemma no_dot_before:
  assumes "k \<le> i" "i < k + length (takeWhile (\<lambda>c. c \<noteq> dot) (drop k name))"
  shows "name ! i \<noteq> dot"
proof -
  let ?w = "takeWhile (\<lambda>c. c \<noteq> dot) (drop k name)"
  have i: "i - k < length ?w" using assms by simp
  then have "?w ! (i - k) = name ! i"
    using assms(1) length_takeWhile_le[of "\<lambda>c. c \<noteq> dot" "drop k name"] by (simp add: takeWhile_nth)
  moreover have "?w ! (i - k) \<noteq> dot"
    using nth_mem[OF i] set_takeWhileD by force
  ultimately show ?thesis by simp
qed

lemma find_dot_None: "find_dot name k = None \<Longrightarrow> k \<le> i \<Longrightarrow> i < length name \<Longrightarrow> name ! i \<noteq> dot"
  by (rule no_dot_before[of k]) (auto simp: find_dot_def Let_def split: if_splits)

lemma find_dot_Some:
  assumes "find_dot name k = Some e"
  shows "name ! e = dot" "k \<le> i \<Longrightarrow> i < length name \<Longrightarrow> name ! i = dot \<Longrightarrow> e \<le> i"
proof -
  have e: "e = k + length (takeWhile (\<lambda>c. c \<noteq> dot) (drop k name))" "e < length name"
    using assms by (auto simp: find_dot_def Let_def split: if_splits)
  then show "name ! e = dot"
    using nth_length_takeWhile[of "\<lambda>c. c \<noteq> dot" "drop k name"] by simp
  show "e \<le> i" if "k \<le> i" "i < length name" "name ! i = dot"
    using no_dot_before[OF that(1), of name] that(3) e(1) by (meson not_less)
qed

lemma passthrough_loop_iff:
  "passthrough_loop mods name k \<longleftrightarrow> (\<exists>e. k \<le> e \<and> e < length name \<and> name ! e = dot \<and> take e name \<in> mods)"
proof (induction mods name k rule: passthrough_loop.induct)
  case (1 mods name k)
  show ?case
  proof (cases "find_dot name k")
    case None
    then show ?thesis
      using find_dot_None[OF None] by (subst passthrough_loop.simps) auto
  next
    case (Some e)
    note b = find_dot_bounds[OF Some] and d = find_dot_Some[OF Some]
    show ?thesis
    proof (cases "take e name \<in> mods")
      case True
      with Some b d(1) show ?thesis by (subst passthrough_loop.simps) auto
    next
      case False
      have "(\<exists>e'. k \<le> e' \<and> e' < length name \<and> name ! e' = dot \<and> take e' name \<in> mods) \<longleftrightarrow>
          (\<exists>e'. e + 1 \<le> e' \<and> e' < length name \<and> name ! e' = dot \<and> take e' name \<in> mods)"
        (is "?l \<longleftrightarrow> ?r")
      proof
        assume ?l
        then obtain e' where e': "k \<le> e'" "e' < length name" "name ! e' = dot" "take e' name \<in> mods" by blast
        moreover from this d(2) False have "e \<le> e'" "e' \<noteq> e" by auto
        ultimately show ?r by (intro exI[of _ e']) simp
      next
        assume ?r
        then show ?l using b by (meson add_leD1 le_trans)
      qed
      with 1[OF Some False] Some False show ?thesis by (subst passthrough_loop.simps) simp
    qed
  qed
qed

lemma dotted_prefix: "(\<exists>e. e < length name \<and> name ! e = dot \<and> take e name \<in> mods) \<longleftrightarrow> (\<exists>p q. name = p @ dot # q \<and> p \<in> mods)"
proof
  assume "\<exists>e. e < length name \<and> name ! e = dot \<and> take e name \<in> mods"
  then obtain e where "e < length name" "name ! e = dot" "take e name \<in> mods" by blast
  with id_take_nth_drop[of e name] show "\<exists>p q. name = p @ dot # q \<and> p \<in> mods" by metis
next
  assume "\<exists>p q. name = p @ dot # q \<and> p \<in> mods"
  then obtain p q where "name = p @ dot # q" "p \<in> mods" by blast
  then show "\<exists>e. e < length name \<and> name ! e = dot \<and> take e name \<in> mods"
    by (intro exI[of _ "length p"]) (simp add: nth_append)
qed

text \<open>C30 The loop over the dots of a module's name decides what it is meant to: a module is configured as
  pass-through exactly when all modules are, or the module or one of the packages that contain it is
  listed.\<close>

theorem passthrough_is_package_prefix:
  "module_configured_passthrough r name \<longleftrightarrow>
     passthrough_all_modules r \<or> name \<in> passthrough_modules r \<or>
     (\<exists>p q. name = p @ ''.'' @ q \<and> p \<in> passthrough_modules r)"
  unfolding module_configured_passthrough_def passthrough_loop_iff
  using dotted_prefix[of name "passthrough_modules r"] by auto

end
