(* ===== verification/Streams.thy ===== *)
theory Streams
  imports Wf_Types
begin

section \<open>Workflow streams\<close>

text \<open>
  \<^verbatim>\<open>contrib/workflow_streams\<close>: an append-only log inside a workflow (\<^verbatim>\<open>_stream.py\<close>), the publisher side of
  the client with its batches and retries and the subscriber side (\<^verbatim>\<open>_client.py\<close>), and the wire format of
  items (\<^verbatim>\<open>_types.py\<close>).  Offsets are integers, times and durations are numbers of microseconds.  The
  serialization of a protobuf payload is a parameter, the record \<open>wire\<close>: its bytes, the parser
  and the size; base64 is the one of Python's standard library.  Waiting, sleeping and the calls of the
  Temporal client are not modelled, only what is computed before and after them.  The texts of errors
  are shortened.
\<close>

record wire =
  wr_serialize :: "payload \<Rightarrow> string"
  wr_parse :: "string \<Rightarrow> exn + payload"
  wr_size :: "payload \<Rightarrow> int"

subsection \<open>Base64\<close>

definition b64_alphabet :: string where
  "b64_alphabet = ''ABCDEFGHIJKLMNOPQRSTUVWXYZabcdefghijklmnopqrstuvwxyz0123456789+/''"

definition b64_digit :: "nat \<Rightarrow> char" where
  "b64_digit n = b64_alphabet ! n"

definition b64_value :: "char \<Rightarrow> nat option" where
  "b64_value c = (if c \<in> set b64_alphabet then Some (length (takeWhile (\<lambda>d. d \<noteq> c) b64_alphabet)) else None)"

abbreviation byte :: "char \<Rightarrow> nat" where "byte c \<equiv> of_char c"

abbreviation pad :: char where "pad \<equiv> CHR ''=''"

fun b64encode :: "string \<Rightarrow> string" where
  "b64encode [] = []"
| "b64encode [a] = [b64_digit (byte a div 4), b64_digit (byte a mod 4 * 16), pad, pad]"
| "b64encode [a, b] = [b64_digit (byte a div 4), b64_digit (byte a mod 4 * 16 + byte b div 16),
     b64_digit (byte b mod 16 * 4), pad]"
| "b64encode (a # b # c # rest) = b64_digit (byte a div 4) # b64_digit (byte a mod 4 * 16 + byte b div 16)
     # b64_digit (byte b mod 16 * 4 + byte c div 64) # b64_digit (byte c mod 64) # b64encode rest"

text \<open>\<^verbatim>\<open>binascii.a2b_base64\<close> in its lenient mode: the position in a group of four, the bits left over and
  the number of pads seen; characters outside the alphabet are skipped.\<close>

fun a2b_base64 :: "nat \<Rightarrow> nat \<Rightarrow> nat \<Rightarrow> string \<Rightarrow> py_error + string" where
  "a2b_base64 quad left pads [] = (if quad = 0 then Inr []
     else Inl (ValueError ''Incorrect padding''))"
| "a2b_base64 quad left pads (ch # rest) =
    (if ch = pad then
       (if 2 \<le> quad \<and> 4 \<le> quad + Suc pads then Inr [] else a2b_base64 quad left (if 2 \<le> quad then Suc pads else pads) rest)
     else case b64_value ch of
         None \<Rightarrow> a2b_base64 quad left pads rest
       | Some v \<Rightarrow>
          (if quad = 0 then a2b_base64 1 v 0 rest
           else if quad = 1 then map_sum id (Cons (char_of (left * 4 + v div 16))) (a2b_base64 2 (v mod 16) 0 rest)
           else if quad = 2 then map_sum id (Cons (char_of (left * 16 + v div 4))) (a2b_base64 3 (v mod 4) 0 rest)
           else map_sum id (Cons (char_of (left * 64 + v))) (a2b_base64 0 0 0 rest)))"

definition b64decode :: "string \<Rightarrow> py_error + string" where
  "b64decode s = a2b_base64 0 0 0 s"

definition encode_payload :: "wire \<Rightarrow> payload \<Rightarrow> string" where
  "encode_payload wr p = b64encode (wr_serialize wr p)"

definition decode_payload :: "wire \<Rightarrow> string \<Rightarrow> exn + payload" where
  "decode_payload wr w = (case b64decode w of Inl e \<Rightarrow> Inl (exn_of_error e) | Inr bytes \<Rightarrow> wr_parse wr bytes)"

subsection \<open>The stream in the workflow\<close>

record stream_item =
  it_topic :: string
  it_data :: payload

record wire_item =
  wi_topic :: string
  wi_data :: string
  wi_offset :: int

record publisher_state =
  ps_sequence :: int
  ps_last_seen :: int

record stream_state =
  ss_log :: "wire_item list"
  ss_base_offset :: int
  ss_publishers :: "(string, publisher_state) dict"

record stream =
  st_log :: "stream_item list"
  st_base_offset :: int
  st_publishers :: "(string, publisher_state) dict"
  st_detaching :: bool
  st_topic_types :: "(string, string) dict"

record publish_entry =
  pe_topic :: string
  pe_data :: string

record publish_input =
  pi_items :: "publish_entry list"
  pi_publisher_id :: string
  pi_sequence :: int

record poll_input =
  po_topics :: "string list"
  po_from_offset :: int

record poll_result =
  pr_items :: "wire_item list"
  pr_next_offset :: int
  pr_more_ready :: bool

type_synonym 'a sm = "(stream, exn, 'a) pm"

definition empty_stream :: stream where
  "empty_stream = \<lparr>st_log = [], st_base_offset = 0, st_publishers = [], st_detaching = False, st_topic_types = []\<rparr>"

fun decode_log :: "wire \<Rightarrow> wire_item list \<Rightarrow> exn + stream_item list" where
  "decode_log wr [] = Inr []"
| "decode_log wr (w # ws) = (case decode_payload wr (wi_data w) of
     Inl e \<Rightarrow> Inl e
   | Inr p \<Rightarrow> map_sum id (Cons \<lparr>it_topic = wi_topic w, it_data = p\<rparr>) (decode_log wr ws))"

text \<open>The constructor: \<open>caller\<close> is the name of the calling function, \<open>registered\<close> says that a
  handler for the publish signal exists.\<close>

definition stream_init :: "wire \<Rightarrow> string \<Rightarrow> bool \<Rightarrow> stream_state option \<Rightarrow> exn + stream" where
  "stream_init wr caller registered prior_state =
    (if caller \<noteq> ''__init__'' then Inl (exn_of_error (RuntimeError
       (''WorkflowStream must be constructed directly from the workflow's @workflow.init method, not from '' @ caller)))
     else if registered then Inl (exn_of_error (RuntimeError
       ''WorkflowStream is already registered on this workflow. Construct WorkflowStream(...) at most once from @workflow.init.''))
     else case prior_state of
         None \<Rightarrow> Inr empty_stream
       | Some ss \<Rightarrow> map_sum id (\<lambda>log. empty_stream\<lparr>st_log := log, st_base_offset := ss_base_offset ss,
           st_publishers := ss_publishers ss\<rparr>) (decode_log wr (ss_log ss)))"

text \<open>A published value is a payload already or goes through the payload converter.\<close>

datatype pub_value = PubPayload payload | PubValue pyval

definition pub_payload :: "payload_converter \<Rightarrow> pub_value \<Rightarrow> exn + payload" where
  "pub_payload pc v = (case v of
     PubPayload p \<Rightarrow> Inr p
   | PubValue x \<Rightarrow> (case to_payloads pc [x] of
       Inl e \<Rightarrow> Inl e
     | Inr [] \<Rightarrow> Inl (exn_of_error (IndexError ''list index out of range''))
     | Inr (p # _) \<Rightarrow> Inr p))"

definition stream_publish_to_topic :: "payload_converter \<Rightarrow> string \<Rightarrow> pub_value \<Rightarrow> unit sm" where
  "stream_publish_to_topic pc topic v = pbind (plift (pub_payload pc v)) (\<lambda>p.
     pmod (\<lambda>s. s\<lparr>st_log := st_log s @ [\<lparr>it_topic = topic, it_data = p\<rparr>]\<rparr>))"

text \<open>Binding a topic to a type, the same in the stream and in the client; the types are given by name.\<close>

definition bind_topic :: "(string, string) dict \<Rightarrow> string \<Rightarrow> string option \<Rightarrow> exn + (string, string) dict" where
  "bind_topic types name ty =
    (let bound = (case ty of None \<Rightarrow> ''Any'' | Some t \<Rightarrow> t)
     in if bound = ''Payload'' then Inl (exn_of_error (RuntimeError ''Cannot bind a topic to type=Payload.''))
        else case dget types name of
            None \<Rightarrow> Inr (dset name bound types)
          | Some existing \<Rightarrow>
             (if existing \<noteq> bound then Inl (exn_of_error (RuntimeError (''Topic '' @ name @ '' is already bound'')))
              else Inr (dset name bound types)))"

definition stream_topic :: "string \<Rightarrow> string option \<Rightarrow> unit sm" where
  "stream_topic name ty = pbind (pget (\<lambda>s. bind_topic (st_topic_types s) name ty)) (\<lambda>r.
     pbind (plift r) (\<lambda>types. pmod (\<lambda>s. s\<lparr>st_topic_types := types\<rparr>)))"

definition get_state :: "wire \<Rightarrow> int \<Rightarrow> int \<Rightarrow> stream \<Rightarrow> stream_state" where
  "get_state wr now publisher_ttl s =
    \<lparr>ss_log = map (\<lambda>it. \<lparr>wi_topic = it_topic it, wi_data = encode_payload wr (it_data it), wi_offset = 0\<rparr>) (st_log s),
     ss_base_offset = st_base_offset s,
     ss_publishers = filter (\<lambda>(pid, ps). now - ps_last_seen ps < publisher_ttl) (st_publishers s)\<rparr>"

definition detach_pollers :: "unit sm" where
  "detach_pollers = pmod (\<lambda>s. s\<lparr>st_detaching := True\<rparr>)"

definition stream_truncate :: "int \<Rightarrow> unit sm" where
  "stream_truncate up_to_offset = pbind (pget (\<lambda>s. up_to_offset - st_base_offset s)) (\<lambda>log_index.
     if log_index \<le> 0 then pret ()
     else pbind (pget (\<lambda>s. int (length (st_log s)))) (\<lambda>len.
       if log_index > len then praise (application_error (''Cannot truncate to offset '' @ str_of_int up_to_offset) []
         (Some ''TruncateOutOfRange'') False None 0)
       else pmod (\<lambda>s. s\<lparr>st_log := drop (nat log_index) (st_log s), st_base_offset := up_to_offset\<rparr>)))"

fun append_entries :: "wire \<Rightarrow> publish_entry list \<Rightarrow> unit sm" where
  "append_entries wr [] = pret ()"
| "append_entries wr (e # es) = pbind (plift (decode_payload wr (pe_data e))) (\<lambda>p.
     pthen (pmod (\<lambda>s. s\<lparr>st_log := st_log s @ [\<lparr>it_topic = pe_topic e, it_data = p\<rparr>]\<rparr>)) (append_entries wr es))"

definition on_publish :: "wire \<Rightarrow> int \<Rightarrow> publish_input \<Rightarrow> unit sm" where
  "on_publish wr now inp = pbind (pget (\<lambda>s. dget (st_publishers s) (pi_publisher_id inp))) (\<lambda>existing.
     if pi_publisher_id inp \<noteq> [] \<and> (case existing of None \<Rightarrow> False | Some ps \<Rightarrow> pi_sequence inp \<le> ps_sequence ps)
     then pret ()
     else pthen (pwhen (pi_publisher_id inp \<noteq> []) (pmod (\<lambda>s. s\<lparr>st_publishers := dset (pi_publisher_id inp)
         \<lparr>ps_sequence = pi_sequence inp, ps_last_seen = now\<rparr> (st_publishers s)\<rparr>)))
       (append_entries wr (pi_items inp)))"

text \<open>The condition a poll waits for.\<close>

definition poll_ready :: "poll_input \<Rightarrow> stream \<Rightarrow> bool" where
  "poll_ready inp s \<longleftrightarrow> po_from_offset inp < st_base_offset s \<or>
     int (length (st_log s)) > po_from_offset inp - st_base_offset s \<or> st_detaching s"

definition payload_wire_size :: "wire \<Rightarrow> payload \<Rightarrow> string \<Rightarrow> int" where
  "payload_wire_size wr p topic = (wr_size wr p * 4 + 2) div 3 + int (length topic)"

definition MAX_POLL_RESPONSE_BYTES :: int where
  "MAX_POLL_RESPONSE_BYTES = 1000000"

text \<open>The items from a position of the log on, with their global offsets, filtered by topic.\<close>

definition poll_candidates :: "string list \<Rightarrow> nat \<Rightarrow> stream \<Rightarrow> (int \<times> stream_item) list" where
  "poll_candidates topics log_offset s =
    (let all_new = drop log_offset (st_log s);
         numbered = map (\<lambda>(i, it). (st_base_offset s + int log_offset + int i, it)) (enumerate 0 all_new)
     in if topics \<noteq> [] then filter (\<lambda>(off, it). it_topic it \<in> set topics) numbered else numbered)"

text \<open>The loop that caps the response: the offset of the first item left out, and the items.\<close>

fun poll_take :: "wire \<Rightarrow> int \<Rightarrow> bool \<Rightarrow> (int \<times> stream_item) list \<Rightarrow> int option \<times> wire_item list" where
  "poll_take wr used some [] = (None, [])"
| "poll_take wr used some ((off, it) # rest) =
    (let item_size = payload_wire_size wr (it_data it) (it_topic it)
     in if used + item_size > MAX_POLL_RESPONSE_BYTES \<and> some then (Some off, [])
        else case poll_take wr (used + item_size) True rest of (next, ws) \<Rightarrow>
          (next, \<lparr>wi_topic = it_topic it, wi_data = encode_payload wr (it_data it), wi_offset = off\<rparr> # ws))"

definition on_offset :: "stream \<Rightarrow> int" where
  "on_offset s = st_base_offset s + int (length (st_log s))"

text \<open>\<^verbatim>\<open>_on_poll\<close> after the wait.\<close>

definition on_poll :: "wire \<Rightarrow> poll_input \<Rightarrow> stream \<Rightarrow> exn + poll_result" where
  "on_poll wr inp s =
    (let log_offset = po_from_offset inp - st_base_offset s
     in if log_offset < 0 \<and> po_from_offset inp \<noteq> 0 then
          Inl (application_error (''Requested offset '' @ str_of_int (po_from_offset inp) @ '' has been truncated.'') [] (Some ''TruncatedOffset'') False None 0)
        else case poll_take wr 0 False (poll_candidates (po_topics inp) (nat log_offset) s) of (next, ws) \<Rightarrow>
          Inr \<lparr>pr_items = ws, pr_next_offset = (case next of None \<Rightarrow> on_offset s | Some off \<Rightarrow> off),
               pr_more_ready = (next \<noteq> None)\<rparr>)"

definition validate_poll :: "poll_input \<Rightarrow> stream \<Rightarrow> exn + unit" where
  "validate_poll inp s = (if st_detaching s
     then Inl (application_error ''Workflow pollers are detached for continue-as-new'' [] (Some ''StreamDraining'') False None 0)
     else Inr ())"

subsection \<open>The publishing client\<close>

record stream_client =
  cl_buffer :: "(string \<times> pub_value) list"
  cl_flush_event :: bool
  cl_publisher_id :: string
  cl_sequence :: int
  cl_pending :: "publish_entry list option"
  cl_pending_seq :: int
  cl_pending_since :: "int option"
  cl_max_batch_size :: "nat option"
  cl_max_retry_duration :: int
  cl_topic_types :: "(string, string) dict"

type_synonym 'a clm = "(stream_client, exn, 'a) pm"

definition client_init :: "string \<Rightarrow> nat option \<Rightarrow> int \<Rightarrow> stream_client" where
  "client_init publisher_id max_batch_size max_retry_duration =
    \<lparr>cl_buffer = [], cl_flush_event = False, cl_publisher_id = publisher_id, cl_sequence = 0, cl_pending = None,
     cl_pending_seq = 0, cl_pending_since = None, cl_max_batch_size = max_batch_size,
     cl_max_retry_duration = max_retry_duration, cl_topic_types = []\<rparr>"

definition client_publish_to_topic :: "string \<Rightarrow> pub_value \<Rightarrow> bool \<Rightarrow> unit clm" where
  "client_publish_to_topic topic v force_flush =
     pthen (pmod (\<lambda>c. c\<lparr>cl_buffer := cl_buffer c @ [(topic, v)]\<rparr>))
     (pbind (pget (\<lambda>c. force_flush \<or> (case cl_max_batch_size c of None \<Rightarrow> False | Some n \<Rightarrow> n \<le> length (cl_buffer c)))) (\<lambda>b.
       pwhen b (pmod (\<lambda>c. c\<lparr>cl_flush_event := True\<rparr>))))"

definition client_topic :: "string \<Rightarrow> string option \<Rightarrow> unit clm" where
  "client_topic name ty = pbind (pget (\<lambda>c. bind_topic (cl_topic_types c) name ty)) (\<lambda>r.
     pbind (plift r) (\<lambda>types. pmod (\<lambda>c. c\<lparr>cl_topic_types := types\<rparr>)))"

fun encode_buffer :: "wire \<Rightarrow> payload_converter \<Rightarrow> (string \<times> pub_value) list \<Rightarrow> exn + publish_entry list" where
  "encode_buffer wr pc [] = Inr []"
| "encode_buffer wr pc ((topic, v) # rest) = (case pub_payload pc v of
     Inl e \<Rightarrow> Inl e
   | Inr p \<Rightarrow> map_sum id (Cons \<lparr>pe_topic = topic, pe_data = encode_payload wr p\<rparr>) (encode_buffer wr pc rest))"

text \<open>\<^verbatim>\<open>_flush\<close> up to the call of \<^verbatim>\<open>signal\<close>: the input of the signal, or none when there is nothing to send.
  The lock makes the two halves of a flush one block.\<close>

definition flush_begin :: "wire \<Rightarrow> payload_converter \<Rightarrow> int \<Rightarrow> publish_input option clm" where
  "flush_begin wr pc now = pbind (pget id) (\<lambda>c. case cl_pending c of
     Some batch \<Rightarrow>
      (if (case cl_pending_since c of None \<Rightarrow> False | Some since \<Rightarrow> now - since > cl_max_retry_duration c)
       then pthen (pmod (\<lambda>c. c\<lparr>cl_sequence := cl_pending_seq c, cl_pending := None, cl_pending_seq := 0,
           cl_pending_since := None\<rparr>))
         (praise (new_exn C_PyTimeoutError ''Flush retry exceeded max_retry_duration'' D_None))
       else pret (Some \<lparr>pi_items = batch, pi_publisher_id = cl_publisher_id c, pi_sequence = cl_pending_seq c\<rparr>))
   | None \<Rightarrow>
      (if cl_buffer c \<noteq> [] then
         pbind (plift (encode_buffer wr pc (cl_buffer c))) (\<lambda>batch.
           let seq = cl_sequence c + 1
           in pthen (pmod (\<lambda>c. c\<lparr>cl_buffer := [], cl_pending := Some batch, cl_pending_seq := seq,
                cl_pending_since := Some now\<rparr>))
              (pret (Some \<lparr>pi_items = batch, pi_publisher_id = cl_publisher_id c, pi_sequence = seq\<rparr>)))
       else pret None))"

text \<open>After the signal was acknowledged; when it failed, nothing changes and the exception is passed on.\<close>

definition flush_acknowledged :: "int \<Rightarrow> stream_client \<Rightarrow> stream_client" where
  "flush_acknowledged seq c = c\<lparr>cl_sequence := seq, cl_pending := None, cl_pending_seq := 0, cl_pending_since := None\<rparr>"

text \<open>The condition of the loops in \<^verbatim>\<open>flush\<close> and \<^verbatim>\<open>__aexit__\<close>.\<close>

definition flush_needed :: "stream_client \<Rightarrow> bool" where
  "flush_needed c \<longleftrightarrow> cl_pending c \<noteq> None \<or> cl_buffer c \<noteq> []"


subsection \<open>The subscriber\<close>

datatype wf_status = RUNNING | COMPLETED | FAILED | CANCELED | TERMINATED | CONTINUED_AS_NEW | TIMED_OUT

text \<open>How a poll ends: with a result, a cancellation, a failed update with the type of its cause, a timeout
  of the call, or an RPC error that is \<^verbatim>\<open>NOT_FOUND\<close> or not.\<close>

datatype poll_outcome =
    PollResult poll_result
  | PollCancelled
  | PollUpdateFailed "string option"
  | PollTimeout
  | PollRPCError bool

definition follow_continue_as_new :: "bool \<Rightarrow> exn + wf_status \<Rightarrow> bool" where
  "follow_continue_as_new has_client description =
     (has_client \<and> description = Inr CONTINUED_AS_NEW)"

definition workflow_in_terminal_state :: "exn + wf_status \<Rightarrow> bool" where
  "workflow_in_terminal_state description = (case description of
     Inl _ \<Rightarrow> False
   | Inr st \<Rightarrow> st \<in> {COMPLETED, FAILED, CANCELED, TERMINATED, TIMED_OUT})"

text \<open>One iteration of the loop of \<^verbatim>\<open>subscribe\<close>: the items to yield and the next offset, a retry from an
  offset, the end of the iteration, or an exception.\<close>

datatype sub_step = SubYield "wire_item list" int | SubRetry int | SubStop | SubRaise

definition subscribe_step :: "bool \<Rightarrow> exn + wf_status \<Rightarrow> int \<Rightarrow> poll_outcome \<Rightarrow> sub_step" where
  "subscribe_step has_client description offset outcome = (case outcome of
     PollResult r \<Rightarrow> SubYield (pr_items r) (pr_next_offset r)
   | PollCancelled \<Rightarrow> SubStop
   | PollUpdateFailed cause_type \<Rightarrow>
      (if cause_type = Some ''TruncatedOffset'' then SubRetry 0
       else if cause_type = Some ''StreamDraining'' then SubRetry offset
       else if cause_type = Some ''AcceptedUpdateCompletedWorkflow'' then
         (if follow_continue_as_new has_client description then SubRetry offset else SubStop)
       else SubRaise)
   | PollTimeout \<Rightarrow> (if follow_continue_as_new has_client description then SubRetry offset else SubStop)
   | PollRPCError not_found \<Rightarrow>
      (if \<not> not_found then SubRaise
       else if follow_continue_as_new has_client description then SubRetry offset
       else if workflow_in_terminal_state description then SubStop
       else SubRaise))"

text \<open>The outcome of a poll of a running workflow: rejected by the validator, failed, or answered.\<close>

definition application_type :: "exn \<Rightarrow> string option" where
  "application_type e = (case e_data e of D_Application _ ty _ _ _ \<Rightarrow> ty | _ \<Rightarrow> None)"

definition poll_outcome_of :: "wire \<Rightarrow> poll_input \<Rightarrow> stream \<Rightarrow> poll_outcome" where
  "poll_outcome_of wr inp s = (case validate_poll inp s of
     Inl e \<Rightarrow> PollUpdateFailed (application_type e)
   | Inr _ \<Rightarrow> (case on_poll wr inp s of
       Inl e \<Rightarrow> PollUpdateFailed (application_type e)
     | Inr r \<Rightarrow> PollResult r))"

text \<open>The first iterations of the loop of \<^verbatim>\<open>subscribe\<close> on a stream that does not change meanwhile: what was yielded
  and the offset the loop stands at.  While a poll waits, the loop stays where it is.\<close>

fun subscribe_polls :: "wire \<Rightarrow> string list \<Rightarrow> nat \<Rightarrow> int \<Rightarrow> stream \<Rightarrow> wire_item list \<times> int" where
  "subscribe_polls wr topics 0 offset s = ([], offset)"
| "subscribe_polls wr topics (Suc n) offset s =
    (let inp = \<lparr>po_topics = topics, po_from_offset = offset\<rparr>
     in if \<not> poll_ready inp s then ([], offset)
        else case subscribe_step True (Inr RUNNING) offset (poll_outcome_of wr inp s) of
            SubYield ws o' \<Rightarrow> (case subscribe_polls wr topics n o' s of (ws', fin) \<Rightarrow> (ws @ ws', fin))
          | SubRetry o' \<Rightarrow> subscribe_polls wr topics n o' s
          | _ \<Rightarrow> ([], offset))"

end
