(* ===== verification/Streams_Spec.thy ===== *)
theory Streams_Spec
  imports Streams
begin

section \<open>Properties of workflow streams\<close>

text \<open>
  The wire format decodes to what was encoded; a subscriber that keeps polling gets every item once and in
  order; and the state handed to the next run gives the same stream again.
\<close>

subsection \<open>Base64\<close>

lemma b64_alphabet_props: "length b64_alphabet = 64" "distinct b64_alphabet" "pad \<notin> set b64_alphabet"
  by (simp_all add: b64_alphabet_def)

lemma takeWhile_index: "distinct xs \<Longrightarrow> n < length xs \<Longrightarrow> length (takeWhile (\<lambda>d. d \<noteq> xs ! n) xs) = n"
proof -
  assume d: "distinct xs" and n: "n < length xs"
  have "takeWhile (\<lambda>d. d \<noteq> xs ! n) xs = take n xs"
    using d n by (intro takeWhile_eq_take_P_nth) (auto simp: nth_eq_iff_index_eq)
  with n show ?thesis by simp
qed

lemma b64_value_digit [simp]: "n < 64 \<Longrightarrow> b64_value (b64_digit n) = Some n"
  using b64_alphabet_props by (simp add: b64_value_def b64_digit_def takeWhile_index)

lemma b64_digit_not_pad [simp]: "n < 64 \<Longrightarrow> b64_digit n \<noteq> pad"
  using b64_alphabet_props by (metis b64_digit_def nth_mem)

lemma byte_bound [simp]: "byte c < 256"
  by (rule nat_of_char_less_256)

lemma split_sum: "r < k \<Longrightarrow> (q * k + r) div k = q" "r < k \<Longrightarrow> (q * k + r) mod k = r" for q r k :: nat
  by simp_all

lemma byte_parts:
  "byte a div 4 < 64" "byte a mod 4 * 16 + byte b div 16 < 64" "byte b mod 16 * 4 + byte c div 64 < 64" "byte c mod 64 < 64"
  "byte a mod 4 * 16 < 64" "byte b mod 16 * 4 < 64" "byte b div 16 < 16" "byte c div 64 < 4"
  using byte_bound[of a] byte_bound[of b] byte_bound[of c] by linarith+

lemma decode_group:
  "a2b_base64 0 l p (b64_digit (byte a div 4) # b64_digit (byte a mod 4 * 16 + byte b div 16)
     # b64_digit (byte b mod 16 * 4 + byte c div 64) # b64_digit (byte c mod 64) # rest) =
   map_sum id (\<lambda>s. a # b # c # s) (a2b_base64 0 0 0 rest)"
  by (simp add: byte_parts split_sum sum.map_comp comp_def id_def)

lemma decode_tail:
  "a2b_base64 0 l p [b64_digit (byte a div 4), b64_digit (byte a mod 4 * 16), pad, pad] = Inr [a]"
  "a2b_base64 0 l p [b64_digit (byte a div 4), b64_digit (byte a mod 4 * 16 + byte b div 16), b64_digit (byte b mod 16 * 4), pad]
   = Inr [a, b]"
  by (simp_all add: byte_parts split_sum)

lemma base64_roundtrip: "b64decode (b64encode s) = Inr s"
  unfolding b64decode_def
  by (induction s rule: b64encode.induct) (simp_all add: decode_group decode_tail del: a2b_base64.simps(2))


text \<open>What the code relies on of protobuf: parsing gives back what was serialized.\<close>

definition wire_ok :: "wire \<Rightarrow> bool" where
  "wire_ok wr \<longleftrightarrow> (\<forall>p. wr_parse wr (wr_serialize wr p) = Inr p)"

lemma payload_roundtrip: "wire_ok wr \<Longrightarrow> decode_payload wr (encode_payload wr p) = Inr p"
  by (simp add: wire_ok_def decode_payload_def encode_payload_def base64_roundtrip)

lemma decode_log_encoded:
  "wire_ok wr \<Longrightarrow> decode_log wr (map (\<lambda>it. \<lparr>wi_topic = it_topic it, wi_data = encode_payload wr (it_data it), wi_offset = f it\<rparr>) its) = Inr its"
  by (induction its) (simp_all add: payload_roundtrip)

lemma rollover_state:
  "wire_ok wr \<Longrightarrow> stream_init wr ''__init__'' False (Some (get_state wr now ttl s)) =
     Inr \<lparr>st_log = st_log s, st_base_offset = st_base_offset s,
       st_publishers = filter (\<lambda>(pid, ps). now - ps_last_seen ps < ttl) (st_publishers s),
       st_detaching = False, st_topic_types = []\<rparr>"
  by (simp add: stream_init_def get_state_def decode_log_encoded empty_stream_def)

subsection \<open>Polling\<close>

text \<open>The items a subscriber of some topics should see from an offset on, with their offsets.\<close>

definition matching :: "string list \<Rightarrow> int \<Rightarrow> stream \<Rightarrow> (int \<times> stream_item) list" where
  "matching topics off s = filter (\<lambda>(o', it). off \<le> o' \<and> (topics = [] \<or> it_topic it \<in> set topics))
     (map (\<lambda>(i, it). (st_base_offset s + int i, it)) (enumerate 0 (st_log s)))"

definition wire_of :: "wire \<Rightarrow> int \<times> stream_item \<Rightarrow> wire_item" where
  "wire_of wr x = \<lparr>wi_topic = it_topic (snd x), wi_data = encode_payload wr (it_data (snd x)), wi_offset = fst x\<rparr>"

definition item_cost :: "wire \<Rightarrow> int \<times> stream_item \<Rightarrow> int" where
  "item_cost wr x = payload_wire_size wr (it_data (snd x)) (it_topic (snd x))"

lemma enumerate_shift: "enumerate n xs = map (\<lambda>(i, x). (n + i, x)) (enumerate 0 xs)"
  by (rule nth_equalityI) (simp_all add: nth_enumerate_eq)

lemma filter_enumerate_drop:
  "filter (\<lambda>(i, x). k \<le> i) (enumerate 0 xs) = map (\<lambda>(i, x). (k + i, x)) (enumerate 0 (drop k xs))"
proof (cases "k \<le> length xs")
  case True
  have low: "(\<lambda>(i, x). k \<le> i) y = False" if "y \<in> set (enumerate 0 (take k xs))" for y
    using that True by (auto simp: in_set_enumerate_eq)
  have high: "(\<lambda>(i, x). k \<le> i) y" if "y \<in> set (enumerate k (drop k xs))" for y
    using that by (auto simp: in_set_enumerate_eq)
  have "enumerate 0 xs = enumerate 0 (take k xs) @ enumerate k (drop k xs)"
    using enumerate_append_eq[of 0 "take k xs" "drop k xs"] True by simp
  then have "filter (\<lambda>(i, x). k \<le> i) (enumerate 0 xs) = enumerate k (drop k xs)"
    using low high by (simp add: filter_empty_conv filter_id_conv)
  then show ?thesis using enumerate_shift[of k "drop k xs"] by simp
qed (auto simp: filter_empty_conv in_set_enumerate_eq)

lemma poll_candidates_matching:
  "poll_candidates topics k s = matching topics (st_base_offset s + int k) s"
proof -
  let ?num = "\<lambda>(i, it). (st_base_offset s + int i, it)"
  let ?top = "\<lambda>(o', it). topics = [] \<or> it_topic it \<in> set topics"
  have "matching topics (st_base_offset s + int k) s =
      filter ?top (map ?num (filter (\<lambda>(i, it). k \<le> i) (enumerate 0 (st_log s))))"
    by (simp add: matching_def filter_map filter_filter comp_def case_prod_beta conj_commute)
  also have "\<dots> = filter ?top (map (\<lambda>(i, it). (st_base_offset s + int k + int i, it)) (enumerate 0 (drop k (st_log s))))"
    unfolding filter_enumerate_drop by (rule arg_cong[where f = "filter ?top"]) (simp add: add.assoc split_def)
  also have "\<dots> = poll_candidates topics k s"
    by (simp add: poll_candidates_def Let_def)
  finally show ?thesis by simp
qed

lemma matching_below: "off \<le> st_base_offset s \<Longrightarrow> matching topics off s = matching topics (st_base_offset s) s"
  by (auto simp: matching_def intro!: filter_cong)

lemma matching_sorted: "sorted_wrt (<) (map fst (matching topics off s))"
proof -
  have "sorted_wrt (<) (map fst (map (\<lambda>(i, it). (st_base_offset s + int i, it)) (enumerate n xs)))" for n xs
    by (induction xs arbitrary: n) (auto simp: in_set_enumerate_eq)
  from this[of 0 "st_log s"] show ?thesis
    unfolding matching_def by (simp add: sorted_wrt_map sorted_wrt_filter)
qed

lemma matching_later: "off \<le> off' \<Longrightarrow> matching topics off' s = filter (\<lambda>x. off' \<le> fst x) (matching topics off s)"
  by (auto simp: matching_def intro!: filter_cong)

lemma matching_end: "on_offset s \<le> off \<Longrightarrow> matching topics off s = []"
  by (auto simp: matching_def on_offset_def filter_empty_conv in_set_enumerate_eq)

lemma matching_bounds: "(o', it) \<in> set (matching topics off s) \<Longrightarrow> off \<le> o' \<and> st_base_offset s \<le> o' \<and> o' < on_offset s"
  by (auto simp: matching_def on_offset_def in_set_enumerate_eq)

lemma poll_take_props:
  "poll_take wr used some cs = (nxt, ws) \<Longrightarrow> \<exists>taken rest. cs = taken @ rest \<and> ws = map (wire_of wr) taken \<and>
     nxt = (case rest of [] \<Rightarrow> None | x # _ \<Rightarrow> Some (fst x)) \<and> (\<not> some \<and> cs \<noteq> [] \<longrightarrow> taken \<noteq> []) \<and>
     (used + sum_list (map (item_cost wr) taken) \<le> MAX_POLL_RESPONSE_BYTES \<or> length taken \<le> (if some then 0 else 1))"
proof (induction wr used some cs arbitrary: nxt ws rule: poll_take.induct)
  case (2 wr used some off it rest)
  let ?size = "payload_wire_size wr (it_data it) (it_topic it)"
  show ?case
  proof (cases "used + ?size > MAX_POLL_RESPONSE_BYTES \<and> some")
    case True
    with "2.prems" show ?thesis
      by (rule_tac x = "[]" in exI, rule_tac x = "(off, it) # rest" in exI) auto
  next
    case False
    obtain nxt' ws' where r: "poll_take wr (used + ?size) True rest = (nxt', ws')" by fastforce
    from "2.IH"[OF refl False r] obtain taken left where
      IH: "rest = taken @ left" "ws' = map (wire_of wr) taken" "nxt' = (case left of [] \<Rightarrow> None | x # _ \<Rightarrow> Some (fst x))"
        "used + ?size + sum_list (map (item_cost wr) taken) \<le> MAX_POLL_RESPONSE_BYTES \<or> taken = []"
      by auto
    from "2.prems" False r have "nxt = nxt'" "ws = wire_of wr (off, it) # ws'"
      by (auto simp: wire_of_def Let_def split: if_splits)
    moreover have "item_cost wr (off, it) = ?size" by (simp add: item_cost_def)
    ultimately show ?thesis using IH False
      by (rule_tac x = "(off, it) # taken" in exI, rule_tac x = left in exI) (auto simp: add.assoc)
  qed
qed simp

lemma sorted_filter_rest:
  "sorted_wrt (<) (map fst (taken @ x # rest)) \<Longrightarrow> filter (\<lambda>y. fst x \<le> fst y) (taken @ x # rest) = x # rest"
  for x :: "int \<times> 'a"
proof -
  assume *: "sorted_wrt (<) (map fst (taken @ x # rest))"
  then have "filter (\<lambda>y. fst x \<le> fst y) taken = []" by (force simp: sorted_wrt_append filter_empty_conv)
  moreover from * have "filter (\<lambda>y. fst x \<le> fst y) rest = rest" by (force simp: sorted_wrt_append filter_id_conv)
  ultimately show ?thesis by simp
qed

text \<open>One poll: what it delivers, and what is left for the next.\<close>

lemma on_poll_props:
  assumes "st_base_offset s \<le> off \<or> off = 0"
  shows "\<exists>r taken. on_poll wr \<lparr>po_topics = topics, po_from_offset = off\<rparr> s = Inr r \<and> pr_items r = map (wire_of wr) taken \<and>
    matching topics off s = taken @ matching topics (pr_next_offset r) s \<and>
    (pr_more_ready r \<longleftrightarrow> matching topics (pr_next_offset r) s \<noteq> []) \<and>
    (matching topics off s \<noteq> [] \<longrightarrow> taken \<noteq> []) \<and>
    (pr_next_offset r = on_offset s \<or> st_base_offset s \<le> pr_next_offset r \<and> pr_next_offset r < on_offset s) \<and>
    (\<not> pr_more_ready r \<longrightarrow> pr_next_offset r = on_offset s) \<and>
    (sum_list (map (item_cost wr) taken) \<le> MAX_POLL_RESPONSE_BYTES \<or> length taken = 1)"
proof -
  let ?k = "nat (off - st_base_offset s)"
  have m: "poll_candidates topics ?k s = matching topics off s"
    using assms matching_below[of off s topics] by (cases "st_base_offset s \<le> off") (auto simp: poll_candidates_matching)
  obtain nxt ws where t: "poll_take wr 0 False (matching topics off s) = (nxt, ws)" by fastforce
  from poll_take_props[OF t] obtain taken rest where
    p: "matching topics off s = taken @ rest" "ws = map (wire_of wr) taken"
      "nxt = (case rest of [] \<Rightarrow> None | x # _ \<Rightarrow> Some (fst x))" "matching topics off s \<noteq> [] \<longrightarrow> taken \<noteq> []"
      "sum_list (map (item_cost wr) taken) \<le> MAX_POLL_RESPONSE_BYTES \<or> length taken \<le> 1"
    by auto
  let ?next = "case nxt of None \<Rightarrow> on_offset s | Some o' \<Rightarrow> o'"
  have poll: "on_poll wr \<lparr>po_topics = topics, po_from_offset = off\<rparr> s = Inr \<lparr>pr_items = ws, pr_next_offset = ?next, pr_more_ready = (nxt \<noteq> None)\<rparr>"
    using assms t m by (auto simp: on_poll_def Let_def)
  have left: "matching topics ?next s = rest \<and> (?next = on_offset s \<or> st_base_offset s \<le> ?next \<and> ?next < on_offset s)"
  proof (cases rest)
    case (Cons x rest')
    with p(1) have "x \<in> set (matching topics off s)" by simp
    then have b: "off \<le> fst x" "st_base_offset s \<le> fst x" "fst x < on_offset s"
      using matching_bounds[of "fst x" "snd x" topics off s] by auto
    have "matching topics (fst x) s = x # rest'"
      using matching_later[OF b(1), of topics s] matching_sorted[of topics off s] p(1) Cons sorted_filter_rest[of taken x rest'] by simp
    with b p(3) Cons show ?thesis by simp
  qed (use p(3) matching_end[of s "on_offset s" topics] in simp)
  have single: "sum_list (map (item_cost wr) taken) \<le> MAX_POLL_RESPONSE_BYTES \<or> length taken = 1"
    using p(5) by (cases taken) (auto simp: MAX_POLL_RESPONSE_BYTES_def)
  have more: "(nxt \<noteq> None) = (rest \<noteq> [])" using p(3) by (simp split: list.splits)
  define r where "r = \<lparr>pr_items = ws, pr_next_offset = ?next, pr_more_ready = (nxt \<noteq> None)\<rparr>"
  have "pr_items r = map (wire_of wr) taken" "pr_next_offset r = ?next" "pr_more_ready r = (rest \<noteq> [])"
    "\<not> pr_more_ready r \<longrightarrow> pr_next_offset r = on_offset s" "matching topics (pr_next_offset r) s = rest"
    using p(2,3) more left by (simp_all add: r_def)
  moreover have "on_poll wr \<lparr>po_topics = topics, po_from_offset = off\<rparr> s = Inr r" using poll by (simp add: r_def)
  ultimately show ?thesis using p(1,4) left single by (intro exI[of _ r] exI[of _ taken] conjI) simp_all
qed

lemma poll_answered:
  assumes "st_base_offset s \<le> off \<or> off = 0" "\<not> st_detaching s" "off \<le> on_offset s" "off \<noteq> on_offset s"
    and r: "on_poll wr \<lparr>po_topics = topics, po_from_offset = off\<rparr> s = Inr r"
  shows "subscribe_polls wr topics (Suc n) off s =
    (case subscribe_polls wr topics n (pr_next_offset r) s of (ws, fin) \<Rightarrow> (pr_items r @ ws, fin))"
  using assms by (auto simp: poll_ready_def on_offset_def poll_outcome_of_def validate_poll_def subscribe_step_def)

lemma subscribe_polls_at_end: "\<not> st_detaching s \<Longrightarrow> 0 \<le> st_base_offset s \<Longrightarrow>
  subscribe_polls wr topics n (on_offset s) s = ([], on_offset s)"
  by (cases n) (simp_all add: poll_ready_def on_offset_def)

lemma subscribe_polls_inside:
  assumes "\<not> st_detaching s" "0 \<le> st_base_offset s" "st_base_offset s \<le> off \<or> off = 0" "off \<le> on_offset s"
    "length (matching topics off s) < n"
  shows "subscribe_polls wr topics n off s = (map (wire_of wr) (matching topics off s), on_offset s)"
  using assms(3-5)
proof (induction n arbitrary: off)
  case (Suc n)
  show ?case
  proof (cases "off = on_offset s")
    case True
    with assms(1,2) show ?thesis
      using matching_end[of s off topics] subscribe_polls_at_end[of s wr topics "Suc n"] by simp
  next
    case False
    let ?inp = "\<lparr>po_topics = topics, po_from_offset = off\<rparr>"
    from on_poll_props[OF Suc.prems(1), of wr topics] obtain r taken where
      r: "on_poll wr ?inp s = Inr r" "pr_items r = map (wire_of wr) taken"
        "matching topics off s = taken @ matching topics (pr_next_offset r) s"
        "matching topics off s \<noteq> [] \<longrightarrow> taken \<noteq> []"
        "pr_next_offset r = on_offset s \<or> st_base_offset s \<le> pr_next_offset r \<and> pr_next_offset r < on_offset s"
        "\<not> pr_more_ready r \<longrightarrow> pr_next_offset r = on_offset s"
        "pr_more_ready r \<longleftrightarrow> matching topics (pr_next_offset r) s \<noteq> []"
      by blast
    have "subscribe_polls wr topics n (pr_next_offset r) s = (map (wire_of wr) (matching topics (pr_next_offset r) s), on_offset s)"
    proof (cases "pr_next_offset r = on_offset s")
      case True
      with assms(1,2) show ?thesis
        using matching_end[of s "on_offset s" topics] subscribe_polls_at_end[of s wr topics n] by simp
    next
      case False
      with r(6,7) have "matching topics (pr_next_offset r) s \<noteq> []" by blast
      then have "taken \<noteq> []" using r(3,4) by (metis append_is_Nil_conv)
      moreover have "length taken + length (matching topics (pr_next_offset r) s) < Suc n"
        using Suc.prems(3) by (simp only: r(3) length_append)
      ultimately have "length (matching topics (pr_next_offset r) s) < n" by (cases taken) simp_all
      moreover have "st_base_offset s \<le> pr_next_offset r" "pr_next_offset r \<le> on_offset s" using r(5) False by auto
      ultimately show ?thesis using Suc.IH[of "pr_next_offset r"] by blast
    qed
    with poll_answered[OF Suc.prems(1) assms(1) Suc.prems(2) False r(1), of n] r(2)
    show ?thesis by (simp only: r(3) map_append prod.case)
  qed
qed simp

text \<open>C14 Polling loses and repeats nothing.  From any offset up to the end of the log, the loop of a
  subscriber delivers every kept item of its topics from there on once, in order and with its offset, and
  then stands at the end of the log, also when the offset was truncated away meanwhile.  A number of
  polls that exceeds the number of items by two is enough.\<close>

theorem subscriber_gets_all:
  assumes "\<not> st_detaching s" "0 \<le> st_base_offset s" "0 \<le> off" "off \<le> on_offset s"
    "length (matching topics off s) + 1 < n"
  shows "subscribe_polls wr topics n off s = (map (wire_of wr) (matching topics off s), on_offset s)"
proof (cases "st_base_offset s \<le> off \<or> off = 0")
  case True
  with subscribe_polls_inside[OF assms(1,2) _ assms(4)] assms(5) show ?thesis by simp
next
  case False
  then obtain m where m: "n = Suc m" "length (matching topics 0 s) < m"
    using assms(2,5) matching_below[of off s topics] matching_below[of 0 s topics] by (cases n) auto
  have "subscribe_polls wr topics (Suc m) off s = subscribe_polls wr topics m 0 s"
    using False assms(1) by (simp add: poll_ready_def poll_outcome_of_def validate_poll_def on_poll_def Let_def
        application_error_def application_type_def new_exn_def subscribe_step_def)
  also have "\<dots> = (map (wire_of wr) (matching topics 0 s), on_offset s)"
    using subscribe_polls_inside[OF assms(1,2), of 0] m(2) assms(3,4) by simp
  finally show ?thesis
    using m(1) False matching_below[of off s topics] matching_below[of 0 s topics] assms(2) by simp
qed



subsection \<open>A concrete stream\<close>

text \<open>A serialization of payloads as a sequence of strings, each character marked and each string ended.\<close>

fun put_strings :: "string list \<Rightarrow> string" where
  "put_strings [] = []"
| "put_strings (s # ss) = concat (map (\<lambda>c. [CHR ''+'', c]) s) @ CHR ''.'' # put_strings ss"

fun get_strings :: "string \<Rightarrow> string \<Rightarrow> string list" where
  "get_strings acc [] = []"
| "get_strings acc [c] = (if c = CHR ''.'' then [rev acc] else [])"
| "get_strings acc (c # d # rest) = (if c = CHR ''.'' then rev acc # get_strings [] (d # rest) else get_strings (d # acc) rest)"

fun pairs_of :: "string list \<Rightarrow> (string \<times> string) list" where
  "pairs_of (k # v # rest) = (k, v) # pairs_of rest"
| "pairs_of _ = []"

definition ex_wire :: wire where
  "ex_wire = \<lparr>wr_serialize = (\<lambda>p. put_strings (p_data p # concat (map (\<lambda>(k, v). [k, v]) (p_metadata p)))),
     wr_parse = (\<lambda>s. case get_strings [] s of
        [] \<Rightarrow> Inl (exn_of_error (ValueError ''Error parsing message''))
      | d # md \<Rightarrow> Inr \<lparr>p_metadata = pairs_of md, p_data = d\<rparr>),
     wr_size = (\<lambda>p. int (length (p_data p)))\<rparr>"

lemma get_marked: "get_strings acc (concat (map (\<lambda>c. [CHR ''+'', c]) s) @ CHR ''.'' # rest) =
    (rev acc @ s) # (if rest = [] then [] else get_strings [] rest)"
proof (induction s arbitrary: acc)
  case Nil
  show ?case by (cases rest) simp_all
qed simp

lemma get_put_strings: "get_strings [] (put_strings ss) = ss"
  by (induction ss) (auto simp: get_marked)

lemma pairs_of_concat: "pairs_of (concat (map (\<lambda>(k, v). [k, v]) xs)) = xs"
  by (induction xs) auto

lemma ex_wire_ok: "wire_ok ex_wire"
  by (simp add: wire_ok_def ex_wire_def get_put_strings pairs_of_concat del: put_strings.simps)

definition ex_stream :: stream where
  "ex_stream = empty_stream\<lparr>st_log := [\<lparr>it_topic = ''a'', it_data = \<lparr>p_metadata = [], p_data = ''x''\<rparr>\<rparr>,
      \<lparr>it_topic = ''b'', it_data = \<lparr>p_metadata = [], p_data = ''yz''\<rparr>\<rparr>], st_base_offset := 5\<rparr>"

theorem subscriber_gets_all_witness:
  "subscribe_polls ex_wire [''b''] 3 2 ex_stream = ([\<lparr>wi_topic = ''b'', wi_data = ''K3krei4='', wi_offset = 6\<rparr>], 7)"
proof -
  have "subscribe_polls ex_wire [''b''] 3 2 ex_stream =
      (map (wire_of ex_wire) (matching [''b''] 2 ex_stream), on_offset ex_stream)"
    by (rule subscriber_gets_all) (simp_all add: ex_stream_def empty_stream_def on_offset_def matching_def)
  then show ?thesis
    by (simp add: ex_stream_def ex_wire_def empty_stream_def on_offset_def matching_def wire_of_def encode_payload_def
        b64_digit_def b64_alphabet_def)
qed


end
