(* ===== verification/Streams_Delivery.thy ===== *)
theory Streams_Delivery
  imports Streams_Spec
begin

section \<open>Delivery of published items\<close>

text \<open>
  Publishers, the network, the server and one stream together, as a step relation.  A publisher sends the
  signals of its flushes; a signal in flight may be lost, delayed, recorded by the server more than once
  and out of order; recorded signals reach the workflow in the order of the history.  The workflow also publishes
  itself, truncates its log, detaches pollers and rolls over to a next run.  The fields from
  \<open>sy_published\<close> on only record what happened: everything published by a publisher, whether it gave up a
  batch, and every item that entered the log with its publisher.
\<close>

record stream_system =
  sy_clients :: "string \<Rightarrow> stream_client"
  sy_stream :: stream
  sy_flight :: "publish_input set"
  sy_queue :: "publish_input list"
  sy_recorded :: "publish_input set"
  sy_published :: "string \<Rightarrow> (string \<times> pub_value) list"
  sy_dropped :: "string \<Rightarrow> bool"
  sy_log :: "(string \<times> stream_item) list"

definition initial_system :: "(string \<Rightarrow> nat option) \<Rightarrow> (string \<Rightarrow> int) \<Rightarrow> stream_system" where
  "initial_system batch retry = \<lparr>sy_clients = (\<lambda>p. client_init p (batch p) (retry p)), sy_stream = empty_stream,
     sy_flight = {}, sy_queue = [], sy_recorded = {}, sy_published = (\<lambda>_. []), sy_dropped = (\<lambda>_. False), sy_log = []\<rparr>"

definition grown :: "string \<Rightarrow> stream \<Rightarrow> stream \<Rightarrow> (string \<times> stream_item) list" where
  "grown p s s' = map (Pair p) (drop (length (st_log s)) (st_log s'))"

text \<open>The condition \<^verbatim>\<open>get_state\<close> asks of its caller: a publisher whose entry is dropped, because it was idle for
  longer than the time to live, does not retry a batch any more that the entry would reject.\<close>

definition retries_over :: "int \<Rightarrow> int \<Rightarrow> stream_system \<Rightarrow> bool" where
  "retries_over now ttl y \<longleftrightarrow> (\<forall>p ps. dget (st_publishers (sy_stream y)) p = Some ps \<and> ttl \<le> now - ps_last_seen ps \<longrightarrow>
     (\<forall>x\<in>sy_flight y. pi_publisher_id x = p \<longrightarrow> ps_sequence ps < pi_sequence x) \<and>
     (cl_pending (sy_clients y p) \<noteq> None \<longrightarrow> ps_sequence ps < cl_pending_seq (sy_clients y p)))"

inductive stream_step :: "wire \<Rightarrow> payload_converter \<Rightarrow> stream_system \<Rightarrow> stream_system \<Rightarrow> bool"
  for wr :: wire and pc :: payload_converter where
  publish: "client_publish_to_topic t v force (sy_clients y p) = (r, c) \<Longrightarrow>
    stream_step wr pc y (y\<lparr>sy_clients := (sy_clients y)(p := c), sy_published := (sy_published y)(p := sy_published y p @ [(t, v)])\<rparr>)"
| send: "flush_begin wr pc now (sy_clients y p) = (Inr (Some inp), c) \<Longrightarrow>
    stream_step wr pc y (y\<lparr>sy_clients := (sy_clients y)(p := c), sy_flight := insert inp (sy_flight y)\<rparr>)"
| give_up: "flush_begin wr pc now (sy_clients y p) = (Inl e, c) \<Longrightarrow>
    stream_step wr pc y (y\<lparr>sy_clients := (sy_clients y)(p := c),
      sy_dropped := (sy_dropped y)(p := sy_dropped y p \<or> cl_pending (sy_clients y p) \<noteq> None)\<rparr>)"
| recorded: "inp \<in> sy_flight y \<Longrightarrow>
    stream_step wr pc y (y\<lparr>sy_queue := sy_queue y @ [inp], sy_recorded := insert inp (sy_recorded y)\<rparr>)"
| expire: "stream_step wr pc y (y\<lparr>sy_flight := sy_flight y - {inp}\<rparr>)"
| acknowledge: "cl_pending (sy_clients y p) = Some b \<Longrightarrow>
    \<lparr>pi_items = b, pi_publisher_id = p, pi_sequence = cl_pending_seq (sy_clients y p)\<rparr> \<in> sy_recorded y \<Longrightarrow>
    stream_step wr pc y (y\<lparr>sy_clients := (sy_clients y)(p := flush_acknowledged (cl_pending_seq (sy_clients y p)) (sy_clients y p))\<rparr>)"
| handle: "sy_queue y = inp # q \<Longrightarrow> on_publish wr now inp (sy_stream y) = (r, s) \<Longrightarrow>
    stream_step wr pc y (y\<lparr>sy_queue := q, sy_stream := s, sy_log := sy_log y @ grown (pi_publisher_id inp) (sy_stream y) s\<rparr>)"
| local_publish: "stream_publish_to_topic pc t v (sy_stream y) = (r, s) \<Longrightarrow>
    stream_step wr pc y (y\<lparr>sy_stream := s, sy_log := sy_log y @ grown [] (sy_stream y) s\<rparr>)"
| truncated: "stream_truncate n (sy_stream y) = (r, s) \<Longrightarrow> stream_step wr pc y (y\<lparr>sy_stream := s\<rparr>)"
| detached: "detach_pollers (sy_stream y) = (r, s) \<Longrightarrow> stream_step wr pc y (y\<lparr>sy_stream := s\<rparr>)"
| roll_over: "sy_queue y = [] \<Longrightarrow> retries_over now ttl y \<Longrightarrow>
    stream_init wr ''__init__'' False (Some (get_state wr now ttl (sy_stream y))) = Inr s \<Longrightarrow>
    stream_step wr pc y (y\<lparr>sy_stream := s\<rparr>)"

inductive stream_reachable :: "wire \<Rightarrow> payload_converter \<Rightarrow> (string \<Rightarrow> nat option) \<Rightarrow> (string \<Rightarrow> int) \<Rightarrow> stream_system \<Rightarrow> bool"
  for wr :: wire and pc :: payload_converter and batch :: "string \<Rightarrow> nat option" and retry :: "string \<Rightarrow> int" where
  start: "stream_reachable wr pc batch retry (initial_system batch retry)"
| next_step: "stream_reachable wr pc batch retry y \<Longrightarrow> stream_step wr pc y y' \<Longrightarrow> stream_reachable wr pc batch retry y'"

subsection \<open>The operations\<close>

definition entry :: "wire \<Rightarrow> stream_item \<Rightarrow> publish_entry" where
  "entry wr it = \<lparr>pe_topic = it_topic it, pe_data = encode_payload wr (it_data it)\<rparr>"

definition converted :: "payload_converter \<Rightarrow> string \<times> pub_value \<Rightarrow> stream_item option" where
  "converted pc x = (case pub_payload pc (snd x) of Inl _ \<Rightarrow> None | Inr p \<Rightarrow> Some \<lparr>it_topic = fst x, it_data = p\<rparr>)"

lemma encode_buffer_entries:
  "encode_buffer wr pc b = Inr es \<Longrightarrow> \<exists>its. map (converted pc) b = map Some its \<and> es = map (entry wr) its"
proof (induction b arbitrary: es)
  case (Cons x b)
  obtain t v where [simp]: "x = (t, v)" by (cases x)
  from Cons.prems obtain p es' where p: "pub_payload pc v = Inr p" "encode_buffer wr pc b = Inr es'"
      "es = \<lparr>pe_topic = t, pe_data = encode_payload wr p\<rparr> # es'"
    by (cases "pub_payload pc v"; cases "encode_buffer wr pc b") auto
  from Cons.IH[OF p(2)] obtain its where "map (converted pc) b = map Some its" "es' = map (entry wr) its" by blast
  with p show ?case
    by (intro exI[of _ "\<lparr>it_topic = t, it_data = p\<rparr> # its"]) (simp add: converted_def[of pc "(t, v)"] entry_def[of wr "\<lparr>it_topic = t, it_data = p\<rparr>"])
qed simp

lemma append_entries_all:
  "wire_ok wr \<Longrightarrow> append_entries wr (map (entry wr) its) s = (Inr (), s\<lparr>st_log := st_log s @ its\<rparr>)"
  by (induction its arbitrary: s) (simp_all add: pm_simps entry_def payload_roundtrip)

lemma append_entries_frame:
  "append_entries wr es s = (r, s') \<Longrightarrow> \<exists>its. s' = s\<lparr>st_log := st_log s @ its\<rparr>"
proof (induction es arbitrary: s)
  case Nil
  then show ?case by (intro exI[of _ "[]"]) (simp add: pm_simps)
next
  case (Cons e es)
  show ?case
  proof (cases "decode_payload wr (pe_data e)")
    case (Inl x)
    with Cons.prems show ?thesis by (intro exI[of _ "[]"]) (simp add: pm_simps)
  next
    case (Inr p)
    with Cons.prems have "append_entries wr es (s\<lparr>st_log := st_log s @ [\<lparr>it_topic = pe_topic e, it_data = p\<rparr>]\<rparr>) = (r, s')"
      by (simp add: pm_simps)
    from Cons.IH[OF this] show ?thesis by auto
  qed
qed

definition duplicate :: "publish_input \<Rightarrow> stream \<Rightarrow> bool" where
  "duplicate inp s \<longleftrightarrow> pi_publisher_id inp \<noteq> [] \<and>
     (\<exists>ps. dget (st_publishers s) (pi_publisher_id inp) = Some ps \<and> pi_sequence inp \<le> ps_sequence ps)"

lemma on_publish_unfold: "on_publish wr now inp s = (if duplicate inp s then (Inr (), s)
   else append_entries wr (pi_items inp) (if pi_publisher_id inp = [] then s else
     s\<lparr>st_publishers := dset (pi_publisher_id inp) \<lparr>ps_sequence = pi_sequence inp, ps_last_seen = now\<rparr> (st_publishers s)\<rparr>))"
  by (auto simp: on_publish_def duplicate_def pm_simps split: option.splits)

lemma on_publish_frame:
  assumes "on_publish wr now inp s = (r, s')"
  shows "\<exists>its. st_log s' = st_log s @ its" "st_base_offset s' = st_base_offset s"
    "p \<noteq> pi_publisher_id inp \<Longrightarrow> dget (st_publishers s') p = dget (st_publishers s) p"
    "dict_ok (st_publishers s) \<Longrightarrow> dict_ok (st_publishers s')"
  using assms append_entries_frame[of wr "pi_items inp" _ r s']
  by (auto simp: on_publish_unfold dget_dset split: if_splits dest!: append_entries_frame)

lemma on_publish_new:
  assumes "wire_ok wr" "\<not> duplicate inp s" "pi_items inp = map (entry wr) its" "pi_publisher_id inp \<noteq> []"
  shows "on_publish wr now inp s = (Inr (), s\<lparr>st_publishers := dset (pi_publisher_id inp)
    \<lparr>ps_sequence = pi_sequence inp, ps_last_seen = now\<rparr> (st_publishers s), st_log := st_log s @ its\<rparr>)"
  using assms by (simp add: on_publish_unfold append_entries_all)

lemma client_publish_effect: "client_publish_to_topic t v force c = (r, c') \<Longrightarrow>
    \<exists>ev. c' = c\<lparr>cl_buffer := cl_buffer c @ [(t, v)], cl_flush_event := ev\<rparr>"
  by (cases c) (auto simp: client_publish_to_topic_def pm_simps split: if_splits)

lemma flush_begin_send:
  "flush_begin wr pc now c = (Inr (Some inp), c') \<Longrightarrow>
     (\<exists>b. cl_pending c = Some b \<and> c' = c \<and> inp = \<lparr>pi_items = b, pi_publisher_id = cl_publisher_id c, pi_sequence = cl_pending_seq c\<rparr>) \<or>
     (\<exists>b. cl_pending c = None \<and> encode_buffer wr pc (cl_buffer c) = Inr b \<and>
       c' = c\<lparr>cl_buffer := [], cl_pending := Some b, cl_pending_seq := cl_sequence c + 1, cl_pending_since := Some now\<rparr> \<and>
       inp = \<lparr>pi_items = b, pi_publisher_id = cl_publisher_id c, pi_sequence = cl_sequence c + 1\<rparr>)"
  by (auto simp: flush_begin_def pm_simps Let_def split: option.splits if_splits sum.splits)

lemma flush_begin_fail:
  "flush_begin wr pc now c = (Inl e, c') \<Longrightarrow> c' = c \<and> cl_pending c = None \<or> cl_pending c \<noteq> None \<and>
     c' = c\<lparr>cl_sequence := cl_pending_seq c, cl_pending := None, cl_pending_seq := 0, cl_pending_since := None\<rparr>"
  by (auto simp: flush_begin_def pm_simps Let_def split: option.splits if_splits sum.splits)

subsection \<open>Offsets\<close>

text \<open>The kept log is the history of all items from the base offset on, so an offset always denotes the same item.\<close>

definition log_inv :: "stream_system \<Rightarrow> bool" where
  "log_inv y \<longleftrightarrow> 0 \<le> st_base_offset (sy_stream y) \<and> st_base_offset (sy_stream y) \<le> int (length (sy_log y)) \<and>
     st_log (sy_stream y) = drop (nat (st_base_offset (sy_stream y))) (map snd (sy_log y)) \<and>
     dict_ok (st_publishers (sy_stream y)) \<and> (\<forall>p. cl_publisher_id (sy_clients y p) = p)"

lemma log_inv_grow:
  assumes "log_inv y" "st_log s = st_log (sy_stream y) @ its" "st_base_offset s = st_base_offset (sy_stream y)"
    "dict_ok (st_publishers s)"
  shows "log_inv (y\<lparr>sy_stream := s, sy_log := sy_log y @ grown p (sy_stream y) s\<rparr>)"
proof -
  from assms(1) have "nat (st_base_offset (sy_stream y)) - length (sy_log y) = 0" by (simp add: log_inv_def nat_le_iff)
  with assms show ?thesis by (simp add: log_inv_def grown_def comp_def)
qed

lemma stream_publish_effect: "stream_publish_to_topic pc t v s = (r, s') \<Longrightarrow> \<exists>its. s' = s\<lparr>st_log := st_log s @ its\<rparr>"
  by (cases "pub_payload pc v") (auto simp: stream_publish_to_topic_def pm_simps intro: exI[of _ "[]"])

lemma stream_truncate_effect: "stream_truncate n s = (r, s') \<Longrightarrow> s' = s \<or>
    st_base_offset s < n \<and> n \<le> on_offset s \<and> s' = s\<lparr>st_log := drop (nat (n - st_base_offset s)) (st_log s), st_base_offset := n\<rparr>"
  by (auto simp: stream_truncate_def on_offset_def pm_simps split: if_splits)

lemma dict_ok_filter: "dict_ok d \<Longrightarrow> dict_ok (filter P d)"
  by (simp add: dict_ok_def distinct_map_filter)

lemma dget_filter: "dict_ok d \<Longrightarrow> dget (filter (\<lambda>(k, v). P v) d) k = (case dget d k of None \<Rightarrow> None | Some v \<Rightarrow> if P v then Some v else None)"
  unfolding dict_ok_def dget_def
  by (induction d) (auto split: option.splits simp: map_of_eq_None_iff dest: map_of_SomeD)

lemma log_inv_step:
  assumes "wire_ok wr" "stream_step wr pc y y'" "log_inv y"
  shows "log_inv y'"
  using assms(2)
proof cases
  case (publish t v force q r c)
  with client_publish_effect[OF publish(2)] assms(3) show ?thesis by (auto simp: log_inv_def)
next
  case (send now q inp c)
  with flush_begin_send[OF send(2)] assms(3) show ?thesis by (auto simp: log_inv_def)
next
  case (give_up now q e c)
  with flush_begin_fail[OF give_up(2)] assms(3) show ?thesis by (auto simp: log_inv_def)
next
  case (handle inp q now r s)
  from on_publish_frame[OF handle(3)] assms(3) obtain its where
    "st_log s = st_log (sy_stream y) @ its" "st_base_offset s = st_base_offset (sy_stream y)" "dict_ok (st_publishers s)"
    by (auto simp: log_inv_def)
  from log_inv_grow[OF assms(3) this] show ?thesis by (simp add: handle log_inv_def)
next
  case (local_publish t v r s)
  from stream_publish_effect[OF local_publish(2)] obtain its where "s = sy_stream y\<lparr>st_log := st_log (sy_stream y) @ its\<rparr>" ..
  with log_inv_grow[OF assms(3), of s its] assms(3) show ?thesis by (simp add: local_publish log_inv_def)
next
  case (truncated n r s)
  from stream_truncate_effect[OF truncated(2)] assms(3) show ?thesis
    by (auto simp: truncated log_inv_def on_offset_def nat_diff_distrib)
next
  case (detached r s)
  with assms(3) show ?thesis by (auto simp: log_inv_def detach_pollers_def pm_simps)
next
  case (roll_over now ttl s)
  with assms(1,3) show ?thesis by (auto simp: log_inv_def rollover_state dict_ok_filter)
qed (use assms(3) in \<open>simp_all add: log_inv_def flush_acknowledged_def\<close>)

subsection \<open>The view of one publisher\<close>

text \<open>What a step does to one publisher only shows in these parts of the state.\<close>

record pubview =
  pv_client :: stream_client
  pv_published :: "(string \<times> pub_value) list"
  pv_dropped :: bool
  pv_flight :: "publish_input set"
  pv_queue :: "publish_input list"
  pv_recorded :: "publish_input set"
  pv_entry :: "publisher_state option"
  pv_owned :: "stream_item list"

definition owned :: "string \<Rightarrow> stream_system \<Rightarrow> stream_item list" where
  "owned p y = map snd (filter (\<lambda>x. fst x = p) (sy_log y))"

definition view :: "string \<Rightarrow> stream_system \<Rightarrow> pubview" where
  "view p y = \<lparr>pv_client = sy_clients y p, pv_published = sy_published y p, pv_dropped = sy_dropped y p,
     pv_flight = {x \<in> sy_flight y. pi_publisher_id x = p}, pv_queue = filter (\<lambda>x. pi_publisher_id x = p) (sy_queue y),
     pv_recorded = {x \<in> sy_recorded y. pi_publisher_id x = p}, pv_entry = dget (st_publishers (sy_stream y)) p,
     pv_owned = owned p y\<rparr>"

text \<open>A batch is numbered by its position: batch \<open>i\<close> of the list \<open>taken\<close> carries the sequence number
  \<open>Suc i\<close>.  \<open>ks\<close> are the batches the stream has accepted.\<close>

definition signal_of :: "wire \<Rightarrow> string \<Rightarrow> stream_item list list \<Rightarrow> nat \<Rightarrow> publish_input" where
  "signal_of wr p taken i = \<lparr>pi_items = map (entry wr) (taken ! i), pi_publisher_id = p, pi_sequence = int (Suc i)\<rparr>"

definition accepted_bound :: "nat list \<Rightarrow> nat" where
  "accepted_bound ks = (if ks = [] then 0 else Suc (last ks))"

definition client_ok :: "wire \<Rightarrow> payload_converter \<Rightarrow> string \<Rightarrow> stream_item list list \<Rightarrow> pubview \<Rightarrow> bool" where
  "client_ok wr pc p taken V \<longleftrightarrow> (let c = pv_client V in cl_publisher_id c = p \<and>
     map (converted pc) (pv_published V) = map Some (concat taken) @ map (converted pc) (cl_buffer c) \<and>
     (cl_pending c = None \<longrightarrow> cl_sequence c = int (length taken)) \<and>
     (\<forall>b. cl_pending c = Some b \<longrightarrow> taken \<noteq> [] \<and> b = map (entry wr) (last taken) \<and>
        cl_pending_seq c = int (length taken) \<and> cl_sequence c = int (length taken) - 1))"

definition signals_ok :: "wire \<Rightarrow> string \<Rightarrow> stream_item list list \<Rightarrow> pubview \<Rightarrow> bool" where
  "signals_ok wr p taken V \<longleftrightarrow>
     pv_flight V \<union> set (pv_queue V) \<union> pv_recorded V \<subseteq> signal_of wr p taken ` {..<length taken}"

definition accepted_ok :: "stream_item list list \<Rightarrow> nat list \<Rightarrow> pubview \<Rightarrow> bool" where
  "accepted_ok taken ks V \<longleftrightarrow> sorted_wrt (<) ks \<and> set ks \<subseteq> {..<length taken} \<and> pv_owned V = concat (map ((!) taken) ks) \<and>
     (\<forall>ps. pv_entry V = Some ps \<longrightarrow> ps_sequence ps = int (accepted_bound ks)) \<and>
     (pv_entry V = None \<longrightarrow> (\<forall>x\<in>pv_flight V \<union> set (pv_queue V). int (accepted_bound ks) < pi_sequence x) \<and>
        (cl_pending (pv_client V) \<noteq> None \<longrightarrow> int (accepted_bound ks) < cl_pending_seq (pv_client V)))"

fun gapless :: "int \<Rightarrow> int list \<Rightarrow> bool" where
  "gapless n [] = True"
| "gapless n (x # xs) = (x \<le> n + 1 \<and> gapless (max n x) xs)"

fun reach :: "int \<Rightarrow> int list \<Rightarrow> int" where
  "reach n [] = n"
| "reach n (x # xs) = reach (max n x) xs"

abbreviation reached :: "nat list \<Rightarrow> pubview \<Rightarrow> int" where
  "reached ks V \<equiv> reach (int (length ks)) (map pi_sequence (pv_queue V))"

definition complete_ok :: "nat list \<Rightarrow> pubview \<Rightarrow> bool" where
  "complete_ok ks V \<longleftrightarrow> ks = [0..<length ks] \<and> gapless (int (length ks)) (map pi_sequence (pv_queue V)) \<and>
     cl_sequence (pv_client V) \<le> reached ks V \<and> (\<forall>x\<in>pv_recorded V. pi_sequence x \<le> reached ks V)"

definition pub_inv :: "wire \<Rightarrow> payload_converter \<Rightarrow> string \<Rightarrow> pubview \<Rightarrow> bool" where
  "pub_inv wr pc p V \<longleftrightarrow> (\<exists>taken ks. client_ok wr pc p taken V \<and> signals_ok wr p taken V \<and> accepted_ok taken ks V \<and>
     (\<not> pv_dropped V \<longrightarrow> complete_ok ks V))"

lemma pub_invI:
  "client_ok wr pc p taken V \<Longrightarrow> signals_ok wr p taken V \<Longrightarrow> accepted_ok taken ks V \<Longrightarrow>
   (\<not> pv_dropped V \<Longrightarrow> complete_ok ks V) \<Longrightarrow> pub_inv wr pc p V"
  unfolding pub_inv_def by blast

lemma pub_invE:
  assumes "pub_inv wr pc p V"
  obtains taken ks where "client_ok wr pc p taken V" "signals_ok wr p taken V" "accepted_ok taken ks V"
    "\<not> pv_dropped V \<Longrightarrow> complete_ok ks V"
  using assms unfolding pub_inv_def by blast

lemma gapless_snoc: "gapless n (xs @ [x]) \<longleftrightarrow> gapless n xs \<and> x \<le> reach n xs + 1"
  by (induction n xs rule: gapless.induct) auto

lemma reach_snoc: "reach n (xs @ [x]) = max (reach n xs) x"
  by (induction n xs rule: reach.induct) auto

lemma reach_ge: "n \<le> reach n xs"
  by (induction n xs rule: reach.induct) auto

lemma signal_of_append: "i < length taken \<Longrightarrow> signal_of wr p (taken @ [b]) i = signal_of wr p taken i"
  by (simp add: signal_of_def nth_append)

lemma signals_ok_bounds: "signals_ok wr p taken V \<Longrightarrow> x \<in> pv_flight V \<union> set (pv_queue V) \<union> pv_recorded V \<Longrightarrow>
    1 \<le> pi_sequence x \<and> pi_sequence x \<le> int (length taken)"
  by (auto simp: signals_ok_def signal_of_def)

lemma accepted_bound_le: "accepted_ok taken ks V \<Longrightarrow> accepted_bound ks \<le> length taken"
  by (auto simp: accepted_ok_def accepted_bound_def subset_eq Suc_le_eq)

lemma accepted_bound_upt: "accepted_bound [0..<n] = n"
  by (cases n) (simp_all add: accepted_bound_def)

subsection \<open>Each step keeps the invariant of a publisher\<close>

lemma pub_inv_start:
  "pub_inv wr pc p \<lparr>pv_client = client_init p b r, pv_published = [], pv_dropped = False, pv_flight = {}, pv_queue = [],
     pv_recorded = {}, pv_entry = None, pv_owned = []\<rparr>"
  by (rule pub_invI[where taken = "[]" and ks = "[]"])
    (simp_all add: client_ok_def client_init_def signals_ok_def accepted_ok_def complete_ok_def accepted_bound_def)

lemma pub_inv_publish:
  assumes "pub_inv wr pc p V" "client_publish_to_topic t v force (pv_client V) = (r, c)"
  shows "pub_inv wr pc p (V\<lparr>pv_client := c, pv_published := pv_published V @ [(t, v)]\<rparr>)"
  using assms(1)
proof (rule pub_invE)
  fix taken ks
  assume ok: "client_ok wr pc p taken V" "signals_ok wr p taken V" "accepted_ok taken ks V" "\<not> pv_dropped V \<Longrightarrow> complete_ok ks V"
  from client_publish_effect[OF assms(2)] obtain ev where
    "c = pv_client V\<lparr>cl_buffer := cl_buffer (pv_client V) @ [(t, v)], cl_flush_event := ev\<rparr>" ..
  with ok show ?thesis
    by (intro pub_invI[where taken = taken and ks = ks])
      (simp_all add: client_ok_def Let_def signals_ok_def accepted_ok_def complete_ok_def)
qed

lemma pub_inv_retry:
  assumes "pub_inv wr pc p V" "cl_pending (pv_client V) = Some b"
    "inp = \<lparr>pi_items = b, pi_publisher_id = cl_publisher_id (pv_client V), pi_sequence = cl_pending_seq (pv_client V)\<rparr>"
  shows "pub_inv wr pc p (V\<lparr>pv_flight := insert inp (pv_flight V)\<rparr>)"
  using assms(1)
proof (rule pub_invE)
  fix taken ks
  assume ok: "client_ok wr pc p taken V" "signals_ok wr p taken V" "accepted_ok taken ks V" "\<not> pv_dropped V \<Longrightarrow> complete_ok ks V"
  have ne: "taken \<noteq> []" and inp: "inp = signal_of wr p taken (length taken - 1)"
    using ok(1) assms(2,3) by (auto simp: client_ok_def Let_def signal_of_def last_conv_nth)
  then have mem: "inp \<in> signal_of wr p taken ` {..<length taken}" by auto
  show ?thesis
  proof (rule pub_invI[where taken = taken and ks = ks])
    show "signals_ok wr p taken (V\<lparr>pv_flight := insert inp (pv_flight V)\<rparr>)" using ok(2) mem by (simp add: signals_ok_def)
  qed (use ok assms(2,3) in \<open>simp_all add: client_ok_def accepted_ok_def complete_ok_def\<close>)
qed

lemma pub_inv_send:
  assumes "pub_inv wr pc p V" "cl_pending (pv_client V) = None" "encode_buffer wr pc (cl_buffer (pv_client V)) = Inr b"
    "c = pv_client V\<lparr>cl_buffer := [], cl_pending := Some b, cl_pending_seq := cl_sequence (pv_client V) + 1, cl_pending_since := Some now\<rparr>"
    "inp = \<lparr>pi_items = b, pi_publisher_id = cl_publisher_id (pv_client V), pi_sequence = cl_sequence (pv_client V) + 1\<rparr>"
  shows "pub_inv wr pc p (V\<lparr>pv_client := c, pv_flight := insert inp (pv_flight V)\<rparr>)"
  using assms(1)
proof (rule pub_invE)
  fix taken ks
  assume ok: "client_ok wr pc p taken V" "signals_ok wr p taken V" "accepted_ok taken ks V" "\<not> pv_dropped V \<Longrightarrow> complete_ok ks V"
  let ?V = "V\<lparr>pv_client := c, pv_flight := insert inp (pv_flight V)\<rparr>"
  from encode_buffer_entries[OF assms(3)] obtain its where
    its: "map (converted pc) (cl_buffer (pv_client V)) = map Some its" "b = map (entry wr) its" by blast
  have seq: "cl_sequence (pv_client V) = int (length taken)" using ok(1) assms(2) by (simp add: client_ok_def Let_def)
  have inp: "inp = signal_of wr p (taken @ [its]) (length taken)"
    using ok(1) assms(5) its(2) seq by (simp add: client_ok_def Let_def signal_of_def)
  have "client_ok wr pc p (taken @ [its]) ?V"
    using ok(1) assms(4) its seq by (simp add: client_ok_def Let_def)
  moreover have "signals_ok wr p (taken @ [its]) ?V"
  proof -
    have "signal_of wr p (taken @ [its]) ` {..<length taken} = signal_of wr p taken ` {..<length taken}"
      by (rule image_cong) (simp_all add: signal_of_append)
    then have img: "signal_of wr p (taken @ [its]) ` {..<length (taken @ [its])} = insert inp (signal_of wr p taken ` {..<length taken})"
      by (simp add: lessThan_Suc inp)
    have "insert inp (pv_flight V) \<union> set (pv_queue V) \<union> pv_recorded V \<subseteq> insert inp (signal_of wr p taken ` {..<length taken})"
      using ok(2) unfolding signals_ok_def by blast
    then show ?thesis unfolding signals_ok_def img by simp
  qed
  moreover have "accepted_ok (taken @ [its]) ks ?V"
  proof -
    have own: "concat (map ((!) (taken @ [its])) ks) = concat (map ((!) taken) ks)"
      using ok(3) by (auto simp: accepted_ok_def nth_append intro!: arg_cong[where f = concat])
    show ?thesis unfolding accepted_ok_def own using ok(3) accepted_bound_le[OF ok(3)] seq assms(2,4,5)
      by (auto simp: accepted_ok_def)
  qed
  moreover have "complete_ok ks ?V" if "\<not> pv_dropped ?V"
    using ok(4) that assms(4) by (simp add: complete_ok_def)
  ultimately show ?thesis by (rule pub_invI)
qed

lemma pub_inv_fewer:
  assumes "pub_inv wr pc p V" "F \<subseteq> pv_flight V"
  shows "pub_inv wr pc p (V\<lparr>pv_flight := F\<rparr>)"
  using assms(1)
proof (rule pub_invE)
  fix taken ks
  assume ok: "client_ok wr pc p taken V" "signals_ok wr p taken V" "accepted_ok taken ks V" "\<not> pv_dropped V \<Longrightarrow> complete_ok ks V"
  with assms(2) show ?thesis
    by (intro pub_invI[where taken = taken and ks = ks])
      (auto simp: client_ok_def signals_ok_def accepted_ok_def complete_ok_def)
qed

lemma pub_inv_drop:
  assumes "pub_inv wr pc p V" "cl_pending (pv_client V) \<noteq> None"
    "c = pv_client V\<lparr>cl_sequence := cl_pending_seq (pv_client V), cl_pending := None, cl_pending_seq := 0, cl_pending_since := None\<rparr>"
  shows "pub_inv wr pc p (V\<lparr>pv_client := c, pv_dropped := True\<rparr>)"
  using assms(1)
proof (rule pub_invE)
  fix taken ks
  assume ok: "client_ok wr pc p taken V" "signals_ok wr p taken V" "accepted_ok taken ks V"
  with assms(2,3) show ?thesis
    by (intro pub_invI[where taken = taken and ks = ks])
      (auto simp: client_ok_def Let_def signals_ok_def accepted_ok_def)
qed

lemma pub_inv_record:
  assumes "pub_inv wr pc p V" "inp \<in> pv_flight V"
  shows "pub_inv wr pc p (V\<lparr>pv_queue := pv_queue V @ [inp], pv_recorded := insert inp (pv_recorded V)\<rparr>)"
  using assms(1)
proof (rule pub_invE)
  fix taken ks
  assume ok: "client_ok wr pc p taken V" "signals_ok wr p taken V" "accepted_ok taken ks V" "\<not> pv_dropped V \<Longrightarrow> complete_ok ks V"
  let ?V = "V\<lparr>pv_queue := pv_queue V @ [inp], pv_recorded := insert inp (pv_recorded V)\<rparr>"
  have "int (length taken) \<le> cl_sequence (pv_client V) + 1"
    using ok(1) by (cases "cl_pending (pv_client V)") (simp_all add: client_ok_def Let_def)
  then have seq: "pi_sequence inp \<le> cl_sequence (pv_client V) + 1"
    using signals_ok_bounds[OF ok(2), of inp] assms(2) by simp
  have "complete_ok ks ?V" if "\<not> pv_dropped V"
    using ok(4)[OF that] seq by (auto simp: complete_ok_def gapless_snoc reach_snoc max_def)
  with ok assms(2) show ?thesis
    by (intro pub_invI[where taken = taken and ks = ks])
      (auto simp: client_ok_def signals_ok_def accepted_ok_def)
qed

lemma pub_inv_acknowledge:
  assumes "pub_inv wr pc p V" "cl_pending (pv_client V) = Some b"
    "\<lparr>pi_items = b, pi_publisher_id = p, pi_sequence = cl_pending_seq (pv_client V)\<rparr> \<in> pv_recorded V"
  shows "pub_inv wr pc p (V\<lparr>pv_client := flush_acknowledged (cl_pending_seq (pv_client V)) (pv_client V)\<rparr>)"
  using assms(1)
proof (rule pub_invE)
  fix taken ks
  assume ok: "client_ok wr pc p taken V" "signals_ok wr p taken V" "accepted_ok taken ks V" "\<not> pv_dropped V \<Longrightarrow> complete_ok ks V"
  have "cl_pending_seq (pv_client V) \<le> reached ks V" if "\<not> pv_dropped V"
    using ok(4)[OF that] assms(3) by (force simp: complete_ok_def)
  with ok assms(2) show ?thesis
    by (intro pub_invI[where taken = taken and ks = ks])
      (auto simp: client_ok_def Let_def signals_ok_def accepted_ok_def complete_ok_def flush_acknowledged_def)
qed

lemma pub_inv_forget:
  assumes "pub_inv wr pc p V" "pv_queue V = []" "pv_entry V = Some ps"
    "\<forall>x\<in>pv_flight V. ps_sequence ps < pi_sequence x"
    "cl_pending (pv_client V) \<noteq> None \<longrightarrow> ps_sequence ps < cl_pending_seq (pv_client V)"
  shows "pub_inv wr pc p (V\<lparr>pv_entry := None\<rparr>)"
  using assms(1)
proof (rule pub_invE)
  fix taken ks
  assume ok: "client_ok wr pc p taken V" "signals_ok wr p taken V" "accepted_ok taken ks V" "\<not> pv_dropped V \<Longrightarrow> complete_ok ks V"
  with assms(2-) show ?thesis
    by (intro pub_invI[where taken = taken and ks = ks])
      (auto simp: client_ok_def Let_def signals_ok_def accepted_ok_def complete_ok_def)
qed

lemma pub_inv_duplicate:
  assumes "pub_inv wr pc p V" "pv_queue V = x # q" "pv_entry V = Some ps" "pi_sequence x \<le> ps_sequence ps"
  shows "pub_inv wr pc p (V\<lparr>pv_queue := q\<rparr>)"
  using assms(1)
proof (rule pub_invE)
  fix taken ks
  assume ok: "client_ok wr pc p taken V" "signals_ok wr p taken V" "accepted_ok taken ks V" "\<not> pv_dropped V \<Longrightarrow> complete_ok ks V"
  have "complete_ok ks (V\<lparr>pv_queue := q\<rparr>)" if "\<not> pv_dropped V"
  proof -
    note c = ok(4)[OF that]
    then have "accepted_bound ks = length ks" using accepted_bound_upt by (metis complete_ok_def)
    with ok(3) assms(3,4) have "max (int (length ks)) (pi_sequence x) = int (length ks)" by (simp add: accepted_ok_def)
    with c assms(2) show ?thesis by (simp add: complete_ok_def)
  qed
  with ok assms(2,3) show ?thesis
    by (intro pub_invI[where taken = taken and ks = ks])
      (auto simp: client_ok_def Let_def signals_ok_def accepted_ok_def)
qed

lemma sorted_snoc: "sorted_wrt (<) ks \<Longrightarrow> accepted_bound ks \<le> i \<Longrightarrow> sorted_wrt (<) (ks @ [i])"
  by (induction ks rule: rev_induct) (auto simp: accepted_bound_def sorted_wrt_append)

lemma pub_inv_accept:
  assumes "pub_inv wr pc p V" "pv_queue V = x # q" "\<And>ps. pv_entry V = Some ps \<Longrightarrow> ps_sequence ps < pi_sequence x"
    "pi_items x = map (entry wr) its" "inj_on (entry wr) UNIV"
  shows "pub_inv wr pc p (V\<lparr>pv_queue := q, pv_entry := Some \<lparr>ps_sequence = pi_sequence x, ps_last_seen = now\<rparr>,
    pv_owned := pv_owned V @ its\<rparr>)"
  using assms(1)
proof (rule pub_invE)
  fix taken ks
  assume ok: "client_ok wr pc p taken V" "signals_ok wr p taken V" "accepted_ok taken ks V" "\<not> pv_dropped V \<Longrightarrow> complete_ok ks V"
  let ?V = "V\<lparr>pv_queue := q, pv_entry := Some \<lparr>ps_sequence = pi_sequence x, ps_last_seen = now\<rparr>, pv_owned := pv_owned V @ its\<rparr>"
  from ok(2) assms(2) obtain i where i: "i < length taken" "x = signal_of wr p taken i" by (auto simp: signals_ok_def)
  have its: "its = taken ! i"
    using assms(4,5) i(2) by (simp add: signal_of_def inj_on_map_eq_map)
  have bound: "accepted_bound ks \<le> i"
    using ok(3) assms(2,3) i(2) by (cases "pv_entry V") (auto simp: accepted_ok_def signal_of_def)
  have "accepted_ok taken (ks @ [i]) ?V"
    using ok(3) i its sorted_snoc[OF _ bound] by (simp add: accepted_ok_def signal_of_def accepted_bound_def)
  moreover have "complete_ok (ks @ [i]) ?V" if "\<not> pv_dropped V"
  proof -
    note c = ok(4)[OF that]
    then have "accepted_bound ks = length ks" using accepted_bound_upt by (metis complete_ok_def)
    moreover have "pi_sequence x \<le> int (length ks) + 1" using c assms(2) by (simp add: complete_ok_def)
    ultimately have "i = length ks" using bound i(2) by (simp add: signal_of_def)
    moreover from this have "max (int (length ks)) (pi_sequence x) = int (length (ks @ [i]))" using i(2) by (simp add: signal_of_def)
    ultimately show ?thesis using c assms(2) by (simp add: complete_ok_def)
  qed
  ultimately show ?thesis using ok(1,2) assms(2)
    by (intro pub_invI[where taken = taken and ks = "ks @ [i]"]) (auto simp: client_ok_def Let_def signals_ok_def)
qed

lemma entry_inj: "wire_ok wr \<Longrightarrow> inj_on (entry wr) UNIV"
proof (rule inj_onI)
  fix a b :: stream_item
  assume "wire_ok wr" "entry wr a = entry wr b"
  then have "it_topic a = it_topic b" "encode_payload wr (it_data a) = encode_payload wr (it_data b)"
    by (simp_all add: entry_def)
  moreover from this(2) have "it_data a = it_data b"
    using payload_roundtrip[OF \<open>wire_ok wr\<close>] by (metis sum.inject(2))
  ultimately show "a = b" by (cases a; cases b) simp
qed

lemma queue_entries: "pub_inv wr pc p V \<Longrightarrow> x \<in> set (pv_queue V) \<Longrightarrow> \<exists>its. pi_items x = map (entry wr) its"
proof (erule pub_invE)
  fix taken assume "signals_ok wr p taken V" "x \<in> set (pv_queue V)"
  then have "x \<in> signal_of wr p taken ` {..<length taken}" by (auto simp: signals_ok_def)
  then show ?thesis by (auto simp: signal_of_def)
qed

lemma pub_inv_handle:
  assumes "wire_ok wr" "p \<noteq> []" "pub_inv wr pc p (view p y)" "sy_queue y = inp # q" "on_publish wr now inp (sy_stream y) = (r, s)"
  shows "pub_inv wr pc p (view p (y\<lparr>sy_queue := q, sy_stream := s, sy_log := sy_log y @ grown (pi_publisher_id inp) (sy_stream y) s\<rparr>))"
proof (cases "pi_publisher_id inp = p")
  case False
  from on_publish_frame(1)[OF assms(5)] obtain its where "st_log s = st_log (sy_stream y) @ its" ..
  with False on_publish_frame(3)[OF assms(5), of p]
  have "view p (y\<lparr>sy_queue := q, sy_stream := s, sy_log := sy_log y @ grown (pi_publisher_id inp) (sy_stream y) s\<rparr>) = view p y"
    by (simp add: view_def owned_def grown_def assms(4) filter_map comp_def)
  with assms(3) show ?thesis by simp
next
  case True
  have q: "pv_queue (view p y) = inp # pv_queue (view p (y\<lparr>sy_queue := q\<rparr>))" using assms(4) True by (simp add: view_def)
  show ?thesis
  proof (cases "duplicate inp (sy_stream y)")
    case dup: True
    with True obtain ps where "pv_entry (view p y) = Some ps" "pi_sequence inp \<le> ps_sequence ps"
      by (auto simp: duplicate_def view_def)
    from pub_inv_duplicate[OF assms(3) q this] dup assms(5) show ?thesis
      by (simp add: on_publish_unfold grown_def view_def owned_def)
  next
    case new: False
    from queue_entries[OF assms(3)] q obtain its where its: "pi_items inp = map (entry wr) its" by force
    from on_publish_new[OF assms(1) new its] assms(2,5) True have
      s: "s = sy_stream y\<lparr>st_publishers := dset p \<lparr>ps_sequence = pi_sequence inp, ps_last_seen = now\<rparr> (st_publishers (sy_stream y)),
        st_log := st_log (sy_stream y) @ its\<rparr>" by simp
    have "ps_sequence ps < pi_sequence inp" if "pv_entry (view p y) = Some ps" for ps
      using that new True assms(2) by (auto simp: duplicate_def view_def)
    from pub_inv_accept[OF assms(3) q this its entry_inj[OF assms(1)], of now] show ?thesis
      by (simp add: view_def owned_def grown_def s True dget_dset filter_map comp_def)
  qed
qed

lemma pub_inv_roll_over:
  assumes "wire_ok wr" "log_inv y" "pub_inv wr pc p (view p y)" "sy_queue y = []" "retries_over now ttl y"
    "stream_init wr ''__init__'' False (Some (get_state wr now ttl (sy_stream y))) = Inr s"
  shows "pub_inv wr pc p (view p (y\<lparr>sy_stream := s\<rparr>))"
proof -
  have "dict_ok (st_publishers (sy_stream y))" using assms(2) by (simp add: log_inv_def)
  note e = dget_filter[OF this, of "\<lambda>ps. now - ps_last_seen ps < ttl" p]
  have v: "view p (y\<lparr>sy_stream := s\<rparr>) = (view p y)\<lparr>pv_entry :=
      (case dget (st_publishers (sy_stream y)) p of None \<Rightarrow> None | Some ps \<Rightarrow> if now - ps_last_seen ps < ttl then Some ps else None)\<rparr>"
    using rollover_state[OF assms(1), of now ttl "sy_stream y"] assms(6) e by (auto simp: view_def owned_def)
  show ?thesis
  proof (cases "dget (st_publishers (sy_stream y)) p")
    case None
    then have "view p (y\<lparr>sy_stream := s\<rparr>) = view p y" unfolding v by (simp add: view_def)
    with assms(3) show ?thesis by simp
  next
    case (Some ps)
    show ?thesis
    proof (cases "now - ps_last_seen ps < ttl")
      case True
      with Some have "view p (y\<lparr>sy_stream := s\<rparr>) = view p y" unfolding v by (simp add: view_def)
      with assms(3) show ?thesis by simp
    next
      case False
      have "pub_inv wr pc p ((view p y)\<lparr>pv_entry := None\<rparr>)"
      proof (rule pub_inv_forget[OF assms(3), of ps])
        show "\<forall>x\<in>pv_flight (view p y). ps_sequence ps < pi_sequence x"
          "cl_pending (pv_client (view p y)) \<noteq> None \<longrightarrow> ps_sequence ps < cl_pending_seq (pv_client (view p y))"
          using assms(5) Some False by (auto simp: retries_over_def view_def)
      qed (use Some assms(4) in \<open>simp_all add: view_def\<close>)
      with Some False show ?thesis unfolding v by simp
    qed
  qed
qed

lemma view_log:
  assumes "st_log s = st_log (sy_stream y) @ its" "dget (st_publishers s) p = dget (st_publishers (sy_stream y)) p" "p \<noteq> q"
  shows "view p (y\<lparr>sy_stream := s, sy_log := sy_log y @ grown q (sy_stream y) s\<rparr>) = view p y"
  using assms by (simp add: view_def owned_def grown_def filter_map comp_def)

lemma view_stream: "st_publishers s = st_publishers (sy_stream y) \<Longrightarrow> view p (y\<lparr>sy_stream := s\<rparr>) = view p y"
  by (simp add: view_def owned_def)

lemma pub_inv_flush:
  assumes "pub_inv wr pc p (view p y)" "cl_publisher_id (sy_clients y q) = q" "flush_begin wr pc now (sy_clients y q) = (Inr (Some inp), c)"
  shows "pub_inv wr pc p (view p (y\<lparr>sy_clients := (sy_clients y)(q := c), sy_flight := insert inp (sy_flight y)\<rparr>))"
proof -
  have id: "pi_publisher_id inp = q" using flush_begin_send[OF assms(3)] assms(2) by auto
  let ?y = "y\<lparr>sy_clients := (sy_clients y)(q := c), sy_flight := insert inp (sy_flight y)\<rparr>"
  show ?thesis
  proof (cases "q = p")
    case False
    then have "{x \<in> insert inp (sy_flight y). pi_publisher_id x = p} = {x \<in> sy_flight y. pi_publisher_id x = p}" using id by auto
    with False have "view p ?y = view p y" by (simp add: view_def owned_def)
    with assms(1) show ?thesis by simp
  next
    case True
    then have "{x \<in> insert inp (sy_flight y). pi_publisher_id x = p} = insert inp {x \<in> sy_flight y. pi_publisher_id x = p}" using id by auto
    with True have v: "view p ?y = (view p y)\<lparr>pv_client := c, pv_flight := insert inp (pv_flight (view p y))\<rparr>"
      by (simp add: view_def owned_def)
    have c: "pv_client (view p y) = sy_clients y q" and same: "(view p y)\<lparr>pv_client := sy_clients y q\<rparr> = view p y"
      using True by (simp_all add: view_def)
    from flush_begin_send[OF assms(3)] show ?thesis
    proof (elim disjE exE conjE)
      fix b
      assume "cl_pending (sy_clients y q) = Some b" "c = sy_clients y q"
        "inp = \<lparr>pi_items = b, pi_publisher_id = cl_publisher_id (sy_clients y q), pi_sequence = cl_pending_seq (sy_clients y q)\<rparr>"
      with pub_inv_retry[OF assms(1), of b inp] c show ?thesis unfolding v by (simp add: same)
    next
      fix b
      assume "cl_pending (sy_clients y q) = None" "encode_buffer wr pc (cl_buffer (sy_clients y q)) = Inr b"
        "c = sy_clients y q\<lparr>cl_buffer := [], cl_pending := Some b, cl_pending_seq := cl_sequence (sy_clients y q) + 1, cl_pending_since := Some now\<rparr>"
        "inp = \<lparr>pi_items = b, pi_publisher_id = cl_publisher_id (sy_clients y q), pi_sequence = cl_sequence (sy_clients y q) + 1\<rparr>"
      with pub_inv_send[OF assms(1), of b c now inp] c show ?thesis unfolding v by simp
    qed
  qed
qed

lemma pub_inv_step:
  assumes "wire_ok wr" "p \<noteq> []" "stream_step wr pc y y'" "log_inv y" "pub_inv wr pc p (view p y)"
  shows "pub_inv wr pc p (view p y')"
  using assms(3)
proof cases
  case (publish t v force q r c)
  with pub_inv_publish[OF assms(5), of t v force r c] assms(5) show ?thesis by (cases "q = p") (auto simp: view_def owned_def)
next
  case (send now q inp c)
  with pub_inv_flush[OF assms(5)] assms(4) show ?thesis by (simp add: log_inv_def)
next
  case (give_up now q e c)
  with pub_inv_drop[OF assms(5), of c] assms(5) flush_begin_fail[OF give_up(2)] show ?thesis
    by (cases "q = p") (auto simp: view_def owned_def)
next
  case (recorded inp)
  have "{x \<in> insert inp (sy_recorded y). pi_publisher_id x = p} =
      (if pi_publisher_id inp = p then insert inp (pv_recorded (view p y)) else pv_recorded (view p y))"
    by (auto simp: view_def)
  with recorded pub_inv_record[OF assms(5), of inp] assms(5) show ?thesis
    by (cases "pi_publisher_id inp = p") (simp_all add: view_def owned_def)
next
  case (expire inp)
  have "view p y' = (view p y)\<lparr>pv_flight := pv_flight (view p y) - {inp}\<rparr>"
    by (auto simp: expire view_def owned_def)
  with pub_inv_fewer[OF assms(5), of "pv_flight (view p y) - {inp}"] show ?thesis by auto
next
  case (acknowledge q b)
  with pub_inv_acknowledge[OF assms(5), of b] assms(5) show ?thesis
    by (cases "q = p") (auto simp: view_def owned_def)
next
  case (handle inp q now r s)
  with pub_inv_handle[OF assms(1,2,5)] show ?thesis by blast
next
  case (local_publish t v r s)
  from stream_publish_effect[OF local_publish(2)] obtain its where "s = sy_stream y\<lparr>st_log := st_log (sy_stream y) @ its\<rparr>" ..
  with view_log[of s y its p "[]"] assms(2,5) show ?thesis by (simp add: local_publish)
next
  case (truncated n r s)
  with stream_truncate_effect[OF truncated(2)] view_stream[of s y p] assms(5) show ?thesis by auto
next
  case (detached r s)
  then have "st_publishers s = st_publishers (sy_stream y)" by (auto simp: detach_pollers_def pm_simps)
  with detached view_stream[of s y p] assms(5) show ?thesis by simp
next
  case (roll_over now ttl s)
  with pub_inv_roll_over[OF assms(1,4,5)] show ?thesis by blast
qed

subsection \<open>At most once, and exactly once\<close>

lemma stream_reachable_inv:
  assumes "stream_reachable wr pc batch retry y" "wire_ok wr" "p \<noteq> []"
  shows "log_inv y \<and> pub_inv wr pc p (view p y)"
  using assms(1)
proof induction
  case start
  show ?case
    using pub_inv_start[of wr pc p] by (simp add: log_inv_def initial_system_def view_def owned_def empty_stream_def client_init_def)
next
  case (next_step y y')
  with log_inv_step[OF assms(2)] pub_inv_step[OF assms(2,3)] show ?case by blast
qed

lemma subseq_concat: "subseq xs ys \<Longrightarrow> subseq (concat xs) (concat ys)"
  by (induction rule: list_emb.induct) (auto intro: list_emb_append_mono subseq_drop_many)

lemma subseq_upt:
  assumes "sorted_wrt (<) ks" "set ks \<subseteq> {..<n}"
  shows "subseq ks [0..<n]"
proof -
  have "ks = filter (\<lambda>k. k \<in> set ks) [0..<n]"
    using assms by (intro sorted_distinct_set_unique) (auto simp: strict_sorted_iff sorted_wrt_filter)
  then show ?thesis by (metis subseq_filter_left)
qed

lemma accepted_subseq: "accepted_ok taken ks V \<Longrightarrow> subseq (pv_owned V) (concat taken)"
proof -
  assume ok: "accepted_ok taken ks V"
  then have "subseq (map ((!) taken) ks) (map ((!) taken) [0..<length taken])"
    by (intro subseq_map subseq_upt) (auto simp: accepted_ok_def)
  from subseq_concat[OF this] ok show ?thesis by (simp add: accepted_ok_def map_nth)
qed

text \<open>C5 At most once and in order.  Whatever is lost, repeated, delayed or reordered, the items of a publisher
  in the log, the discarded ones included, are a subsequence of what it published, converted to payloads.
  The kept log is the history of all items from the base offset on, so an offset names one item for ever,
  across truncation and continue-as-new.\<close>

theorem published_at_most_once:
  assumes "stream_reachable wr pc batch retry y" "wire_ok wr" "p \<noteq> []"
  shows "subseq (map Some (owned p y)) (map (converted pc) (sy_published y p)) \<and>
    st_log (sy_stream y) = drop (nat (st_base_offset (sy_stream y))) (map snd (sy_log y)) \<and>
    on_offset (sy_stream y) = int (length (sy_log y))"
proof -
  from stream_reachable_inv[OF assms] obtain taken ks where
    ok: "client_ok wr pc p taken (view p y)" "accepted_ok taken ks (view p y)" and l: "log_inv y"
    by (meson pub_invE)
  from accepted_subseq[OF ok(2)] have "subseq (map Some (owned p y)) (map Some (concat taken))"
    by (simp add: view_def subseq_map)
  also have "subseq (map Some (concat taken)) (map (converted pc) (sy_published y p))"
    using ok(1) by (simp add: client_ok_def Let_def view_def subseq_rev_drop_many)
  finally show ?thesis using l by (simp add: log_inv_def on_offset_def of_nat_diff nat_le_iff)
qed

text \<open>C4 Exactly once.  When a publisher has not given up a batch, has nothing buffered or pending, and the
  workflow has handled the recorded signals, the log has received everything it published, once and in order.\<close>

theorem published_exactly_once:
  assumes "stream_reachable wr pc batch retry y" "wire_ok wr" "p \<noteq> []"
    "\<not> sy_dropped y p" "\<not> flush_needed (sy_clients y p)" "sy_queue y = []"
  shows "map Some (owned p y) = map (converted pc) (sy_published y p)"
proof -
  from stream_reachable_inv[OF assms(1-3)] assms(4) obtain taken ks where
    ok: "client_ok wr pc p taken (view p y)" "accepted_ok taken ks (view p y)" "complete_ok ks (view p y)"
    by (auto simp: pub_inv_def view_def)
  have "ks = [0..<length ks]" "int (length taken) \<le> int (length ks)"
    using ok(1,3) assms(5,6) by (simp_all add: complete_ok_def client_ok_def Let_def view_def flush_needed_def)
  moreover have "length ks \<le> length taken"
    using accepted_bound_le[OF ok(2)] accepted_bound_upt[of "length ks"] calculation(1) by simp
  ultimately have "ks = [0..<length taken]" by simp
  with ok(2) have "owned p y = concat taken" by (simp add: accepted_ok_def view_def map_nth)
  with ok(1) assms(5) show ?thesis by (simp add: client_ok_def Let_def view_def flush_needed_def)
qed

subsection \<open>A concrete run\<close>

definition ex_converter :: payload_converter where
  "ex_converter = (let enc = (\<lambda>v. case v of PStr x \<Rightarrow> \<lparr>p_metadata = [], p_data = x\<rparr> | _ \<Rightarrow> \<lparr>p_metadata = [], p_data = []\<rparr>) in
     \<lparr>to_payload = (\<lambda>v. Inr (enc v)), to_payloads = (\<lambda>vs. Inr (map enc vs)), from_payload = (\<lambda>p _. Inr (PStr (p_data p))),
      from_payloads = (\<lambda>ps _. Inr (map (\<lambda>p. PStr (p_data p)) ps))\<rparr>)"

abbreviation ex_item :: stream_item where
  "ex_item \<equiv> \<lparr>it_topic = ''t'', it_data = \<lparr>p_metadata = [], p_data = ''hi''\<rparr>\<rparr>"

abbreviation ex_value :: "string \<times> pub_value" where
  "ex_value \<equiv> (''t'', PubValue (PStr ''hi''))"

abbreviation ex_reachable :: "stream_system \<Rightarrow> bool" where
  "ex_reachable \<equiv> stream_reachable ex_wire ex_converter (\<lambda>_. None) (\<lambda>_. 600)"

text \<open>Publish, send, the signal is recorded twice, acknowledged, and handled twice.\<close>

lemma ex_stream_run:
  "\<exists>y. ex_reachable y \<and> \<not> sy_dropped y ''p'' \<and> \<not> flush_needed (sy_clients y ''p'') \<and> sy_queue y = [] \<and>
     sy_published y ''p'' = [ex_value] \<and> sy_log y = [(''p'', ex_item)]"
proof -
  define y0 where "y0 = initial_system (\<lambda>_. None) (\<lambda>_. 600)"
  define c0 where "c0 = client_init ''p'' None 600"
  define c1 where "c1 = c0\<lparr>cl_buffer := [ex_value]\<rparr>"
  define b where "b = [entry ex_wire ex_item]"
  define inp where "inp = \<lparr>pi_items = b, pi_publisher_id = ''p'', pi_sequence = 1\<rparr>"
  define c2 where "c2 = c1\<lparr>cl_buffer := [], cl_pending := Some b, cl_pending_seq := 1, cl_pending_since := Some 0\<rparr>"
  define y1 where "y1 = y0\<lparr>sy_clients := (sy_clients y0)(''p'' := c1), sy_published := (sy_published y0)(''p'' := sy_published y0 ''p'' @ [ex_value])\<rparr>"
  define y2 where "y2 = y1\<lparr>sy_clients := (sy_clients y1)(''p'' := c2), sy_flight := insert inp (sy_flight y1)\<rparr>"
  define y3 where "y3 = y2\<lparr>sy_queue := sy_queue y2 @ [inp], sy_recorded := insert inp (sy_recorded y2)\<rparr>"
  define y4 where "y4 = y3\<lparr>sy_queue := sy_queue y3 @ [inp], sy_recorded := insert inp (sy_recorded y3)\<rparr>"
  define y5 where "y5 = y4\<lparr>sy_clients := (sy_clients y4)(''p'' := flush_acknowledged (cl_pending_seq (sy_clients y4 ''p'')) (sy_clients y4 ''p''))\<rparr>"
  define s6 where "s6 = empty_stream\<lparr>st_publishers := dset ''p'' \<lparr>ps_sequence = 1, ps_last_seen = 0\<rparr> [], st_log := [ex_item]\<rparr>"
  define y6 where "y6 = y5\<lparr>sy_queue := [inp], sy_stream := s6, sy_log := sy_log y5 @ grown (pi_publisher_id inp) (sy_stream y5) s6\<rparr>"
  define y7 where "y7 = y6\<lparr>sy_queue := [], sy_stream := s6, sy_log := sy_log y6 @ grown (pi_publisher_id inp) (sy_stream y6) s6\<rparr>"
  note defs = y0_def y1_def y2_def y3_def y4_def y5_def y6_def y7_def c0_def c1_def c2_def initial_system_def client_init_def inp_def
  have "stream_step ex_wire ex_converter y0 y1" unfolding y1_def
    by (rule stream_step.publish[where force = False and r = "Inr ()"]) (simp add: defs client_publish_to_topic_def pm_simps)
  moreover have "stream_step ex_wire ex_converter y1 y2" unfolding y2_def
    by (rule stream_step.send[where now = 0])
      (simp add: defs b_def flush_begin_def pm_simps pub_payload_def ex_converter_def Let_def entry_def)
  moreover have "stream_step ex_wire ex_converter y2 y3" unfolding y3_def
    by (rule stream_step.recorded) (simp add: defs)
  moreover have "stream_step ex_wire ex_converter y3 y4" unfolding y4_def
    by (rule stream_step.recorded) (simp add: defs)
  moreover have "stream_step ex_wire ex_converter y4 y5" unfolding y5_def
    by (rule stream_step.acknowledge[where b = b]) (simp_all add: defs)
  moreover have "stream_step ex_wire ex_converter y5 y6" unfolding y6_def
    using on_publish_new[OF ex_wire_ok, of inp empty_stream "[ex_item]" 0]
    by (intro stream_step.handle[where now = 0 and r = "Inr ()"])
      (simp_all add: defs b_def s6_def duplicate_def empty_stream_def)
  moreover have "stream_step ex_wire ex_converter y6 y7" unfolding y7_def
    by (rule stream_step.handle[where now = 0 and r = "Inr ()"])
      (simp_all add: y6_def on_publish_unfold duplicate_def s6_def dget_dset inp_def)
  ultimately have "ex_reachable y7"
    using stream_reachable.start[of ex_wire ex_converter "\<lambda>_. None" "\<lambda>_. 600"] unfolding y0_def[symmetric]
    by (meson stream_reachable.next_step)
  moreover have "\<not> sy_dropped y7 ''p'' \<and> \<not> flush_needed (sy_clients y7 ''p'') \<and> sy_queue y7 = [] \<and>
      sy_published y7 ''p'' = [ex_value] \<and> sy_log y7 = [(''p'', ex_item)]"
    by (simp add: defs s6_def flush_needed_def flush_acknowledged_def grown_def empty_stream_def)
  ultimately show ?thesis by blast
qed

theorem published_at_most_once_witness:
  "\<exists>y. ex_reachable y \<and> sy_published y ''p'' = [ex_value] \<and> owned ''p'' y = [ex_item] \<and>
     subseq (map Some (owned ''p'' y)) (map (converted ex_converter) [ex_value])"
proof -
  from ex_stream_run obtain y where y: "ex_reachable y" "sy_published y ''p'' = [ex_value]" "sy_log y = [(''p'', ex_item)]" by blast
  from published_at_most_once[OF y(1) ex_wire_ok, of "''p''"] y show ?thesis by (auto simp: owned_def)
qed

theorem published_exactly_once_witness:
  "\<exists>y. ex_reachable y \<and> sy_published y ''p'' = [ex_value] \<and> map Some (owned ''p'' y) = map (converted ex_converter) [ex_value]"
proof -
  from ex_stream_run obtain y where y: "ex_reachable y" "\<not> sy_dropped y ''p''" "\<not> flush_needed (sy_clients y ''p'')" "sy_queue y = []"
    "sy_published y ''p'' = [ex_value]" by blast
  from published_exactly_once[OF y(1) ex_wire_ok _ y(2-4)] y(1,5) show ?thesis by auto
qed

end
