(* ===== verification/Activity_Worker.thy ===== *)
theory Activity_Worker
  imports Wf_Types
begin

section \<open>The activity worker\<close>

text \<open>
  \<^verbatim>\<open>worker/_activity.py\<close>: the dispatch of activity tasks, the life of one activity from its start task to its
  completion, cancellation, heartbeats, and the exceptions raised in activity threads.  A coroutine is cut
  at its awaits: \<open>ra_phase\<close> says at which await the task of an activity is, and each function below runs one
  segment up to the next await.  The activity function, the executors and the data converter with its
  codec are parameters: the outcome of the function is an argument of its segment, the converter is the
  record \<open>data_converter\<close>.  Sending to the core is recorded in \<open>aw_completions\<close> and
  \<open>aw_heartbeats\<close>.  Logging and metrics are not modelled.
\<close>

abbreviation C_CompleteAsyncError :: pyclass where
  "C_CompleteAsyncError \<equiv> C_User ''_CompleteAsyncError'' [C_BaseException]"

abbreviation C_BrokenExecutor :: pyclass where
  "C_BrokenExecutor \<equiv> C_User ''BrokenExecutor'' (C_RuntimeError # exception_mro)"

abbreviation C_QueueFull :: pyclass where
  "C_QueueFull \<equiv> C_User ''QueueFull'' exception_mro"

record data_converter =
  dc_encode :: "pyval list \<Rightarrow> exn + payload list"
  dc_decode :: "payload list \<Rightarrow> pytype list option \<Rightarrow> exn + pyval list"
  dc_encode_failure :: "exn \<Rightarrow> exn + failure"
  dc_inbound :: "payload \<Rightarrow> exn + payload"

subsection \<open>Raising exceptions in a thread\<close>

record thread_raiser =
  tr_thread_id :: "nat option"
  tr_pending :: "pyclass option"
  tr_shield_depth :: int

definition new_raiser :: thread_raiser where
  "new_raiser = \<lparr>tr_thread_id = None, tr_pending = None, tr_shield_depth = 0\<rparr>"

text \<open>The result is the new state and the exceptions raised, each with its thread.\<close>

definition raise_if_pending :: "thread_raiser \<Rightarrow> thread_raiser \<times> (nat \<times> pyclass) list" where
  "raise_if_pending r = (case (tr_thread_id r, tr_pending r) of
     (Some t, Some c) \<Rightarrow> if tr_shield_depth r = 0 then (r\<lparr>tr_pending := None\<rparr>, [(t, c)]) else (r, [])
   | _ \<Rightarrow> (r, []))"

definition set_thread_id :: "nat \<Rightarrow> thread_raiser \<Rightarrow> thread_raiser" where
  "set_thread_id t r = r\<lparr>tr_thread_id := Some t\<rparr>"

text \<open>Leaving \<^verbatim>\<open>active_thread\<close>.\<close>

definition leave_thread :: "nat \<Rightarrow> thread_raiser \<Rightarrow> thread_raiser" where
  "leave_thread t r = (if tr_thread_id r = Some t then r\<lparr>tr_thread_id := None, tr_pending := None\<rparr> else r)"

definition raise_in_thread :: "pyclass \<Rightarrow> thread_raiser \<Rightarrow> thread_raiser \<times> (nat \<times> pyclass) list" where
  "raise_in_thread c r = raise_if_pending (r\<lparr>tr_pending := Some c\<rparr>)"

definition enter_shield :: "thread_raiser \<Rightarrow> thread_raiser" where
  "enter_shield r = r\<lparr>tr_shield_depth := tr_shield_depth r + 1\<rparr>"

definition leave_shield :: "thread_raiser \<Rightarrow> thread_raiser \<times> (nat \<times> pyclass) list" where
  "leave_shield r = raise_if_pending (r\<lparr>tr_shield_depth := tr_shield_depth r - 1\<rparr>)"

subsection \<open>The data of the worker\<close>

record activity_defn =
  ad_name :: "string option"
  ad_is_async :: bool
  ad_arg_types :: "pytype list option"
  ad_no_thread_cancel :: bool

datatype executor = ThreadPoolExecutor | ProcessPoolExecutor | OtherExecutor

record activity_start =
  as_activity_id :: string
  as_activity_type :: string
  as_attempt :: int
  as_input :: "payload list"
  as_heartbeat_details :: "payload list"
  as_heartbeat_timeout :: "duration option"
  as_schedule_to_close :: "duration option"
  as_start_to_close :: "duration option"
  as_current_scheduled_time :: int
  as_scheduled_time :: int
  as_started_time :: int
  as_is_local :: bool
  as_workflow_namespace :: string
  as_workflow_id :: string
  as_workflow_run_id :: string
  as_workflow_type :: string
  as_priority :: priority_proto
  as_retry_policy :: "retry_policy_proto option"
  as_run_id :: string
  as_headers :: headers

record activity_info =
  inf_activity_id :: string
  inf_activity_type :: string
  inf_attempt :: int
  inf_current_scheduled_time :: int
  inf_heartbeat_details :: "pyval list"
  inf_heartbeat_timeout :: "timedelta option"
  inf_is_local :: bool
  inf_namespace :: string
  inf_schedule_to_close :: "timedelta option"
  inf_scheduled_time :: int
  inf_start_to_close :: "timedelta option"
  inf_started_time :: int
  inf_task_queue :: string
  inf_task_token :: string
  inf_workflow_id :: "string option"
  inf_workflow_namespace :: "string option"
  inf_workflow_run_id :: "string option"
  inf_workflow_type :: "string option"
  inf_priority :: priority
  inf_retry_policy :: "retry_policy option"
  inf_activity_run_id :: "string option"

record cancellation_proto =
  cp_not_found :: bool
  cp_cancelled :: bool
  cp_paused :: bool
  cp_timed_out :: bool
  cp_worker_shutdown :: bool
  cp_reset :: bool

record cancellation_details =
  cd_not_found :: bool
  cd_cancel_requested :: bool
  cd_paused :: bool
  cd_reset :: bool
  cd_timed_out :: bool
  cd_worker_shutdown :: bool

definition details_from_proto :: "cancellation_proto \<Rightarrow> cancellation_details" where
  "details_from_proto c = \<lparr>cd_not_found = cp_not_found c, cd_cancel_requested = cp_cancelled c, cd_paused = cp_paused c,
     cd_reset = cp_reset c, cd_timed_out = cp_timed_out c, cd_worker_shutdown = cp_worker_shutdown c\<rparr>"

datatype completion = Completed payload | WillCompleteAsync | Failed failure | Cancelled failure

text \<open>What the handler of an exception encodes, and where it puts the failure; \<open>PlanUnhandled\<close> is its last
  branch, which also looks for a broken executor.\<close>

datatype error_plan = PlanAsync | PlanFailed exn | PlanCancelled exn | PlanUnhandled exn

text \<open>The awaits of \<^verbatim>\<open>_handle_start_activity_task\<close>: decoding the input, running the function, encoding its result,
  encoding a failure, waiting for the last heartbeat and sending the completion.  At the end the completion
  was sent or the core refused it.  \<open>Crashed\<close> is a task that ended
  with an exception no handler catches.\<close>

datatype phase =
    Decoding activity_start activity_defn
  | Executing "pyval list"
  | EncodingResult pyval
  | EncodingFailure error_plan
  | Draining completion
  | Completing completion
  | Finished "completion option"
  | Crashed

record running_activity =
  ra_pending_heartbeats :: "pyval list list"
  ra_info :: "activity_info option"
  ra_cancelled_event :: "bool option"
  ra_last_heartbeat_task :: "nat option"
  ra_cancel_thread_raiser :: "thread_raiser option"
  ra_sync :: bool
  ra_done :: bool
  ra_cancelled_by_request :: bool
  ra_heartbeat_error :: "exn option"
  ra_cancellation_details :: "cancellation_details option"
  ra_phase :: phase
  ra_task_cancel :: bool
  ra_thread_raises :: "(nat \<times> pyclass) list"

text \<open>A task of \<^verbatim>\<open>_heartbeat_async\<close> that has not run yet, or awaits the encoding of its details.\<close>

datatype hb_task = HbCreated string | HbEncoding string "pyval list"

record activity_worker =
  aw_task_queue :: string
  aw_namespace :: string
  aw_executor :: "executor option"
  aw_shared_state_manager :: bool
  aw_encode_headers :: bool
  aw_activities :: "(string, activity_defn) dict"
  aw_dynamic_activity :: "activity_defn option"
  aw_shutdown_event :: "bool option"
  aw_seen_sync_activity :: bool
  aw_fail_queue :: "exn list"
  aw_running :: "string set"
  aw_objects :: "string \<Rightarrow> running_activity option"
  aw_hb_tasks :: "nat \<Rightarrow> hb_task option"
  aw_next_task :: nat
  aw_completions :: "(string \<times> completion) list"
  aw_heartbeats :: "(string \<times> payload list) list"

subsection \<open>Registering activities\<close>

text \<open>An activity given to the constructor: its definition, whether it is a class, and whether it can be pickled.\<close>

definition check_activity :: "executor option \<Rightarrow> bool \<Rightarrow> activity_worker \<Rightarrow> activity_defn \<times> bool \<times> bool \<Rightarrow> py_error + unit" where
  "check_activity exec manager w a = (case a of (defn, is_class, picklable) \<Rightarrow>
     let name = (case ad_name defn of None \<Rightarrow> ''None'' | Some n \<Rightarrow> n)
     in if (case ad_name defn of None \<Rightarrow> False | Some n \<Rightarrow> dget (aw_activities w) n \<noteq> None)
          then Inl (ValueError (''More than one activity named '' @ name))
        else if is_class then Inl (TypeError (''Activity named '' @ name @ '' is a class instead of an instance''))
        else if ad_is_async defn then Inr ()
        else if exec = None
          then Inl (ValueError (''Activity '' @ name @ '' is not async so an activity_executor must be present''))
        else if exec \<noteq> Some ThreadPoolExecutor \<and> \<not> manager
          then Inl (ValueError (''Activity '' @ name @ '' is not async and executor is not thread-pool executor, so a shared_state_manager must be present''))
        else if exec = Some ProcessPoolExecutor \<and> \<not> picklable
          then Inl (TypeError (''Activity '' @ name @ '' must be picklable when using a process executor''))
        else Inr ())"

fun register_activities :: "executor option \<Rightarrow> bool \<Rightarrow> (activity_defn \<times> bool \<times> bool) list \<Rightarrow> activity_worker \<Rightarrow> py_error + activity_worker" where
  "register_activities exec manager [] w = Inr w"
| "register_activities exec manager (a # rest) w = (case check_activity exec manager w a of
     Inl e \<Rightarrow> Inl e
   | Inr _ \<Rightarrow>
      (if str_truthy (ad_name (fst a))
       then register_activities exec manager rest (w\<lparr>aw_activities := dset (the (ad_name (fst a))) (fst a) (aw_activities w)\<rparr>)
       else if aw_dynamic_activity w \<noteq> None then Inl (TypeError ''More than one dynamic activity'')
       else register_activities exec manager rest (w\<lparr>aw_dynamic_activity := Some (fst a)\<rparr>)))"

definition activity_worker_init :: "string \<Rightarrow> string \<Rightarrow> executor option \<Rightarrow> bool \<Rightarrow> bool \<Rightarrow> (activity_defn \<times> bool \<times> bool) list \<Rightarrow> py_error + activity_worker" where
  "activity_worker_init task_queue namespace exec manager encode_headers activities =
     register_activities exec manager activities
       \<lparr>aw_task_queue = task_queue, aw_namespace = namespace, aw_executor = exec, aw_shared_state_manager = manager,
        aw_encode_headers = encode_headers, aw_activities = [], aw_dynamic_activity = None, aw_shutdown_event = None,
        aw_seen_sync_activity = False, aw_fail_queue = [], aw_running = {}, aw_objects = (\<lambda>_. None),
        aw_hb_tasks = (\<lambda>_. None), aw_next_task = 0, aw_completions = [], aw_heartbeats = []\<rparr>"

definition find_activity :: "activity_worker \<Rightarrow> string \<Rightarrow> activity_defn option" where
  "find_activity w name = (case dget (aw_activities w) name of None \<Rightarrow> aw_dynamic_activity w | Some d \<Rightarrow> Some d)"

definition assert_activity_valid :: "activity_worker \<Rightarrow> string \<Rightarrow> py_error + unit" where
  "assert_activity_valid w name = (if aw_dynamic_activity w \<noteq> None then Inr ()
     else if dget (aw_activities w) name = None
       then Inl (ValueError (''Activity function '' @ name @ '' is not registered on this worker''))
     else Inr ())"

subsection \<open>Cancellation\<close>

definition activity_cancel :: "bool \<Rightarrow> exn option \<Rightarrow> running_activity \<Rightarrow> running_activity" where
  "activity_cancel by_request heartbeat_error ra0 =
    (let ra = ra0\<lparr>ra_cancelled_by_request := by_request, ra_heartbeat_error := heartbeat_error,
           ra_cancelled_event := map_option (\<lambda>_. True) (ra_cancelled_event ra0)\<rparr>
     in if ra_done ra then ra
        else let ra1 = (case ra_cancel_thread_raiser ra of
                 None \<Rightarrow> ra
               | Some r \<Rightarrow> (case raise_in_thread C_CancelledError r of (r', raised) \<Rightarrow>
                   ra\<lparr>ra_cancel_thread_raiser := Some r', ra_thread_raises := ra_thread_raises ra @ raised\<rparr>))
             in if ra_sync ra1 then ra1 else ra1\<lparr>ra_task_cancel := True\<rparr>)"

text \<open>A cancel task from the core.  An unknown token only gives a warning.\<close>

definition put_object :: "string \<Rightarrow> running_activity \<Rightarrow> activity_worker \<Rightarrow> activity_worker" where
  "put_object tok ra w = w\<lparr>aw_objects := (aw_objects w)(tok \<mapsto> ra)\<rparr>"

definition handle_cancel_activity_task :: "string \<Rightarrow> cancellation_proto \<Rightarrow> activity_worker \<Rightarrow> activity_worker" where
  "handle_cancel_activity_task tok details w = (if tok \<notin> aw_running w then w
     else case aw_objects w tok of
         None \<Rightarrow> w
       | Some ra \<Rightarrow> put_object tok (activity_cancel (cp_cancelled details \<or> cp_worker_shutdown details) None
           (ra\<lparr>ra_cancellation_details := Some (details_from_proto details)\<rparr>)) w)"

subsection \<open>Starting an activity\<close>

definition new_running_activity :: "phase \<Rightarrow> running_activity" where
  "new_running_activity ph = \<lparr>ra_pending_heartbeats = [], ra_info = None, ra_cancelled_event = None, ra_last_heartbeat_task = None,
     ra_cancel_thread_raiser = None, ra_sync = False, ra_done = False, ra_cancelled_by_request = False, ra_heartbeat_error = None,
     ra_cancellation_details = None, ra_phase = ph, ra_task_cancel = False, ra_thread_raises = []\<rparr>"

text \<open>The chain of tests on the exception.\<close>

definition cancel_error :: "exn \<Rightarrow> bool" where
  "cancel_error e \<longleftrightarrow> isinstance e C_AsyncCancelledError \<or> isinstance e C_CancelledError"

definition plan_error :: "running_activity \<Rightarrow> exn \<Rightarrow> error_plan" where
  "plan_error ra err =
    (if isinstance err C_CompleteAsyncError then PlanAsync
     else if cancel_error err \<and> ra_heartbeat_error ra \<noteq> None then PlanFailed (the (ra_heartbeat_error ra))
     else if cancel_error err \<and> (case ra_cancellation_details ra of None \<Rightarrow> False | Some d \<Rightarrow> cd_paused d)
       then PlanFailed (application_error ''Unhandled activity cancel error produced by activity pause'' [] (Some ''ActivityPause'') False None 0)
     else if cancel_error err \<and> (case ra_cancellation_details ra of None \<Rightarrow> False | Some d \<Rightarrow> cd_reset d)
       then PlanFailed (application_error ''Unhandled activity cancel error produced by activity reset'' [] (Some ''ActivityReset'') False None 0)
     else if cancel_error err \<and> ra_cancelled_by_request ra then PlanCancelled (cancelled_error ''Cancelled'' [])
     else PlanUnhandled err)"

definition finish_with :: "completion \<Rightarrow> running_activity \<Rightarrow> running_activity" where
  "finish_with c ra = ra\<lparr>ra_done := True, ra_phase := Draining c\<rparr>"

definition fail_activity :: "exn \<Rightarrow> running_activity \<Rightarrow> running_activity" where
  "fail_activity err ra = (case plan_error ra err of
     PlanAsync \<Rightarrow> finish_with WillCompleteAsync ra
   | plan \<Rightarrow> ra\<lparr>ra_phase := EncodingFailure plan\<rparr>)"

text \<open>The events and the thread raiser of an activity, by the kind of its function and of the executor.\<close>

definition setup_activity :: "activity_defn \<Rightarrow> activity_worker \<Rightarrow> running_activity \<Rightarrow> running_activity" where
  "setup_activity defn w ra = (if ad_is_async defn then ra\<lparr>ra_cancelled_event := Some False\<rparr>
     else let ra1 = ra\<lparr>ra_sync := True, ra_cancelled_event := Some False\<rparr>
          in if aw_executor w = Some ThreadPoolExecutor \<and> \<not> ad_no_thread_cancel defn
             then ra1\<lparr>ra_cancel_thread_raiser := Some new_raiser\<rparr> else ra1)"

text \<open>A start task: the running activity is created and its task runs up to its first await, before the next
  task is polled.\<close>

definition handle_start_activity_task :: "string \<Rightarrow> activity_start \<Rightarrow> activity_worker \<Rightarrow> activity_worker" where
  "handle_start_activity_task tok start w0 =
    (let w = w0\<lparr>aw_running := insert tok (aw_running w0)\<rparr>
     in case find_activity w (as_activity_type start) of
         None \<Rightarrow> put_object tok (fail_activity (application_error (''Activity function '' @ as_activity_type start @ '' for workflow '' @
             as_workflow_id start @ '' is not registered on this worker'') [] (Some ''NotFoundError'') False None 0)
             (new_running_activity Crashed)) w
       | Some defn \<Rightarrow>
          let replaced = (\<not> ad_is_async defn \<and> aw_executor w \<noteq> Some ThreadPoolExecutor \<and> \<not> aw_seen_sync_activity w);
              w1 = w\<lparr>aw_shutdown_event := (case aw_shutdown_event w of None \<Rightarrow> Some False | Some b \<Rightarrow> Some (b \<and> \<not> replaced)),
                aw_seen_sync_activity := (aw_seen_sync_activity w \<or> \<not> ad_is_async defn)\<rparr>
          in put_object tok (setup_activity defn w1 (new_running_activity (Decoding start defn))) w1)"

text \<open>Arguments: type hints are used only when their number is right; a dynamic activity gets raw values in one list.
  Errors of the converter are wrapped.\<close>

definition wrap_errors :: "exn \<Rightarrow> exn + 'a \<Rightarrow> exn + 'a" where
  "wrap_errors wrapper r = (case r of
     Inl e \<Rightarrow> Inl (if isinstance e C_Exception then raise_from wrapper e else e)
   | Inr v \<Rightarrow> Inr v)"

definition arg_type_hints :: "activity_defn \<Rightarrow> activity_start \<Rightarrow> pytype list option" where
  "arg_type_hints defn start = (if \<not> str_truthy (ad_name defn) then Some (replicate (length (as_input start)) TRawValue)
     else case ad_arg_types defn of
         None \<Rightarrow> None
       | Some ts \<Rightarrow> if length ts \<noteq> length (as_input start) then None else Some ts)"

definition decode_arguments :: "data_converter \<Rightarrow> activity_defn \<Rightarrow> activity_start \<Rightarrow> exn + pyval list" where
  "decode_arguments dc defn start = map_sum id (\<lambda>args. if str_truthy (ad_name defn) then args else [PList args])
     (if as_input start = [] then Inr []
      else wrap_errors (application_error ''Failed decoding arguments'' [] None False None 0)
        (dc_decode dc (as_input start) (arg_type_hints defn start)))"

definition decode_heartbeat_details :: "data_converter \<Rightarrow> activity_start \<Rightarrow> exn + pyval list" where
  "decode_heartbeat_details dc start = (if as_heartbeat_details start = [] then Inr []
     else wrap_errors (application_error ''Failed decoding heartbeat details'' [] None True None 0)
       (dc_decode dc (as_heartbeat_details start) None))"

definition proto_to_non_zero_timedelta :: "duration \<Rightarrow> timedelta option" where
  "proto_to_non_zero_timedelta d = (if d = 0 then None else Some (to_timedelta d))"

definition str_or_none :: "string \<Rightarrow> string option" where
  "str_or_none s = (if s = [] then None else Some s)"

definition build_info :: "activity_worker \<Rightarrow> string \<Rightarrow> activity_start \<Rightarrow> pyval list \<Rightarrow> exn + activity_info" where
  "build_info w tok start heartbeat_details = (case priority_from_proto (as_priority start) of
     Inl e \<Rightarrow> Inl (exn_of_error e)
   | Inr prio \<Rightarrow> Inr
      \<lparr>inf_activity_id = as_activity_id start, inf_activity_type = as_activity_type start, inf_attempt = as_attempt start,
       inf_current_scheduled_time = as_current_scheduled_time start, inf_heartbeat_details = heartbeat_details,
       inf_heartbeat_timeout = Option.bind (as_heartbeat_timeout start) proto_to_non_zero_timedelta,
       inf_is_local = as_is_local start,
       inf_namespace = (if as_workflow_namespace start = [] then aw_namespace w else as_workflow_namespace start),
       inf_schedule_to_close = Option.bind (as_schedule_to_close start) proto_to_non_zero_timedelta,
       inf_scheduled_time = as_scheduled_time start,
       inf_start_to_close = Option.bind (as_start_to_close start) proto_to_non_zero_timedelta,
       inf_started_time = as_started_time start, inf_task_queue = aw_task_queue w, inf_task_token = tok,
       inf_workflow_id = str_or_none (as_workflow_id start), inf_workflow_namespace = str_or_none (as_workflow_namespace start),
       inf_workflow_run_id = str_or_none (as_workflow_run_id start), inf_workflow_type = str_or_none (as_workflow_type start),
       inf_priority = prio, inf_retry_policy = map_option retry_policy_from_proto (as_retry_policy start),
       inf_activity_run_id = (if as_workflow_id start \<noteq> [] then None else Some (as_run_id start))\<rparr>)"

fun decode_headers :: "data_converter \<Rightarrow> headers \<Rightarrow> exn + headers" where
  "decode_headers dc [] = Inr []"
| "decode_headers dc ((k, p) # hs) = (case dc_inbound dc p of
     Inl e \<Rightarrow> Inl e
   | Inr p' \<Rightarrow> map_sum id (Cons (k, p')) (decode_headers dc hs))"

definition prepare_input :: "data_converter \<Rightarrow> activity_worker \<Rightarrow> string \<Rightarrow> activity_start \<Rightarrow> activity_defn \<Rightarrow> exn + pyval list \<times> activity_info" where
  "prepare_input dc w tok start defn = (case decode_arguments dc defn start of
     Inl e \<Rightarrow> Inl e
   | Inr args \<Rightarrow> (case decode_heartbeat_details dc start of
       Inl e \<Rightarrow> Inl e
     | Inr hb \<Rightarrow> (case build_info w tok start hb of
         Inl e \<Rightarrow> Inl e
       | Inr info \<Rightarrow> (case (if aw_encode_headers w then decode_headers dc (as_headers start) else Inr (as_headers start)) of
           Inl e \<Rightarrow> Inl e
         | Inr _ \<Rightarrow> Inr (args, info)))))"

subsection \<open>The segments of a running activity\<close>

definition input_decoded :: "data_converter \<Rightarrow> activity_worker \<Rightarrow> string \<Rightarrow> activity_start \<Rightarrow> activity_defn \<Rightarrow> running_activity \<Rightarrow> running_activity" where
  "input_decoded dc w tok start defn ra = (case prepare_input dc w tok start defn of
     Inl e \<Rightarrow> fail_activity e ra
   | Inr (args, info) \<Rightarrow> ra\<lparr>ra_info := Some info, ra_phase := Executing args\<rparr>)"

definition activity_returned :: "exn + pyval \<Rightarrow> running_activity \<Rightarrow> running_activity" where
  "activity_returned outcome ra = (case outcome of
     Inl e \<Rightarrow> fail_activity e ra
   | Inr v \<Rightarrow> ra\<lparr>ra_phase := EncodingResult v\<rparr>)"

definition result_encoded :: "data_converter \<Rightarrow> pyval \<Rightarrow> running_activity \<Rightarrow> running_activity" where
  "result_encoded dc v ra = (case dc_encode dc [v] of
     Inl e \<Rightarrow> fail_activity e ra
   | Inr [p] \<Rightarrow> finish_with (Completed p) ra
   | Inr _ \<Rightarrow> fail_activity (exn_of_error (ValueError ''wrong number of values to unpack'')) ra)"

text \<open>A cancellation of the task is delivered at an await.\<close>

definition task_cancelled :: "running_activity \<Rightarrow> running_activity" where
  "task_cancelled ra = fail_activity (async_cancelled (Some (PStr ''Activity cancelled''))) (ra\<lparr>ra_task_cancel := False\<rparr>)"

fun plan_failure :: "error_plan \<Rightarrow> exn option" where
  "plan_failure (PlanFailed e) = Some e"
| "plan_failure (PlanCancelled e) = Some e"
| "plan_failure (PlanUnhandled e) = Some e"
| "plan_failure PlanAsync = None"

fun plan_completion :: "error_plan \<Rightarrow> failure \<Rightarrow> completion" where
  "plan_completion (PlanCancelled _) f = Cancelled f"
| "plan_completion _ f = Failed f"

definition building_failed :: "exn \<Rightarrow> completion" where
  "building_failed e = Failed (Failure (''Failed building exception result: '' @ str_exn e) [] None None
     (Some (ApplicationFailureInfo [] False None None 0)))"

text \<open>The failure is encoded, or encoding it raises; only an \<^verbatim>\<open>Exception\<close> is caught.\<close>

definition failure_encoded :: "data_converter \<Rightarrow> error_plan \<Rightarrow> running_activity \<Rightarrow> running_activity" where
  "failure_encoded dc plan ra = (case plan_failure plan of
     None \<Rightarrow> finish_with WillCompleteAsync ra
   | Some e \<Rightarrow> (case dc_encode_failure dc e of
       Inr f \<Rightarrow> finish_with (plan_completion plan f) ra
     | Inl inner \<Rightarrow> (if isinstance inner C_Exception then finish_with (building_failed inner) ra
         else ra\<lparr>ra_phase := Crashed\<rparr>)))"

definition failed_executor :: "data_converter \<Rightarrow> error_plan \<Rightarrow> exn list" where
  "failed_executor dc plan = (case plan of
     PlanUnhandled e \<Rightarrow> (case dc_encode_failure dc e of
       Inl _ \<Rightarrow> []
     | Inr _ \<Rightarrow> if isinstance e C_BrokenExecutor then [e] else [])
   | _ \<Rightarrow> [])"

subsection \<open>Heartbeats\<close>

definition MAX_PENDING_HEARTBEATS :: nat where
  "MAX_PENDING_HEARTBEATS = 1000"

text \<open>\<^verbatim>\<open>_heartbeat\<close>: queue the details and create a task, unless the activity is done.\<close>

definition heartbeat :: "string \<Rightarrow> pyval list \<Rightarrow> activity_worker \<Rightarrow> (exn + unit) \<times> activity_worker" where
  "heartbeat tok details w = (if tok \<notin> aw_running w then (Inr (), w)
     else case aw_objects w tok of
         None \<Rightarrow> (Inr (), w)
       | Some ra \<Rightarrow>
          (if ra_done ra then (Inr (), w)
           else if MAX_PENDING_HEARTBEATS \<le> length (ra_pending_heartbeats ra) then (Inl (new_exn C_QueueFull [] D_None), w)
           else (Inr (), (put_object tok (ra\<lparr>ra_pending_heartbeats := ra_pending_heartbeats ra @ [details],
               ra_last_heartbeat_task := Some (aw_next_task w)\<rparr>) w)
             \<lparr>aw_hb_tasks := (aw_hb_tasks w)(aw_next_task w \<mapsto> HbCreated tok), aw_next_task := aw_next_task w + 1\<rparr>)))"

text \<open>The first segment of \<^verbatim>\<open>_heartbeat_async\<close>: drain the queue and keep the last value.\<close>

definition heartbeat_begin :: "nat \<Rightarrow> string \<Rightarrow> running_activity \<Rightarrow> activity_worker \<Rightarrow> activity_worker" where
  "heartbeat_begin n tok ra w = (case ra_pending_heartbeats ra of
     [] \<Rightarrow> w\<lparr>aw_hb_tasks := (aw_hb_tasks w)(n := None)\<rparr>
   | hs \<Rightarrow> (put_object tok (ra\<lparr>ra_pending_heartbeats := []\<rparr>) w)\<lparr>aw_hb_tasks := (aw_hb_tasks w)(n \<mapsto> HbEncoding tok (last hs))\<rparr>)"

text \<open>The second segment: record the heartbeat, or cancel the activity because it failed.  \<open>recorded\<close> is the
  outcome of the call of the core.\<close>

definition heartbeat_encoded :: "data_converter \<Rightarrow> exn + unit \<Rightarrow> nat \<Rightarrow> string \<Rightarrow> pyval list \<Rightarrow> running_activity \<Rightarrow> activity_worker \<Rightarrow> activity_worker" where
  "heartbeat_encoded dc recorded n tok details ra w0 =
    (let w = w0\<lparr>aw_hb_tasks := (aw_hb_tasks w0)(n := None)\<rparr>;
         fail = (\<lambda>e. if \<not> isinstance e C_Exception then w
           else if ra_done ra then w else put_object tok (activity_cancel False (Some e) ra) w)
     in case (if details = [] then Inr [] else dc_encode dc details) of
          Inl e \<Rightarrow> fail e
        | Inr ps \<Rightarrow> (case recorded of
            Inl e \<Rightarrow> fail e
          | Inr _ \<Rightarrow> w\<lparr>aw_heartbeats := aw_heartbeats w @ [(tok, ps)]\<rparr>))"

subsection \<open>Shutting down\<close>

definition notify_shutdown :: "activity_worker \<Rightarrow> activity_worker" where
  "notify_shutdown w = w\<lparr>aw_shutdown_event := map_option (\<lambda>_. True) (aw_shutdown_event w)\<rparr>"

text \<open>\<^verbatim>\<open>drain_poll_queue\<close>: every task still polled is answered with a failure.\<close>

definition drain_poll_queue :: "string list \<Rightarrow> (string \<times> completion) list" where
  "drain_poll_queue toks = map (\<lambda>tok. (tok, Failed (Failure ''Worker shutting down'' [] None None None))) toks"

subsection \<open>Heartbeats from other processes\<close>

text \<open>\<^verbatim>\<open>_MultiprocessingSharedStateManager\<close>: a queue that the processes write to and a thread, the processor, that empties it.
  An entry is the details of a heartbeat, or nothing for the marker that a token is unregistered.  \<open>sm_processors\<close>
  is the number of processors that run; \<open>sm_delivered\<close> and \<open>sm_finished\<close> record the calls of heartbeat functions and the
  tokens whose unregistration was signalled.\<close>

record shared_manager =
  sm_queue :: "(string \<times> pyval list option) list"
  sm_heartbeats :: "string set"
  sm_completions :: "string set"
  sm_processors :: nat
  sm_delivered :: "(string \<times> pyval list) list"
  sm_finished :: "string list"

definition register_heartbeater :: "string \<Rightarrow> shared_manager \<Rightarrow> shared_manager" where
  "register_heartbeater tok m = (let hs = insert tok (sm_heartbeats m)
     in m\<lparr>sm_heartbeats := hs, sm_processors := (if card hs = 1 then sm_processors m + 1 else sm_processors m)\<rparr>)"

text \<open>Putting an entry fails when the queue stays full.\<close>

definition send_heartbeat :: "string \<Rightarrow> pyval list \<Rightarrow> shared_manager \<Rightarrow> shared_manager option" where
  "send_heartbeat tok details m = (if 1000 \<le> length (sm_queue m) then None
     else Some (m\<lparr>sm_queue := sm_queue m @ [(tok, Some details)]\<rparr>))"

definition unregister_heartbeater :: "string \<Rightarrow> shared_manager \<Rightarrow> shared_manager option" where
  "unregister_heartbeater tok m = (if 1000 \<le> length (sm_queue m) then None
     else Some (m\<lparr>sm_completions := insert tok (sm_completions m), sm_queue := sm_queue m @ [(tok, None)]\<rparr>))"

text \<open>One iteration of a processor; \<open>raises\<close> says that the heartbeat function raises.  Any exception ends the processor.\<close>

definition heartbeat_processor :: "bool \<Rightarrow> shared_manager \<Rightarrow> shared_manager" where
  "heartbeat_processor raises m = (if sm_heartbeats m = {} then m\<lparr>sm_processors := sm_processors m - 1\<rparr>
     else case sm_queue m of
         [] \<Rightarrow> m
       | (tok, None) # q \<Rightarrow>
          (if tok \<notin> sm_heartbeats m then m\<lparr>sm_queue := q, sm_processors := sm_processors m - 1\<rparr>
           else m\<lparr>sm_queue := q, sm_heartbeats := sm_heartbeats m - {tok},
             sm_finished := (if tok \<in> sm_completions m then sm_finished m @ [tok] else sm_finished m)\<rparr>)
       | (tok, Some details) # q \<Rightarrow>
          (if tok \<notin> sm_heartbeats m then m\<lparr>sm_queue := q\<rparr>
           else if raises then m\<lparr>sm_queue := q, sm_processors := sm_processors m - 1\<rparr>
           else m\<lparr>sm_queue := q, sm_delivered := sm_delivered m @ [(tok, details)]\<rparr>))"

end
