(* ===== verification/Activity_Spec.thy ===== *)
theory Activity_Spec
  imports Activity_Worker
begin

section \<open>Properties of the activity worker\<close>

text \<open>
  The steps of a worker in any order, with any behaviour of the activity functions, of the core and of the
  codec: every activity is answered at most once, the answer says cancelled only when the core asked for
  it, heartbeats are bounded and flushed, and exceptions are raised in a thread only outside its shields.
\<close>

subsection \<open>The steps of a worker\<close>

text \<open>A task resumes with what it awaited or, once it was cancelled, with the cancellation.  Tokens of start
  tasks are fresh.  What the activity function does is free.\<close>

inductive activity_step :: "data_converter \<Rightarrow> activity_worker \<Rightarrow> activity_worker \<Rightarrow> bool"
  for dc :: data_converter where
  started: "aw_objects w tok = None \<Longrightarrow> activity_step dc w (handle_start_activity_task tok start w)"
| cancel_requested: "activity_step dc w (handle_cancel_activity_task tok details w)"
| decoded: "aw_objects w tok = Some ra \<Longrightarrow> ra_phase ra = Decoding start defn \<Longrightarrow>
    activity_step dc w (put_object tok (input_decoded dc w tok start defn (ra\<lparr>ra_task_cancel := False\<rparr>)) w)"
| returned: "aw_objects w tok = Some ra \<Longrightarrow> ra_phase ra = Executing args \<Longrightarrow>
    activity_step dc w (put_object tok (activity_returned outcome (ra\<lparr>ra_task_cancel := False\<rparr>)) w)"
| encoded: "aw_objects w tok = Some ra \<Longrightarrow> ra_phase ra = EncodingResult v \<Longrightarrow>
    activity_step dc w (put_object tok (result_encoded dc v (ra\<lparr>ra_task_cancel := False\<rparr>)) w)"
| failed: "aw_objects w tok = Some ra \<Longrightarrow> ra_phase ra = EncodingFailure plan \<Longrightarrow>
    activity_step dc w ((put_object tok (failure_encoded dc plan (ra\<lparr>ra_task_cancel := False\<rparr>)) w)
      \<lparr>aw_fail_queue := aw_fail_queue w @ failed_executor dc plan\<rparr>)"
| cancelled_decoding: "aw_objects w tok = Some ra \<Longrightarrow> ra_task_cancel ra \<Longrightarrow> ra_phase ra = Decoding start defn \<Longrightarrow>
    activity_step dc w (put_object tok (task_cancelled ra) w)"
| cancelled_encoding: "aw_objects w tok = Some ra \<Longrightarrow> ra_task_cancel ra \<Longrightarrow> ra_phase ra = EncodingResult v \<Longrightarrow>
    activity_step dc w (put_object tok (task_cancelled ra) w)"
| cancelled_failing: "aw_objects w tok = Some ra \<Longrightarrow> ra_task_cancel ra \<Longrightarrow> ra_phase ra = EncodingFailure plan \<Longrightarrow>
    activity_step dc w (put_object tok (ra\<lparr>ra_task_cancel := False, ra_phase := Crashed\<rparr>) w)"
| drained: "aw_objects w tok = Some ra \<Longrightarrow> ra_phase ra = Draining c \<Longrightarrow>
    (\<And>n. ra_last_heartbeat_task ra = Some n \<Longrightarrow> aw_hb_tasks w n = None) \<Longrightarrow>
    activity_step dc w (put_object tok (ra\<lparr>ra_phase := Completing c\<rparr>) w)"
| completed: "aw_objects w tok = Some ra \<Longrightarrow> ra_phase ra = Completing c \<Longrightarrow>
    activity_step dc w ((put_object tok (ra\<lparr>ra_phase := Finished (Some c)\<rparr>) w)
      \<lparr>aw_running := aw_running w - {tok}, aw_completions := aw_completions w @ [(tok, c)]\<rparr>)"
| refused: "aw_objects w tok = Some ra \<Longrightarrow> ra_phase ra = Completing c \<Longrightarrow>
    activity_step dc w (put_object tok (ra\<lparr>ra_phase := Finished None\<rparr>) w)"
| heartbeats: "heartbeat tok details w = (r, w') \<Longrightarrow> activity_step dc w w'"
| heartbeat_begun: "aw_hb_tasks w n = Some (HbCreated tok) \<Longrightarrow> aw_objects w tok = Some ra \<Longrightarrow>
    activity_step dc w (heartbeat_begin n tok ra w)"
| heartbeat_ended: "aw_hb_tasks w n = Some (HbEncoding tok details) \<Longrightarrow> aw_objects w tok = Some ra \<Longrightarrow>
    activity_step dc w (heartbeat_encoded dc recorded n tok details ra w)"
| in_thread: "aw_objects w tok = Some ra \<Longrightarrow> ra_cancel_thread_raiser ra = Some r \<Longrightarrow>
    (r', raised) \<in> {(set_thread_id t r, []), (leave_thread t r, []), (enter_shield r, []), leave_shield r} \<Longrightarrow>
    activity_step dc w (put_object tok (ra\<lparr>ra_cancel_thread_raiser := Some r', ra_thread_raises := ra_thread_raises ra @ raised\<rparr>) w)"
| shutting_down: "activity_step dc w (notify_shutdown w)"

inductive activity_reachable :: "data_converter \<Rightarrow> activity_worker \<Rightarrow> bool" for dc :: data_converter where
  created: "activity_worker_init task_queue namespace exec manager encode_headers activities = Inr w \<Longrightarrow> activity_reachable dc w"
| stepped: "activity_reachable dc w \<Longrightarrow> activity_step dc w w' \<Longrightarrow> activity_reachable dc w'"

subsection \<open>The invariant of one activity\<close>

definition answers :: "string \<Rightarrow> activity_worker \<Rightarrow> completion list" where
  "answers tok w = map snd (filter (\<lambda>x. fst x = tok) (aw_completions w))"

fun plan_asked :: "error_plan \<Rightarrow> bool" where
  "plan_asked (PlanCancelled _) = True"
| "plan_asked _ = False"

fun completion_asked :: "completion \<Rightarrow> bool" where
  "completion_asked (Cancelled _) = True"
| "completion_asked _ = False"

text \<open>Which phases need that the core has asked for a cancellation.\<close>

fun phase_asked :: "phase \<Rightarrow> bool" where
  "phase_asked (EncodingFailure plan) = plan_asked plan"
| "phase_asked (Draining c) = completion_asked c"
| "phase_asked (Completing c) = completion_asked c"
| "phase_asked (Finished (Some c)) = completion_asked c"
| "phase_asked _ = False"

fun phase_done :: "phase \<Rightarrow> bool" where
  "phase_done (Draining _) = True"
| "phase_done (Completing _) = True"
| "phase_done (Finished _) = True"
| "phase_done _ = False"

fun phase_flushed :: "phase \<Rightarrow> bool" where
  "phase_flushed (Completing _) = True"
| "phase_flushed (Finished _) = True"
| "phase_flushed _ = False"

definition object_ok :: "running_activity \<Rightarrow> bool" where
  "object_ok ra \<longleftrightarrow> (phase_asked (ra_phase ra) \<or> ra_cancelled_by_request ra \<longrightarrow> ra_cancellation_details ra \<noteq> None) \<and>
     (ra_done ra \<longleftrightarrow> phase_done (ra_phase ra)) \<and> (ra_sync ra \<longrightarrow> \<not> ra_task_cancel ra) \<and>
     length (ra_pending_heartbeats ra) \<le> MAX_PENDING_HEARTBEATS \<and>
     (phase_flushed (ra_phase ra) \<longrightarrow> ra_pending_heartbeats ra = [])"

definition sent :: "phase \<Rightarrow> completion list" where
  "sent ph = (case ph of Finished (Some c) \<Rightarrow> [c] | _ \<Rightarrow> [])"

definition heartbeat_due :: "activity_worker \<Rightarrow> string \<Rightarrow> running_activity \<Rightarrow> bool" where
  "heartbeat_due w tok ra \<longleftrightarrow> (\<exists>n. ra_last_heartbeat_task ra = Some n \<and> aw_hb_tasks w n = Some (HbCreated tok))"

definition worker_inv :: "activity_worker \<Rightarrow> bool" where
  "worker_inv w \<longleftrightarrow> (\<forall>tok. aw_objects w tok = None \<longrightarrow> answers tok w = [] \<and> tok \<notin> aw_running w) \<and>
     (\<forall>tok ra. aw_objects w tok = Some ra \<longrightarrow> object_ok ra \<and> answers tok w = sent (ra_phase ra) \<and>
        (tok \<in> aw_running w \<longleftrightarrow> sent (ra_phase ra) = []) \<and> (ra_pending_heartbeats ra \<noteq> [] \<longrightarrow> heartbeat_due w tok ra)) \<and>
     (\<forall>n. aw_next_task w \<le> n \<longrightarrow> aw_hb_tasks w n = None)"

lemma worker_invD:
  assumes "worker_inv w" "aw_objects w tok = Some ra"
  shows "object_ok ra" "answers tok w = sent (ra_phase ra)" "tok \<in> aw_running w \<longleftrightarrow> sent (ra_phase ra) = []"
    "ra_pending_heartbeats ra \<noteq> [] \<Longrightarrow> heartbeat_due w tok ra"
  using assms unfolding worker_inv_def by blast+

text \<open>A step of a task that is not over: the invariant of the object is kept, nothing was sent, and the heartbeats are untouched.\<close>

definition moved :: "running_activity \<Rightarrow> running_activity \<Rightarrow> bool" where
  "moved ra ra' \<longleftrightarrow> object_ok ra' \<and> sent (ra_phase ra') = sent (ra_phase ra) \<and>
     ra_pending_heartbeats ra' = ra_pending_heartbeats ra \<and> ra_last_heartbeat_task ra' = ra_last_heartbeat_task ra"

abbreviation pending_phase :: "phase \<Rightarrow> bool" where
  "pending_phase ph \<equiv> \<not> phase_done ph"

lemma sent_pending: "pending_phase ph \<Longrightarrow> sent ph = []"
  by (cases ph) (simp_all add: sent_def)

lemma flushed_done: "phase_flushed ph \<Longrightarrow> phase_done ph"
  by (cases ph) simp_all

lemma moved_finish:
  assumes "object_ok ra" "pending_phase (ra_phase ra)" "completion_asked c \<longrightarrow> ra_cancellation_details ra \<noteq> None"
  shows "moved ra (finish_with c ra)"
  using assms by (simp add: moved_def finish_with_def object_ok_def sent_pending) (simp add: sent_def)

lemma moved_fail:
  assumes "object_ok ra" "pending_phase (ra_phase ra)"
  shows "moved ra (fail_activity e ra)"
proof (cases "plan_error ra e")
  case PlanAsync
  with moved_finish[OF assms] show ?thesis by (simp add: fail_activity_def)
next
  case (PlanCancelled x)
  then have "ra_cancelled_by_request ra" by (simp add: plan_error_def split: if_splits)
  with PlanCancelled assms show ?thesis by (simp add: moved_def fail_activity_def object_ok_def sent_pending)
qed (use assms in \<open>simp_all add: moved_def fail_activity_def object_ok_def sent_pending\<close>)

lemma moved_phase:
  assumes "object_ok ra" "pending_phase (ra_phase ra)" "pending_phase ph" "\<not> phase_asked ph"
  shows "moved ra (ra\<lparr>ra_info := i, ra_phase := ph\<rparr>)"
  using assms flushed_done[of ph] by (auto simp: moved_def object_ok_def sent_pending)

lemma moved_trans: "moved ra ra' \<Longrightarrow> moved ra' ra'' \<Longrightarrow> moved ra ra''"
  by (simp add: moved_def)

lemma moved_resume: "object_ok ra \<Longrightarrow> moved ra (ra\<lparr>ra_task_cancel := False\<rparr>)"
  by (simp add: moved_def object_ok_def)

lemma object_ok_moved: "moved ra ra' \<Longrightarrow> object_ok ra'"
  by (simp add: moved_def)

lemma moved_decoded:
  assumes "object_ok ra" "ra_phase ra = Decoding start defn"
  shows "moved ra (input_decoded dc w tok start defn ra)"
  using assms moved_fail[of ra] moved_phase[of ra _ "Some _"]
  by (auto simp: input_decoded_def split: sum.splits)

lemma moved_returned:
  assumes "object_ok ra" "ra_phase ra = Executing args"
  shows "moved ra (activity_returned outcome ra)"
  using assms moved_fail[of ra] moved_phase[of ra _ "ra_info ra"]
  by (auto simp: activity_returned_def split: sum.splits)

lemma moved_encoded:
  assumes "object_ok ra" "ra_phase ra = EncodingResult v"
  shows "moved ra (result_encoded dc v ra)"
  using assms moved_fail[of ra] moved_finish[of ra]
  by (auto simp: result_encoded_def split: sum.splits list.splits)

lemma moved_failed:
  assumes "object_ok ra" "ra_phase ra = EncodingFailure plan"
  shows "moved ra (failure_encoded dc plan ra)"
proof -
  have "completion_asked (plan_completion plan f) \<longrightarrow> ra_cancellation_details ra \<noteq> None" for f
    using assms by (cases plan) (simp_all add: object_ok_def)
  with assms moved_finish[of ra] moved_phase[of ra Crashed "ra_info ra"] show ?thesis
    by (auto simp: failure_encoded_def building_failed_def split: sum.splits option.splits)
qed

lemma moved_task_cancelled: "object_ok ra \<Longrightarrow> pending_phase (ra_phase ra) \<Longrightarrow> moved ra (task_cancelled ra)"
  unfolding task_cancelled_def
  by (rule moved_trans[OF moved_resume moved_fail]) (simp_all add: object_ok_def)

lemma moved_cancel:
  assumes "object_ok ra" "b \<longrightarrow> ra_cancellation_details ra \<noteq> None"
  shows "moved ra (activity_cancel b e ra)"
  using assms by (auto simp: moved_def activity_cancel_def object_ok_def Let_def split: option.splits prod.splits)

lemma worker_inv_put:
  assumes "worker_inv w" "aw_objects w tok = Some ra" "moved ra ra'"
  shows "worker_inv (put_object tok ra' w)"
  using assms by (auto simp: worker_inv_def put_object_def moved_def answers_def heartbeat_due_def)

lemma worker_inv_cong:
  assumes "worker_inv w" "aw_objects w' = aw_objects w" "aw_running w' = aw_running w" "aw_completions w' = aw_completions w"
    "aw_hb_tasks w' = aw_hb_tasks w" "aw_next_task w' = aw_next_task w"
  shows "worker_inv w'"
  using assms by (simp add: worker_inv_def answers_def heartbeat_due_def)

lemma worker_inv_hb_over:
  assumes "worker_inv w" "\<And>tok ra. aw_hb_tasks w n = Some (HbCreated tok) \<Longrightarrow> aw_objects w tok = Some ra \<Longrightarrow> ra_pending_heartbeats ra = []"
    "t = None \<or> (\<exists>tok d. t = Some (HbEncoding tok d))" "aw_hb_tasks w n \<noteq> None"
  shows "worker_inv (w\<lparr>aw_hb_tasks := (aw_hb_tasks w)(n := t)\<rparr>)"
proof -
  have "n < aw_next_task w" using assms(1,4) by (meson leI worker_inv_def)
  moreover have "heartbeat_due (w\<lparr>aw_hb_tasks := (aw_hb_tasks w)(n := t)\<rparr>) tok ra"
    if "aw_objects w tok = Some ra" "ra_pending_heartbeats ra \<noteq> []" for tok ra
  proof -
    from worker_invD(4)[OF assms(1) that] obtain m where m: "ra_last_heartbeat_task ra = Some m" "aw_hb_tasks w m = Some (HbCreated tok)"
      by (auto simp: heartbeat_due_def)
    with assms(2) that have "m \<noteq> n" by auto
    with m show ?thesis by (simp add: heartbeat_due_def)
  qed
  ultimately show ?thesis using assms(1) by (simp add: worker_inv_def answers_def)
qed

lemma worker_inv_start:
  assumes "worker_inv w" "aw_objects w tok = None"
  shows "worker_inv (handle_start_activity_task tok start w)"
proof -
  have new: "worker_inv (put_object tok ra w')"
    if "aw_objects w' = aw_objects w" "aw_running w' = insert tok (aw_running w)" "aw_completions w' = aw_completions w"
      "aw_hb_tasks w' = aw_hb_tasks w" "aw_next_task w' = aw_next_task w"
      "object_ok ra" "sent (ra_phase ra) = []" "ra_pending_heartbeats ra = []" for w' ra
    using that assms by (auto simp: worker_inv_def put_object_def answers_def heartbeat_due_def)
  show ?thesis
  proof (cases "find_activity (w\<lparr>aw_running := insert tok (aw_running w)\<rparr>) (as_activity_type start)")
    case None
    let ?ra = "new_running_activity Crashed"
    have "moved ?ra (fail_activity e ?ra)" for e
      by (rule moved_fail) (simp_all add: object_ok_def new_running_activity_def MAX_PENDING_HEARTBEATS_def)
    then have "object_ok (fail_activity e ?ra)" "sent (ra_phase (fail_activity e ?ra)) = []" "ra_pending_heartbeats (fail_activity e ?ra) = []" for e
      by (simp_all add: moved_def new_running_activity_def sent_def)
    with None show ?thesis unfolding handle_start_activity_task_def Let_def by (auto intro!: new)
  next
    case (Some defn)
    have "object_ok (setup_activity defn w1 (new_running_activity (Decoding start defn)))"
      "ra_phase (setup_activity defn w1 (new_running_activity (Decoding start defn))) = Decoding start defn"
      "ra_pending_heartbeats (setup_activity defn w1 (new_running_activity (Decoding start defn))) = []" for w1
      by (auto simp: object_ok_def new_running_activity_def setup_activity_def Let_def MAX_PENDING_HEARTBEATS_def)
    with Some show ?thesis unfolding handle_start_activity_task_def Let_def by (auto simp: sent_def intro!: new)
  qed
qed

lemma worker_inv_heartbeat:
  assumes "worker_inv w" "heartbeat tok details w = (r, w')"
  shows "worker_inv w'"
proof (cases "w' = w")
  case False
  then obtain ra where ra: "tok \<in> aw_running w" "aw_objects w tok = Some ra" "\<not> ra_done ra"
      "length (ra_pending_heartbeats ra) < MAX_PENDING_HEARTBEATS"
      "w' = (put_object tok (ra\<lparr>ra_pending_heartbeats := ra_pending_heartbeats ra @ [details], ra_last_heartbeat_task := Some (aw_next_task w)\<rparr>) w)
        \<lparr>aw_hb_tasks := (aw_hb_tasks w)(aw_next_task w \<mapsto> HbCreated tok), aw_next_task := aw_next_task w + 1\<rparr>"
    using assms(2) by (auto simp: heartbeat_def not_le split: if_splits option.splits)
  let ?ra = "ra\<lparr>ra_pending_heartbeats := ra_pending_heartbeats ra @ [details], ra_last_heartbeat_task := Some (aw_next_task w)\<rparr>"
  have ok: "object_ok ?ra"
    using worker_invD(1)[OF assms(1) ra(2)] ra(3,4) flushed_done[of "ra_phase ra"] by (auto simp: object_ok_def)
  have due: "heartbeat_due w' t x" if "t \<noteq> tok" "aw_objects w t = Some x" "ra_pending_heartbeats x \<noteq> []" for t x
  proof -
    from worker_invD(4)[OF assms(1) that(2,3)] obtain m where "ra_last_heartbeat_task x = Some m" "aw_hb_tasks w m = Some (HbCreated t)"
      by (auto simp: heartbeat_due_def)
    moreover from this have "m \<noteq> aw_next_task w" using assms(1) by (auto simp: worker_inv_def)
    ultimately show ?thesis by (simp add: heartbeat_due_def ra(5) put_object_def)
  qed
  have "heartbeat_due w' tok ?ra" by (simp add: heartbeat_due_def ra(5) put_object_def)
  with assms(1) ok due ra show ?thesis
    unfolding worker_inv_def by (auto simp: put_object_def answers_def split: if_splits)
qed (use assms(1) in simp)

lemma worker_inv_heartbeat_begin:
  assumes "worker_inv w" "aw_hb_tasks w n = Some (HbCreated tok)" "aw_objects w tok = Some ra"
  shows "worker_inv (heartbeat_begin n tok ra w)"
proof (cases "ra_pending_heartbeats ra")
  case Nil
  have "worker_inv (w\<lparr>aw_hb_tasks := (aw_hb_tasks w)(n := None)\<rparr>)"
    by (rule worker_inv_hb_over[OF assms(1)]) (use assms(2,3) Nil in auto)
  with Nil show ?thesis by (simp add: heartbeat_begin_def)
next
  case (Cons h hs)
  let ?w = "put_object tok (ra\<lparr>ra_pending_heartbeats := []\<rparr>) w"
  have "object_ok (ra\<lparr>ra_pending_heartbeats := []\<rparr>)" using worker_invD(1)[OF assms(1,3)] by (simp add: object_ok_def)
  then have "worker_inv ?w"
    using assms(1,3) by (auto simp: worker_inv_def put_object_def answers_def heartbeat_due_def)
  then have "worker_inv (?w\<lparr>aw_hb_tasks := (aw_hb_tasks ?w)(n \<mapsto> HbEncoding tok (last (h # hs)))\<rparr>)"
    by (rule worker_inv_hb_over) (use assms(2) in \<open>auto simp: put_object_def\<close>)
  with Cons show ?thesis by (simp add: heartbeat_begin_def put_object_def)
qed

lemma worker_inv_heartbeat_encoded:
  assumes "worker_inv w" "aw_hb_tasks w n = Some (HbEncoding tok details)" "aw_objects w tok = Some ra"
  shows "worker_inv (heartbeat_encoded dc recorded n tok details ra w)"
proof -
  let ?w = "w\<lparr>aw_hb_tasks := (aw_hb_tasks w)(n := None)\<rparr>"
  have w: "worker_inv ?w" by (rule worker_inv_hb_over[OF assms(1)]) (use assms(2) in auto)
  moreover have "worker_inv (put_object tok (activity_cancel False e ra) ?w)" for e
    by (rule worker_inv_put[OF w _ moved_cancel]) (use assms(3) worker_invD(1)[OF assms(1,3)] in simp_all)
  moreover have "worker_inv (?w\<lparr>aw_heartbeats := h\<rparr>)" for h by (rule worker_inv_cong[OF w]) simp_all
  ultimately show ?thesis
    by (simp add: heartbeat_encoded_def Let_def split: sum.split)
qed

lemma worker_inv_step:
  assumes "activity_step dc w w'" "worker_inv w"
  shows "worker_inv w'"
  using assms(1)
proof cases
  case (started tok start)
  with worker_inv_start[OF assms(2)] show ?thesis by simp
next
  case (cancel_requested tok details)
  show ?thesis
  proof (cases "aw_objects w tok")
    case (Some ra)
    let ?ra = "ra\<lparr>ra_cancellation_details := Some (details_from_proto details)\<rparr>"
    have "moved ra ?ra" using assms(2) Some by (auto simp: worker_inv_def moved_def object_ok_def)
    moreover have "moved ?ra (activity_cancel b None ?ra)" for b
      by (rule moved_cancel) (use object_ok_moved[OF \<open>moved ra ?ra\<close>] in simp_all)
    ultimately have "moved ra (activity_cancel b None ?ra)" for b by (blast intro: moved_trans)
    with worker_inv_put[OF assms(2) Some] Some assms(2) show ?thesis
      by (simp add: cancel_requested handle_cancel_activity_task_def)
  qed (use assms(2) in \<open>simp add: cancel_requested handle_cancel_activity_task_def\<close>)
next
  case (decoded tok ra start defn)
  have "moved ra (input_decoded dc w tok start defn (ra\<lparr>ra_task_cancel := False\<rparr>))"
    by (rule moved_trans[OF moved_resume moved_decoded]) (use decoded worker_invD(1)[OF assms(2)] object_ok_moved[OF moved_resume] in auto)
  with worker_inv_put[OF assms(2)] decoded show ?thesis by blast
next
  case (returned tok ra args outcome)
  have "moved ra (activity_returned outcome (ra\<lparr>ra_task_cancel := False\<rparr>))"
    by (rule moved_trans[OF moved_resume moved_returned]) (use returned worker_invD(1)[OF assms(2)] object_ok_moved[OF moved_resume] in auto)
  with worker_inv_put[OF assms(2)] returned show ?thesis by blast
next
  case (encoded tok ra v)
  have "moved ra (result_encoded dc v (ra\<lparr>ra_task_cancel := False\<rparr>))"
    by (rule moved_trans[OF moved_resume moved_encoded]) (use encoded worker_invD(1)[OF assms(2)] object_ok_moved[OF moved_resume] in auto)
  with worker_inv_put[OF assms(2)] encoded show ?thesis by blast
next
  case (failed tok ra plan)
  have "moved ra (failure_encoded dc plan (ra\<lparr>ra_task_cancel := False\<rparr>))"
    by (rule moved_trans[OF moved_resume moved_failed]) (use failed worker_invD(1)[OF assms(2)] object_ok_moved[OF moved_resume] in auto)
  from worker_inv_put[OF assms(2) failed(2) this] show ?thesis
    unfolding failed(1) by (rule worker_inv_cong) simp_all
next
  case (cancelled_decoding tok ra start defn)
  with worker_inv_put[OF assms(2)] moved_task_cancelled[of ra] worker_invD(1)[OF assms(2)] show ?thesis by auto
next
  case (cancelled_encoding tok ra v)
  with worker_inv_put[OF assms(2)] moved_task_cancelled[of ra] worker_invD(1)[OF assms(2)] show ?thesis by auto
next
  case (cancelled_failing tok ra plan)
  then have "moved ra (ra\<lparr>ra_task_cancel := False, ra_phase := Crashed\<rparr>)"
    using worker_invD(1)[OF assms(2)] by (auto simp: moved_def object_ok_def sent_def)
  with worker_inv_put[OF assms(2)] cancelled_failing show ?thesis by auto
next
  case (drained tok ra c)
  then have "ra_pending_heartbeats ra = []"
    using worker_invD(4)[OF assms(2) drained(2)] by (metis heartbeat_due_def option.distinct(1))
  then have "moved ra (ra\<lparr>ra_phase := Completing c\<rparr>)"
    using drained worker_invD(1)[OF assms(2)] by (auto simp: moved_def object_ok_def sent_def)
  with worker_inv_put[OF assms(2)] drained show ?thesis by auto
next
  case (completed tok ra c)
  have "object_ok (ra\<lparr>ra_phase := Finished (Some c)\<rparr>)" "ra_pending_heartbeats ra = []" "answers tok w = []"
    using completed worker_invD(1,2)[OF assms(2) completed(2)] by (auto simp: object_ok_def sent_def)
  with assms(2) show ?thesis
    by (auto simp: completed(1) worker_inv_def put_object_def answers_def heartbeat_due_def sent_def)
next
  case (refused tok ra c)
  then have "moved ra (ra\<lparr>ra_phase := Finished None\<rparr>)"
    using worker_invD(1)[OF assms(2)] by (auto simp: moved_def object_ok_def sent_def)
  with worker_inv_put[OF assms(2)] refused show ?thesis by auto
next
  case (heartbeats tok details r)
  with worker_inv_heartbeat[OF assms(2)] show ?thesis by simp
next
  case (heartbeat_begun n tok ra)
  with worker_inv_heartbeat_begin[OF assms(2)] show ?thesis by simp
next
  case (heartbeat_ended n tok details ra recorded)
  with worker_inv_heartbeat_encoded[OF assms(2)] show ?thesis by simp
next
  case (in_thread tok ra r r' raised t)
  then have "moved ra (ra\<lparr>ra_cancel_thread_raiser := Some r', ra_thread_raises := ra_thread_raises ra @ raised\<rparr>)"
    using worker_invD(1)[OF assms(2)] by (auto simp: moved_def object_ok_def)
  with worker_inv_put[OF assms(2)] in_thread show ?thesis by blast
next
  case shutting_down
  show ?thesis unfolding shutting_down by (rule worker_inv_cong[OF assms(2)]) (simp_all add: notify_shutdown_def)
qed

lemma register_keeps_inv: "register_activities exec manager as w = Inr w' \<Longrightarrow> worker_inv w \<Longrightarrow> worker_inv w'"
proof (induction exec manager as w rule: register_activities.induct)
  case (2 exec manager a rest w)
  have "worker_inv (w\<lparr>aw_activities := d\<rparr>)" "worker_inv (w\<lparr>aw_dynamic_activity := x\<rparr>)" for d x
    by (rule worker_inv_cong[OF "2.prems"(2)], simp_all)+
  with 2 show ?case by (auto split: sum.splits if_splits)
qed simp

lemma activity_reachable_inv: "activity_reachable dc w \<Longrightarrow> worker_inv w"
proof (induction rule: activity_reachable.induct)
  case (created task_queue namespace exec manager encode_headers activities w)
  then show ?case unfolding activity_worker_init_def
    by (rule register_keeps_inv) (simp add: worker_inv_def answers_def)
qed (blast intro: worker_inv_step)


text \<open>C32 Heartbeats are bounded and flushed.  In every reachable state at most 1000 heartbeats of an activity wait, and none
  waits any more when its completion is sent: the last heartbeat task has taken them.\<close>

theorem heartbeats_flushed:
  assumes "activity_reachable dc w" "aw_objects w tok = Some ra"
  shows "length (ra_pending_heartbeats ra) \<le> 1000 \<and> (phase_flushed (ra_phase ra) \<longrightarrow> ra_pending_heartbeats ra = [])"
  using worker_invD(1)[OF activity_reachable_inv[OF assms(1)] assms(2)] by (simp add: object_ok_def MAX_PENDING_HEARTBEATS_def)

subsection \<open>A cancellation that loses the answer\<close>

lemma crashed_stays:
  assumes "activity_step dc w w'" "aw_objects w tok = Some ra" "ra_phase ra = Crashed"
  shows "\<exists>ra'. aw_objects w' tok = Some ra' \<and> ra_phase ra' = Crashed"
  using assms
proof cases
  case (started t start)
  then have "t \<noteq> tok" using assms(2) by auto
  with started assms(2,3) show ?thesis
    by (auto simp: handle_start_activity_task_def put_object_def Let_def split: option.splits)
next
  case (cancel_requested t details)
  with assms(2,3) show ?thesis
    by (auto simp: handle_cancel_activity_task_def put_object_def activity_cancel_def Let_def split: option.splits prod.splits)
next
  case (heartbeats t details r)
  with assms(2,3) show ?thesis by (auto simp: heartbeat_def put_object_def split: if_splits option.splits)
next
  case (heartbeat_begun n t x)
  with assms(2,3) show ?thesis by (auto simp: heartbeat_begin_def put_object_def split: list.splits)
next
  case (heartbeat_ended n t details x recorded)
  with assms(2,3) show ?thesis
    by (auto simp: heartbeat_encoded_def put_object_def activity_cancel_def Let_def split: option.splits prod.splits sum.splits)
qed (use assms(2,3) in \<open>auto simp: put_object_def notify_shutdown_def\<close>)

definition never_answered :: "data_converter \<Rightarrow> string \<Rightarrow> activity_worker \<Rightarrow> bool" where
  "never_answered dc tok w \<longleftrightarrow> (\<forall>w'. (activity_step dc)\<^sup>*\<^sup>* w w' \<longrightarrow> answers tok w' = [])"

lemma crashed_never_answered:
  assumes "activity_reachable dc w" "aw_objects w tok = Some ra" "ra_phase ra = Crashed"
  shows "never_answered dc tok w"
proof -
  have "activity_reachable dc w' \<and> (\<exists>ra'. aw_objects w' tok = Some ra' \<and> ra_phase ra' = Crashed)"
    if "(activity_step dc)\<^sup>*\<^sup>* w w'" for w'
    using that
  proof induction
    case (step x y)
    with crashed_stays activity_reachable.stepped show ?case by blast
  qed (use assms in blast)
  then show ?thesis
    unfolding never_answered_def using worker_invD(2)[OF activity_reachable_inv] by (fastforce simp: sent_def)
qed

text \<open>C33 A cancellation can lose the answer.  When the task of an asynchronous activity is cancelled while the failure of
  the activity is being encoded, the cancellation escapes from the handler, which catches exceptions of class \<^verbatim>\<open>Exception\<close>
  only: from then on the activity stays registered and no completion is ever sent.\<close>

theorem cancelled_while_failing_is_lost:
  assumes "activity_reachable dc w" "aw_objects w tok = Some ra" "ra_task_cancel ra" "ra_phase ra = EncodingFailure plan"
  shows "\<exists>w'. activity_step dc w w' \<and> never_answered dc tok w' \<and> tok \<in> aw_running w'"
proof -
  let ?w = "put_object tok (ra\<lparr>ra_task_cancel := False, ra_phase := Crashed\<rparr>) w"
  have step: "activity_step dc w ?w" using assms(2-4) by (rule activity_step.cancelled_failing)
  then have "never_answered dc tok ?w"
    by (intro crashed_never_answered[OF activity_reachable.stepped[OF assms(1)],
          where ra = "ra\<lparr>ra_task_cancel := False, ra_phase := Crashed\<rparr>"]) (simp_all add: put_object_def)
  moreover have "tok \<in> aw_running ?w"
    using worker_invD(3)[OF activity_reachable_inv[OF assms(1)] assms(2)] assms(4) by (simp add: put_object_def sent_def)
  ultimately show ?thesis using step by blast
qed

subsection \<open>Raising in threads\<close>

datatype raiser_op = OpSetThread nat | OpLeaveThread nat | OpRaise pyclass | OpEnter | OpLeave

fun raiser_step :: "raiser_op \<Rightarrow> thread_raiser \<Rightarrow> thread_raiser \<times> (nat \<times> pyclass) list" where
  "raiser_step (OpSetThread t) r = (set_thread_id t r, [])"
| "raiser_step (OpLeaveThread t) r = (leave_thread t r, [])"
| "raiser_step (OpRaise c) r = raise_in_thread c r"
| "raiser_step OpEnter r = (enter_shield r, [])"
| "raiser_step OpLeave r = leave_shield r"

fun raiser_run :: "raiser_op list \<Rightarrow> thread_raiser \<Rightarrow> thread_raiser \<times> (nat \<times> pyclass) list" where
  "raiser_run [] r = (r, [])"
| "raiser_run (op # ops) r = (case raiser_step op r of (r1, es1) \<Rightarrow> case raiser_run ops r1 of (r2, es2) \<Rightarrow> (r2, es1 @ es2))"

lemma raiser_run_append: "raiser_run (ops @ ops') r =
    (case raiser_run ops r of (r1, es1) \<Rightarrow> case raiser_run ops' r1 of (r2, es2) \<Rightarrow> (r2, es1 @ es2))"
  by (induction ops arbitrary: r) (auto split: prod.splits)

definition pending_count :: "thread_raiser \<Rightarrow> nat" where
  "pending_count r = (if tr_pending r = None then 0 else 1)"

lemma raiser_step_count:
  "raiser_step op r = (r', es) \<Longrightarrow> length es + pending_count r' \<le> pending_count r + (if \<exists>c. op = OpRaise c then 1 else 0)"
  by (cases op) (auto simp: set_thread_id_def leave_thread_def raise_in_thread_def enter_shield_def leave_shield_def
      raise_if_pending_def pending_count_def split: option.splits if_splits)

lemma raiser_run_count:
  "raiser_run ops r = (r', es) \<Longrightarrow> length es + pending_count r' \<le> pending_count r + length (filter (\<lambda>op. \<exists>c. op = OpRaise c) ops)"
proof (induction ops arbitrary: r r' es)
  case (Cons op ops)
  obtain r1 es1 r2 es2 where s: "raiser_step op r = (r1, es1)" "raiser_run ops r1 = (r2, es2)" by fastforce
  with Cons.prems have "r' = r2" "es = es1 @ es2" by auto
  with raiser_step_count[OF s(1)] Cons.IH[OF s(2)] show ?case by auto
qed simp

lemma raiser_enter: "raiser_run (replicate k OpEnter) r = (r\<lparr>tr_shield_depth := tr_shield_depth r + int k\<rparr>, [])"
  by (induction k arbitrary: r) (simp_all add: enter_shield_def algebra_simps)

lemma raiser_leave: "tr_thread_id r = Some t \<Longrightarrow> tr_pending r = Some c \<Longrightarrow> int k < tr_shield_depth r \<Longrightarrow>
    raiser_run (replicate k OpLeave) r = (r\<lparr>tr_shield_depth := tr_shield_depth r - int k\<rparr>, [])"
  by (induction k arbitrary: r) (simp_all add: leave_shield_def raise_if_pending_def algebra_simps)

text \<open>C34 Exceptions in activity threads.  An exception is never raised more often than it was requested; inside \<open>Suc k\<close> nested
  shields a request raises nothing, also after leaving \<open>k\<close> of them, and leaving the outermost shield raises it in
  the thread of the activity.  A request that comes before the thread has started is not raised when it starts.\<close>

theorem thread_raiser_shields:
  "length (snd (raiser_run ops new_raiser)) \<le> length (filter (\<lambda>op. \<exists>c. op = OpRaise c) ops) \<and>
   snd (raiser_run (OpSetThread t # replicate (Suc k) OpEnter @ OpRaise c # replicate k OpLeave) new_raiser) = [] \<and>
   snd (raiser_run (OpSetThread t # replicate (Suc k) OpEnter @ OpRaise c # replicate k OpLeave @ [OpLeave]) new_raiser) = [(t, c)] \<and>
   snd (raiser_run [OpRaise c, OpSetThread t] new_raiser) = []"
proof -
  let ?r = "\<lparr>tr_thread_id = Some t, tr_pending = Some c, tr_shield_depth = int (Suc k)\<rparr>"
  have count: "length (snd (raiser_run ops new_raiser)) \<le> length (filter (\<lambda>op. \<exists>c. op = OpRaise c) ops)"
    using raiser_run_count[of ops new_raiser] by (cases "raiser_run ops new_raiser") (auto simp: pending_count_def new_raiser_def)
  have raised: "raiser_run (OpSetThread t # replicate (Suc k) OpEnter @ [OpRaise c]) new_raiser = (?r, [])"
    unfolding append_Cons raiser_run.simps(2) raiser_run_append raiser_enter
    by (simp add: new_raiser_def set_thread_id_def raise_in_thread_def raise_if_pending_def)
  have run: "raiser_run (OpSetThread t # replicate (Suc k) OpEnter @ OpRaise c # ops') new_raiser = raiser_run ops' ?r" for ops'
    using raiser_run_append[of "OpSetThread t # replicate (Suc k) OpEnter @ [OpRaise c]" ops' new_raiser] raised
    by (cases "raiser_run ops' ?r") simp
  have left: "raiser_run (replicate k OpLeave) ?r = (?r\<lparr>tr_shield_depth := 1\<rparr>, [])"
    using raiser_leave[of ?r t c k] by simp
  show ?thesis
  proof (intro conjI count)
    show "snd (raiser_run (OpSetThread t # replicate (Suc k) OpEnter @ OpRaise c # replicate k OpLeave) new_raiser) = []"
      by (simp only: run left snd_conv)
    show "snd (raiser_run (OpSetThread t # replicate (Suc k) OpEnter @ OpRaise c # replicate k OpLeave @ [OpLeave]) new_raiser) = [(t, c)]"
      by (simp only: run raiser_run_append left prod.case) (simp add: leave_shield_def raise_if_pending_def)
    show "snd (raiser_run [OpRaise c, OpSetThread t] new_raiser) = []"
      by (simp add: raise_in_thread_def raise_if_pending_def set_thread_id_def new_raiser_def)
  qed
qed

subsection \<open>Heartbeats from other processes\<close>

text \<open>A processor that is not disturbed delivers the heartbeats of a token that were sent before it is unregistered, in
  order, before it signals the end.\<close>

fun processor_run :: "nat \<Rightarrow> shared_manager \<Rightarrow> shared_manager" where
  "processor_run 0 m = m"
| "processor_run (Suc n) m = processor_run n (heartbeat_processor False m)"

lemma processor_flushes:
  assumes "sm_queue m = map (\<lambda>d. (tok, Some d)) ds @ (tok, None) # q" "tok \<in> sm_heartbeats m" "tok \<in> sm_completions m"
  shows "sm_delivered (processor_run (Suc (length ds)) m) = sm_delivered m @ map (Pair tok) ds \<and>
    sm_finished (processor_run (Suc (length ds)) m) = sm_finished m @ [tok]"
  using assms
proof (induction ds arbitrary: m)
  case Nil
  then show ?case by (auto simp: heartbeat_processor_def)
next
  case (Cons d ds)
  let ?m = "heartbeat_processor False m"
  from Cons.prems have m: "?m = m\<lparr>sm_queue := map (\<lambda>d. (tok, Some d)) ds @ (tok, None) # q, sm_delivered := sm_delivered m @ [(tok, d)]\<rparr>"
    by (auto simp: heartbeat_processor_def)
  from Cons.IH[of ?m] Cons.prems show ?case by (simp add: m)
qed

text \<open>After an exception in a heartbeat function no processor runs although tokens are registered, and
  registering a new token starts none.\<close>

lemma processor_dies:
  assumes "sm_queue m = (tok, Some d) # q" "tok \<in> sm_heartbeats m" "finite (sm_heartbeats m)" "sm_processors m = 1" "new \<notin> sm_heartbeats m"
  shows "sm_processors (register_heartbeater new (heartbeat_processor True m)) = 0 \<and>
    tok \<in> sm_heartbeats (register_heartbeater new (heartbeat_processor True m))"
proof -
  have "card (insert new (sm_heartbeats m)) \<noteq> 1" using assms(2,3,5) by (auto simp: card_eq_0_iff)
  with assms show ?thesis by (auto simp: heartbeat_processor_def register_heartbeater_def Let_def)
qed

subsection \<open>Concrete runs\<close>

definition ex_dc :: data_converter where
  "ex_dc = (let enc = (\<lambda>v. \<lparr>p_metadata = [], p_data = (case v of PStr x \<Rightarrow> x | _ \<Rightarrow> [])\<rparr>) in
     \<lparr>dc_encode = (\<lambda>vs. Inr (map enc vs)), dc_decode = (\<lambda>ps _. Inr (map (\<lambda>_. PNone) ps)),
      dc_encode_failure = (\<lambda>e. Inr (Failure (e_message e) [] None None None)), dc_inbound = Inr\<rparr>)"

definition sample_defn :: activity_defn where
  "sample_defn = \<lparr>ad_name = Some ''a'', ad_is_async = True, ad_arg_types = None, ad_no_thread_cancel = False\<rparr>"

definition sample_start :: activity_start where
  "sample_start = \<lparr>as_activity_id = ''1'', as_activity_type = ''a'', as_attempt = 1, as_input = [], as_heartbeat_details = [],
     as_heartbeat_timeout = None, as_schedule_to_close = None, as_start_to_close = None, as_current_scheduled_time = 0,
     as_scheduled_time = 0, as_started_time = 0, as_is_local = False, as_workflow_namespace = ''ns'', as_workflow_id = ''w'',
     as_workflow_run_id = ''r'', as_workflow_type = ''W'', as_priority = priority_to_proto priority_default,
     as_retry_policy = None, as_run_id = [], as_headers = []\<rparr>"

definition sample_cancel :: cancellation_proto where
  "sample_cancel = \<lparr>cp_not_found = False, cp_cancelled = True, cp_paused = False, cp_timed_out = False, cp_worker_shutdown = False, cp_reset = False\<rparr>"

text \<open>One activity at an await, with the heartbeat tasks and what was sent.\<close>

definition ex_worker :: "running_activity option \<Rightarrow> bool option \<Rightarrow> (nat \<Rightarrow> hb_task option) \<Rightarrow> nat \<Rightarrow> (string \<times> completion) list \<Rightarrow>
    (string \<times> payload list) list \<Rightarrow> bool \<Rightarrow> activity_worker" where
  "ex_worker obj ev hb n cs hs reg = \<lparr>aw_task_queue = ''q'', aw_namespace = ''ns'', aw_executor = None, aw_shared_state_manager = False,
     aw_encode_headers = False, aw_activities = [(''a'', sample_defn)], aw_dynamic_activity = None, aw_shutdown_event = ev,
     aw_seen_sync_activity = False, aw_fail_queue = [], aw_running = (if reg then {''t''} else {}),
     aw_objects = (\<lambda>x. if x = ''t'' then obj else None),
     aw_hb_tasks = hb, aw_next_task = n, aw_completions = cs, aw_heartbeats = hs\<rparr>"

definition sample_info :: activity_info where
  "sample_info = (case build_info (ex_worker None None (\<lambda>_. None) 0 [] [] False) ''t'' sample_start [] of Inr i \<Rightarrow> i)"

definition ex_running :: "phase \<Rightarrow> running_activity" where
  "ex_running ph = (new_running_activity ph)\<lparr>ra_cancelled_event := Some False\<rparr>"

lemma ex_created: "activity_reachable ex_dc (ex_worker None None (\<lambda>_. None) 0 [] [] False)"
  by (rule activity_reachable.created[of "''q''" "''ns''" None False False "[(sample_defn, False, True)]"])
    (simp add: activity_worker_init_def ex_worker_def sample_defn_def check_activity_def Let_def str_truthy_def dset_def dget_def)

lemma ex_started: "activity_reachable ex_dc (ex_worker (Some (ex_running (Decoding sample_start sample_defn))) (Some False) (\<lambda>_. None) 0 [] [] True)"
proof -
  have "activity_step ex_dc (ex_worker None None (\<lambda>_. None) 0 [] [] False)
      (handle_start_activity_task ''t'' sample_start (ex_worker None None (\<lambda>_. None) 0 [] [] False))"
    by (rule activity_step.started) (simp add: ex_worker_def)
  also have "handle_start_activity_task ''t'' sample_start (ex_worker None None (\<lambda>_. None) 0 [] [] False) =
      ex_worker (Some (ex_running (Decoding sample_start sample_defn))) (Some False) (\<lambda>_. None) 0 [] [] True"
    by (auto simp: handle_start_activity_task_def ex_worker_def find_activity_def sample_start_def dget_def put_object_def Let_def
        setup_activity_def ex_running_def sample_defn_def fun_eq_iff)
  finally show ?thesis by (rule activity_reachable.stepped[OF ex_created])
qed

lemma ex_step:
  assumes "activity_reachable ex_dc (ex_worker (Some ra) ev hb n cs hs True)"
    "activity_step ex_dc (ex_worker (Some ra) ev hb n cs hs True) w" "w = w'"
  shows "activity_reachable ex_dc w'"
  using activity_reachable.stepped[OF assms(1,2)] assms(3) by simp

lemma ex_put: "put_object ''t'' ra' (ex_worker (Some ra) ev hb n cs hs r) = ex_worker (Some ra') ev hb n cs hs r"
  by (auto simp: put_object_def ex_worker_def fun_eq_iff)

lemma ex_object [simp]: "aw_objects (ex_worker obj ev hb n cs hs r) ''t'' = obj" "aw_hb_tasks (ex_worker obj ev hb n cs hs r) = hb"
  "aw_next_task (ex_worker obj ev hb n cs hs r) = n" "''t'' \<in> aw_running (ex_worker obj ev hb n cs hs True)"
  "aw_fail_queue (ex_worker obj ev hb n cs hs r) = []"
  by (simp_all add: ex_worker_def)

definition ex_executing :: running_activity where
  "ex_executing = (ex_running (Executing []))\<lparr>ra_info := Some sample_info\<rparr>"

lemma ex_prepared: "prepare_input ex_dc (ex_worker obj ev hb n cs hs r) ''t'' sample_start sample_defn = Inr ([], sample_info)"
proof -
  have "priority_from_proto (as_priority sample_start) = Inr priority_default"
    by (simp add: sample_start_def priority_from_proto_def priority_to_proto_def priority_default_def priority_post_init_def)
  then have "build_info (ex_worker obj ev hb n cs hs r) ''t'' sample_start [] = Inr sample_info"
    by (simp add: build_info_def sample_info_def) (simp add: ex_worker_def)
  moreover have "decode_arguments ex_dc sample_defn sample_start = Inr []" "decode_heartbeat_details ex_dc sample_start = Inr []"
    by (simp_all add: decode_arguments_def decode_heartbeat_details_def sample_start_def sample_defn_def str_truthy_def)
  moreover have "\<not> aw_encode_headers (ex_worker obj ev hb n cs hs r)" by (simp add: ex_worker_def)
  ultimately show ?thesis by (simp add: prepare_input_def)
qed

lemma ex_runs: "activity_reachable ex_dc (ex_worker (Some ex_executing) (Some False) (\<lambda>_. None) 0 [] [] True)"
  by (rule ex_step[OF ex_started activity_step.decoded[of _ "''t''" "ex_running (Decoding sample_start sample_defn)" sample_start sample_defn]])
    (simp_all add: ex_put input_decoded_def ex_prepared ex_running_def new_running_activity_def ex_executing_def)

lemmas ex_segments = activity_returned_def fail_activity_def plan_error_def cancel_error_def result_encoded_def finish_with_def
  ex_executing_def ex_running_def new_running_activity_def isinstance_def ex_dc_def

text \<open>The function returns and the completion is sent.\<close>

lemma ex_finishes:
  assumes "activity_reachable ex_dc (ex_worker (Some ra) ev hb n [] hs True)" "ra_phase ra = Executing args"
    "\<And>m. ra_last_heartbeat_task ra = Some m \<Longrightarrow> hb m = None"
  shows "activity_reachable ex_dc (ex_worker (Some (ra\<lparr>ra_task_cancel := False, ra_done := True,
      ra_phase := Finished (Some (Completed \<lparr>p_metadata = [], p_data = ''5''\<rparr>))\<rparr>)) ev hb n
      [(''t'', Completed \<lparr>p_metadata = [], p_data = ''5''\<rparr>)] hs False)"
proof -
  let ?c = "Completed \<lparr>p_metadata = [], p_data = ''5''\<rparr>"
  have 1: "activity_reachable ex_dc (ex_worker (Some (ra\<lparr>ra_task_cancel := False, ra_phase := EncodingResult (PStr ''5'')\<rparr>)) ev hb n [] hs True)"
    by (rule ex_step[OF assms(1) activity_step.returned[of _ "''t''" ra args _ "Inr (PStr ''5'')"]])
      (simp_all add: assms(2) ex_put activity_returned_def)
  have 2: "activity_reachable ex_dc (ex_worker (Some (ra\<lparr>ra_task_cancel := False, ra_done := True, ra_phase := Draining ?c\<rparr>)) ev hb n [] hs True)"
    by (rule ex_step[OF 1 activity_step.encoded[of _ "''t''" "ra\<lparr>ra_task_cancel := False, ra_phase := EncodingResult (PStr ''5'')\<rparr>" "PStr ''5''"]])
      (simp_all add: ex_put result_encoded_def finish_with_def ex_dc_def)
  have 3: "activity_reachable ex_dc (ex_worker (Some (ra\<lparr>ra_task_cancel := False, ra_done := True, ra_phase := Completing ?c\<rparr>)) ev hb n [] hs True)"
    by (rule ex_step[OF 2 activity_step.drained[of _ "''t''" "ra\<lparr>ra_task_cancel := False, ra_done := True, ra_phase := Draining ?c\<rparr>" ?c]]) (simp_all add: ex_put assms(3))
  show ?thesis
    by (rule ex_step[OF 3 activity_step.completed[of _ "''t''" "ra\<lparr>ra_task_cancel := False, ra_done := True, ra_phase := Completing ?c\<rparr>" ?c]]) (simp_all add: ex_put, simp add: ex_worker_def)
qed


theorem heartbeats_flushed_witness:
  "\<exists>w ra. activity_reachable ex_dc w \<and> aw_objects w ''t'' = Some ra \<and> phase_flushed (ra_phase ra) \<and> ra_pending_heartbeats ra = []"
proof -
  from ex_finishes[OF ex_runs] obtain w ra where w: "activity_reachable ex_dc w" "aw_objects w ''t'' = Some ra" "phase_flushed (ra_phase ra)"
    by (fastforce simp: ex_executing_def ex_running_def new_running_activity_def)
  from heartbeats_flushed[OF w(1,2)] w show ?thesis by blast
qed

text \<open>The function fails, and while its failure is being encoded the core asks to cancel the activity.\<close>

theorem cancelled_while_failing_is_lost_witness:
  "\<exists>w w'. activity_reachable ex_dc w \<and> activity_step ex_dc w w' \<and> never_answered ex_dc ''t'' w' \<and> ''t'' \<in> aw_running w'"
proof -
  let ?e = "new_exn C_ValueError ''bad'' D_None"
  let ?ra = "ex_executing\<lparr>ra_task_cancel := False, ra_phase := EncodingFailure (PlanUnhandled ?e)\<rparr>"
  let ?ra' = "?ra\<lparr>ra_cancellation_details := Some (details_from_proto sample_cancel), ra_cancelled_by_request := True,
    ra_heartbeat_error := None, ra_cancelled_event := Some True, ra_task_cancel := True\<rparr>"
  have 1: "activity_reachable ex_dc (ex_worker (Some ?ra) (Some False) (\<lambda>_. None) 0 [] [] True)"
    by (rule ex_step[OF ex_runs activity_step.returned[of _ "''t''" ex_executing "[]" _ "Inl ?e"]])
      (simp_all add: ex_put ex_segments)
  have 2: "activity_reachable ex_dc (ex_worker (Some ?ra') (Some False) (\<lambda>_. None) 0 [] [] True)"
    by (rule ex_step[OF 1 activity_step.cancel_requested[of _ _ "''t''" sample_cancel]])
      (simp add: handle_cancel_activity_task_def activity_cancel_def ex_put ex_segments sample_cancel_def Let_def)
  from cancelled_while_failing_is_lost[OF 2, of "''t''" ?ra' "PlanUnhandled ?e"] 2 show ?thesis by auto
qed

text \<open>C35 Heartbeats can overtake each other and the completion.  Only the last heartbeat task is awaited before the
  completion is sent, and the tasks do not wait for each other: there is a run in which the codec is slow on a first
  heartbeat, a second one is recorded, the activity completes, and then the first, older details are recorded.\<close>

theorem heartbeat_overtaken:
  "\<exists>w. activity_reachable ex_dc w \<and> answers ''t'' w = [Completed \<lparr>p_metadata = [], p_data = ''5''\<rparr>] \<and>
     aw_hb_tasks w 0 = Some (HbEncoding ''t'' [PStr ''1'']) \<and> aw_heartbeats w = [(''t'', [\<lparr>p_metadata = [], p_data = ''2''\<rparr>])] \<and>
     (\<exists>w'. activity_step ex_dc w w' \<and>
       aw_heartbeats w' = [(''t'', [\<lparr>p_metadata = [], p_data = ''2''\<rparr>]), (''t'', [\<lparr>p_metadata = [], p_data = ''1''\<rparr>])])"
proof -
  let ?hb0 = "[0 \<mapsto> HbCreated ''t'']" and ?hb1 = "[0 \<mapsto> HbEncoding ''t'' [PStr ''1'']]"
  let ?hb2 = "[0 \<mapsto> HbEncoding ''t'' [PStr ''1''], 1 \<mapsto> HbCreated ''t'']"
    and ?hb3 = "[0 \<mapsto> HbEncoding ''t'' [PStr ''1''], 1 \<mapsto> HbEncoding ''t'' [PStr ''2'']]"
  let ?ra0 = "ex_executing\<lparr>ra_pending_heartbeats := [[PStr ''1'']], ra_last_heartbeat_task := Some 0\<rparr>"
  let ?ra1 = "ex_executing\<lparr>ra_last_heartbeat_task := Some 0\<rparr>"
  let ?ra2 = "ex_executing\<lparr>ra_pending_heartbeats := [[PStr ''2'']], ra_last_heartbeat_task := Some 1\<rparr>"
  let ?ra3 = "ex_executing\<lparr>ra_last_heartbeat_task := Some 1\<rparr>"
  let ?h2 = "(''t'', [\<lparr>p_metadata = [], p_data = ''2''\<rparr>])" and ?h1 = "(''t'', [\<lparr>p_metadata = [], p_data = ''1''\<rparr>])"
  have ra: "ra_pending_heartbeats ex_executing = []" "\<not> ra_done ex_executing" "ra_phase ex_executing = Executing []"
    by (simp_all add: ex_executing_def ex_running_def new_running_activity_def)
  have hb: "heartbeat ''t'' d (ex_worker (Some x) ev hb n cs hs True) = (Inr (), ex_worker (Some (x\<lparr>ra_pending_heartbeats := [d],
      ra_last_heartbeat_task := Some n\<rparr>)) ev (hb(n \<mapsto> HbCreated ''t'')) (n + 1) cs hs True)"
    if "ra_pending_heartbeats x = []" "\<not> ra_done x" for d x ev hb n cs hs
    using that by (simp add: heartbeat_def MAX_PENDING_HEARTBEATS_def ex_put) (simp add: ex_worker_def)
  have 1: "activity_reachable ex_dc (ex_worker (Some ?ra0) (Some False) ?hb0 1 [] [] True)"
    by (rule ex_step[OF ex_runs activity_step.heartbeats[OF hb[of ex_executing "[PStr ''1'']"]]]) (simp_all add: ra)
  have 2: "activity_reachable ex_dc (ex_worker (Some ?ra1) (Some False) ?hb1 1 [] [] True)"
    by (rule ex_step[OF 1 activity_step.heartbeat_begun[of _ 0 "''t''" ?ra0]])
      (simp_all add: heartbeat_begin_def ex_put, simp add: ex_worker_def ex_executing_def ex_running_def new_running_activity_def)
  have 3: "activity_reachable ex_dc (ex_worker (Some ?ra2) (Some False) ?hb2 2 [] [] True)"
    by (rule ex_step[OF 2 activity_step.heartbeats[OF hb[of ?ra1 "[PStr ''2'']"]]]) (simp_all add: ra numeral_2_eq_2)
  have 4: "activity_reachable ex_dc (ex_worker (Some ?ra3) (Some False) ?hb3 2 [] [] True)"
    by (rule ex_step[OF 3 activity_step.heartbeat_begun[of _ 1 "''t''" ?ra2]])
      (simp_all add: heartbeat_begin_def ex_put, simp add: ex_worker_def ex_executing_def ex_running_def new_running_activity_def)
  have 5: "activity_reachable ex_dc (ex_worker (Some ?ra3) (Some False) ?hb1 2 [] [?h2] True)"
    by (rule ex_step[OF 4 activity_step.heartbeat_ended[of _ 1 "''t''" "[PStr ''2'']" ?ra3 _ "Inr ()"]])
      (simp_all add: heartbeat_encoded_def ex_dc_def Let_def, simp add: ex_worker_def fun_eq_iff)
  let ?c = "Completed \<lparr>p_metadata = [], p_data = ''5''\<rparr>"
  let ?ra6 = "?ra3\<lparr>ra_task_cancel := False, ra_done := True, ra_phase := Finished (Some ?c)\<rparr>"
  let ?w6 = "ex_worker (Some ?ra6) (Some False) ?hb1 2 [(''t'', ?c)] [?h2] False"
  have 6: "activity_reachable ex_dc ?w6" by (rule ex_finishes[OF 5]) (simp_all add: ra)
  have "activity_step ex_dc ?w6 (heartbeat_encoded ex_dc (Inr ()) 0 ''t'' [PStr ''1''] ?ra6 ?w6)"
    by (rule activity_step.heartbeat_ended) simp_all
  moreover have "aw_heartbeats (heartbeat_encoded ex_dc (Inr ()) 0 ''t'' [PStr ''1''] ?ra6 ?w6) = [?h2, ?h1]"
    by (simp add: heartbeat_encoded_def ex_dc_def Let_def) (simp add: ex_worker_def)
  moreover have "answers ''t'' ?w6 = [?c]" "aw_heartbeats ?w6 = [?h2]" by (simp_all add: answers_def ex_worker_def)
  ultimately show ?thesis using 6 by (intro exI[of _ ?w6]) auto
qed

end
