(* ===== verification/Payload_Converter.thy ===== *)
theory Payload_Converter
  imports Py_Values
begin

section \<open>Payload converters\<close>

text \<open>
  \<^verbatim>\<open>converter/_payload_converter.py\<close>: the composite payload converter and its members for nothing, bytes, protobuf
  messages and JSON, the wrapper for transfer types, and \<^verbatim>\<open>value_to_type\<close>, which rebuilds typed values from
  what \<^verbatim>\<open>json.loads\<close> returns.

  Values are the datatype \<open>pyobj\<close>: a date is the text of its \<^verbatim>\<open>isoformat()\<close>, a UUID its text, a float the
  rational number it stands for, a set or a mapping the list of its elements or items in the order they
  were added, a dataclass instance its class and its field values, a protobuf message its type name and content.
  Type hints are the datatype \<open>hint\<close>; the dataclasses, which may refer to themselves, are found by name in the
  table \<open>classes\<close>.  The record \<open>pylib\<close> holds what the code calls in libraries: the text form of JSON values, the parsers
  of dates, UUIDs and numbers, and protobuf.  Pydantic models and the serialization context are not modelled.
\<close>

subsection \<open>Values, type hints, errors\<close>

datatype pyobj =
    ONone
  | OBool bool
  | OInt int
  | OFloat rat
  | OStr string
  | OBytes string
  | ODatetime string
  | OUuid string
  | OList "pyobj list"
  | OTuple "pyobj list"
  | OSet "pyobj list"
  | ODeque "pyobj list"
  | ODict "(pyobj \<times> pyobj) list"
  | OData string "(string \<times> pyobj) list"
  | OIntEnum string int
  | OStrEnum string string
  | OMessage string string
  | ORaw "payload option"

text \<open>A mapping hint has the types of its keys and values, absent for \<^verbatim>\<open>Any\<close>, type variables and bare classes.  An
  iterable has the type of its items, absent for bare classes, and the class built from them: sets and deques are
  rebuilt, every other class gives a list.  A tuple has the types of its items and may end in an ellipsis.\<close>

datatype iterable_class = ItSet | ItDeque | ItOther

datatype hint =
    HAny
  | HDatetime
  | HInt
  | HFloat
  | HBool
  | HStr
  | HBytes
  | HNone
  | HNewType hint
  | HLiteral "pyobj list"
  | HUnion "hint list"
  | HMapping "hint option" "hint option"
  | HTypedDict "(string \<times> hint) list"
  | HDataclass string
  | HIntEnum string "int list"
  | HStrEnum string "string list"
  | HUuid
  | HIterable iterable_class "hint option"
  | HTuple "hint list" bool
  | HRawValue
  | HOther string

datatype conv_error =
    TypeErr string
  | ValueErr string
  | KeyErr string
  | RuntimeErr string
  | AttributeErr string
  | JSONDecodeErr string
  | ParseErr string
  | OtherErr string

text \<open>A field of a dataclass: its name, its type and its default.\<close>

type_synonym classes = "string \<Rightarrow> (string \<times> hint \<times> pyobj option) list"

text \<open>A custom converter answers \<open>None\<close> for \<^verbatim>\<open>JSONTypeConverter.Unhandled\<close>.\<close>

type_synonym custom_converter = "hint \<Rightarrow> pyobj \<Rightarrow> conv_error + pyobj option"

record pylib =
  pl_dumps :: "pyobj \<Rightarrow> string"
  pl_loads :: "string \<Rightarrow> conv_error + pyobj"
  pl_isoparse :: "string \<Rightarrow> string option"
  pl_uuid :: "string \<Rightarrow> string option"
  pl_int_of_str :: "string \<Rightarrow> int option"
  pl_float_of_str :: "string \<Rightarrow> rat option"
  pl_str_of_float :: "rat \<Rightarrow> string"
  pl_float_of_int :: "int \<Rightarrow> rat"
  pl_message_to_json :: "string \<Rightarrow> string \<Rightarrow> string"
  pl_message_from_json :: "bool \<Rightarrow> string \<Rightarrow> string \<Rightarrow> conv_error + string"
  pl_message_serialize :: "string \<Rightarrow> string \<Rightarrow> string"
  pl_message_parse :: "string \<Rightarrow> string \<Rightarrow> conv_error + string"

subsection \<open>Loops over fallible functions\<close>

fun traverse :: "('a \<Rightarrow> 'e + 'b) \<Rightarrow> 'a list \<Rightarrow> 'e + 'b list" where
  "traverse f [] = Inr []"
| "traverse f (x # xs) = (case f x of Inl e \<Rightarrow> Inl e | Inr y \<Rightarrow> map_sum id (Cons y) (traverse f xs))"

fun first_success :: "('a \<Rightarrow> 'e + 'b) \<Rightarrow> 'a list \<Rightarrow> 'b option" where
  "first_success f [] = None"
| "first_success f (x # xs) = (case f x of Inl _ \<Rightarrow> first_success f xs | Inr y \<Rightarrow> Some y)"

text \<open>\<^verbatim>\<open>except Exception as err: raise TypeError(...) from err\<close>.\<close>

definition retype :: "string \<Rightarrow> conv_error + 'a \<Rightarrow> conv_error + 'a" where
  "retype m r = map_sum (\<lambda>_. TypeErr m) id r"

lemma traverse_cong [fundef_cong]:
  "xs = ys \<Longrightarrow> (\<And>x. x \<in> set ys \<Longrightarrow> f x = g x) \<Longrightarrow> traverse f xs = traverse g ys"
  by (induction ys arbitrary: xs) (auto split: sum.splits)

lemma first_success_cong [fundef_cong]:
  "xs = ys \<Longrightarrow> (\<And>x. x \<in> set ys \<Longrightarrow> f x = g x) \<Longrightarrow> first_success f xs = first_success g ys"
  by (induction ys arbitrary: xs) (auto split: sum.splits)

lemma traverse_map: "traverse f (map g xs) = traverse (\<lambda>x. f (g x)) xs"
  by (induction xs) (simp_all split: sum.split)

lemma traverse_Inr [simp]: "traverse (\<lambda>x. Inr (g x)) xs = Inr (map g xs)"
  by (induction xs) simp_all

declare option.case_cong [fundef_cong] sum.case_cong [fundef_cong]

subsection \<open>Conversions of \<^verbatim>\<open>value_to_type\<close> that do not recurse\<close>

text \<open>\<^verbatim>\<open>int(x)\<close> of a number truncates toward zero; a bool is an int.\<close>

definition trunc :: "rat \<Rightarrow> int" where
  "trunc r = (if 0 \<le> r then \<lfloor>r\<rfloor> else - \<lfloor>- r\<rfloor>)"

definition bool_int :: "bool \<Rightarrow> int" where
  "bool_int b = (if b then 1 else 0)"

fun to_int :: "pyobj \<Rightarrow> conv_error + pyobj" where
  "to_int (OInt i) = Inr (OInt i)"
| "to_int (OBool b) = Inr (OInt (bool_int b))"
| "to_int (OFloat r) = Inr (OInt (trunc r))"
| "to_int (OIntEnum _ i) = Inr (OInt i)"
| "to_int _ = Inl (TypeErr ''Expected value to be int|float'')"

fun to_float :: "pylib \<Rightarrow> pyobj \<Rightarrow> conv_error + pyobj" where
  "to_float lib (OInt i) = Inr (OFloat (pl_float_of_int lib i))"
| "to_float lib (OBool b) = Inr (OFloat (of_int (bool_int b)))"
| "to_float lib (OFloat r) = Inr (OFloat r)"
| "to_float lib (OIntEnum _ i) = Inr (OFloat (pl_float_of_int lib i))"
| "to_float lib _ = Inl (TypeErr ''Expected value to be int|float'')"

fun to_str :: "pyobj \<Rightarrow> conv_error + pyobj" where
  "to_str (OStr s) = Inr (OStr s)"
| "to_str (OStrEnum _ s) = Inr (OStr s)"
| "to_str _ = Inl (TypeErr ''Expected value to be str'')"

fun to_bool :: "pyobj \<Rightarrow> conv_error + pyobj" where
  "to_bool (OBool b) = Inr (OBool b)"
| "to_bool _ = Inl (TypeErr ''Expected value to be bool'')"

text \<open>\<^verbatim>\<open>bytes(x)\<close>: the items of a list must be numbers below 256, and a string needs an encoding.\<close>

fun byte_of :: "pyobj \<Rightarrow> conv_error + char" where
  "byte_of (OInt i) = (if 0 \<le> i \<and> i < 256 then Inr (char_of (nat i)) else Inl (ValueErr ''bytes must be in range(0, 256)''))"
| "byte_of (OBool b) = Inr (char_of (nat (bool_int b)))"
| "byte_of (OIntEnum _ i) = (if 0 \<le> i \<and> i < 256 then Inr (char_of (nat i)) else Inl (ValueErr ''bytes must be in range(0, 256)''))"
| "byte_of _ = Inl (TypeErr ''object cannot be interpreted as an integer'')"

fun to_bytes :: "pyobj \<Rightarrow> conv_error + pyobj" where
  "to_bytes (OBytes b) = Inr (OBytes b)"
| "to_bytes (OList xs) = map_sum id OBytes (traverse byte_of xs)"
| "to_bytes (OStr _) = Inl (TypeErr ''string argument without an encoding'')"
| "to_bytes _ = Inl (TypeErr ''Expected value to be bytes'')"

fun to_datetime :: "pylib \<Rightarrow> pyobj \<Rightarrow> conv_error + pyobj" where
  "to_datetime lib (OStr s) = (case pl_isoparse lib s of
     None \<Rightarrow> Inl (TypeErr ''Failed parsing datetime string'') | Some d \<Rightarrow> Inr (ODatetime d))"
| "to_datetime lib (ODatetime d) = Inr (ODatetime d)"
| "to_datetime lib _ = Inl (TypeErr ''Expected datetime or ISO8601 string'')"

definition to_none :: "pyobj \<Rightarrow> conv_error + pyobj" where
  "to_none v = (if v = ONone then Inr ONone else Inl (TypeErr ''Expected None''))"

definition int_enum_member :: "string \<Rightarrow> int list \<Rightarrow> int \<Rightarrow> conv_error + pyobj" where
  "int_enum_member name members i = (if i \<in> set members then Inr (OIntEnum name i) else Inl (ValueErr ''not a valid member''))"

fun to_int_enum :: "string \<Rightarrow> int list \<Rightarrow> pyobj \<Rightarrow> conv_error + pyobj" where
  "to_int_enum name members (OInt i) = int_enum_member name members i"
| "to_int_enum name members (OBool b) = int_enum_member name members (bool_int b)"
| "to_int_enum name members (OIntEnum _ i) = int_enum_member name members i"
| "to_int_enum name members _ = Inl (TypeErr ''Cannot convert to enum, value not an integer'')"

fun to_str_enum :: "string \<Rightarrow> string list \<Rightarrow> pyobj \<Rightarrow> conv_error + pyobj" where
  "to_str_enum name members (OStr s) = (if s \<in> set members then Inr (OStrEnum name s) else Inl (ValueErr ''not a valid member''))"
| "to_str_enum name members (OStrEnum _ s) = (if s \<in> set members then Inr (OStrEnum name s) else Inl (ValueErr ''not a valid member''))"
| "to_str_enum name members _ = Inl (TypeErr ''Cannot convert to enum, value not a string'')"

fun to_uuid :: "pylib \<Rightarrow> pyobj \<Rightarrow> conv_error + pyobj" where
  "to_uuid lib (OStr s) = (case pl_uuid lib s of
     None \<Rightarrow> Inl (ValueErr ''badly formed hexadecimal UUID string'') | Some u \<Rightarrow> Inr (OUuid u))"
| "to_uuid lib ONone = Inl (TypeErr ''one of the hex, bytes, bytes_le, fields, or int arguments must be given'')"
| "to_uuid lib _ = Inl (AttributeErr ''object has no attribute replace'')"

text \<open>\<^verbatim>\<open>value not in type_args\<close>: equality of scalars does not distinguish numbers of different classes.\<close>

fun num_of :: "pyobj \<Rightarrow> rat option" where
  "num_of (OBool b) = Some (of_int (bool_int b))"
| "num_of (OInt i) = Some (of_int i)"
| "num_of (OFloat r) = Some r"
| "num_of (OIntEnum _ i) = Some (of_int i)"
| "num_of _ = None"

fun text_of :: "pyobj \<Rightarrow> string option" where
  "text_of (OStr s) = Some s"
| "text_of (OStrEnum _ s) = Some s"
| "text_of _ = None"

definition scalar_eq :: "pyobj \<Rightarrow> pyobj \<Rightarrow> bool" where
  "scalar_eq a b \<longleftrightarrow> a = b \<or> (num_of a \<noteq> None \<and> num_of a = num_of b) \<or> (text_of a \<noteq> None \<and> text_of a = text_of b)"

definition to_literal :: "pyobj list \<Rightarrow> pyobj \<Rightarrow> conv_error + pyobj" where
  "to_literal args v = (if \<exists>a\<in>set args. scalar_eq a v then Inr v else Inl (TypeErr ''Value not in literal values''))"

text \<open>The keys of JSON objects are strings: a key of type int, float, bool or None is first read back from its text.\<close>

definition parse_key :: "pylib \<Rightarrow> hint \<Rightarrow> pyobj \<Rightarrow> conv_error + pyobj" where
  "parse_key lib kt k = (case k of OStr s \<Rightarrow>
      (if kt = HInt then (case pl_int_of_str lib s of None \<Rightarrow> Inl (ValueErr ''invalid literal for int()'') | Some i \<Rightarrow> Inr (OInt i))
       else if kt = HFloat then (case pl_float_of_str lib s of None \<Rightarrow> Inl (ValueErr ''could not convert string to float'') | Some r \<Rightarrow> Inr (OFloat r))
       else if kt = HBool then (if s = ''true'' then Inr (OBool True) else if s = ''false'' then Inr (OBool False) else Inl (KeyErr s))
       else if kt = HNone then (if s = ''null'' then Inr ONone else Inl (KeyErr s))
       else Inr k)
    | _ \<Rightarrow> Inr k)"

text \<open>\<^verbatim>\<open>isinstance(key_type, type) and isinstance(key, key_type)\<close>.\<close>

definition key_instance :: "hint \<Rightarrow> pyobj \<Rightarrow> bool" where
  "key_instance kt k = (case kt of
      HInt \<Rightarrow> (case k of OInt _ \<Rightarrow> True | OBool _ \<Rightarrow> True | OIntEnum _ _ \<Rightarrow> True | _ \<Rightarrow> False)
    | HFloat \<Rightarrow> (case k of OFloat _ \<Rightarrow> True | _ \<Rightarrow> False)
    | HBool \<Rightarrow> (case k of OBool _ \<Rightarrow> True | _ \<Rightarrow> False)
    | HNone \<Rightarrow> k = ONone
    | HStr \<Rightarrow> text_of k \<noteq> None
    | HBytes \<Rightarrow> (case k of OBytes _ \<Rightarrow> True | _ \<Rightarrow> False)
    | HDatetime \<Rightarrow> (case k of ODatetime _ \<Rightarrow> True | _ \<Rightarrow> False)
    | HUuid \<Rightarrow> (case k of OUuid _ \<Rightarrow> True | _ \<Rightarrow> False)
    | HIntEnum n _ \<Rightarrow> (case k of OIntEnum m _ \<Rightarrow> m = n | _ \<Rightarrow> False)
    | HStrEnum n _ \<Rightarrow> (case k of OStrEnum m _ \<Rightarrow> m = n | _ \<Rightarrow> False)
    | HDataclass n \<Rightarrow> (case k of OData m _ \<Rightarrow> m = n | _ \<Rightarrow> False)
    | _ \<Rightarrow> False)"

text \<open>\<^verbatim>\<open>hint(**field_values)\<close> of a dataclass: every field has a value or a default.\<close>

definition build_dataclass :: "classes \<Rightarrow> string \<Rightarrow> (string \<times> pyobj) list \<Rightarrow> conv_error + pyobj" where
  "build_dataclass cls name fvs = map_sum id (OData name) (traverse (\<lambda>(f, _, d). case map_of fvs f of
     Some v \<Rightarrow> Inr (f, v)
   | None \<Rightarrow> (case d of Some v \<Rightarrow> Inr (f, v) | None \<Rightarrow> Inl (TypeErr ''missing required argument''))) (cls name))"

text \<open>\<^verbatim>\<open>ret_dict[key] = value\<close> for each item, and the constructor of a typed dictionary, which takes keyword arguments.\<close>

definition dict_of :: "('k \<times> 'v) list \<Rightarrow> ('k \<times> 'v) list" where
  "dict_of kvs = fold (\<lambda>(k, v) d. dset k v d) kvs []"

definition build_typed_dict :: "(pyobj \<times> pyobj) list \<Rightarrow> conv_error + pyobj" where
  "build_typed_dict kvs = (if \<forall>(k, _)\<in>set kvs. text_of k \<noteq> None then Inr (ODict kvs) else Inl (TypeErr ''keywords must be strings''))"

fun iter_items :: "pyobj \<Rightarrow> pyobj list option" where
  "iter_items (OList xs) = Some xs"
| "iter_items (OTuple xs) = Some xs"
| "iter_items (OSet xs) = Some xs"
| "iter_items (ODeque xs) = Some xs"
| "iter_items (ODict kvs) = Some (map fst kvs)"
| "iter_items (OStr s) = Some (map (\<lambda>c. OStr [c]) s)"
| "iter_items (OStrEnum _ s) = Some (map (\<lambda>c. OStr [c]) s)"
| "iter_items (OBytes b) = Some (map (\<lambda>c. OInt (int (of_char c))) b)"
| "iter_items _ = None"

text \<open>\<^verbatim>\<open>set(ret_list)\<close> keeps one of equal elements and refuses elements that cannot be hashed.\<close>

fun hashable :: "pyobj \<Rightarrow> bool" where
  "hashable (OList _) = False"
| "hashable (OSet _) = False"
| "hashable (ODeque _) = False"
| "hashable (ODict _) = False"
| "hashable (OTuple xs) = (\<forall>x\<in>set xs. hashable x)"
| "hashable _ = True"

definition set_of :: "pyobj list \<Rightarrow> pyobj list" where
  "set_of xs = fold (\<lambda>x ys. if \<exists>y\<in>set ys. scalar_eq y x then ys else ys @ [x]) xs []"

fun build_iterable :: "iterable_class \<Rightarrow> pyobj list \<Rightarrow> conv_error + pyobj" where
  "build_iterable ItSet xs = (if \<forall>x\<in>set xs. hashable x then Inr (OSet (set_of xs)) else Inl (TypeErr ''unhashable type''))"
| "build_iterable ItDeque xs = Inr (ODeque xs)"
| "build_iterable ItOther xs = Inr (OList xs)"

fun try_converters :: "custom_converter list \<Rightarrow> hint \<Rightarrow> pyobj \<Rightarrow> conv_error + pyobj option" where
  "try_converters [] h v = Inr None"
| "try_converters (c # cs) h v = (case c h v of Inr None \<Rightarrow> try_converters cs h v | r \<Rightarrow> r)"

subsection \<open>\<^verbatim>\<open>value_to_type\<close>\<close>

text \<open>The nesting depth of a value, which bounds the recursion through dataclasses that refer to themselves.\<close>

fun depth :: "pyobj \<Rightarrow> nat" where
  "depth (OList xs) = Suc (Max (insert 0 (set (map depth xs))))"
| "depth (OTuple xs) = Suc (Max (insert 0 (set (map depth xs))))"
| "depth (OSet xs) = Suc (Max (insert 0 (set (map depth xs))))"
| "depth (ODeque xs) = Suc (Max (insert 0 (set (map depth xs))))"
| "depth (ODict kvs) = Suc (Max (insert 0 (set (map (\<lambda>(k, v). max (depth k) (depth v)) kvs))))"
| "depth _ = 0"

lemma depth_item: "x \<in> set xs \<Longrightarrow> depth x \<le> Max (insert 0 (depth ` set xs))"
  by (rule Max_ge) auto

lemma depth_dict:
  assumes "(k, v) \<in> set kvs"
  shows "depth k < depth (ODict kvs)" "depth v < depth (ODict kvs)"
proof -
  have "max (depth k) (depth v) \<le> Max (insert 0 ((\<lambda>(k, v). max (depth k) (depth v)) ` set kvs))"
    using assms by (intro Max_ge) (auto intro!: image_eqI[of _ _ "(k, v)"])
  then show "depth k < depth (ODict kvs)" "depth v < depth (ODict kvs)" by simp_all
qed

lemma depth_lookup: "map_of kvs k = Some v \<Longrightarrow> depth v < depth (ODict kvs)"
  by (blast dest: map_of_SomeD depth_dict(2))

lemma depth_iter_items: "iter_items v = Some xs \<Longrightarrow> x \<in> set xs \<Longrightarrow> depth x \<le> depth v"
proof (cases v)
  case (ODict kvs)
  assume "iter_items v = Some xs" "x \<in> set xs"
  with ODict obtain w where "(x, w) \<in> set kvs" by auto
  with ODict show ?thesis using depth_dict(1) by (simp add: less_imp_le del: depth.simps)
qed (auto dest: depth_item intro: le_SucI)

lemma depth_nth: "iter_items v = Some xs \<Longrightarrow> i < length xs \<Longrightarrow> \<not> depth (xs ! i) < depth v \<Longrightarrow> depth (xs ! i) = depth v"
  by (meson depth_iter_items nth_mem order_le_less)

declare depth.simps [simp del]

lemma size_member: "x \<in> set xs \<Longrightarrow> size x < Suc (size_list size xs)"
  by (simp add: size_list_estimation' less_Suc_eq_le)

function value_to_type :: "pylib \<Rightarrow> classes \<Rightarrow> custom_converter list \<Rightarrow> hint \<Rightarrow> pyobj \<Rightarrow> conv_error + pyobj" where
  "value_to_type lib cls cc hint value = (case try_converters cc hint value of
     Inl e \<Rightarrow> Inl e
   | Inr (Some v) \<Rightarrow> Inr v
   | Inr None \<Rightarrow> (case hint of
       HAny \<Rightarrow> Inr value
     | HDatetime \<Rightarrow> to_datetime lib value
     | HInt \<Rightarrow> to_int value
     | HFloat \<Rightarrow> to_float lib value
     | HBool \<Rightarrow> to_bool value
     | HStr \<Rightarrow> to_str value
     | HBytes \<Rightarrow> to_bytes value
     | HNone \<Rightarrow> to_none value
     | HNewType supertype \<Rightarrow> value_to_type lib cls cc supertype value
     | HLiteral args \<Rightarrow> to_literal args value
     | HUnion args \<Rightarrow> (case first_success (\<lambda>a. value_to_type lib cls cc a value) args of
         Some v \<Rightarrow> Inr v
       | None \<Rightarrow> Inl (TypeErr ''Failed converting to union''))
     | HMapping key_type value_type \<Rightarrow> (case value of
         ODict kvs \<Rightarrow> map_sum id (\<lambda>kvs'. ODict (dict_of kvs')) (traverse (\<lambda>(k, v).
           case (case key_type of None \<Rightarrow> Inr k | Some kt \<Rightarrow> retype ''Failed converting key'' (case parse_key lib kt k of
               Inl e \<Rightarrow> Inl e
             | Inr k' \<Rightarrow> if key_instance kt k' then Inr k' else if k' = k then value_to_type lib cls cc kt k else Inr k')) of
             Inl e \<Rightarrow> Inl e
           | Inr k' \<Rightarrow> (case value_type of None \<Rightarrow> Inr (k', v) | Some vt \<Rightarrow>
               retype ''Failed converting value'' (map_sum id (Pair k') (value_to_type lib cls cc vt v)))) kvs)
       | _ \<Rightarrow> Inl (TypeErr ''Expected mapping''))
     | HTypedDict types \<Rightarrow> (case value of
         ODict kvs \<Rightarrow> (case traverse (\<lambda>(k, v). case (case text_of k of None \<Rightarrow> None | Some n \<Rightarrow> map_of types n) of
             None \<Rightarrow> Inr (k, v)
           | Some vt \<Rightarrow> retype ''Failed converting value'' (map_sum id (Pair k) (value_to_type lib cls cc vt v))) kvs of
             Inl e \<Rightarrow> Inl e
           | Inr kvs' \<Rightarrow> build_typed_dict (dict_of kvs'))
       | _ \<Rightarrow> Inl (TypeErr ''Expected mapping''))
     | HDataclass name \<Rightarrow> (case value of
         ODict kvs \<Rightarrow> (case traverse (\<lambda>(f, h, _). case map_of kvs (OStr f) of
             None \<Rightarrow> Inr []
           | Some v \<Rightarrow> retype ''Failed converting field'' (map_sum id (\<lambda>v'. [(f, v')]) (value_to_type lib cls cc h v))) (cls name) of
             Inl e \<Rightarrow> Inl e
           | Inr fvs \<Rightarrow> build_dataclass cls name (concat fvs))
       | _ \<Rightarrow> Inl (TypeErr ''Cannot convert to dataclass''))
     | HIntEnum name members \<Rightarrow> to_int_enum name members value
     | HStrEnum name members \<Rightarrow> to_str_enum name members value
     | HUuid \<Rightarrow> to_uuid lib value
     | HIterable c item_type \<Rightarrow> (case iter_items value of
         None \<Rightarrow> Inl (TypeErr ''Expected iterable'')
       | Some xs \<Rightarrow> (case (case item_type of None \<Rightarrow> Inr xs
           | Some h \<Rightarrow> retype ''Failed converting index'' (traverse (\<lambda>x. value_to_type lib cls cc h x) xs)) of
             Inl e \<Rightarrow> Inl e
           | Inr ys \<Rightarrow> build_iterable c ys))
     | HTuple args ellipsis \<Rightarrow> (case iter_items value of
         None \<Rightarrow> Inl (TypeErr ''Expected iterable'')
       | Some xs \<Rightarrow> if args = [] then Inr (OTuple xs)
           else retype ''Failed converting index'' (map_sum id OTuple (traverse (\<lambda>(i, x).
             if i < length args then value_to_type lib cls cc (args ! i) x
             else if ellipsis then value_to_type lib cls cc (last args) x
             else Inl (TypeErr ''Expecting fewer values'')) (enumerate 0 xs))))
     | HRawValue \<Rightarrow> Inl (TypeErr ''Cannot convert to dataclass'')
     | HOther _ \<Rightarrow> Inl (TypeErr ''Unserializable type during conversion'')))"
  by pat_completeness auto

termination
proof (relation "measures [\<lambda>(_, _, _, _, v). depth v, \<lambda>(_, _, _, h, _). size h]", goal_cases)
  case 1
  then show ?case by simp
qed (auto simp: in_set_enumerate_eq intro: depth_dict depth_lookup size_member order.not_eq_order_implies_strict
  depth_nth dest: depth_iter_items)

declare value_to_type.simps [simp del]

subsection \<open>JSON\<close>

text \<open>\<^verbatim>\<open>AdvancedJSONEncoder.default\<close>, called for what \<^verbatim>\<open>json\<close> cannot encode.\<close>

definition encoder_default :: "pyobj \<Rightarrow> conv_error + pyobj" where
  "encoder_default obj = (case obj of
     ODatetime d \<Rightarrow> Inr (OStr d)
   | OData _ fvs \<Rightarrow> Inr (ODict (map (\<lambda>(f, v). (OStr f, v)) fvs))
   | OUuid u \<Rightarrow> Inr (OStr u)
   | _ \<Rightarrow> (case iter_items obj of Some xs \<Rightarrow> Inr (OList xs) | None \<Rightarrow> Inl (TypeErr ''Object is not JSON serializable'')))"

text \<open>\<^verbatim>\<open>json.dumps\<close> with \<^verbatim>\<open>sort_keys\<close>: the items of a dictionary are sorted by their keys, which must be comparable, and the keys
  are then written as strings.  \<open>json_form v\<close> is the JSON value that the text of \<open>v\<close> stands for.\<close>

definition key_less :: "pyobj \<Rightarrow> pyobj \<Rightarrow> bool" where
  "key_less a b = (case (text_of a, text_of b) of
     (Some s, Some t) \<Rightarrow> s < t
   | _ \<Rightarrow> (case (num_of a, num_of b) of (Some m, Some n) \<Rightarrow> m < n | _ \<Rightarrow> False))"

definition keys_comparable :: "pyobj list \<Rightarrow> bool" where
  "keys_comparable ks \<longleftrightarrow> length ks \<le> 1 \<or> (\<forall>k\<in>set ks. text_of k \<noteq> None) \<or> (\<forall>k\<in>set ks. num_of k \<noteq> None)"

fun insert_item :: "pyobj \<times> 'v \<Rightarrow> (pyobj \<times> 'v) list \<Rightarrow> (pyobj \<times> 'v) list" where
  "insert_item x [] = [x]"
| "insert_item x (y # ys) = (if key_less (fst y) (fst x) then y # insert_item x ys else x # y # ys)"

definition sort_items :: "(pyobj \<times> 'v) list \<Rightarrow> (pyobj \<times> 'v) list" where
  "sort_items kvs = foldr insert_item kvs []"

definition key_text :: "pylib \<Rightarrow> pyobj \<Rightarrow> conv_error + pyobj" where
  "key_text lib k = (case k of
     OStr s \<Rightarrow> Inr (OStr s)
   | OStrEnum _ s \<Rightarrow> Inr (OStr s)
   | OInt i \<Rightarrow> Inr (OStr (str_of_int i))
   | OIntEnum _ i \<Rightarrow> Inr (OStr (str_of_int i))
   | OFloat r \<Rightarrow> Inr (OStr (pl_str_of_float lib r))
   | OBool b \<Rightarrow> Inr (OStr (if b then ''true'' else ''false''))
   | ONone \<Rightarrow> Inr (OStr ''null'')
   | _ \<Rightarrow> Inl (TypeErr ''keys must be str, int, float, bool or None''))"

definition json_object :: "pylib \<Rightarrow> (pyobj \<times> pyobj) list \<Rightarrow> conv_error + pyobj" where
  "json_object lib kvs = (if \<not> keys_comparable (map fst kvs) then Inl (TypeErr ''not supported between instances'')
     else map_sum id (\<lambda>kvs'. ODict (dict_of kvs'))
       (traverse (\<lambda>(k, v). map_sum id (\<lambda>k'. (k', v)) (key_text lib k)) (sort_items kvs)))"

text \<open>Containers are encoded item by item; the values that \<open>encoder_default\<close> replaces are encoded in its place.\<close>

fun json_form :: "pylib \<Rightarrow> pyobj \<Rightarrow> conv_error + pyobj" where
  "json_form lib (OIntEnum _ i) = Inr (OInt i)"
| "json_form lib (OStrEnum _ s) = Inr (OStr s)"
| "json_form lib (OList xs) = map_sum id OList (traverse (json_form lib) xs)"
| "json_form lib (OTuple xs) = map_sum id OList (traverse (json_form lib) xs)"
| "json_form lib (OSet xs) = map_sum id OList (traverse (json_form lib) xs)"
| "json_form lib (ODeque xs) = map_sum id OList (traverse (json_form lib) xs)"
| "json_form lib (ODict kvs) = (case traverse (\<lambda>(k, v). map_sum id (Pair k) (json_form lib v)) kvs of
     Inl e \<Rightarrow> Inl e | Inr kvs' \<Rightarrow> json_object lib kvs')"
| "json_form lib (OData _ fvs) = (case traverse (\<lambda>(f, v). map_sum id (Pair (OStr f)) (json_form lib v)) fvs of
     Inl e \<Rightarrow> Inl e | Inr kvs' \<Rightarrow> json_object lib kvs')"
| "json_form lib (OBytes b) = Inr (OList (map (\<lambda>c. OInt (int (of_char c))) b))"
| "json_form lib (ODatetime d) = Inr (OStr d)"
| "json_form lib (OUuid u) = Inr (OStr u)"
| "json_form lib (OMessage _ _) = Inl (TypeErr ''Object is not JSON serializable'')"
| "json_form lib (ORaw _) = Inl (TypeErr ''Object is not JSON serializable'')"
| "json_form lib v = Inr v"

text \<open>The encoding of what \<open>encoder_default\<close> returns is the encoding of the value.\<close>

lemma json_form_default:
  assumes "encoder_default v = Inr v'" "\<And>n s. v \<noteq> OStrEnum n s" "\<And>s. v \<noteq> OStr s" "\<And>kvs. v \<noteq> ODict kvs"
  shows "json_form lib v = json_form lib v'"
  using assms by (cases v) (auto simp: encoder_default_def traverse_map split_def)

subsection \<open>The converters of single values\<close>

record encoding_converter =
  ec_encoding :: string
  ec_to_payload :: "pyobj \<Rightarrow> conv_error + payload option"
  ec_from_payload :: "payload \<Rightarrow> hint option \<Rightarrow> conv_error + pyobj"

definition metadata :: "string \<Rightarrow> string \<Rightarrow> payload \<Rightarrow> string" where
  "metadata k d p = (case map_of (p_metadata p) k of None \<Rightarrow> d | Some v \<Rightarrow> v)"

definition BinaryNull :: encoding_converter where
  "BinaryNull = \<lparr>ec_encoding = ''binary/null'',
     ec_to_payload = (\<lambda>v. Inr (if v = ONone then Some \<lparr>p_metadata = [(''encoding'', ''binary/null'')], p_data = []\<rparr> else None)),
     ec_from_payload = (\<lambda>p _. if p_data p \<noteq> [] then Inl (RuntimeErr ''Expected empty data set for binary/null'') else Inr ONone)\<rparr>"

definition BinaryPlain :: encoding_converter where
  "BinaryPlain = \<lparr>ec_encoding = ''binary/plain'',
     ec_to_payload = (\<lambda>v. Inr (case v of OBytes b \<Rightarrow> Some \<lparr>p_metadata = [(''encoding'', ''binary/plain'')], p_data = b\<rparr> | _ \<Rightarrow> None)),
     ec_from_payload = (\<lambda>p _. Inr (OBytes (p_data p)))\<rparr>"

text \<open>An unknown message type is a \<^verbatim>\<open>KeyError\<close> of the symbol database.\<close>

definition message_errors :: "string \<Rightarrow> conv_error + string \<Rightarrow> conv_error + pyobj" where
  "message_errors name r = (case r of
     Inr c \<Rightarrow> Inr (OMessage name c)
   | Inl (KeyErr _) \<Rightarrow> Inl (RuntimeErr (''Unknown Protobuf type '' @ name))
   | Inl (ParseErr _) \<Rightarrow> Inl (RuntimeErr ''Failed parsing'')
   | Inl e \<Rightarrow> Inl e)"

definition message_payload :: "string \<Rightarrow> (string \<Rightarrow> string \<Rightarrow> string) \<Rightarrow> pyobj \<Rightarrow> payload option" where
  "message_payload encoding text v = (case v of
     OMessage name c \<Rightarrow> Some \<lparr>p_metadata = [(''encoding'', encoding), (''messageType'', name)], p_data = text name c\<rparr>
   | _ \<Rightarrow> None)"

definition JSONProto :: "pylib \<Rightarrow> bool \<Rightarrow> encoding_converter" where
  "JSONProto lib ignore_unknown_fields = \<lparr>ec_encoding = ''json/protobuf'',
     ec_to_payload = (\<lambda>v. Inr (message_payload ''json/protobuf'' (pl_message_to_json lib) v)),
     ec_from_payload = (\<lambda>p _. let name = metadata ''messageType'' ''<unknown>'' p
       in message_errors name (pl_message_from_json lib ignore_unknown_fields name (p_data p)))\<rparr>"

definition BinaryProto :: "pylib \<Rightarrow> encoding_converter" where
  "BinaryProto lib = \<lparr>ec_encoding = ''binary/protobuf'',
     ec_to_payload = (\<lambda>v. Inr (message_payload ''binary/protobuf'' (pl_message_serialize lib) v)),
     ec_from_payload = (\<lambda>p _. let name = metadata ''messageType'' ''<unknown>'' p
       in message_errors name (pl_message_parse lib name (p_data p)))\<rparr>"

definition JSONPlain :: "pylib \<Rightarrow> classes \<Rightarrow> string \<Rightarrow> custom_converter list \<Rightarrow> encoding_converter" where
  "JSONPlain lib cls encoding cc = \<lparr>ec_encoding = encoding,
     ec_to_payload = (\<lambda>v. map_sum id (\<lambda>j. Some \<lparr>p_metadata = [(''encoding'', encoding)], p_data = pl_dumps lib j\<rparr>) (json_form lib v)),
     ec_from_payload = (\<lambda>p type_hint. case pl_loads lib (p_data p) of
         Inl (JSONDecodeErr _) \<Rightarrow> Inl (RuntimeErr ''Failed parsing'')
       | Inl e \<Rightarrow> Inl e
       | Inr v \<Rightarrow> (case type_hint of None \<Rightarrow> Inr v | Some h \<Rightarrow> value_to_type lib cls cc h v))\<rparr>"

subsection \<open>The composite converter\<close>

definition set_converters :: "encoding_converter list \<Rightarrow> (string, encoding_converter) dict" where
  "set_converters cs = dict_of (map (\<lambda>c. (ec_encoding c, c)) cs)"

fun first_payload :: "encoding_converter list \<Rightarrow> pyobj \<Rightarrow> conv_error + payload option" where
  "first_payload [] v = Inr None"
| "first_payload (c # cs) v = (case ec_to_payload c v of Inr None \<Rightarrow> first_payload cs v | r \<Rightarrow> r)"

definition value_payload :: "(string, encoding_converter) dict \<Rightarrow> pyobj \<Rightarrow> conv_error + payload" where
  "value_payload cs v = (case (case v of ORaw p \<Rightarrow> Inr p | _ \<Rightarrow> first_payload (dvalues cs) v) of
     Inl e \<Rightarrow> Inl e
   | Inr None \<Rightarrow> Inl (RuntimeErr ''Value has no known converter'')
   | Inr (Some p) \<Rightarrow> Inr p)"

definition composite_to_payloads :: "(string, encoding_converter) dict \<Rightarrow> pyobj list \<Rightarrow> conv_error + payload list" where
  "composite_to_payloads cs vs = traverse (value_payload cs) vs"

fun zip_longest :: "'a list \<Rightarrow> 'b list \<Rightarrow> ('a option \<times> 'b option) list" where
  "zip_longest [] [] = []"
| "zip_longest (x # xs) [] = (Some x, None) # zip_longest xs []"
| "zip_longest [] (y # ys) = (None, Some y) # zip_longest [] ys"
| "zip_longest (x # xs) (y # ys) = (Some x, Some y) # zip_longest xs ys"

definition payload_value :: "(string, encoding_converter) dict \<Rightarrow> payload option \<Rightarrow> hint option \<Rightarrow> conv_error + pyobj" where
  "payload_value cs p h = (if h = Some HRawValue then Inr (ORaw p) else (case p of
     None \<Rightarrow> Inl (AttributeErr ''NoneType object has no attribute metadata'')
   | Some q \<Rightarrow> (let encoding = metadata ''encoding'' ''<unknown>'' q
       in case dget cs encoding of
         None \<Rightarrow> Inl (KeyErr (''Unknown payload encoding '' @ encoding))
       | Some c \<Rightarrow> (case ec_from_payload c q h of
           Inl (RuntimeErr _) \<Rightarrow> Inl (RuntimeErr (''Payload with encoding '' @ encoding @ '' could not be converted''))
         | r \<Rightarrow> r))))"

definition composite_from_payloads :: "(string, encoding_converter) dict \<Rightarrow> payload list \<Rightarrow> hint option list option \<Rightarrow> conv_error + pyobj list" where
  "composite_from_payloads cs ps type_hints =
     traverse (\<lambda>(p, h). payload_value cs p (Option.bind h id)) (zip_longest ps (case type_hints of None \<Rightarrow> [] | Some hs \<Rightarrow> hs))"

definition default_converters :: "pylib \<Rightarrow> classes \<Rightarrow> (string, encoding_converter) dict" where
  "default_converters lib cls = set_converters
     [BinaryNull, BinaryPlain, JSONProto lib False, BinaryProto lib, JSONPlain lib cls ''json/plain'' []]"

subsection \<open>Transfer types\<close>

text \<open>The converters that user classes register: the one of a value's class, and for a type hint the transfer type and the
  function that rebuilds the value.\<close>

record transfer_types =
  tt_of_value :: "pyobj \<Rightarrow> (pyobj \<Rightarrow> conv_error + pyobj) option"
  tt_of_hint :: "hint \<Rightarrow> (hint option \<times> (pyobj \<Rightarrow> conv_error + pyobj)) option"

definition transfer_to_payloads :: "transfer_types \<Rightarrow> (pyobj list \<Rightarrow> conv_error + payload list) \<Rightarrow> pyobj list \<Rightarrow> conv_error + payload list" where
  "transfer_to_payloads tt inner vs = (case traverse (\<lambda>v. case tt_of_value tt v of None \<Rightarrow> Inr v | Some f \<Rightarrow> f v) vs of
     Inl e \<Rightarrow> Inl e | Inr ws \<Rightarrow> inner ws)"

definition transfer_from_payloads :: "transfer_types \<Rightarrow> (payload list \<Rightarrow> hint option list option \<Rightarrow> conv_error + pyobj list) \<Rightarrow>
    payload list \<Rightarrow> hint option list option \<Rightarrow> conv_error + pyobj list" where
  "transfer_from_payloads tt inner ps type_hints = (case type_hints of
     None \<Rightarrow> inner ps None
   | Some hs \<Rightarrow>
      (let converters = map (\<lambda>h. Option.bind h (tt_of_hint tt)) hs;
           inner_hints = map (\<lambda>(c, h). case c of Some (t, _) \<Rightarrow> t | None \<Rightarrow> h) (zip converters hs)
       in case inner ps (Some inner_hints) of
            Inl e \<Rightarrow> Inl e
          | Inr vs \<Rightarrow> traverse (\<lambda>(v, c). case c of Some (_, f) \<Rightarrow> f v | None \<Rightarrow> Inr v) (zip vs converters)))"

end
