(* ===== verification/Payload_Spec.thy ===== *)
theory Payload_Spec
  imports Payload_Converter "HOL-Library.Countable"
begin

section \<open>Typed values survive the payload converter\<close>

text \<open>
  The relation \<open>typed\<close> says which values a type hint describes well enough that they come back from JSON; the main
  lemma is by rule induction on it.  The composite converter rests on the contract of its members, the locale
  \<open>encoding_contract\<close>, which each of them interprets.
\<close>

subsection \<open>Loops and dictionaries\<close>

lemma traverse_ok:
  assumes "\<And>x. x \<in> set xs \<Longrightarrow> \<exists>y. f x = Inr y \<and> P x y"
  shows "\<exists>ys. traverse f xs = Inr ys \<and> list_all2 P xs ys"
  using assms
proof (induction xs)
  case (Cons x xs)
  then obtain y where "f x = Inr y" "P x y" by (meson list.set_intros(1))
  moreover from Cons obtain ys where "traverse f xs = Inr ys" "list_all2 P xs ys" by (meson list.set_intros(2))
  ultimately show ?case by simp
qed simp

lemma traverse_back: "list_all2 (\<lambda>x y. g y = Inr x) xs ys \<Longrightarrow> traverse g ys = Inr xs"
  by (induction rule: list_all2_induct) simp_all

lemma traverse_id: "(\<And>x. x \<in> set xs \<Longrightarrow> f x = Inr x) \<Longrightarrow> traverse f xs = Inr xs"
  by (induction xs) simp_all

lemma dict_of_snoc: "dict_of (kvs @ [(k, v)]) = dset k v (dict_of kvs)"
  by (simp add: dict_of_def)

lemma dict_of_distinct [simp]: "distinct (map fst kvs) \<Longrightarrow> dict_of kvs = kvs"
proof (induction kvs rule: rev_induct)
  case (snoc x kvs)
  obtain k v where x: "x = (k, v)" by fastforce
  have "AList.update k v kvs = kvs @ [(k, v)]" if "k \<notin> fst ` set kvs"
    using that by (induction kvs) auto
  with snoc x show ?case by (simp add: dict_of_snoc dset_def)
qed (simp add: dict_of_def)

lemma key_less_asym: "key_less a b \<Longrightarrow> \<not> key_less b a"
  by (auto simp: key_less_def split: option.splits)

lemma sort_items_sorted: "sorted_wrt key_less (map fst kvs) \<Longrightarrow> sort_items kvs = kvs"
proof (induction kvs)
  case (Cons x kvs)
  then have "insert_item x kvs = x # kvs"
    by (cases kvs) (auto dest: key_less_asym)
  with Cons show ?case by (simp add: sort_items_def)
qed (simp add: sort_items_def)

lemma mset_insert_item: "mset (insert_item x ys) = add_mset x (mset ys)"
  by (induction ys) auto

lemma mset_sort_items [simp]: "mset (sort_items kvs) = mset kvs"
  by (induction kvs) (simp_all add: sort_items_def mset_insert_item)

lemma set_sort_items [simp]: "set (sort_items kvs) = set kvs"
  by (metis mset_sort_items set_mset_mset)

lemma sorted_keys_distinct: "sorted_wrt key_less ks \<Longrightarrow> distinct ks"
  by (induction ks) (auto dest: key_less_asym)

subsection \<open>What the libraries promise\<close>

text \<open>The values that JSON text stands for, and those that are written without change.\<close>

fun json_value :: "pyobj \<Rightarrow> bool" where
  "json_value (OList xs) = (\<forall>x\<in>set xs. json_value x)"
| "json_value (ODict kvs) = (distinct (map fst kvs) \<and> (\<forall>(k, v)\<in>set kvs. (\<exists>s. k = OStr s) \<and> json_value v))"
| "json_value v = (v = ONone \<or> (\<exists>b. v = OBool b) \<or> (\<exists>i. v = OInt i) \<or> (\<exists>r. v = OFloat r) \<or> (\<exists>s. v = OStr s))"

fun plain :: "pyobj \<Rightarrow> bool" where
  "plain (OList xs) = (\<forall>x\<in>set xs. plain x)"
| "plain (ODict kvs) = (sorted_wrt key_less (map fst kvs) \<and> (\<forall>(k, v)\<in>set kvs. (\<exists>s. k = OStr s) \<and> plain v))"
| "plain v = json_value v"

text \<open>JSON text is read back; decimal numbers are parsed back; protobuf reads what it has written.\<close>

definition pylib_ok :: "pylib \<Rightarrow> bool" where
  "pylib_ok lib \<longleftrightarrow> (\<forall>j. json_value j \<longrightarrow> pl_loads lib (pl_dumps lib j) = Inr j) \<and>
     (\<forall>i. pl_int_of_str lib (str_of_int i) = Some i) \<and>
     (\<forall>r. pl_float_of_str lib (pl_str_of_float lib r) = Some r) \<and>
     (\<forall>b n c. pl_message_from_json lib b n (pl_message_to_json lib n c) = Inr c) \<and>
     (\<forall>n c. pl_message_parse lib n (pl_message_serialize lib n c) = Inr c)"

subsection \<open>Dictionaries in JSON\<close>

lemma json_object_text:
  assumes "\<And>k v. (k, v) \<in> set kvs \<Longrightarrow> \<exists>s. k = OStr s"
  shows "json_object lib kvs = Inr (ODict (dict_of (sort_items kvs)))"
proof -
  have "traverse (\<lambda>(k, v). map_sum id (\<lambda>k'. (k', v)) (key_text lib k)) (sort_items kvs) = Inr (sort_items kvs)"
    using assms by (intro traverse_id) (fastforce simp: key_text_def)
  moreover have "keys_comparable (map fst kvs)"
    using assms by (fastforce simp: keys_comparable_def)
  ultimately show ?thesis by (simp add: json_object_def)
qed

lemma distinct_sort_items [simp]: "distinct (map fst (sort_items kvs)) \<longleftrightarrow> distinct (map fst kvs)"
  by (metis mset_map mset_sort_items mset_eq_imp_distinct_iff)

lemma plain_json: "plain v \<Longrightarrow> json_form lib v = Inr v \<and> json_value v"
proof (induction v rule: plain.induct)
  case (1 xs)
  then show ?case by (auto simp: traverse_id)
next
  case (2 kvs)
  have "traverse (\<lambda>(k, v). map_sum id (Pair k) (json_form lib v)) kvs = Inr kvs"
    using 2 by (intro traverse_id) fastforce
  moreover have "json_object lib kvs = Inr (ODict kvs)"
    using 2 by (subst json_object_text) (auto simp: sort_items_sorted sorted_keys_distinct)
  moreover have "json_value (ODict kvs)"
    using 2 by (fastforce simp: sorted_keys_distinct)
  ultimately show ?case by simp
qed auto

subsection \<open>The cases of \<^verbatim>\<open>value_to_type\<close>\<close>

text \<open>One item of a mapping, and one item of a tuple.\<close>

definition convert_key :: "pylib \<Rightarrow> classes \<Rightarrow> hint \<Rightarrow> pyobj \<Rightarrow> conv_error + pyobj" where
  "convert_key lib cls kt k = retype ''Failed converting key'' (case parse_key lib kt k of
     Inl e \<Rightarrow> Inl e
   | Inr k' \<Rightarrow> if key_instance kt k' then Inr k' else if k' = k then value_to_type lib cls [] kt k else Inr k')"

definition convert_item :: "pylib \<Rightarrow> classes \<Rightarrow> hint option \<Rightarrow> hint option \<Rightarrow> pyobj \<times> pyobj \<Rightarrow> conv_error + pyobj \<times> pyobj" where
  "convert_item lib cls kt vt = (\<lambda>(k, v). case (case kt of None \<Rightarrow> Inr k | Some h \<Rightarrow> convert_key lib cls h k) of
     Inl e \<Rightarrow> Inl e
   | Inr k' \<Rightarrow> (case vt of None \<Rightarrow> Inr (k', v) | Some h \<Rightarrow>
       retype ''Failed converting value'' (map_sum id (Pair k') (value_to_type lib cls [] h v))))"

lemma vtt_scalars [simp]:
  "value_to_type lib cls [] HAny v = Inr v"
  "value_to_type lib cls [] HDatetime v = to_datetime lib v"
  "value_to_type lib cls [] HInt v = to_int v"
  "value_to_type lib cls [] HFloat v = to_float lib v"
  "value_to_type lib cls [] HBool v = to_bool v"
  "value_to_type lib cls [] HStr v = to_str v"
  "value_to_type lib cls [] HBytes v = to_bytes v"
  "value_to_type lib cls [] HNone v = to_none v"
  "value_to_type lib cls [] (HNewType h) v = value_to_type lib cls [] h v"
  "value_to_type lib cls [] (HLiteral args) v = to_literal args v"
  "value_to_type lib cls [] (HIntEnum n ms) v = to_int_enum n ms v"
  "value_to_type lib cls [] (HStrEnum n ss) v = to_str_enum n ss v"
  "value_to_type lib cls [] HUuid v = to_uuid lib v"
  by (subst value_to_type.simps, simp)+

lemma vtt_union: "value_to_type lib cls [] (HUnion hs) v = (case first_success (\<lambda>h. value_to_type lib cls [] h v) hs of
    Some w \<Rightarrow> Inr w | None \<Rightarrow> Inl (TypeErr ''Failed converting to union''))"
  by (subst value_to_type.simps) simp

lemma vtt_mapping: "value_to_type lib cls [] (HMapping kt vt) (ODict kvs) =
    map_sum id (\<lambda>kvs'. ODict (dict_of kvs')) (traverse (convert_item lib cls kt vt) kvs)"
  by (subst value_to_type.simps) (cases kt; simp add: convert_item_def convert_key_def split_def)

lemma vtt_typed_dict: "value_to_type lib cls [] (HTypedDict types) (ODict kvs) =
    (case traverse (\<lambda>(k, v). case (case text_of k of None \<Rightarrow> None | Some n \<Rightarrow> map_of types n) of
        None \<Rightarrow> Inr (k, v)
      | Some vt \<Rightarrow> retype ''Failed converting value'' (map_sum id (Pair k) (value_to_type lib cls [] vt v))) kvs of
       Inl e \<Rightarrow> Inl e
     | Inr kvs' \<Rightarrow> build_typed_dict (dict_of kvs'))"
  by (subst value_to_type.simps) simp

lemma vtt_dataclass: "value_to_type lib cls [] (HDataclass name) (ODict kvs) =
    (case traverse (\<lambda>(f, h, _). case map_of kvs (OStr f) of
        None \<Rightarrow> Inr []
      | Some v \<Rightarrow> retype ''Failed converting field'' (map_sum id (\<lambda>v'. [(f, v')]) (value_to_type lib cls [] h v))) (cls name) of
       Inl e \<Rightarrow> Inl e
     | Inr fvs \<Rightarrow> build_dataclass cls name (concat fvs))"
  by (subst value_to_type.simps) simp

lemma vtt_iterable: "value_to_type lib cls [] (HIterable c h) v = (case iter_items v of
    None \<Rightarrow> Inl (TypeErr ''Expected iterable'')
  | Some xs \<Rightarrow> (case (case h of None \<Rightarrow> Inr xs | Some h' \<Rightarrow> retype ''Failed converting index'' (traverse (value_to_type lib cls [] h') xs)) of
      Inl e \<Rightarrow> Inl e | Inr ys \<Rightarrow> build_iterable c ys))"
  by (subst value_to_type.simps) simp

lemma vtt_tuple: "args \<noteq> [] \<Longrightarrow> value_to_type lib cls [] (HTuple args ellipsis) (OList xs) =
    retype ''Failed converting index'' (map_sum id OTuple (traverse (\<lambda>(i, x).
      if i < length args then value_to_type lib cls [] (args ! i) x
      else if ellipsis then value_to_type lib cls [] (last args) x
      else Inl (TypeErr ''Expecting fewer values'')) (enumerate 0 xs)))"
  by (subst value_to_type.simps) simp

lemma retype_Inr [simp]: "retype m (Inr x) = Inr x"
  by (simp add: retype_def)

subsection \<open>Values that a type hint describes\<close>

definition typed_key :: "hint option \<Rightarrow> pyobj \<Rightarrow> bool" where
  "typed_key kt k \<longleftrightarrow> (kt = None \<or> kt = Some HStr) \<and> (\<exists>s. k = OStr s) \<or> kt = Some HInt \<and> (\<exists>i. k = OInt i) \<or>
     kt = Some HFloat \<and> (\<exists>r. k = OFloat r) \<or> kt = Some HBool \<and> (\<exists>b. k = OBool b) \<or> kt = Some HNone \<and> k = ONone \<or>
     (\<exists>n ss s. kt = Some (HStrEnum n ss) \<and> s \<in> set ss \<and> k = OStrEnum n s)"

text \<open>A dictionary is listed in the order of its keys, which is the order JSON gives them.  A value of a union must be refused by
  the alternatives before its own.  Values without a hint come back if they are plain JSON.\<close>

inductive typed :: "pylib \<Rightarrow> classes \<Rightarrow> hint \<Rightarrow> pyobj \<Rightarrow> bool" for lib :: pylib and cls :: classes where
  any: "plain v \<Longrightarrow> typed lib cls HAny v"
| datetime: "pl_isoparse lib d = Some d \<Longrightarrow> typed lib cls HDatetime (ODatetime d)"
| int: "typed lib cls HInt (OInt i)"
| float: "typed lib cls HFloat (OFloat r)"
| bool: "typed lib cls HBool (OBool b)"
| str: "typed lib cls HStr (OStr s)"
| bytes: "typed lib cls HBytes (OBytes b)"
| none: "typed lib cls HNone ONone"
| uuid: "pl_uuid lib u = Some u \<Longrightarrow> typed lib cls HUuid (OUuid u)"
| newtype: "typed lib cls h v \<Longrightarrow> typed lib cls (HNewType h) v"
| literal: "v \<in> set args \<Longrightarrow> plain v \<Longrightarrow> typed lib cls (HLiteral args) v"
| union: "n < length hs \<Longrightarrow> typed lib cls (hs ! n) v \<Longrightarrow>
    (\<And>m j. m < n \<Longrightarrow> json_form lib v = Inr j \<Longrightarrow> \<exists>e. value_to_type lib cls [] (hs ! m) j = Inl e) \<Longrightarrow> typed lib cls (HUnion hs) v"
| mapping: "sorted_wrt key_less (map fst kvs) \<Longrightarrow>
    (\<And>k v. (k, v) \<in> set kvs \<Longrightarrow> typed_key kt k \<and> (vt = None \<longrightarrow> plain v) \<and> (\<forall>h. vt = Some h \<longrightarrow> typed lib cls h v)) \<Longrightarrow>
    typed lib cls (HMapping kt vt) (ODict kvs)"
| typed_dict: "sorted_wrt key_less (map fst kvs) \<Longrightarrow>
    (\<And>k v. (k, v) \<in> set kvs \<Longrightarrow> \<exists>s. k = OStr s \<and> (map_of types s = None \<longrightarrow> plain v) \<and> (\<forall>h. map_of types s = Some h \<longrightarrow> typed lib cls h v)) \<Longrightarrow>
    typed lib cls (HTypedDict types) (ODict kvs)"
| dataclass: "map fst fvs = map fst (cls name) \<Longrightarrow> distinct (map fst fvs) \<Longrightarrow>
    (\<And>f v h d. (f, v) \<in> set fvs \<Longrightarrow> (f, h, d) \<in> set (cls name) \<Longrightarrow> typed lib cls h v) \<Longrightarrow>
    typed lib cls (HDataclass name) (OData name fvs)"
| int_enum: "i \<in> set ms \<Longrightarrow> typed lib cls (HIntEnum n ms) (OIntEnum n i)"
| str_enum: "s \<in> set ss \<Longrightarrow> typed lib cls (HStrEnum n ss) (OStrEnum n s)"
| list: "(\<And>x. x \<in> set xs \<Longrightarrow> (h = None \<longrightarrow> plain x) \<and> (\<forall>h'. h = Some h' \<longrightarrow> typed lib cls h' x)) \<Longrightarrow>
    typed lib cls (HIterable ItOther h) (OList xs)"
| deque: "(\<And>x. x \<in> set xs \<Longrightarrow> (h = None \<longrightarrow> plain x) \<and> (\<forall>h'. h = Some h' \<longrightarrow> typed lib cls h' x)) \<Longrightarrow>
    typed lib cls (HIterable ItDeque h) (ODeque xs)"
| set: "(\<And>x. x \<in> set xs \<Longrightarrow> (h = None \<longrightarrow> plain x) \<and> (\<forall>h'. h = Some h' \<longrightarrow> typed lib cls h' x)) \<Longrightarrow>
    \<forall>x\<in>set xs. hashable x \<Longrightarrow> set_of xs = xs \<Longrightarrow> typed lib cls (HIterable ItSet h) (OSet xs)"
| tuple: "args \<noteq> [] \<Longrightarrow> (length args < length xs \<longrightarrow> ellipsis) \<Longrightarrow>
    (\<And>i. i < length xs \<Longrightarrow> typed lib cls (if i < length args then args ! i else last args) (xs ! i)) \<Longrightarrow>
    typed lib cls (HTuple args ellipsis) (OTuple xs)"

text \<open>The round trip of one value.\<close>

definition returns :: "pylib \<Rightarrow> classes \<Rightarrow> hint option \<Rightarrow> pyobj \<Rightarrow> bool" where
  "returns lib cls h v \<longleftrightarrow> (\<exists>j. json_form lib v = Inr j \<and> json_value j \<and>
     (case h of None \<Rightarrow> Inr j | Some h' \<Rightarrow> value_to_type lib cls [] h' j) = Inr v)"

lemma typed_key_text:
  assumes "typed_key kt k" "pylib_ok lib"
  shows "\<exists>s. key_text lib k = Inr (OStr s) \<and> (case kt of None \<Rightarrow> Inr (OStr s) | Some h \<Rightarrow> convert_key lib cls h (OStr s)) = Inr k"
  using assms unfolding typed_key_def
  by (elim disjE conjE exE) (auto simp: key_text_def convert_key_def parse_key_def key_instance_def pylib_ok_def)

lemma typed_keys_inj:
  assumes "typed_key kt k" "typed_key kt k'" "pylib_ok lib" "key_text lib k = key_text lib k'"
  shows "k = k'"
  using typed_key_text[OF assms(1,3), of undefined] typed_key_text[OF assms(2,3), of undefined] assms(4) by auto

lemma typed_keys_comparable:
  assumes "sorted_wrt key_less ks" "\<And>k. k \<in> set ks \<Longrightarrow> typed_key kt k"
  shows "keys_comparable ks"
proof -
  consider "kt = Some HNone" | "\<forall>k\<in>set ks. text_of k \<noteq> None" | "\<forall>k\<in>set ks. num_of k \<noteq> None"
    using assms(2) by (cases "kt = None \<or> kt = Some HStr \<or> (\<exists>n ss. kt = Some (HStrEnum n ss))") (fastforce simp: typed_key_def)+
  then show ?thesis
  proof cases
    case 1
    then have all: "\<And>k. k \<in> set ks \<Longrightarrow> k = ONone" using assms(2) by (simp add: typed_key_def)
    have "\<not> key_less ONone ONone" by (simp add: key_less_def)
    then have "length ks \<le> 1"
      using assms(1) all[of "hd ks"] all[of "hd (tl ks)"] by (cases ks; cases "tl ks") auto
    then show ?thesis by (simp add: keys_comparable_def)
  qed (auto simp: keys_comparable_def)
qed

text \<open>The items of a dictionary through JSON and back, for any function that converts one item.\<close>

definition encode_item :: "pylib \<Rightarrow> pyobj \<times> pyobj \<Rightarrow> conv_error + pyobj \<times> pyobj" where
  "encode_item lib = (\<lambda>(k, v). map_sum id (Pair k) (json_form lib v))"

definition encode_key :: "pylib \<Rightarrow> pyobj \<times> pyobj \<Rightarrow> conv_error + pyobj \<times> pyobj" where
  "encode_key lib = (\<lambda>(k, v). map_sum id (\<lambda>k'. (k', v)) (key_text lib k))"

definition item_back :: "pylib \<Rightarrow> (pyobj \<times> pyobj \<Rightarrow> conv_error + pyobj \<times> pyobj) \<Rightarrow> pyobj \<times> pyobj \<Rightarrow> bool" where
  "item_back lib g = (\<lambda>(k, v). \<exists>j s. json_form lib v = Inr j \<and> json_value j \<and> key_text lib k = Inr (OStr s) \<and> g (OStr s, j) = Inr (k, v))"

lemma items_back:
  assumes "\<And>x. x \<in> set kvs \<Longrightarrow> item_back lib g x"
  shows "\<exists>kvs1 kvs2. traverse (encode_item lib) kvs = Inr kvs1 \<and> map fst kvs1 = map fst kvs \<and>
    traverse (encode_key lib) kvs1 = Inr kvs2 \<and> traverse g kvs2 = Inr kvs \<and>
    map (\<lambda>x. key_text lib (fst x)) kvs = map (\<lambda>x. Inr (fst x)) kvs2 \<and> (\<forall>(k, j)\<in>set kvs2. (\<exists>s. k = OStr s) \<and> json_value j)"
  using assms
proof (induction kvs)
  case (Cons x kvs)
  obtain k v where x: "x = (k, v)" by fastforce
  from Cons.prems[of x] obtain j s where
    "json_form lib v = Inr j" "json_value j" "key_text lib k = Inr (OStr s)" "g (OStr s, j) = Inr (k, v)"
    by (auto simp: item_back_def x)
  moreover from Cons obtain kvs1 kvs2 where
    "traverse (encode_item lib) kvs = Inr kvs1" "map fst kvs1 = map fst kvs"
    "traverse (encode_key lib) kvs1 = Inr kvs2" "traverse g kvs2 = Inr kvs"
    "map (\<lambda>x. key_text lib (fst x)) kvs = map (\<lambda>x. Inr (fst x)) kvs2" "\<forall>(k, j)\<in>set kvs2. (\<exists>s. k = OStr s) \<and> json_value j"
    by (meson list.set_intros(2))
  ultimately show ?case
    by (rule_tac x = "(k, j) # kvs1" in exI, rule_tac x = "(OStr s, j) # kvs2" in exI) (simp add: x encode_item_def[of lib, THEN fun_cong, of "(k, v)"] encode_key_def[of lib, THEN fun_cong, of "(k, j)"])
qed simp

lemma dict_back:
  assumes "sorted_wrt key_less (map fst kvs)" "keys_comparable (map fst kvs)" "\<And>x. x \<in> set kvs \<Longrightarrow> item_back lib g x"
    and inj: "\<And>k k'. k \<in> fst ` set kvs \<Longrightarrow> k' \<in> fst ` set kvs \<Longrightarrow> key_text lib k = key_text lib k' \<Longrightarrow> k = k'"
  shows "\<exists>kvs'. json_form lib (ODict kvs) = Inr (ODict kvs') \<and> json_value (ODict kvs') \<and> traverse g kvs' = Inr kvs"
proof -
  from items_back[OF assms(3)] obtain kvs1 kvs2 where
    k1: "traverse (encode_item lib) kvs = Inr kvs1" "map fst kvs1 = map fst kvs" and
    k2: "traverse (encode_key lib) kvs1 = Inr kvs2" "traverse g kvs2 = Inr kvs" and
    keys: "map (\<lambda>x. key_text lib (fst x)) kvs = map (\<lambda>x. Inr (fst x)) kvs2" and
    json: "\<forall>(k, j)\<in>set kvs2. (\<exists>s. k = OStr s) \<and> json_value j"
    by blast
  have "distinct (map (key_text lib) (map fst kvs))"
    using inj sorted_keys_distinct[OF assms(1)] by (subst distinct_map) (auto simp: inj_on_def)
  then have "distinct (map Inr (map fst kvs2) :: (conv_error + pyobj) list)" using keys by (simp add: comp_def)
  then have "distinct (map fst kvs2)" by (simp only: distinct_map)
  moreover have "sort_items kvs1 = kvs1" using assms(1) k1(2) by (intro sort_items_sorted) simp
  ultimately show ?thesis using k1 k2 json assms(2) by (intro exI[of _ kvs2]) (simp add: json_object_def flip: encode_item_def encode_key_def)
qed

lemma mapping_back:
  assumes "sorted_wrt key_less (map fst kvs)" "pylib_ok lib"
    "\<And>k v. (k, v) \<in> set kvs \<Longrightarrow> typed_key kt k \<and> returns lib cls vt v"
  shows "returns lib cls (Some (HMapping kt vt)) (ODict kvs)"
proof -
  have key: "typed_key kt k" if "k \<in> fst ` set kvs" for k using assms(3) that by fastforce
  have "item_back lib (convert_item lib cls kt vt) (k, v)" if kv: "(k, v) \<in> set kvs" for k v
  proof -
    from assms(3)[OF kv] typed_key_text[OF _ assms(2)] obtain s where
      s: "key_text lib k = Inr (OStr s)" "(case kt of None \<Rightarrow> Inr (OStr s) | Some h \<Rightarrow> convert_key lib cls h (OStr s)) = Inr k"
      by blast
    from assms(3)[OF kv] obtain j where
      j: "json_form lib v = Inr j" "json_value j" "(case vt of None \<Rightarrow> Inr j | Some h \<Rightarrow> value_to_type lib cls [] h j) = Inr v"
      by (auto simp: returns_def)
    have "convert_item lib cls kt vt (OStr s, j) = Inr (k, v)"
      using s(2) j(3) by (cases vt) (simp_all add: convert_item_def)
    with s(1) j(1,2) show ?thesis by (auto simp: item_back_def)
  qed
  then have items: "item_back lib (convert_item lib cls kt vt) x" if "x \<in> set kvs" for x using that by (cases x) simp
  have cmp: "keys_comparable (map fst kvs)" using typed_keys_comparable[OF assms(1), of kt] key by simp
  have inj: "k = k'" if "k \<in> fst ` set kvs" "k' \<in> fst ` set kvs" "key_text lib k = key_text lib k'" for k k'
    using typed_keys_inj[OF key[OF that(1)] key[OF that(2)] assms(2) that(3)] .
  from dict_back[OF assms(1) cmp items inj] obtain kvs' where
    "json_form lib (ODict kvs) = Inr (ODict kvs')" "json_value (ODict kvs')" "traverse (convert_item lib cls kt vt) kvs' = Inr kvs"
    by blast
  then show ?thesis
    unfolding returns_def by (intro exI[of _ "ODict kvs'"]) (simp add: vtt_mapping sorted_keys_distinct[OF assms(1)])
qed

lemma typed_dict_back:
  assumes "sorted_wrt key_less (map fst kvs)"
    "\<And>k v. (k, v) \<in> set kvs \<Longrightarrow> \<exists>s. k = OStr s \<and> returns lib cls (map_of types s) v"
  shows "returns lib cls (Some (HTypedDict types)) (ODict kvs)"
proof -
  let ?g = "\<lambda>(k, v). case (case text_of k of None \<Rightarrow> None | Some n \<Rightarrow> map_of types n) of
        None \<Rightarrow> Inr (k, v)
      | Some vt \<Rightarrow> retype ''Failed converting value'' (map_sum id (Pair k) (value_to_type lib cls [] vt v))"
  have keys: "\<exists>s. k = OStr s" if "k \<in> fst ` set kvs" for k using assms(2) that by fastforce
  have "item_back lib ?g (k, v)" if kv: "(k, v) \<in> set kvs" for k v
  proof -
    from assms(2)[OF kv] obtain s j where k: "k = OStr s" and
      j: "json_form lib v = Inr j" "json_value j" "(case map_of types s of None \<Rightarrow> Inr j | Some h \<Rightarrow> value_to_type lib cls [] h j) = Inr v"
      by (auto simp: returns_def)
    have "?g (OStr s, j) = Inr (k, v)"
      using k j(3) by (cases "map_of types s") simp_all
    with k j(1,2) show ?thesis by (auto simp: item_back_def key_text_def)
  qed
  then have items: "item_back lib ?g x" if "x \<in> set kvs" for x using that by (cases x) simp
  have cmp: "keys_comparable (map fst kvs)" using keys by (fastforce simp: keys_comparable_def)
  have inj: "k = k'" if "k \<in> fst ` set kvs" "k' \<in> fst ` set kvs" "key_text lib k = key_text lib k'" for k k'
    using keys[OF that(1)] keys[OF that(2)] that(3) by (auto simp: key_text_def)
  from dict_back[OF assms(1) cmp items inj] obtain kvs' where
    "json_form lib (ODict kvs) = Inr (ODict kvs')" "json_value (ODict kvs')" "traverse ?g kvs' = Inr kvs"
    by blast
  moreover have "build_typed_dict kvs = Inr (ODict kvs)" using keys by (force simp: build_typed_dict_def)
  ultimately show ?thesis
    unfolding returns_def by (intro exI[of _ "ODict kvs'"]) (simp add: vtt_typed_dict sorted_keys_distinct[OF assms(1)])
qed

lemma map_of_sort_items: "distinct (map fst kvs) \<Longrightarrow> map_of (sort_items kvs) = map_of kvs"
  by (metis distinct_sort_items map_of_inject_set set_sort_items)

lemma dataclass_back:
  assumes "map fst fvs = map fst (cls name)" "distinct (map fst fvs)"
    "\<And>f v h d. (f, v) \<in> set fvs \<Longrightarrow> (f, h, d) \<in> set (cls name) \<Longrightarrow> returns lib cls (Some h) v"
  shows "returns lib cls (Some (HDataclass name)) (OData name fvs)"
proof -
  have len: "length fvs = length (cls name)" using assms(1) by (metis length_map)
  have field: "\<exists>h d. cls name ! i = (fst (fvs ! i), h, d) \<and> returns lib cls (Some h) (snd (fvs ! i))" if "i < length fvs" for i
  proof -
    obtain f h d where c: "cls name ! i = (f, h, d)" by (cases "cls name ! i") auto
    moreover have "f = fst (fvs ! i)" using assms(1) that c len by (metis fst_conv nth_map)
    ultimately show ?thesis using assms(3)[of f "snd (fvs ! i)" h d] that len by (metis nth_mem prod.collapse)
  qed
  have "\<exists>j. json_form lib v = Inr j \<and> json_value j" if "(f, v) \<in> set fvs" for f v
    using that field by (metis in_set_conv_nth returns_def snd_conv)
  then have "\<exists>kvs. traverse (\<lambda>(f, v). map_sum id (Pair (OStr f)) (json_form lib v)) fvs = Inr kvs \<and>
      list_all2 (\<lambda>(f, v) (k, j). k = OStr f \<and> json_form lib v = Inr j \<and> json_value j) fvs kvs"
    by (intro traverse_ok) fastforce
  then obtain kvs where
    kvs: "traverse (\<lambda>(f, v). map_sum id (Pair (OStr f)) (json_form lib v)) fvs = Inr kvs"
      "list_all2 (\<lambda>(f, v) (k, j). k = OStr f \<and> json_form lib v = Inr j \<and> json_value j) fvs kvs"
    by blast
  then have nth: "length kvs = length fvs" "\<And>i. i < length fvs \<Longrightarrow> fst (kvs ! i) = OStr (fst (fvs ! i)) \<and>
      json_form lib (snd (fvs ! i)) = Inr (snd (kvs ! i)) \<and> json_value (snd (kvs ! i))"
    by (auto simp: list_all2_conv_all_nth split_beta)
  have "map fst kvs = map OStr (map fst fvs)" using nth by (auto intro: nth_equalityI)
  then have dist: "distinct (map fst kvs)" using assms(2) by (simp add: distinct_map inj_on_def del: map_map)
  have keyed: "\<exists>s. k = OStr s" "json_value j" if "(k, j) \<in> set kvs" for k j
    using that nth by (auto simp: in_set_conv_nth) (metis fst_conv, metis snd_conv)
  have form: "json_form lib (OData name fvs) = Inr (ODict (sort_items kvs))"
    using kvs(1) keyed(1) dist by (simp add: json_object_text)
  have "map_of (sort_items kvs) (OStr (fst (fvs ! i))) = Some (snd (kvs ! i))" if "i < length fvs" for i
    using that nth dist by (metis map_of_is_SomeI map_of_sort_items nth_mem prod.collapse)
  then have "traverse (\<lambda>(f, h, _). case map_of (sort_items kvs) (OStr f) of
        None \<Rightarrow> Inr []
      | Some v \<Rightarrow> retype ''Failed converting field'' (map_sum id (\<lambda>v'. [(f, v')]) (value_to_type lib cls [] h v))) (cls name) =
      Inr (map (\<lambda>x. [x]) fvs)"
    using field nth(2) len by (intro traverse_back) (fastforce simp: list_all2_conv_all_nth returns_def)
  moreover have "build_dataclass cls name fvs = Inr (OData name fvs)"
  proof -
    have "map_of fvs (fst (fvs ! i)) = Some (snd (fvs ! i))" if "i < length fvs" for i
      using that assms(2) by (metis map_of_is_SomeI nth_mem prod.collapse)
    then have "traverse (\<lambda>(f, _, d). case map_of fvs f of Some v \<Rightarrow> Inr (f, v)
        | None \<Rightarrow> (case d of Some v \<Rightarrow> Inr (f, v) | None \<Rightarrow> Inl (TypeErr ''missing required argument''))) (cls name) = Inr fvs"
      using field len by (intro traverse_back) (fastforce simp: list_all2_conv_all_nth)
    then show ?thesis by (simp add: build_dataclass_def)
  qed
  moreover have "json_value (ODict (sort_items kvs))" using keyed dist by auto
  ultimately show ?thesis using form
    unfolding returns_def by (intro exI[of _ "ODict (sort_items kvs)"]) (simp add: vtt_dataclass)
qed

text \<open>The items of a list through JSON and back.\<close>

lemma list_back:
  assumes "\<And>i. i < length xs \<Longrightarrow> \<exists>j. json_form lib (xs ! i) = Inr j \<and> json_value j \<and> g (i, j) = Inr (xs ! i)"
  shows "\<exists>js. traverse (json_form lib) xs = Inr js \<and> (\<forall>j\<in>set js. json_value j) \<and> traverse g (enumerate 0 js) = Inr xs"
proof -
  from assms obtain f where f: "json_form lib (xs ! i) = Inr (f i) \<and> json_value (f i) \<and> g (i, f i) = Inr (xs ! i)" if "i < length xs" for i
    by metis
  let ?js = "map f [0..<length xs]"
  have "traverse (json_form lib) (map (\<lambda>i. xs ! i) [0..<length xs]) = Inr ?js"
    unfolding traverse_map using f by (intro traverse_back) (simp add: list_all2_conv_all_nth)
  moreover have "traverse g (enumerate 0 ?js) = Inr xs"
    using f by (intro traverse_back) (simp add: list_all2_conv_all_nth nth_enumerate_eq)
  ultimately show ?thesis using f by (intro exI[of _ ?js]) (auto simp: map_nth)
qed

lemma items_return:
  assumes "\<And>x. x \<in> set xs \<Longrightarrow> returns lib cls h x"
  shows "\<exists>js. traverse (json_form lib) xs = Inr js \<and> (\<forall>j\<in>set js. json_value j) \<and>
    (case h of None \<Rightarrow> Inr js | Some h' \<Rightarrow> retype ''Failed converting index'' (traverse (value_to_type lib cls [] h') js)) = Inr xs"
proof -
  let ?g = "\<lambda>j. case h of None \<Rightarrow> Inr j | Some h' \<Rightarrow> value_to_type lib cls [] h' j"
  from assms have "\<exists>js. traverse (json_form lib) xs = Inr js \<and> list_all2 (\<lambda>x j. json_value j \<and> ?g j = Inr x) xs js"
    by (intro traverse_ok) (auto simp: returns_def)
  then obtain js where js: "traverse (json_form lib) xs = Inr js" "list_all2 (\<lambda>x j. json_value j \<and> ?g j = Inr x) xs js" by blast
  have "traverse ?g js = Inr xs" using js(2) by (intro traverse_back) (simp add: list_all2_conv_all_nth)
  moreover have "\<forall>j\<in>set js. json_value j" using js(2) by (auto simp: list_all2_conv_all_nth in_set_conv_nth)
  ultimately show ?thesis using js(1) by (cases h) auto
qed

lemma iterable_back:
  assumes "\<And>x. x \<in> set xs \<Longrightarrow> returns lib cls h x" "build_iterable c xs = Inr v" "json_form lib v = map_sum id OList (traverse (json_form lib) xs)"
  shows "returns lib cls (Some (HIterable c h)) v"
proof -
  from items_return[of xs, OF assms(1)] obtain js where
    "traverse (json_form lib) xs = Inr js" "\<forall>j\<in>set js. json_value j"
    "(case h of None \<Rightarrow> Inr js | Some h' \<Rightarrow> retype ''Failed converting index'' (traverse (value_to_type lib cls [] h') js)) = Inr xs"
    by blast
  then show ?thesis using assms(2,3) by (simp add: returns_def vtt_iterable)
qed

lemma tuple_back:
  assumes "args \<noteq> []" "length args < length xs \<longrightarrow> ellipsis"
    "\<And>i. i < length xs \<Longrightarrow> returns lib cls (Some (if i < length args then args ! i else last args)) (xs ! i)"
  shows "returns lib cls (Some (HTuple args ellipsis)) (OTuple xs)"
proof -
  let ?g = "\<lambda>(i, x). if i < length args then value_to_type lib cls [] (args ! i) x
      else if ellipsis then value_to_type lib cls [] (last args) x else Inl (TypeErr ''Expecting fewer values'')"
  have "\<exists>j. json_form lib (xs ! i) = Inr j \<and> json_value j \<and> ?g (i, j) = Inr (xs ! i)" if "i < length xs" for i
    using assms(2) assms(3)[OF that] that by (auto simp: returns_def)
  from list_back[of xs, OF this] obtain js where
    "traverse (json_form lib) xs = Inr js" "\<forall>j\<in>set js. json_value j" "traverse ?g (enumerate 0 js) = Inr xs" by blast
  then show ?thesis by (auto simp: returns_def vtt_tuple[OF assms(1)])
qed

lemma first_success_nth:
  assumes "n < length hs" "f (hs ! n) = Inr v" "\<And>m. m < n \<Longrightarrow> \<exists>e. f (hs ! m) = Inl e"
  shows "first_success f hs = Some v"
  using assms
proof (induction hs arbitrary: n)
  case (Cons h hs)
  show ?case
  proof (cases n)
    case 0
    with Cons.prems show ?thesis by simp
  next
    case (Suc m)
    have "\<exists>e. f h = Inl e" using Cons.prems(3)[of 0] Suc by simp
    moreover have "\<exists>e. f (hs ! k) = Inl e" if "k < m" for k using Cons.prems(3)[of "Suc k"] that Suc by simp
    then have "first_success f hs = Some v" using Cons.prems Suc by (intro Cons.IH[of m]) simp_all
    ultimately show ?thesis by auto
  qed
qed simp

lemma bytes_back: "traverse byte_of (map (\<lambda>c. OInt (int (of_char c))) b) = Inr b"
  by (induction b) simp_all

lemma plain_returns: "plain v \<Longrightarrow> returns lib cls None v"
  using plain_json by (auto simp: returns_def)

lemma typed_returns:
  assumes "typed lib cls h v" "pylib_ok lib"
  shows "returns lib cls (Some h) v"
  using assms(1)
proof induction
  case (any v)
  then show ?case using plain_json by (auto simp: returns_def)
next
  case (literal v args)
  then show ?case using plain_json by (auto simp: returns_def to_literal_def scalar_eq_def)
next
  case (union n hs v)
  then obtain j where j: "json_form lib v = Inr j" "json_value j" "value_to_type lib cls [] (hs ! n) j = Inr v"
    by (auto simp: returns_def)
  have "first_success (\<lambda>h. value_to_type lib cls [] h j) hs = Some v"
    using union(1,3) j by (intro first_success_nth) auto
  with j show ?case by (simp add: returns_def vtt_union)
next
  case (mapping kvs kt vt)
  then show ?case using assms(2) by (intro mapping_back) (cases vt; fastforce intro: plain_returns)+
next
  case (typed_dict kvs types)
  show ?case
  proof (intro typed_dict_back typed_dict(1))
    fix k v
    assume "(k, v) \<in> set kvs"
    from typed_dict(2)[OF this] show "\<exists>s. k = OStr s \<and> returns lib cls (map_of types s) v"
      by (metis (no_types, lifting) not_Some_eq plain_returns)
  qed
next
  case (dataclass fvs name)
  then show ?case by (intro dataclass_back) blast+
next
  case (list xs h)
  then show ?case by (intro iterable_back[of xs]) (cases h; fastforce intro: plain_returns)+
next
  case (deque xs h)
  then show ?case by (intro iterable_back[of xs]) (cases h; fastforce intro: plain_returns)+
next
  case (set xs h)
  then show ?case by (intro iterable_back[of xs]) (cases h; fastforce intro: plain_returns)+
next
  case (tuple args xs ellipsis)
  then show ?case by (intro tuple_back) blast+
qed (auto simp: returns_def to_none_def bytes_back int_enum_member_def)

subsection \<open>The contract of a converter\<close>

text \<open>The composite converter relies on two laws of its members: a payload carries the encoding of the converter that made it,
  and that converter reads it back.  \<open>good\<close> says for which hints and values the second holds.\<close>

locale encoding_contract =
  fixes c :: encoding_converter and good :: "hint option \<Rightarrow> pyobj \<Rightarrow> bool"
  assumes tags: "ec_to_payload c v = Inr (Some p) \<Longrightarrow> map_of (p_metadata p) ''encoding'' = Some (ec_encoding c)"
    and decodes: "ec_to_payload c v = Inr (Some p) \<Longrightarrow> good h v \<Longrightarrow> ec_from_payload c p h = Inr v"
begin

lemma value_decoded:
  assumes "dget cs (ec_encoding c) = Some c" "ec_to_payload c v = Inr (Some p)" "good h v" "h \<noteq> Some HRawValue"
  shows "payload_value cs (Some p) h = Inr v"
  using tags[OF assms(2)] decodes[OF assms(2,3)] assms(1,4) by (simp add: payload_value_def metadata_def)

end

interpretation null: encoding_contract BinaryNull "\<lambda>_ _. True"
  by unfold_locales (auto simp: BinaryNull_def split: if_splits)

interpretation bytes: encoding_contract BinaryPlain "\<lambda>_ _. True"
  by unfold_locales (auto simp: BinaryPlain_def split: pyobj.splits)

interpretation json_proto: encoding_contract "JSONProto lib b" "\<lambda>_ _. pylib_ok lib" for lib b
  by unfold_locales (auto simp: JSONProto_def message_payload_def metadata_def message_errors_def pylib_ok_def split: pyobj.splits)

interpretation binary_proto: encoding_contract "BinaryProto lib" "\<lambda>_ _. pylib_ok lib" for lib
  by unfold_locales (auto simp: BinaryProto_def message_payload_def metadata_def message_errors_def pylib_ok_def split: pyobj.splits)

lemma json_plain_decodes:
  assumes "ec_to_payload (JSONPlain lib cls e []) v = Inr (Some p)" "pylib_ok lib" "returns lib cls h v"
  shows "ec_from_payload (JSONPlain lib cls e []) p h = Inr v"
proof -
  from assms(3) obtain j where "json_form lib v = Inr j" "json_value j"
    "(case h of None \<Rightarrow> Inr j | Some h' \<Rightarrow> value_to_type lib cls [] h' j) = Inr v" by (auto simp: returns_def)
  with assms(1,2) show ?thesis by (auto simp: JSONPlain_def pylib_ok_def)
qed

interpretation json_plain: encoding_contract "JSONPlain lib cls e []" "\<lambda>h v. pylib_ok lib \<and> returns lib cls h v" for lib cls e
proof unfold_locales
  fix v p
  assume "ec_to_payload (JSONPlain lib cls e []) v = Inr (Some p)"
  then show "map_of (p_metadata p) ''encoding'' = Some (ec_encoding (JSONPlain lib cls e []))"
    by (cases "json_form lib v") (auto simp: JSONPlain_def)
qed (blast intro: json_plain_decodes)

subsection \<open>The default converter\<close>

lemma encodings [simp]:
  "ec_encoding BinaryNull = ''binary/null''" "ec_encoding BinaryPlain = ''binary/plain''"
  "ec_encoding (JSONProto lib b) = ''json/protobuf''" "ec_encoding (BinaryProto lib) = ''binary/protobuf''"
  "ec_encoding (JSONPlain lib cls e cc) = e"
  by (simp_all add: BinaryNull_def BinaryPlain_def JSONProto_def BinaryProto_def JSONPlain_def)

lemma default_converters_list:
  "default_converters lib cls = map (\<lambda>c. (ec_encoding c, c))
     [BinaryNull, BinaryPlain, JSONProto lib False, BinaryProto lib, JSONPlain lib cls ''json/plain'' []]"
  by (simp add: default_converters_def set_converters_def)

text \<open>What comes back from the default converter: a raw value for a raw hint; nothing, bytes and messages for any other hint; and
  the values that the hint describes, or plain JSON without a hint.\<close>

definition survives :: "pylib \<Rightarrow> classes \<Rightarrow> hint option \<Rightarrow> pyobj \<Rightarrow> bool" where
  "survives lib cls h v \<longleftrightarrow> (if h = Some HRawValue then \<exists>p. v = ORaw (Some p) else
     v = ONone \<or> (\<exists>b. v = OBytes b) \<or> (\<exists>n c. v = OMessage n c) \<or> (h = None \<and> plain v) \<or> (\<exists>h'. h = Some h' \<and> typed lib cls h' v))"

lemma value_survives:
  assumes "survives lib cls h v" "pylib_ok lib"
  shows "\<exists>p. value_payload (default_converters lib cls) v = Inr p \<and> payload_value (default_converters lib cls) (Some p) h = Inr v"
proof -
  let ?cs = "default_converters lib cls"
  have member: "dget ?cs (ec_encoding c) = Some c"
    if "c \<in> {BinaryNull, BinaryPlain, JSONProto lib False, JSONPlain lib cls ''json/plain'' []}" for c
    using that by (auto simp: default_converters_list dget_def)
  have first: "value_payload ?cs w = (case w of
      ORaw (Some p) \<Rightarrow> Inr p
    | ORaw None \<Rightarrow> Inl (RuntimeErr ''Value has no known converter'')
    | ONone \<Rightarrow> map_sum id the (ec_to_payload BinaryNull w)
    | OBytes _ \<Rightarrow> map_sum id the (ec_to_payload BinaryPlain w)
    | OMessage _ _ \<Rightarrow> map_sum id the (ec_to_payload (JSONProto lib False) w)
    | _ \<Rightarrow> map_sum id (\<lambda>j. \<lparr>p_metadata = [(''encoding'', ''json/plain'')], p_data = pl_dumps lib j\<rparr>) (json_form lib w))" for w
    by (cases w; cases "json_form lib w") (simp_all del: json_form.simps add: value_payload_def default_converters_list dvalues_def BinaryNull_def BinaryPlain_def JSONProto_def
        BinaryProto_def JSONPlain_def message_payload_def split: option.splits)
  consider (raw) p where "h = Some HRawValue" "v = ORaw (Some p)" | (none) "h \<noteq> Some HRawValue" "v = ONone"
    | (bytes) b where "h \<noteq> Some HRawValue" "v = OBytes b" | (message) n c where "h \<noteq> Some HRawValue" "v = OMessage n c"
    | (json) "h \<noteq> Some HRawValue" "returns lib cls h v" "v \<noteq> ONone" "\<forall>b. v \<noteq> OBytes b"
    using assms plain_returns typed_returns unfolding survives_def by (metis (no_types, lifting))
  then show ?thesis
  proof cases
    case raw
    then show ?thesis by (simp add: first payload_value_def)
  next
    case none
    moreover have "ec_to_payload BinaryNull v = Inr (Some \<lparr>p_metadata = [(''encoding'', ''binary/null'')], p_data = []\<rparr>)"
      using none by (simp add: BinaryNull_def)
    ultimately show ?thesis using null.value_decoded[OF member] by (simp add: first)
  next
    case (bytes b)
    moreover have "ec_to_payload BinaryPlain v = Inr (Some \<lparr>p_metadata = [(''encoding'', ''binary/plain'')], p_data = b\<rparr>)"
      using bytes by (simp add: BinaryPlain_def)
    ultimately show ?thesis using bytes.value_decoded[OF member] by (simp add: first)
  next
    case (message n c)
    then obtain p where "ec_to_payload (JSONProto lib False) v = Inr (Some p)" by (simp add: JSONProto_def message_payload_def)
    with message show ?thesis using json_proto.value_decoded[where lib = lib and b = False, OF member] assms(2) by (simp add: first)
  next
    case json
    then obtain j where j: "json_form lib v = Inr j" by (auto simp: returns_def)
    let ?p = "\<lparr>p_metadata = [(''encoding'', ''json/plain'')], p_data = pl_dumps lib j\<rparr>"
    have p: "ec_to_payload (JSONPlain lib cls ''json/plain'' []) v = Inr (Some ?p)" using j by (simp add: JSONPlain_def)
    have "\<forall>n c. v \<noteq> OMessage n c" "\<forall>q. v \<noteq> ORaw q" using j by auto
    with json(3,4) have "value_payload ?cs v = Inr ?p" unfolding first[of v] j by (cases v) simp_all
    with p json(1,2) show ?thesis using json_plain.value_decoded[OF member] assms(2) by blast
  qed
qed

lemma zip_longest_same: "length xs = length ys \<Longrightarrow> zip_longest xs ys = zip (map Some xs) (map Some ys)"
  by (induction xs ys rule: zip_longest.induct) simp_all

lemma default_converter_returns:
  assumes "list_all2 (survives lib cls) hs vs" "pylib_ok lib"
  shows "\<exists>ps. composite_to_payloads (default_converters lib cls) vs = Inr ps \<and>
    composite_from_payloads (default_converters lib cls) ps (Some hs) = Inr vs"
proof -
  let ?cs = "default_converters lib cls"
  have "\<exists>ps. traverse (value_payload ?cs) vs = Inr ps \<and>
      list_all2 (\<lambda>v (p, h). payload_value ?cs (Some p) h = Inr v) vs (zip ps hs) \<and> length ps = length vs"
    using assms(1)
  proof (induction rule: list_all2_induct)
    case (Cons h hs v vs)
    from value_survives[OF Cons(1) assms(2)] obtain p where
      "value_payload ?cs v = Inr p" "payload_value ?cs (Some p) h = Inr v" by blast
    with Cons.IH show ?case by auto
  qed simp
  then obtain ps where ps: "traverse (value_payload ?cs) vs = Inr ps" "length ps = length vs"
    "list_all2 (\<lambda>v (p, h). payload_value ?cs (Some p) h = Inr v) vs (zip ps hs)" by blast
  have "length hs = length vs" using assms(1) by (rule list_all2_lengthD)
  then have "traverse (\<lambda>(p, h). payload_value ?cs p (Option.bind h id)) (zip_longest ps hs) = Inr vs"
    using ps(2,3) by (intro traverse_back) (auto simp: zip_longest_same list_all2_conv_all_nth)
  with ps(1) show ?thesis by (simp add: composite_to_payloads_def composite_from_payloads_def)
qed

subsection \<open>Transfer types\<close>

text \<open>A value and its hint either have no transfer type and survive, or the value becomes a transfer value that survives and from
  which the converter of the hint rebuilds it.\<close>

definition transfers :: "transfer_types \<Rightarrow> pylib \<Rightarrow> classes \<Rightarrow> hint option \<Rightarrow> pyobj \<Rightarrow> bool" where
  "transfers tt lib cls h v \<longleftrightarrow> (case (tt_of_value tt v, Option.bind h (tt_of_hint tt)) of
     (None, None) \<Rightarrow> survives lib cls h v
   | (Some f, Some (t, g)) \<Rightarrow> (\<exists>w. f v = Inr w \<and> survives lib cls t w \<and> g w = Inr v)
   | _ \<Rightarrow> False)"

lemma transfer_values:
  assumes "list_all2 (transfers tt lib cls) hs vs"
  shows "\<exists>ws. traverse (\<lambda>v. case tt_of_value tt v of None \<Rightarrow> Inr v | Some f \<Rightarrow> f v) vs = Inr ws \<and>
    list_all2 (survives lib cls) (map (\<lambda>h. case Option.bind h (tt_of_hint tt) of Some (t, _) \<Rightarrow> t | None \<Rightarrow> h) hs) ws \<and>
    traverse (\<lambda>(w, c). case c of Some (_, g) \<Rightarrow> g w | None \<Rightarrow> Inr w) (zip ws (map (\<lambda>h. Option.bind h (tt_of_hint tt)) hs)) = Inr vs"
  using assms
proof (induction rule: list_all2_induct)
  case (Cons h hs v vs)
  obtain w where "(case tt_of_value tt v of None \<Rightarrow> Inr v | Some f \<Rightarrow> f v) = Inr w"
    "survives lib cls (case Option.bind h (tt_of_hint tt) of Some (t, _) \<Rightarrow> t | None \<Rightarrow> h) w"
    "(case Option.bind h (tt_of_hint tt) of Some (_, g) \<Rightarrow> g w | None \<Rightarrow> Inr w) = Inr v"
    using Cons(1) by (auto simp: transfers_def split: option.splits)
  with Cons.IH show ?case by auto
qed simp

lemma default_converter_returns_values:
  assumes "pylib_ok lib" "list_all2 (transfers tt lib cls) hs vs"
  shows "\<exists>ps. transfer_to_payloads tt (composite_to_payloads (default_converters lib cls)) vs = Inr ps \<and>
    transfer_from_payloads tt (composite_from_payloads (default_converters lib cls)) ps (Some hs) = Inr vs"
proof -
  from transfer_values[OF assms(2)] obtain ws where
    ws: "traverse (\<lambda>v. case tt_of_value tt v of None \<Rightarrow> Inr v | Some f \<Rightarrow> f v) vs = Inr ws"
      "list_all2 (survives lib cls) (map (\<lambda>h. case Option.bind h (tt_of_hint tt) of Some (t, _) \<Rightarrow> t | None \<Rightarrow> h) hs) ws"
      "traverse (\<lambda>(w, c). case c of Some (_, g) \<Rightarrow> g w | None \<Rightarrow> Inr w) (zip ws (map (\<lambda>h. Option.bind h (tt_of_hint tt)) hs)) = Inr vs"
    by blast
  have inner: "map (\<lambda>(c, h). case c of Some (t, _) \<Rightarrow> t | None \<Rightarrow> h) (zip (map (\<lambda>h. Option.bind h (tt_of_hint tt)) hs) hs) =
      map (\<lambda>h. case Option.bind h (tt_of_hint tt) of Some (t, _) \<Rightarrow> t | None \<Rightarrow> h) hs"
    by (induction hs) simp_all
  from default_converter_returns[OF ws(2) assms(1)] ws(1,3) show ?thesis
    unfolding transfer_to_payloads_def transfer_from_payloads_def by (auto simp: Let_def inner)
qed

text \<open>C7 Typed values survive the default payload converter.  Values that their type hints describe are encoded, and decoding
  the payloads with the same hints returns the same values: nothing, bytes, protobuf messages, raw payloads, numbers,
  strings, dates, UUIDs, enumerations, lists, tuples, sets, deques, dictionaries with keys of any JSON type, typed
  dictionaries, nested and recursive dataclasses, unions and transfer types.\<close>

theorem default_converter_roundtrip:
  assumes "pylib_ok lib" "list_all2 (transfers tt lib cls) hs vs"
  shows "\<exists>ps. transfer_to_payloads tt (composite_to_payloads (default_converters lib cls)) vs = Inr ps \<and>
    transfer_from_payloads tt (composite_from_payloads (default_converters lib cls)) ps (Some hs) = Inr vs"
  using assms by (rule default_converter_returns_values)

text \<open>C36 Decoding can change a value without an error.  A float decoded as \<^verbatim>\<open>int | float\<close> is truncated; a string decoded as
  \<^verbatim>\<open>list[str] | str\<close> becomes the list of its characters; too short a tuple is accepted; a dictionary with integer
  enumeration keys is encoded but cannot be decoded; with more hints than payloads a raw hint yields a raw value
  without a payload; and with an empty list of hints the wrapper for transfer types drops every decoded value.\<close>

theorem lossy_decoding:
  "value_to_type lib cls [] (HUnion [HInt, HFloat]) (OFloat r) = Inr (OInt (trunc r)) \<and>
   value_to_type lib cls [] (HUnion [HIterable ItOther (Some HStr), HStr]) (OStr s) = Inr (OList (map (\<lambda>c. OStr [c]) s)) \<and>
   value_to_type lib cls [] (HTuple [HInt, HStr] False) (OList [OInt i]) = Inr (OTuple [OInt i]) \<and>
   json_form lib (ODict [(OIntEnum n i, OStr s)]) = Inr (ODict [(OStr (str_of_int i), OStr s)]) \<and>
   value_to_type lib cls [] (HMapping (Some (HIntEnum n ms)) (Some HStr)) (ODict [(OStr (str_of_int i), OStr s)]) = Inl (TypeErr ''Failed converting key'') \<and>
   composite_from_payloads cs [] (Some [Some HRawValue]) = Inr [ORaw None] \<and>
   transfer_from_payloads tt (\<lambda>ps hs. Inr (map ORaw (map Some ps))) ps (Some []) = Inr []"
proof -
  have chars: "traverse to_str (map (\<lambda>c. OStr [c]) s) = Inr (map (\<lambda>c. OStr [c]) s)"
    by (simp add: traverse_map)
  have vtt: "value_to_type lib cls [] HStr = to_str" by (rule ext) simp
  show ?thesis
    by (auto simp: vtt_union vtt_iterable vtt_tuple vtt_mapping vtt chars convert_item_def convert_key_def parse_key_def key_instance_def retype_def
        json_object_def keys_comparable_def sort_items_def key_text_def dict_of_def dset_def composite_from_payloads_def payload_value_def
        transfer_from_payloads_def)
qed

subsection \<open>Concrete libraries\<close>

text \<open>JSON values as a countable type, whose numbering in decimal digits serves as a text form.\<close>

datatype jv = JNone | JBool bool | JInt int | JFloat rat | JStr string | JList "jv list" | JDict "(string \<times> jv) list"

instance jv :: countable
  by countable_datatype

fun jv_of :: "pyobj \<Rightarrow> jv" where
  "jv_of (OBool b) = JBool b"
| "jv_of (OInt i) = JInt i"
| "jv_of (OFloat r) = JFloat r"
| "jv_of (OStr s) = JStr s"
| "jv_of (OList xs) = JList (map jv_of xs)"
| "jv_of (ODict kvs) = JDict (map (\<lambda>(k, v). (case k of OStr s \<Rightarrow> s | _ \<Rightarrow> [], jv_of v)) kvs)"
| "jv_of _ = JNone"

fun of_jv :: "jv \<Rightarrow> pyobj" where
  "of_jv JNone = ONone"
| "of_jv (JBool b) = OBool b"
| "of_jv (JInt i) = OInt i"
| "of_jv (JFloat r) = OFloat r"
| "of_jv (JStr s) = OStr s"
| "of_jv (JList xs) = OList (map of_jv xs)"
| "of_jv (JDict kvs) = ODict (map (\<lambda>(s, v). (OStr s, of_jv v)) kvs)"

lemma of_jv_of: "json_value v \<Longrightarrow> of_jv (jv_of v) = v"
proof (induction v rule: json_value.induct)
  case (1 xs)
  then show ?case by (simp add: map_idI)
next
  case (2 kvs)
  then have "(case case x of (k, v) \<Rightarrow> (case k of OStr s \<Rightarrow> s | _ \<Rightarrow> [], jv_of v) of (s, v) \<Rightarrow> (OStr s, of_jv v)) = x" if "x \<in> set kvs" for x
    using that by (cases x) fastforce
  then show ?case by (simp add: map_idI)
qed auto

definition ex_int_of_str :: "string \<Rightarrow> int option" where
  "ex_int_of_str s = Some (if take 1 s = ''-'' then - int (nat_of_str (tl s)) else int (nat_of_str s))"

definition ex_lib :: pylib where
  "ex_lib = \<lparr>pl_dumps = (\<lambda>j. str_of_nat (to_nat (jv_of j))), pl_loads = (\<lambda>s. Inr (of_jv (from_nat (nat_of_str s)))),
     pl_isoparse = Some, pl_uuid = Some, pl_int_of_str = ex_int_of_str,
     pl_float_of_str = (\<lambda>s. Some (from_nat (nat_of_str s))), pl_str_of_float = (\<lambda>r. str_of_nat (to_nat r)),
     pl_float_of_int = of_int, pl_message_to_json = (\<lambda>_ c. c), pl_message_from_json = (\<lambda>_ _ s. Inr s),
     pl_message_serialize = (\<lambda>_ c. c), pl_message_parse = (\<lambda>_ s. Inr s)\<rparr>"

lemma str_of_nat_digits: "c \<in> set (str_of_nat n) \<Longrightarrow> (48 :: nat) \<le> of_char c"
proof (induction n rule: str_of_nat.induct)
  case (1 n)
  show ?case
  proof (cases "n < 10")
    case True
    with 1(2) show ?thesis by (subst (asm) str_of_nat.simps) simp
  next
    case False
    have "of_char (char_of (48 + n mod 10) :: char) = (48 + n mod 10 :: nat)" by simp
    with False 1 show ?thesis by (subst (asm) (2) str_of_nat.simps) auto
  qed
qed

lemma ex_int_of_str: "ex_int_of_str (str_of_int i) = Some i"
proof -
  have "take 1 (str_of_nat n) \<noteq> ''-''" for n
  proof
    assume "take 1 (str_of_nat n) = ''-''"
    then have "CHR ''-'' \<in> set (str_of_nat n)" by (metis in_set_takeD list.set_intros(1))
    from str_of_nat_digits[OF this] show False by simp
  qed
  then show ?thesis by (simp add: ex_int_of_str_def str_of_int_def)
qed

lemma ex_lib_ok: "pylib_ok ex_lib"
  by (simp add: pylib_ok_def ex_lib_def ex_int_of_str of_jv_of)

text \<open>Orders with an optional predecessor, and amounts of money that are transferred as integers.\<close>

definition ex_classes :: classes where
  "ex_classes name = (if name = ''Order'' then
     [(''id'', HUuid, None), (''when'', HDatetime, None), (''lines'', HMapping (Some HInt) (Some (HIterable ItOther (Some HStr))), None),
      (''previous'', HUnion [HDataclass ''Order'', HNone], Some ONone)] else [(''cents'', HInt, None)])"

definition ex_money :: "int \<Rightarrow> pyobj" where
  "ex_money i = OData ''Money'' [(''cents'', OInt i)]"

definition ex_transfer :: transfer_types where
  "ex_transfer = \<lparr>
     tt_of_value = (\<lambda>v. case v of OData n [(_, i)] \<Rightarrow> if n = ''Money'' then Some (\<lambda>_. Inr i) else None | _ \<Rightarrow> None),
     tt_of_hint = (\<lambda>h. if h = HDataclass ''Money'' then Some (Some HInt, \<lambda>v. Inr (OData ''Money'' [(''cents'', v)])) else None)\<rparr>"

definition ex_order :: "pyobj \<Rightarrow> pyobj" where
  "ex_order prev = OData ''Order'' [(''id'', OUuid ''u1''), (''when'', ODatetime ''2024-01-01T00:00:00''),
     (''lines'', ODict [(OInt 2, OList [OStr ''a'', OStr ''b'']), (OInt 10, OList [])]), (''previous'', prev)]"

lemma ex_order_typed:
  assumes "typed ex_lib ex_classes (HUnion [HDataclass ''Order'', HNone]) prev"
  shows "typed ex_lib ex_classes (HDataclass ''Order'') (ex_order prev)"
proof -
  have lines: "typed ex_lib ex_classes (HMapping (Some HInt) (Some (HIterable ItOther (Some HStr))))
      (ODict [(OInt 2, OList [OStr ''a'', OStr ''b'']), (OInt 10, OList [])])"
    by (rule typed.mapping) (auto simp: key_less_def typed_key_def intro!: typed.list typed.str)
  have "typed ex_lib ex_classes HUuid (OUuid ''u1'')" "typed ex_lib ex_classes HDatetime (ODatetime ''2024-01-01T00:00:00'')"
    by (rule typed.uuid typed.datetime; simp add: ex_lib_def)+
  with lines assms show ?thesis unfolding ex_order_def
    by (intro typed.dataclass) (auto simp: ex_classes_def)
qed

lemma ex_no_previous: "typed ex_lib ex_classes (HUnion [HDataclass ''Order'', HNone]) ONone"
proof (rule typed.union[where n = 1])
  show "\<exists>e. value_to_type ex_lib ex_classes [] ([HDataclass ''Order'', HNone] ! m) j = Inl e" if "m < 1" "json_form ex_lib ONone = Inr j" for m j
    using that by (subst value_to_type.simps) auto
qed (auto intro: typed.none)

lemma ex_with_previous: "typed ex_lib ex_classes (HUnion [HDataclass ''Order'', HNone]) (ex_order ONone)"
  by (rule typed.union[where n = 0]) (auto intro: ex_order_typed ex_no_previous)

theorem default_converter_roundtrip_witness:
  "pylib_ok ex_lib \<and>
   list_all2 (transfers ex_transfer ex_lib ex_classes) [Some (HDataclass ''Order''), Some HBytes, Some (HDataclass ''Money''), Some HRawValue, None]
     [ex_order (ex_order ONone), OBytes ''xyz'', ex_money 5, ORaw (Some \<lparr>p_metadata = [], p_data = ''?''\<rparr>), OStr ''s''] \<and>
   (\<exists>ps. transfer_to_payloads ex_transfer (composite_to_payloads (default_converters ex_lib ex_classes))
       [ex_order (ex_order ONone), OBytes ''xyz'', ex_money 5, ORaw (Some \<lparr>p_metadata = [], p_data = ''?''\<rparr>), OStr ''s''] = Inr ps \<and>
     transfer_from_payloads ex_transfer (composite_from_payloads (default_converters ex_lib ex_classes)) ps
       (Some [Some (HDataclass ''Order''), Some HBytes, Some (HDataclass ''Money''), Some HRawValue, None]) =
       Inr [ex_order (ex_order ONone), OBytes ''xyz'', ex_money 5, ORaw (Some \<lparr>p_metadata = [], p_data = ''?''\<rparr>), OStr ''s''])"
proof -
  have order: "transfers ex_transfer ex_lib ex_classes (Some (HDataclass ''Order'')) (ex_order (ex_order ONone))"
    using ex_order_typed[OF ex_with_previous] by (simp add: transfers_def ex_transfer_def survives_def) (simp add: ex_order_def survives_def)
  have money: "transfers ex_transfer ex_lib ex_classes (Some (HDataclass ''Money'')) (ex_money 5)"
    by (simp add: transfers_def ex_transfer_def survives_def ex_money_def typed.int)
  have "list_all2 (transfers ex_transfer ex_lib ex_classes) [Some (HDataclass ''Order''), Some HBytes, Some (HDataclass ''Money''), Some HRawValue, None]
     [ex_order (ex_order ONone), OBytes ''xyz'', ex_money 5, ORaw (Some \<lparr>p_metadata = [], p_data = ''?''\<rparr>), OStr ''s'']"
    using order money by (simp add: transfers_def ex_transfer_def survives_def)
  with default_converter_roundtrip[OF ex_lib_ok this] show ?thesis using ex_lib_ok by blast
qed

end
