(* ===== verification/Ext_Storage.thy ===== *)
theory Ext_Storage
  imports Payload_Converter
begin

section \<open>External storage of payloads\<close>

text \<open>
  \<^verbatim>\<open>converter/_extstore.py\<close>: payloads above a size are handed to storage drivers and replaced by references, which are
  resolved when payloads are read.  A computation works on the state of the stores, a type of the drivers' choice, and
  on the current metrics.  The drivers of an \<^verbatim>\<open>ExternalStorage\<close> are known by their position in its list, which
  stands for the identity of the driver object; a driver selector answers with such a position, with nothing, or with
  a driver object that is not in the list.

  The stores of the groups of a batch run concurrently in the code and one after the other here.  The durations of the
  metrics and the field \<^verbatim>\<open>external_payloads\<close> of a reference, which carries the size for display, are not modelled.
  The record \<open>storage_lib\<close> holds what comes from protobuf: the size of a payload and the message of a reference.
\<close>

type_synonym storage_claim = "(string \<times> string) list"

record target_info =
  ti_namespace :: string
  ti_id :: "string option"
  ti_run_id :: "string option"
  ti_type :: "string option"

datatype storage_target = WorkflowTarget target_info | ActivityTarget target_info

type_synonym store_context = "storage_target option"

record storage_metrics =
  sm_payload_count :: nat
  sm_total_size :: nat
  sm_driver_names :: "string set"

record 'w storage_state =
  ss_world :: 'w
  ss_metrics :: "storage_metrics option"

type_synonym ('w, 'a) stm = "('w storage_state, conv_error, 'a) pm"

record 'w driver =
  dr_name :: string
  dr_store :: "store_context \<Rightarrow> payload list \<Rightarrow> ('w, conv_error, storage_claim list) pm"
  dr_retrieve :: "storage_claim list \<Rightarrow> ('w, conv_error, payload list) pm"

datatype selection = SelNone | SelDriver nat | SelForeign string

record 'w external_storage =
  es_drivers :: "'w driver list"
  es_selector :: "(store_context \<Rightarrow> payload \<Rightarrow> conv_error + selection) option"
  es_threshold :: int
  es_driver_map :: "(string, nat) dict"
  es_context :: store_context

record storage_lib =
  sl_byte_size :: "payload \<Rightarrow> nat"
  sl_reference :: "string \<Rightarrow> storage_claim \<Rightarrow> string"
  sl_reference_fields :: "string \<Rightarrow> string \<times> storage_claim"

definition REFERENCE_ENCODING :: string where
  "REFERENCE_ENCODING = ''json/external-storage-reference''"

definition REFERENCE_MESSAGE_TYPE :: string where
  "REFERENCE_MESSAGE_TYPE = ''temporal.api.sdk.v1.ExternalStorageReference''"

subsection \<open>Computations on the stores\<close>

definition on_world :: "('w, conv_error, 'a) pm \<Rightarrow> ('w, 'a) stm" where
  "on_world m s = (case m (ss_world s) of (r, w) \<Rightarrow> (r, s\<lparr>ss_world := w\<rparr>))"

fun pmap :: "('x \<Rightarrow> ('s, 'e, 'y) pm) \<Rightarrow> 'x list \<Rightarrow> ('s, 'e, 'y list) pm" where
  "pmap f [] = pret []"
| "pmap f (x # xs) = pbind (f x) (\<lambda>y. pbind (pmap f xs) (\<lambda>ys. pret (y # ys)))"

definition record_batch :: "nat \<Rightarrow> nat \<Rightarrow> string set \<Rightarrow> storage_metrics \<Rightarrow> storage_metrics" where
  "record_batch cnt bytes names m = m\<lparr>sm_payload_count := sm_payload_count m + cnt,
     sm_total_size := sm_total_size m + bytes, sm_driver_names := sm_driver_names m \<union> names\<rparr>"

definition record_metrics :: "nat \<Rightarrow> nat \<Rightarrow> string set \<Rightarrow> ('w, unit) stm" where
  "record_metrics cnt bytes names = pmod (\<lambda>s. s\<lparr>ss_metrics := map_option (record_batch cnt bytes names) (ss_metrics s)\<rparr>)"

subsection \<open>Configuration\<close>

fun build_driver_map :: "nat \<Rightarrow> 'w driver list \<Rightarrow> (string, nat) dict \<Rightarrow> conv_error + (string, nat) dict" where
  "build_driver_map i [] m = Inr m"
| "build_driver_map i (d # ds) m = (if dget m (dr_name d) \<noteq> None
     then Inl (ValueErr (''ExternalStorage.drivers contains multiple drivers with name '' @ dr_name d))
     else build_driver_map (Suc i) ds (dset (dr_name d) i m))"

definition external_storage_init :: "'w driver list \<Rightarrow> (store_context \<Rightarrow> payload \<Rightarrow> conv_error + selection) option \<Rightarrow> int \<Rightarrow>
    conv_error + 'w external_storage" where
  "external_storage_init drivers selector threshold =
    (if drivers = [] then Inl (ValueErr ''ExternalStorage.drivers must contain at least one driver.'')
     else if threshold < 0 then Inl (ValueErr ''ExternalStorage.payload_size_threshold must be greater than or equal to zero.'')
     else if 1 < length drivers \<and> selector = None
       then Inl (ValueErr ''ExternalStorage.driver_selector must be specified if multiple drivers are registered.'')
     else map_sum id (\<lambda>m. \<lparr>es_drivers = drivers, es_selector = selector, es_threshold = threshold, es_driver_map = m, es_context = None\<rparr>)
       (build_driver_map 0 drivers []))"

definition with_store_context :: "store_context \<Rightarrow> 'w external_storage \<Rightarrow> 'w external_storage" where
  "with_store_context ctx es = es\<lparr>es_context := ctx\<rparr>"

text \<open>The driver for a payload: its position, or \<open>None\<close> to leave the payload inline.\<close>

definition select_driver :: "storage_lib \<Rightarrow> 'w external_storage \<Rightarrow> payload \<Rightarrow> conv_error + nat option" where
  "select_driver sl es p =
    (if int (sl_byte_size sl p) < es_threshold es then Inr None
     else case es_selector es of
       None \<Rightarrow> Inr (if es_drivers es = [] then None else Some 0)
     | Some selector \<Rightarrow> (case selector (es_context es) p of
         Inl e \<Rightarrow> Inl e
       | Inr SelNone \<Rightarrow> Inr None
       | Inr (SelForeign n) \<Rightarrow> Inl (ValueErr (''Driver '' @ n @ '' returned by driver_selector is not registered in ExternalStorage.drivers''))
       | Inr (SelDriver i) \<Rightarrow>
           if i < length (es_drivers es) \<and> dget (es_driver_map es) (dr_name (es_drivers es ! i)) = Some i then Inr (Some i)
           else Inl (ValueErr ''Driver returned by driver_selector is not registered in ExternalStorage.drivers'')))"

definition get_driver_by_name :: "'w external_storage \<Rightarrow> string \<Rightarrow> conv_error + nat" where
  "get_driver_by_name es n = (case dget (es_driver_map es) n of
     None \<Rightarrow> Inl (ValueErr (''No driver found with name '' @ n)) | Some i \<Rightarrow> Inr i)"

subsection \<open>References\<close>

text \<open>\<^verbatim>\<open>_claim_converter.to_payload(ExternalStorageReference(driver_name, claim_data))\<close>.\<close>

definition reference_payload :: "pylib \<Rightarrow> storage_lib \<Rightarrow> string \<Rightarrow> storage_claim \<Rightarrow> conv_error + payload" where
  "reference_payload lib sl n c = (case ec_to_payload (JSONProto lib False) (OMessage REFERENCE_MESSAGE_TYPE (sl_reference sl n c)) of
     Inl e \<Rightarrow> Inl e
   | Inr None \<Rightarrow> Inl (ValueErr (''Failed to serialize storage reference for driver '' @ n))
   | Inr (Some p) \<Rightarrow> Inr p)"

text \<open>The classes \<^verbatim>\<open>_StorageReference\<close> and \<^verbatim>\<open>StorageDriverClaim\<close> of the legacy format.\<close>

definition reference_classes :: classes where
  "reference_classes n = (if n = ''_StorageReference''
     then [(''driver_name'', HStr, None), (''driver_claim'', HDataclass ''StorageDriverClaim'', None)]
     else [(''claim_data'', HMapping (Some HStr) (Some HStr), None)])"

fun string_items :: "(pyobj \<times> pyobj) list \<Rightarrow> storage_claim option" where
  "string_items [] = Some []"
| "string_items ((OStr k, OStr v) # kvs) = map_option (Cons (k, v)) (string_items kvs)"
| "string_items _ = None"

definition legacy_reference :: "pyobj \<Rightarrow> (string \<times> storage_claim) option" where
  "legacy_reference v = (case v of
     OData _ [(_, OStr n), (_, OData _ [(_, ODict kvs)])] \<Rightarrow> map_option (Pair n) (string_items kvs)
   | _ \<Rightarrow> None)"

definition decode_reference :: "pylib \<Rightarrow> storage_lib \<Rightarrow> payload \<Rightarrow> conv_error + (string \<times> storage_claim) option" where
  "decode_reference lib sl p = (let encoding = metadata ''encoding'' [] p in
     if encoding = REFERENCE_ENCODING
     then map_sum id legacy_reference
       (ec_from_payload (JSONPlain lib reference_classes REFERENCE_ENCODING []) p (Some (HDataclass ''_StorageReference'')))
     else if \<not> (encoding = ''json/protobuf'' \<and> map_of (p_metadata p) ''messageType'' = Some REFERENCE_MESSAGE_TYPE) then Inr None
     else map_sum id (\<lambda>v. case v of OMessage _ c \<Rightarrow> Some (sl_reference_fields sl c) | _ \<Rightarrow> None)
       (ec_from_payload (JSONProto lib False) p None))"

definition validate_length :: "string \<Rightarrow> 'x list \<Rightarrow> nat \<Rightarrow> conv_error + unit" where
  "validate_length n xs expected = (if length xs \<noteq> expected then Inl (ValueErr (''Driver '' @ n @ '' returned an unexpected number'')) else Inr ())"

subsection \<open>One payload\<close>

definition store_payload :: "pylib \<Rightarrow> storage_lib \<Rightarrow> 'w external_storage \<Rightarrow> payload \<Rightarrow> ('w, payload) stm" where
  "store_payload lib sl es p = pbind (plift (select_driver sl es p)) (\<lambda>sel. case sel of
     None \<Rightarrow> pret p
   | Some i \<Rightarrow> let d = es_drivers es ! i in
       pbind (on_world (dr_store d (es_context es) [p])) (\<lambda>claims.
       pthen (plift (validate_length (dr_name d) claims 1))
       (pbind (plift (reference_payload lib sl (dr_name d) (claims ! 0))) (\<lambda>r.
       pthen (record_metrics 1 (sl_byte_size sl p) {dr_name d}) (pret r)))))"

definition retrieve_payload :: "pylib \<Rightarrow> storage_lib \<Rightarrow> 'w external_storage \<Rightarrow> payload \<Rightarrow> ('w, payload) stm" where
  "retrieve_payload lib sl es p = pbind (plift (decode_reference lib sl p)) (\<lambda>ref. case ref of
     None \<Rightarrow> pret p
   | Some (n, c) \<Rightarrow> pbind (plift (get_driver_by_name es n)) (\<lambda>i. let d = es_drivers es ! i in
       pbind (on_world (dr_retrieve d [c])) (\<lambda>stored.
       pthen (plift (validate_length (dr_name d) stored 1))
       (pthen (record_metrics 1 (sl_byte_size sl (stored ! 0)) {dr_name d}) (pret (stored ! 0))))))"

subsection \<open>A batch of payloads\<close>

text \<open>\<^verbatim>\<open>groups.setdefault(driver, []).append(x)\<close>.\<close>

definition group_add :: "nat \<times> 'x \<Rightarrow> (nat, 'x list) dict \<Rightarrow> (nat, 'x list) dict" where
  "group_add = (\<lambda>(d, x) groups. dset d ((case dget groups d of None \<Rightarrow> [] | Some xs \<Rightarrow> xs) @ [x]) groups)"

definition group_items :: "(nat \<times> 'x) list \<Rightarrow> (nat, 'x list) dict" where
  "group_items dxs = fold group_add dxs []"

text \<open>The loop that puts the references of one driver into the results.\<close>

definition place_references :: "pylib \<Rightarrow> storage_lib \<Rightarrow> 'w external_storage \<Rightarrow> (nat \<times> (nat \<times> payload) list) \<times> storage_claim list \<Rightarrow>
    payload list \<Rightarrow> conv_error + payload list" where
  "place_references lib sl es = (\<lambda>((d, items), claims) results. let n = dr_name (es_drivers es ! d) in
     case validate_length n claims (length items) of
       Inl e \<Rightarrow> Inl e
     | Inr _ \<Rightarrow> (case traverse (reference_payload lib sl n) claims of
         Inl e \<Rightarrow> Inl e
       | Inr refs \<Rightarrow> Inr (fold (\<lambda>((i, _), r) rs. rs[i := r]) (zip items refs) results)))"

fun place_all :: "('g \<Rightarrow> 'r \<Rightarrow> conv_error + 'r) \<Rightarrow> 'g list \<Rightarrow> 'r \<Rightarrow> conv_error + 'r" where
  "place_all f [] r = Inr r"
| "place_all f (g # gs) r = (case f g r of Inl e \<Rightarrow> Inl e | Inr r' \<Rightarrow> place_all f gs r')"

definition store_payload_sequence :: "pylib \<Rightarrow> storage_lib \<Rightarrow> 'w external_storage \<Rightarrow> payload list \<Rightarrow> ('w, payload list) stm" where
  "store_payload_sequence lib sl es ps =
    (if length ps = 1 then pbind (store_payload lib sl es (ps ! 0)) (\<lambda>q. pret [q])
     else pbind (plift (traverse (\<lambda>(i, p). map_sum id (map_option (\<lambda>d. (d, (i, p)))) (select_driver sl es p)) (enumerate 0 ps))) (\<lambda>selected.
       let to_store = List.map_filter id selected in
       if to_store = [] then pret ps
       else let groups = group_items to_store in
         pbind (pmap (\<lambda>(d, items). on_world (dr_store (es_drivers es ! d) (es_context es) (map snd items))) groups) (\<lambda>all_claims.
         pbind (plift (place_all (place_references lib sl es) (zip groups all_claims) ps)) (\<lambda>results.
         pthen (record_metrics (length to_store) (sum_list (map (\<lambda>(d, i, p). sl_byte_size sl p) to_store))
             ((\<lambda>(d, _). dr_name (es_drivers es ! d)) ` set to_store))
           (pret results)))))"

text \<open>The loop that collects the payloads of one driver by their positions.\<close>

definition collect_stored :: "'w external_storage \<Rightarrow> (nat \<times> (nat \<times> storage_claim) list) \<times> payload list \<Rightarrow> (nat, payload) dict \<Rightarrow> conv_error + (nat, payload) dict" where
  "collect_stored es = (\<lambda>((d, items), stored) by_index.
     case validate_length (dr_name (es_drivers es ! d)) stored (length items) of
       Inl e \<Rightarrow> Inl e
     | Inr _ \<Rightarrow> Inr (fold (\<lambda>((i, _), p) m. dset i p m) (zip items stored) by_index))"

definition retrieve_payload_sequence :: "pylib \<Rightarrow> storage_lib \<Rightarrow> 'w external_storage \<Rightarrow> payload list \<Rightarrow> ('w, payload list) stm" where
  "retrieve_payload_sequence lib sl es ps =
    (if length ps = 1 then pbind (retrieve_payload lib sl es (ps ! 0)) (\<lambda>q. pret [q])
     else pbind (plift (traverse (\<lambda>(i, p). case decode_reference lib sl p of
           Inl e \<Rightarrow> Inl e
         | Inr None \<Rightarrow> Inr None
         | Inr (Some (n, c)) \<Rightarrow> map_sum id (\<lambda>d. Some (d, (i, c))) (get_driver_by_name es n)) (enumerate 0 ps))) (\<lambda>refs.
       let to_fetch = List.map_filter id refs in
       if to_fetch = [] then pret ps
       else let groups = group_items to_fetch in
         pbind (pmap (\<lambda>(d, items). on_world (dr_retrieve (es_drivers es ! d) (map snd items))) groups) (\<lambda>all_stored.
         pbind (plift (place_all (collect_stored es) (zip groups all_stored) [])) (\<lambda>by_index.
         pthen (record_metrics (length (concat all_stored)) (sum_list (map (sl_byte_size sl) (concat all_stored)))
             ((\<lambda>(d, _). dr_name (es_drivers es ! d)) ` set to_fetch))
           (pret (fold (\<lambda>i rs. rs[i := the (dget by_index i)]) (sort (dkeys by_index)) ps))))))"

end
