(* ===== verification/Data_Converter.thy ===== *)
theory Data_Converter
  imports Ext_Storage Exceptions
begin

section \<open>The data converter\<close>

text \<open>
  \<^verbatim>\<open>converter/_data_converter.py\<close> and \<^verbatim>\<open>converter/_payload_codec.py\<close>: values are converted to payloads, encoded by the
  optional codec and stored by the optional external storage; decoding goes the other way.  The payloads of a memo and of
  a failure message with its chain of causes take the same way.  The payload converter is given by its two
  functions, the codec is user code; the last heartbeat details of a workflow reset are not part of the model's
  failure messages.
\<close>

record payload_codec =
  cd_encode :: "payload list \<Rightarrow> conv_error + payload list"
  cd_decode :: "payload list \<Rightarrow> conv_error + payload list"

record 'w dataconv =
  dc_lib :: pylib
  dc_storage_lib :: storage_lib
  dc_to_payloads :: "pyobj list \<Rightarrow> conv_error + payload list"
  dc_from_payloads :: "payload list \<Rightarrow> hint option list option \<Rightarrow> conv_error + pyobj list"
  dc_codec :: "payload_codec option"
  dc_storage :: "'w external_storage option"

definition is_reference_payload :: "payload \<Rightarrow> bool" where
  "is_reference_payload p \<longleftrightarrow> map_of (p_metadata p) ''encoding'' = Some REFERENCE_ENCODING \<or>
     (map_of (p_metadata p) ''encoding'' = Some ''json/protobuf'' \<and> map_of (p_metadata p) ''messageType'' = Some REFERENCE_MESSAGE_TYPE)"

definition index_error :: conv_error where
  "index_error = OtherErr ''IndexError: list index out of range''"

fun first_of :: "'a list \<Rightarrow> conv_error + 'a" where
  "first_of [] = Inl index_error"
| "first_of (x # _) = Inr x"

definition data_with_store_context :: "store_context \<Rightarrow> 'w dataconv \<Rightarrow> 'w dataconv" where
  "data_with_store_context ctx dc = dc\<lparr>dc_storage := map_option (with_store_context ctx) (dc_storage dc)\<rparr>"

subsection \<open>Sequences of payloads\<close>

definition encode_payload_sequence :: "'w dataconv \<Rightarrow> payload list \<Rightarrow> ('w, payload list) stm" where
  "encode_payload_sequence dc ps = (case dc_codec dc of None \<Rightarrow> pret ps | Some c \<Rightarrow> plift (cd_encode c ps))"

definition decode_payload_sequence :: "'w dataconv \<Rightarrow> payload list \<Rightarrow> ('w, payload list) stm" where
  "decode_payload_sequence dc ps = (case dc_codec dc of None \<Rightarrow> pret ps | Some c \<Rightarrow> plift (cd_decode c ps))"

definition external_store_payload_sequence :: "'w dataconv \<Rightarrow> payload list \<Rightarrow> ('w, payload list) stm" where
  "external_store_payload_sequence dc ps = (case dc_storage dc of
     None \<Rightarrow> pret ps | Some es \<Rightarrow> store_payload_sequence (dc_lib dc) (dc_storage_lib dc) es ps)"

definition external_retrieve_payload_sequence :: "'w dataconv \<Rightarrow> payload list \<Rightarrow> ('w, payload list) stm" where
  "external_retrieve_payload_sequence dc ps = (case dc_storage dc of
     Some es \<Rightarrow> retrieve_payload_sequence (dc_lib dc) (dc_storage_lib dc) es ps
   | None \<Rightarrow> if \<exists>p\<in>set ps. is_reference_payload p
       then praise (RuntimeErr ''[TMPRL1105] Detected externally stored payload(s) but external storage is not configured.'')
       else pret ps)"

definition data_encode :: "'w dataconv \<Rightarrow> pyobj list \<Rightarrow> ('w, payload list) stm" where
  "data_encode dc vs = pbind (plift (dc_to_payloads dc vs)) (\<lambda>ps.
     pbind (encode_payload_sequence dc ps) (external_store_payload_sequence dc))"

definition data_decode :: "'w dataconv \<Rightarrow> payload list \<Rightarrow> hint option list option \<Rightarrow> ('w, pyobj list) stm" where
  "data_decode dc ps type_hints = pbind (external_retrieve_payload_sequence dc ps) (\<lambda>qs.
     pbind (decode_payload_sequence dc qs) (\<lambda>rs. plift (dc_from_payloads dc rs type_hints)))"

definition decode_wrapper :: "'w dataconv \<Rightarrow> payload list option \<Rightarrow> hint option list option \<Rightarrow> ('w, pyobj list) stm" where
  "decode_wrapper dc ps type_hints = (case ps of None \<Rightarrow> pret [] | Some [] \<Rightarrow> pret [] | Some qs \<Rightarrow> data_decode dc qs type_hints)"

subsection \<open>Memos\<close>

datatype memo_entry = MemoPayload payload | MemoValue pyobj

fun encode_memo_existing :: "'w dataconv \<Rightarrow> (string \<times> memo_entry) list \<Rightarrow> (string, payload) dict \<Rightarrow> ('w, (string, payload) dict) stm" where
  "encode_memo_existing dc [] memo = pret memo"
| "encode_memo_existing dc ((k, v) # rest) memo = pbind
     (case v of MemoPayload p \<Rightarrow> pret p | MemoValue x \<Rightarrow> pbind (data_encode dc [x]) (\<lambda>ps. plift (first_of ps)))
     (\<lambda>p. encode_memo_existing dc rest (dset k p memo))"

definition encode_memo :: "'w dataconv \<Rightarrow> (string \<times> memo_entry) list \<Rightarrow> ('w, (string, payload) dict) stm" where
  "encode_memo dc source = encode_memo_existing dc source []"

definition decode_memo :: "'w dataconv \<Rightarrow> (string, payload) dict \<Rightarrow> ('w, (string, pyobj) dict) stm" where
  "decode_memo dc memo = pmap (\<lambda>(k, p). pbind (data_decode dc [p] None) (\<lambda>vs. pbind (plift (first_of vs)) (\<lambda>v. pret (k, v)))) memo"

definition decode_memo_field :: "'w dataconv \<Rightarrow> (string, payload) dict \<Rightarrow> string \<Rightarrow> pyobj option \<Rightarrow> hint option \<Rightarrow> ('w, pyobj) stm" where
  "decode_memo_field dc memo key dflt type_hint = (case dget memo key of
     None \<Rightarrow> (case dflt of None \<Rightarrow> praise (KeyErr (''Memo does not have a value for key '' @ key)) | Some v \<Rightarrow> pret v)
   | Some p \<Rightarrow> pbind (data_decode dc [p] (map_option (\<lambda>h. [Some h]) type_hint)) (\<lambda>vs. plift (first_of vs)))"

subsection \<open>Single payloads and wrappers\<close>

definition transform_outbound_payload :: "'w dataconv \<Rightarrow> payload \<Rightarrow> ('w, payload) stm" where
  "transform_outbound_payload dc p = pbind
     (case dc_codec dc of None \<Rightarrow> pret p | Some c \<Rightarrow> pbind (plift (cd_encode c [p])) (\<lambda>ps. plift (first_of ps)))
     (\<lambda>q. case dc_storage dc of None \<Rightarrow> pret q | Some es \<Rightarrow> store_payload (dc_lib dc) (dc_storage_lib dc) es q)"

definition transform_inbound_payload :: "'w dataconv \<Rightarrow> payload \<Rightarrow> ('w, payload) stm" where
  "transform_inbound_payload dc p = pbind
     (case dc_storage dc of None \<Rightarrow> pret p | Some es \<Rightarrow> retrieve_payload (dc_lib dc) (dc_storage_lib dc) es p)
     (\<lambda>q. case dc_codec dc of None \<Rightarrow> pret q | Some c \<Rightarrow> pbind (plift (cd_decode c [q])) (\<lambda>ps. plift (first_of ps)))"

definition transform_outbound_payloads :: "'w dataconv \<Rightarrow> payload list \<Rightarrow> ('w, payload list) stm" where
  "transform_outbound_payloads dc ps = pbind (encode_payload_sequence dc ps) (external_store_payload_sequence dc)"

definition transform_inbound_payloads :: "'w dataconv \<Rightarrow> payload list \<Rightarrow> ('w, payload list) stm" where
  "transform_inbound_payloads dc ps = pbind (external_retrieve_payload_sequence dc ps) (decode_payload_sequence dc)"

subsection \<open>Failures\<close>

definition apply_to_details :: "(payload list \<Rightarrow> ('w, payload list) stm) \<Rightarrow> payload list option \<Rightarrow> ('w, payload list option) stm" where
  "apply_to_details cb d = (case d of None \<Rightarrow> pret None | Some ps \<Rightarrow> pbind (cb ps) (\<lambda>qs. pret (Some qs)))"

definition apply_to_info :: "(payload list \<Rightarrow> ('w, payload list) stm) \<Rightarrow> failure_info option \<Rightarrow> ('w, failure_info option) stm" where
  "apply_to_info cb info = (case info of
     Some (ApplicationFailureInfo t nr d delay cat) \<Rightarrow> pbind (apply_to_details cb d) (\<lambda>d'. pret (Some (ApplicationFailureInfo t nr d' delay cat)))
   | Some (TimeoutFailureInfo t d) \<Rightarrow> pbind (apply_to_details cb d) (\<lambda>d'. pret (Some (TimeoutFailureInfo t d')))
   | Some (CanceledFailureInfo d) \<Rightarrow> pbind (apply_to_details cb d) (\<lambda>d'. pret (Some (CanceledFailureInfo d')))
   | _ \<Rightarrow> pret info)"

definition apply_to_attributes :: "(payload list \<Rightarrow> ('w, payload list) stm) \<Rightarrow> payload option \<Rightarrow> ('w, payload option) stm" where
  "apply_to_attributes cb enc = (case enc of
     None \<Rightarrow> pret None | Some p \<Rightarrow> pbind (cb [p]) (\<lambda>qs. pbind (plift (first_of qs)) (\<lambda>q. pret (Some q))))"

fun apply_to_failure_payloads :: "(payload list \<Rightarrow> ('w, payload list) stm) \<Rightarrow> failure \<Rightarrow> ('w, failure) stm" where
  "apply_to_failure_payloads cb (Failure m st cause enc info) =
     pbind (apply_to_attributes cb enc) (\<lambda>enc'. pbind (apply_to_info cb info) (\<lambda>info'.
     case cause of
       None \<Rightarrow> pret (Failure m st None enc' info')
     | Some c \<Rightarrow> pbind (apply_to_failure_payloads cb c) (\<lambda>c'. pret (Failure m st (Some c') enc' info'))))"

definition encode_failure_payloads :: "'w dataconv \<Rightarrow> failure \<Rightarrow> ('w, failure) stm" where
  "encode_failure_payloads dc f = apply_to_failure_payloads (transform_outbound_payloads dc) f"

definition decode_failure_payloads :: "'w dataconv \<Rightarrow> failure \<Rightarrow> ('w, failure) stm" where
  "decode_failure_payloads dc f = apply_to_failure_payloads (transform_inbound_payloads dc) f"

end
