(* ===== verification/S3_Driver.thy ===== *)
theory S3_Driver
  imports Ext_Storage
begin

section \<open>The S3 storage driver\<close>

text \<open>
  \<^verbatim>\<open>contrib/aws/s3driver/_driver.py\<close>: payloads are objects of a bucket under keys made of the identity they are stored for
  and the SHA-256 digest of their bytes.  The client of the object store is an interface of the sources
  (\<^verbatim>\<open>contrib/aws/s3driver/_client.py\<close>), the record \<open>s3_client\<close> here; the digest and the serialization of payloads
  are the record \<open>s3_lib\<close>.  A string stands for its UTF-8 bytes.  The uploads and downloads of a batch run
  concurrently in the code and one after the other here.
\<close>

record 'w s3_client =
  s3_exists :: "string \<Rightarrow> string \<Rightarrow> ('w, conv_error, bool) pm"
  s3_put :: "string \<Rightarrow> string \<Rightarrow> string \<Rightarrow> ('w, conv_error, unit) pm"
  s3_get :: "string \<Rightarrow> string \<Rightarrow> ('w, conv_error, string) pm"

record s3_lib =
  s3_sha256 :: "string \<Rightarrow> string"
  s3_serialize :: "payload \<Rightarrow> string"
  s3_parse :: "string \<Rightarrow> conv_error + payload"

record 'w s3_config =
  s3c_client :: "'w s3_client"
  s3c_bucket :: "store_context \<Rightarrow> payload \<Rightarrow> conv_error + string"
  s3c_name :: string
  s3c_max_payload_size :: nat

subsection \<open>Keys\<close>

definition safe_char :: "char \<Rightarrow> bool" where
  "safe_char c \<longleftrightarrow> c \<in> set ''ABCDEFGHIJKLMNOPQRSTUVWXYZabcdefghijklmnopqrstuvwxyz0123456789!-_.*()'' \<or> c = CHR 39"

definition hex_digit :: "nat \<Rightarrow> char" where
  "hex_digit n = ''0123456789ABCDEF'' ! n"

definition percent_byte :: "char \<Rightarrow> string" where
  "percent_byte c = (if safe_char c then [c] else [CHR ''%'', hex_digit (of_char c div 16), hex_digit (of_char c mod 16)])"

definition percent_encode :: "string option \<Rightarrow> string option" where
  "percent_encode v = (case v of None \<Rightarrow> None | Some [] \<Rightarrow> None | Some s \<Rightarrow> Some (concat (map percent_byte s)))"

definition or_null :: "string option \<Rightarrow> string" where
  "or_null v = (case percent_encode v of None \<Rightarrow> ''null'' | Some s \<Rightarrow> s)"

definition namespace_segment :: "store_context \<Rightarrow> string" where
  "namespace_segment ctx = (case ctx of
     None \<Rightarrow> []
   | Some t \<Rightarrow> (case percent_encode (Some (ti_namespace (case t of WorkflowTarget i \<Rightarrow> i | ActivityTarget i \<Rightarrow> i))) of
       None \<Rightarrow> [] | Some n \<Rightarrow> ''/ns/'' @ n))"

definition context_segments :: "store_context \<Rightarrow> string" where
  "context_segments ctx = (case ctx of
     None \<Rightarrow> []
   | Some (WorkflowTarget i) \<Rightarrow> ''/wt/'' @ or_null (ti_type i) @ ''/wi/'' @ or_null (ti_id i) @ ''/ri/'' @ or_null (ti_run_id i)
   | Some (ActivityTarget i) \<Rightarrow> ''/at/'' @ or_null (ti_type i) @ ''/ai/'' @ or_null (ti_id i) @ ''/ri/'' @ or_null (ti_run_id i))"

definition s3_key :: "s3_lib \<Rightarrow> store_context \<Rightarrow> string \<Rightarrow> string" where
  "s3_key sl ctx bytes = ''v0'' @ namespace_segment ctx @ context_segments ctx @ ''/d/sha256/'' @ s3_sha256 sl bytes"

subsection \<open>Operations\<close>

definition s3_init :: "'w s3_client \<Rightarrow> (store_context \<Rightarrow> payload \<Rightarrow> conv_error + string) \<Rightarrow> string \<Rightarrow> int \<Rightarrow> conv_error + 'w s3_config" where
  "s3_init client bucket driver_name max_payload_size = (if max_payload_size \<le> 0
     then Inl (ValueErr ''max_payload_size must be greater than zero'')
     else Inr \<lparr>s3c_client = client, s3c_bucket = bucket, s3c_name = (if driver_name = [] then ''aws.s3driver'' else driver_name),
       s3c_max_payload_size = nat max_payload_size\<rparr>)"

definition client_error :: "string \<Rightarrow> ('w, conv_error, 'a) pm \<Rightarrow> ('w, conv_error, 'a) pm" where
  "client_error m c = pcatch c (\<lambda>_. praise (RuntimeErr m))"

definition s3_upload :: "s3_lib \<Rightarrow> 'w s3_config \<Rightarrow> store_context \<Rightarrow> payload \<Rightarrow> ('w, conv_error, storage_claim) pm" where
  "s3_upload sl cfg ctx p = pbind (plift (s3c_bucket cfg ctx p)) (\<lambda>bucket.
     let bytes = s3_serialize sl p in
     if s3c_max_payload_size cfg < length bytes then praise (ValueErr ''Payload size exceeds the configured max_payload_size'')
     else let digest = s3_sha256 sl bytes; key = s3_key sl ctx bytes in
       pthen (client_error ''S3StorageDriver store failed''
           (pbind (s3_exists (s3c_client cfg) bucket key) (\<lambda>there. pwhen (\<not> there) (s3_put (s3c_client cfg) bucket key bytes))))
         (pret [(''bucket'', bucket), (''key'', key), (''hash_algorithm'', ''sha256''), (''hash_value'', digest)]))"

definition s3_download :: "s3_lib \<Rightarrow> 'w s3_config \<Rightarrow> storage_claim \<Rightarrow> ('w, conv_error, payload) pm" where
  "s3_download sl cfg claim = (case (map_of claim ''bucket'', map_of claim ''key'') of
     (None, _) \<Rightarrow> praise (KeyErr ''bucket'')
   | (_, None) \<Rightarrow> praise (KeyErr ''key'')
   | (Some bucket, Some key) \<Rightarrow>
       pbind (client_error ''S3StorageDriver retrieve failed'' (s3_get (s3c_client cfg) bucket key)) (\<lambda>bytes.
       let algorithm = (case map_of claim ''hash_algorithm'' of None \<Rightarrow> [] | Some a \<Rightarrow> a);
           expected = (case map_of claim ''hash_value'' of None \<Rightarrow> [] | Some h \<Rightarrow> h)
       in if algorithm = [] \<or> expected = [] then praise (ValueErr ''claim is missing required content hash information'')
          else if algorithm \<noteq> ''sha256'' then praise (ValueErr ''unsupported hash algorithm'')
          else if s3_sha256 sl bytes \<noteq> expected then praise (ValueErr ''integrity check failed'')
          else plift (s3_parse sl bytes)))"

definition S3StorageDriver :: "s3_lib \<Rightarrow> 'w s3_config \<Rightarrow> 'w driver" where
  "S3StorageDriver sl cfg = \<lparr>dr_name = s3c_name cfg, dr_store = (\<lambda>ctx ps. pmap (s3_upload sl cfg ctx) ps), dr_retrieve = pmap (s3_download sl cfg)\<rparr>"

end
