(* ===== verification/Storage_Spec.thy ===== *)
theory Storage_Spec
  imports S3_Driver Payload_Spec
begin

section \<open>Stored payloads are found again\<close>

text \<open>
  A storage driver promises that what it has stored can be retrieved by its claims, now and after later stores: the locale
  \<open>storage_contract\<close>, which the S3 driver interprets.  On top of it, storing a batch keeps the order of
  the payloads, although they are grouped by driver, and retrieving the batch returns them.
\<close>

subsection \<open>The contract of a driver\<close>

text \<open>\<open>winv\<close> is an invariant of the stores, \<open>holds w c p\<close> says that claim \<open>c\<close> leads to \<open>p\<close>, and \<open>accepts\<close> which
  payloads the driver takes.\<close>

definition world_le :: "('w \<Rightarrow> storage_claim \<Rightarrow> payload \<Rightarrow> bool) \<Rightarrow> 'w \<Rightarrow> 'w \<Rightarrow> bool" where
  "world_le holds w w' \<longleftrightarrow> (\<forall>c p. holds w c p \<longrightarrow> holds w' c p)"

lemma world_le_refl [simp]: "world_le holds w w"
  by (simp add: world_le_def)

lemma world_le_trans: "world_le holds w w' \<Longrightarrow> world_le holds w' w'' \<Longrightarrow> world_le holds w w''"
  by (simp add: world_le_def)

lemma holds_mono: "list_all2 (holds w) cs ps \<Longrightarrow> world_le holds w w' \<Longrightarrow> list_all2 (holds w') cs ps"
  by (erule list_all2_mono) (simp add: world_le_def)

locale storage_contract =
  fixes d :: "'w driver" and winv :: "'w \<Rightarrow> bool" and holds :: "'w \<Rightarrow> storage_claim \<Rightarrow> payload \<Rightarrow> bool"
    and accepts :: "store_context \<Rightarrow> payload \<Rightarrow> bool"
  assumes store: "winv w \<Longrightarrow> (\<And>p. p \<in> set ps \<Longrightarrow> accepts ctx p) \<Longrightarrow>
      \<exists>cs w'. dr_store d ctx ps w = (Inr cs, w') \<and> winv w' \<and> world_le holds w w' \<and> list_all2 (holds w') cs ps"
    and retrieve: "winv w \<Longrightarrow> list_all2 (holds w) cs ps \<Longrightarrow> dr_retrieve d cs w = (Inr ps, w)"
begin

lemma stored_then_retrieved:
  assumes "winv w" "\<And>p. p \<in> set ps \<Longrightarrow> accepts ctx p"
  shows "\<exists>cs w'. dr_store d ctx ps w = (Inr cs, w') \<and> winv w' \<and> world_le holds w w' \<and>
    (\<forall>w''. winv w'' \<and> world_le holds w' w'' \<longrightarrow> dr_retrieve d cs w'' = (Inr ps, w''))"
proof -
  from store[OF assms] obtain cs w' where
    s: "dr_store d ctx ps w = (Inr cs, w')" "winv w'" "world_le holds w w'" "list_all2 (holds w') cs ps" by blast
  have "dr_retrieve d cs w'' = (Inr ps, w'')" if "winv w''" "world_le holds w' w''" for w''
    by (rule retrieve[OF that(1) holds_mono[OF s(4) that(2)]])
  then show ?thesis using s(1-3) by (intro exI[of _ cs] exI[of _ w']) simp
qed

end

subsection \<open>The S3 driver\<close>

text \<open>A reliable object store, and the digest: free of collisions on the contents \<open>U\<close> that occur, and without slashes.\<close>

definition s3_client_ok :: "'w s3_client \<Rightarrow> ('w \<Rightarrow> string \<times> string \<Rightarrow> string option) \<Rightarrow> bool" where
  "s3_client_ok c contents \<longleftrightarrow> (\<forall>b k w. s3_exists c b k w = (Inr (contents w (b, k) \<noteq> None), w)) \<and>
     (\<forall>b k x w. \<exists>w'. s3_put c b k x w = (Inr (), w') \<and> contents w' = (contents w)((b, k) \<mapsto> x)) \<and>
     (\<forall>b k x w. contents w (b, k) = Some x \<longrightarrow> s3_get c b k w = (Inr x, w))"

definition s3_lib_ok :: "s3_lib \<Rightarrow> string set \<Rightarrow> bool" where
  "s3_lib_ok sl U \<longleftrightarrow> inj_on (s3_sha256 sl) U \<and> (\<forall>x. s3_sha256 sl x \<noteq> [] \<and> CHR ''/'' \<notin> set (s3_sha256 sl x)) \<and>
     (\<forall>p. s3_parse sl (s3_serialize sl p) = Inr p)"

definition s3_inv :: "s3_lib \<Rightarrow> 'w s3_client \<Rightarrow> string set \<Rightarrow> ('w \<Rightarrow> string \<times> string \<Rightarrow> string option) \<Rightarrow> 'w \<Rightarrow> bool" where
  "s3_inv sl c U contents w \<longleftrightarrow> s3_lib_ok sl U \<and> s3_client_ok c contents \<and>
     (\<forall>b k x. contents w (b, k) = Some x \<longrightarrow> x \<in> U \<and> (\<exists>pre. k = pre @ ''/d/sha256/'' @ s3_sha256 sl x))"

definition s3_holds :: "s3_lib \<Rightarrow> ('w \<Rightarrow> string \<times> string \<Rightarrow> string option) \<Rightarrow> 'w \<Rightarrow> storage_claim \<Rightarrow> payload \<Rightarrow> bool" where
  "s3_holds sl contents w claim p \<longleftrightarrow> (\<exists>b k. map_of claim ''bucket'' = Some b \<and> map_of claim ''key'' = Some k \<and>
     map_of claim ''hash_algorithm'' = Some ''sha256'' \<and> map_of claim ''hash_value'' = Some (s3_sha256 sl (s3_serialize sl p)) \<and>
     contents w (b, k) = Some (s3_serialize sl p))"

definition s3_accepts :: "s3_lib \<Rightarrow> 'w s3_config \<Rightarrow> string set \<Rightarrow> store_context \<Rightarrow> payload \<Rightarrow> bool" where
  "s3_accepts sl cfg U ctx p \<longleftrightarrow> (\<exists>b. s3c_bucket cfg ctx p = Inr b) \<and>
     length (s3_serialize sl p) \<le> s3c_max_payload_size cfg \<and> s3_serialize sl p \<in> U"

lemma last_segment: "xs @ c # a = ys @ c # b \<Longrightarrow> c \<notin> set a \<Longrightarrow> c \<notin> set b \<Longrightarrow> a = b"
proof (induction xs arbitrary: ys)
  case Nil
  then show ?case by (cases ys) auto
next
  case (Cons x xs)
  then show ?case by (cases ys) auto
qed

lemma upload_ok:
  assumes "s3_inv sl c U contents w" "s3_accepts sl (cfg\<lparr>s3c_client := c\<rparr>) U ctx p"
  shows "\<exists>claim w'. s3_upload sl (cfg\<lparr>s3c_client := c\<rparr>) ctx p w = (Inr claim, w') \<and> s3_inv sl c U contents w' \<and>
    world_le (s3_holds sl contents) w w' \<and> s3_holds sl contents w' claim p"
proof -
  let ?x = "s3_serialize sl p" let ?k = "s3_key sl ctx ?x"
  from assms(2) obtain b where b: "s3c_bucket cfg ctx p = Inr b" "length ?x \<le> s3c_max_payload_size cfg" "?x \<in> U"
    by (auto simp: s3_accepts_def)
  have client: "s3_client_ok c contents" and lib: "s3_lib_ok sl U" using assms(1) by (auto simp: s3_inv_def)
  let ?claim = "[(''bucket'', b), (''key'', ?k), (''hash_algorithm'', ''sha256''), (''hash_value'', s3_sha256 sl ?x)]"
  show ?thesis
  proof (cases "contents w (b, ?k)")
    case None
    from client obtain w' where w': "s3_put c b ?k ?x w = (Inr (), w')" "contents w' = (contents w)((b, ?k) \<mapsto> ?x)"
      unfolding s3_client_ok_def by blast
    have "s3_upload sl (cfg\<lparr>s3c_client := c\<rparr>) ctx p w = (Inr ?claim, w')"
      using b client None w'(1) by (simp add: s3_upload_def s3_client_ok_def client_error_def pm_simps Let_def)
    moreover have "\<exists>pre. ?k = pre @ ''/d/sha256/'' @ s3_sha256 sl ?x"
      by (rule exI[of _ "''v0'' @ namespace_segment ctx @ context_segments ctx"]) (simp add: s3_key_def)
    then have "s3_inv sl c U contents w'"
      using assms(1) b(3) by (simp add: s3_inv_def w'(2))
    moreover have "s3_holds sl contents w' ?claim p" using w'(2) by (simp add: s3_holds_def)
    moreover have "contents w' q = Some y" if "contents w q = Some y" for q y
      using that w'(2) None by (cases "q = (b, ?k)") auto
    then have "world_le (s3_holds sl contents) w w'"
      unfolding world_le_def s3_holds_def by blast
    ultimately show ?thesis by blast
  next
    case (Some y)
    from assms(1) Some obtain pre where pre: "?k = pre @ ''/d/sha256/'' @ s3_sha256 sl y" "y \<in> U"
      unfolding s3_inv_def by blast
    then have "(''v0'' @ namespace_segment ctx @ context_segments ctx @ ''/d/sha256'') @ CHR ''/'' # s3_sha256 sl ?x =
        (pre @ ''/d/sha256'') @ CHR ''/'' # s3_sha256 sl y" by (simp add: s3_key_def)
    from last_segment[OF this] lib have "s3_sha256 sl ?x = s3_sha256 sl y" by (simp add: s3_lib_ok_def)
    then have "?x = y" using lib b(3) pre(2) by (simp add: s3_lib_ok_def inj_on_def)
    moreover have "s3_upload sl (cfg\<lparr>s3c_client := c\<rparr>) ctx p w = (Inr ?claim, w)"
      using b client Some by (simp add: s3_upload_def s3_client_ok_def client_error_def pm_simps Let_def)
    ultimately show ?thesis using assms(1) Some by (intro exI[of _ ?claim] exI[of _ w]) (simp add: s3_holds_def)
  qed
qed

lemma uploads_ok:
  assumes "s3_inv sl c U contents w" "\<And>p. p \<in> set ps \<Longrightarrow> s3_accepts sl (cfg\<lparr>s3c_client := c\<rparr>) U ctx p"
  shows "\<exists>cs w'. pmap (s3_upload sl (cfg\<lparr>s3c_client := c\<rparr>) ctx) ps w = (Inr cs, w') \<and> s3_inv sl c U contents w' \<and>
    world_le (s3_holds sl contents) w w' \<and> list_all2 (s3_holds sl contents w') cs ps"
  using assms
proof (induction ps arbitrary: w)
  case Nil
  then show ?case by (simp add: pret_def)
next
  case (Cons p ps)
  from upload_ok[OF Cons.prems(1), of cfg ctx p] Cons.prems(2) obtain claim w1 where
    1: "s3_upload sl (cfg\<lparr>s3c_client := c\<rparr>) ctx p w = (Inr claim, w1)" "s3_inv sl c U contents w1"
      "world_le (s3_holds sl contents) w w1" "s3_holds sl contents w1 claim p" by auto
  from Cons.IH[OF 1(2)] Cons.prems(2) obtain cs w2 where
    2: "pmap (s3_upload sl (cfg\<lparr>s3c_client := c\<rparr>) ctx) ps w1 = (Inr cs, w2)" "s3_inv sl c U contents w2"
      "world_le (s3_holds sl contents) w1 w2" "list_all2 (s3_holds sl contents w2) cs ps" by auto
  have "s3_holds sl contents w2 claim p" using 1(4) 2(3) by (simp add: world_le_def)
  then show ?case using 1 2 world_le_trans[OF 1(3) 2(3)] by (simp add: pbind_def pret_def)
qed

lemma downloads_ok:
  assumes "s3_inv sl c U contents w" "list_all2 (s3_holds sl contents w) cs ps"
  shows "pmap (s3_download sl (cfg\<lparr>s3c_client := c\<rparr>)) cs w = (Inr ps, w)"
  using assms(2)
proof (induction rule: list_all2_induct)
  case (Cons claim cs p ps)
  then have "s3_download sl (cfg\<lparr>s3c_client := c\<rparr>) claim w = (Inr p, w)"
    using assms(1) by (auto simp: s3_download_def s3_holds_def s3_inv_def s3_lib_ok_def s3_client_ok_def client_error_def pm_simps)
  with Cons show ?case by (simp add: pbind_def pret_def)
qed (simp add: pret_def)

interpretation s3: storage_contract "S3StorageDriver sl (cfg\<lparr>s3c_client := c\<rparr>)" "s3_inv sl c U contents" "s3_holds sl contents"
    "s3_accepts sl (cfg\<lparr>s3c_client := c\<rparr>) U" for sl cfg c U contents
  by unfold_locales (simp_all add: S3StorageDriver_def uploads_ok downloads_ok)

subsection \<open>Grouping by driver\<close>

definition flatten :: "(nat, 'x list) dict \<Rightarrow> (nat \<times> 'x) list" where
  "flatten groups = concat (map (\<lambda>(d, xs). map (Pair d) xs) groups)"

lemma flatten_update:
  "dict_ok groups \<Longrightarrow> dget groups d = Some xs \<Longrightarrow> mset (flatten (dset d (xs @ [x]) groups)) = add_mset (d, x) (mset (flatten groups))"
  by (induction groups) (auto simp: flatten_def dget_def dset_def dict_ok_def split: if_splits)

lemma flatten_new:
  "dget groups d = None \<Longrightarrow> mset (flatten (dset d [x] groups)) = add_mset (d, x) (mset (flatten groups))"
  by (induction groups) (auto simp: flatten_def dget_def dset_def split: if_splits)

lemma group_items_snoc: "group_items (dxs @ [(d, x)]) = group_add (d, x) (group_items dxs)"
  by (simp add: group_items_def)

lemma group_items_ok: "dict_ok (group_items dxs) \<and> mset (flatten (group_items dxs)) = mset dxs"
proof (induction dxs rule: rev_induct)
  case Nil
  then show ?case by (simp add: group_items_def flatten_def)
next
  case (snoc y dxs)
  obtain d x where "y = (d, x)" by fastforce
  with snoc show ?case
    by (cases "dget (group_items dxs) d") (simp_all add: group_items_snoc group_add_def flatten_update flatten_new)
qed

lemma set_flatten: "set (flatten groups) = {(d, x). \<exists>xs. (d, xs) \<in> set groups \<and> x \<in> set xs}"
  by (auto simp: flatten_def)

lemma set_group_items: "(d, xs) \<in> set (group_items dxs) \<Longrightarrow> x \<in> set xs \<Longrightarrow> (d, x) \<in> set dxs"
  using set_flatten[of "group_items dxs"] group_items_ok[of dxs] mset_eq_setD by blast

lemma group_items_nonempty: "(d, xs) \<in> set (group_items dxs) \<Longrightarrow> xs \<noteq> []"
proof (induction dxs arbitrary: d xs rule: rev_induct)
  case (snoc y dxs)
  obtain e x where "y = (e, x)" by fastforce
  moreover have "(d, xs) \<in> set (dset e v groups) \<Longrightarrow> (d, xs) \<in> set groups \<or> xs = v" for v and groups :: "(nat, 'a list) dict"
    by (induction groups) (auto simp: dset_def split: if_splits)
  ultimately show ?case using snoc by (fastforce simp: group_items_snoc group_add_def split: option.splits)
qed (simp add: group_items_def)

lemma group_items_all:
  assumes "\<forall>(d, x)\<in>set dxs. P d \<and> Q d x"
  shows "\<forall>(d, xs)\<in>set (group_items dxs). P d \<and> (\<forall>x\<in>set xs. Q d x)"
proof clarify
  fix d xs assume g: "(d, xs) \<in> set (group_items dxs)"
  with group_items_nonempty obtain x where "x \<in> set xs" by (metis list.set_sel(1))
  with g assms show "P d \<and> (\<forall>x\<in>set xs. Q d x)" using set_group_items[OF g] by blast
qed

text \<open>Updates at distinct positions.\<close>

definition updates :: "(nat \<times> 'a) list \<Rightarrow> 'a list \<Rightarrow> 'a list" where
  "updates us xs = fold (\<lambda>(i, v) rs. rs[i := v]) us xs"

lemma length_updates [simp]: "length (updates us xs) = length xs"
  unfolding updates_def by (induction us arbitrary: xs) auto

lemma updates_other: "i \<notin> fst ` set us \<Longrightarrow> updates us xs ! i = xs ! i"
  unfolding updates_def by (induction us arbitrary: xs) auto

lemma updates_at:
  assumes "(i, v) \<in> set us" "distinct (map fst us)" "i < length xs"
  shows "updates us xs ! i = v"
  using assms
proof (induction us arbitrary: xs)
  case (Cons u us)
  show ?case
  proof (cases "u = (i, v)")
    case True
    with Cons.prems have "updates us (xs[i := v]) ! i = xs[i := v] ! i" by (intro updates_other) auto
    with True Cons.prems(3) show ?thesis by (simp add: updates_def)
  next
    case False
    with Cons have "updates us (xs[fst u := snd u]) ! i = v" by auto
    then show ?thesis by (cases u) (simp add: updates_def)
  qed
qed simp

text \<open>The positions and results of all groups.\<close>

definition assignments :: "(nat \<Rightarrow> 'y \<Rightarrow> 'z) \<Rightarrow> ((nat \<times> (nat \<times> 'x) list) \<times> 'y list) list \<Rightarrow> (nat \<times> 'z) list" where
  "assignments f gs = concat (map (\<lambda>((d, items), ys). zip (map fst items) (map (f d) ys)) gs)"

lemma assignments_positions:
  assumes "list_all2 (\<lambda>(d, items) ys. length ys = length items) groups yss"
  shows "map fst (assignments f (zip groups yss)) = concat (map (\<lambda>(d, items). map fst items) groups)"
  using assms by (induction rule: list_all2_induct) (auto simp: assignments_def)

lemma assignments_distinct:
  assumes "list_all2 (\<lambda>(d, items) ys. length ys = length items) (group_items dxs) yss" "distinct (map (\<lambda>x. fst (snd x)) dxs)"
  shows "distinct (map fst (assignments f (zip (group_items dxs) yss)))"
proof -
  have "map (\<lambda>x. fst (snd x)) (flatten groups) = concat (map (\<lambda>(d, items). map fst items) groups)" for groups :: "(nat, (nat \<times> 'x) list) dict"
    by (induction groups) (auto simp: flatten_def)
  moreover have "mset (map (\<lambda>x. fst (snd x)) (flatten (group_items dxs))) = mset (map (\<lambda>x. fst (snd x)) dxs)"
    using group_items_ok[of dxs] by (metis mset_map)
  ultimately show ?thesis
    using assms(2) unfolding assignments_positions[OF assms(1)] by (metis mset_eq_imp_distinct_iff)
qed

lemma assignments_member:
  assumes "list_all2 (\<lambda>(d, items) ys. list_all2 (\<lambda>y x. R d y x) ys (map snd items)) (group_items dxs) yss" "(d, i, x) \<in> set dxs"
  shows "\<exists>y. R d y x \<and> (i, f d y) \<in> set (assignments f (zip (group_items dxs) yss))"
proof -
  have "(d, i, x) \<in> set (flatten (group_items dxs))" using assms(2) group_items_ok[of dxs] mset_eq_setD by blast
  then obtain items where items: "(d, items) \<in> set (group_items dxs)" "(i, x) \<in> set items" by (auto simp: set_flatten)
  then obtain n m where nm: "n < length (group_items dxs)" "group_items dxs ! n = (d, items)" "m < length items" "items ! m = (i, x)"
    by (metis in_set_conv_nth)
  with assms(1) have ys: "list_all2 (\<lambda>y x. R d y x) (yss ! n) (map snd items)" "n < length yss"
    by (auto simp: list_all2_conv_all_nth)
  with nm have m: "m < length (yss ! n)" "R d (yss ! n ! m) x" by (auto simp: list_all2_conv_all_nth)
  have "(i, f d (yss ! n ! m)) \<in> set (zip (map fst items) (map (f d) (yss ! n)))"
    using nm m(1) by (force simp: set_zip)
  moreover have "((d, items), yss ! n) \<in> set (zip (group_items dxs) yss)" using nm ys(2) by (force simp: set_zip)
  ultimately show ?thesis using m(2) by (intro exI[of _ "yss ! n ! m"]) (force simp: assignments_def)
qed

lemma assignments_positions_only:
  assumes "list_all2 (\<lambda>(d, items) ys. length ys = length items) (group_items dxs) yss" "i \<in> fst ` set (assignments f (zip (group_items dxs) yss))"
  shows "\<exists>d x. (d, i, x) \<in> set dxs"
proof -
  have "i \<in> set (concat (map (\<lambda>(d, items). map fst items) (group_items dxs)))"
    using assms(2) assignments_positions[OF assms(1), of f] by (metis list.set_map)
  then show ?thesis using set_group_items by fastforce
qed

subsection \<open>Batches\<close>

text \<open>A configured storage whose drivers keep their contract.\<close>

definition storage_ready :: "pylib \<Rightarrow> storage_lib \<Rightarrow> 'w external_storage \<Rightarrow> ('w \<Rightarrow> bool) \<Rightarrow> ('w \<Rightarrow> storage_claim \<Rightarrow> payload \<Rightarrow> bool) \<Rightarrow>
    (nat \<Rightarrow> store_context \<Rightarrow> payload \<Rightarrow> bool) \<Rightarrow> bool" where
  "storage_ready lib sl es winv holds accepts \<longleftrightarrow> pylib_ok lib \<and> (\<forall>n c. sl_reference_fields sl (sl_reference sl n c) = (n, c)) \<and>
     (\<forall>i<length (es_drivers es). storage_contract (es_drivers es ! i) winv holds (accepts i) \<and>
        dget (es_driver_map es) (dr_name (es_drivers es ! i)) = Some i)"

text \<open>The configuration that \<open>external_storage_init\<close> accepts finds every driver by its name.\<close>

lemma build_driver_map_keeps: "build_driver_map i ds m = Inr m' \<Longrightarrow> dget m n = Some j \<Longrightarrow> dget m' n = Some j"
proof (induction i ds m rule: build_driver_map.induct)
  case (2 i d ds m)
  then have "n \<noteq> dr_name d" by auto
  with 2 show ?case by (auto simp: dget_dset split: if_splits)
qed simp

lemma build_driver_map_finds: "build_driver_map i ds m = Inr m' \<Longrightarrow> k < length ds \<Longrightarrow> dget m' (dr_name (ds ! k)) = Some (i + k)"
proof (induction i ds m arbitrary: k rule: build_driver_map.induct)
  case (2 i d ds m)
  then show ?case by (cases k) (auto simp: dget_dset split: if_splits dest: build_driver_map_keeps)
qed simp

lemma external_storage_init_finds:
  assumes "external_storage_init drivers selector threshold = Inr es" "i < length drivers"
  shows "dget (es_driver_map es) (dr_name (drivers ! i)) = Some i \<and> es_drivers es = drivers"
  using assms build_driver_map_finds[of 0 drivers "[]" _ i]
  by (cases "build_driver_map 0 drivers []") (auto simp: external_storage_init_def split: if_splits)

definition ref :: "pylib \<Rightarrow> storage_lib \<Rightarrow> string \<Rightarrow> storage_claim \<Rightarrow> payload" where
  "ref lib sl n c = \<lparr>p_metadata = [(''encoding'', ''json/protobuf''), (''messageType'', REFERENCE_MESSAGE_TYPE)],
     p_data = pl_message_to_json lib REFERENCE_MESSAGE_TYPE (sl_reference sl n c)\<rparr>"

lemma reference_payload_ref: "reference_payload lib sl n c = Inr (ref lib sl n c)"
  by (simp add: reference_payload_def JSONProto_def message_payload_def ref_def)

lemma traverse_reference: "traverse (reference_payload lib sl n) cs = Inr (map (ref lib sl n) cs)"
  by (induction cs) (simp_all add: reference_payload_ref)

lemma decode_ref:
  assumes "storage_ready lib sl es winv holds accepts"
  shows "decode_reference lib sl (ref lib sl n c) = Inr (Some (n, c))"
proof -
  have "ec_from_payload (JSONProto lib False) (ref lib sl n c) None = Inr (OMessage REFERENCE_MESSAGE_TYPE (sl_reference sl n c))"
    using assms by (simp add: JSONProto_def ref_def metadata_def message_errors_def storage_ready_def pylib_ok_def)
  then show ?thesis using assms
    by (simp add: decode_reference_def Let_def storage_ready_def) (simp add: ref_def metadata_def REFERENCE_ENCODING_def)
qed

definition storable :: "storage_lib \<Rightarrow> 'w external_storage \<Rightarrow> (nat \<Rightarrow> store_context \<Rightarrow> payload \<Rightarrow> bool) \<Rightarrow> payload \<Rightarrow> bool" where
  "storable sl es accepts p \<longleftrightarrow> (\<exists>sel. select_driver sl es p = Inr sel \<and>
     (\<forall>i. sel = Some i \<longrightarrow> i < length (es_drivers es) \<and> accepts i (es_context es) p))"

text \<open>What a payload is replaced by, and when the replacement leads back to it.\<close>

definition stored_as :: "pylib \<Rightarrow> storage_lib \<Rightarrow> 'w external_storage \<Rightarrow> ('w \<Rightarrow> storage_claim \<Rightarrow> payload \<Rightarrow> bool) \<Rightarrow> 'w \<Rightarrow> payload \<Rightarrow> payload \<Rightarrow> bool" where
  "stored_as lib sl es holds w p q \<longleftrightarrow> (case select_driver sl es p of
     Inr None \<Rightarrow> q = p
   | Inr (Some i) \<Rightarrow> i < length (es_drivers es) \<and> (\<exists>c. q = ref lib sl (dr_name (es_drivers es ! i)) c \<and> holds w c p)
   | _ \<Rightarrow> False)"

definition leads_to :: "pylib \<Rightarrow> storage_lib \<Rightarrow> 'w external_storage \<Rightarrow> ('w \<Rightarrow> storage_claim \<Rightarrow> payload \<Rightarrow> bool) \<Rightarrow> 'w \<Rightarrow> payload \<Rightarrow> payload \<Rightarrow> bool" where
  "leads_to lib sl es holds w p q \<longleftrightarrow> (decode_reference lib sl q = Inr None \<and> q = p) \<or>
     (\<exists>i c. i < length (es_drivers es) \<and> q = ref lib sl (dr_name (es_drivers es ! i)) c \<and> holds w c p)"

lemma store_payload_ok:
  assumes ready: "storage_ready lib sl es winv holds accepts" and "winv (ss_world s)" "storable sl es accepts p"
  shows "\<exists>q s'. store_payload lib sl es p s = (Inr q, s') \<and> winv (ss_world s') \<and> world_le holds (ss_world s) (ss_world s') \<and>
    stored_as lib sl es holds (ss_world s') p q"
proof -
  from assms(3) obtain sel where sel: "select_driver sl es p = Inr sel"
    "\<And>i. sel = Some i \<Longrightarrow> i < length (es_drivers es) \<and> accepts i (es_context es) p" by (auto simp: storable_def)
  show ?thesis
  proof (cases sel)
    case None
    then show ?thesis using sel assms(2) by (simp add: store_payload_def stored_as_def pm_simps)
  next
    case (Some i)
    then have contract: "storage_contract (es_drivers es ! i) winv holds (accepts i)" using ready sel(2) by (simp add: storage_ready_def)
    from storage_contract.store[OF contract, of "ss_world s" "[p]" "es_context es"] assms(2) sel(2) Some obtain cs w' where
      st: "dr_store (es_drivers es ! i) (es_context es) [p] (ss_world s) = (Inr cs, w')" "winv w'" "world_le holds (ss_world s) w'"
        "list_all2 (holds w') cs [p]" by auto
    then obtain c where c: "cs = [c]" "holds w' c p" by (auto simp: list_all2_Cons2)
    then show ?thesis using st(1-3) sel Some
      by (auto simp: store_payload_def stored_as_def on_world_def validate_length_def reference_payload_ref record_metrics_def pm_simps Let_def)
  qed
qed

lemma retrieve_payload_ok:
  assumes ready: "storage_ready lib sl es winv holds accepts" and "winv (ss_world s)" "leads_to lib sl es holds (ss_world s) p q"
  shows "\<exists>s'. retrieve_payload lib sl es q s = (Inr p, s') \<and> ss_world s' = ss_world s"
  using assms(3) unfolding leads_to_def
proof (elim disjE exE conjE)
  fix i c
  assume i: "i < length (es_drivers es)" and q: "q = ref lib sl (dr_name (es_drivers es ! i)) c" and c: "holds (ss_world s) c p"
  have contract: "storage_contract (es_drivers es ! i) winv holds (accepts i)" "get_driver_by_name es (dr_name (es_drivers es ! i)) = Inr i"
    using ready i by (simp_all add: storage_ready_def get_driver_by_name_def)
  have "dr_retrieve (es_drivers es ! i) [c] (ss_world s) = (Inr [p], ss_world s)"
    using storage_contract.retrieve[OF contract(1) assms(2), of "[c]" "[p]"] c by simp
  then show ?thesis
    using decode_ref[OF ready] contract(2) q
    by (simp add: retrieve_payload_def on_world_def validate_length_def record_metrics_def pm_simps Let_def)
qed (simp add: retrieve_payload_def pm_simps)

lemma groups_stored:
  assumes ready: "storage_ready lib sl es winv holds accepts" and "winv (ss_world s)"
    "\<forall>(d, items)\<in>set groups. d < length (es_drivers es) \<and> (\<forall>x\<in>set items. accepts d (es_context es) (snd x))"
  shows "\<exists>css s'. pmap (\<lambda>(d, items). on_world (dr_store (es_drivers es ! d) (es_context es) (map snd items))) groups s = (Inr css, s') \<and>
    winv (ss_world s') \<and> world_le holds (ss_world s) (ss_world s') \<and>
    list_all2 (\<lambda>(d, items) cs. list_all2 (holds (ss_world s')) cs (map snd items)) groups css"
  using assms(2,3)
proof (induction groups arbitrary: s)
  case Nil
  then show ?case by (simp add: pret_def)
next
  case (Cons g groups)
  obtain d items where g: "g = (d, items)" by fastforce
  have "d < length (es_drivers es)" using Cons.prems(2) g by auto
  then have contract: "storage_contract (es_drivers es ! d) winv holds (accepts d)" using ready by (simp add: storage_ready_def)
  have "accepts d (es_context es) p" if "p \<in> set (map snd items)" for p using that Cons.prems(2) g by auto
  from storage_contract.store[OF contract Cons.prems(1), of "map snd items", OF this] obtain cs w1 where
    1: "dr_store (es_drivers es ! d) (es_context es) (map snd items) (ss_world s) = (Inr cs, w1)" "winv w1"
      "world_le holds (ss_world s) w1" "list_all2 (holds w1) cs (map snd items)" by blast
  have "\<exists>css s'. pmap (\<lambda>(d, items). on_world (dr_store (es_drivers es ! d) (es_context es) (map snd items))) groups (s\<lparr>ss_world := w1\<rparr>) = (Inr css, s') \<and>
    winv (ss_world s') \<and> world_le holds w1 (ss_world s') \<and>
    list_all2 (\<lambda>(d, items) cs. list_all2 (holds (ss_world s')) cs (map snd items)) groups css"
    using Cons.IH[of "s\<lparr>ss_world := w1\<rparr>"] Cons.prems(2) 1(2) by simp
  then obtain css s' where
    2: "pmap (\<lambda>(d, items). on_world (dr_store (es_drivers es ! d) (es_context es) (map snd items))) groups (s\<lparr>ss_world := w1\<rparr>) = (Inr css, s')"
      "winv (ss_world s')" "world_le holds w1 (ss_world s')"
      "list_all2 (\<lambda>(d, items) cs. list_all2 (holds (ss_world s')) cs (map snd items)) groups css" by blast
  have "on_world (dr_store (es_drivers es ! d) (es_context es) (map snd items)) s = (Inr cs, s\<lparr>ss_world := w1\<rparr>)"
    using 1(1) by (simp add: on_world_def)
  with 2 holds_mono[OF 1(4) 2(3)] world_le_trans[OF 1(3) 2(3)] show ?case by (simp add: g pbind_def pret_def)
qed

lemma groups_retrieved:
  assumes ready: "storage_ready lib sl es winv holds accepts" and "winv (ss_world s)"
    "list_all2 (\<lambda>(d, items) ps. d < length (es_drivers es) \<and> list_all2 (holds (ss_world s)) (map snd items) ps) groups pss"
  shows "pmap (\<lambda>(d, items). on_world (dr_retrieve (es_drivers es ! d) (map snd items))) groups s = (Inr pss, s)"
  using assms(3)
proof (induction rule: list_all2_induct)
  case (Cons g groups ps pss)
  obtain d items where g: "g = (d, items)" by fastforce
  then have contract: "storage_contract (es_drivers es ! d) winv holds (accepts d)" using ready Cons(1) by (simp add: storage_ready_def)
  have "on_world (dr_retrieve (es_drivers es ! d) (map snd items)) s = (Inr ps, s)"
    using storage_contract.retrieve[OF contract assms(2), of "map snd items" ps] Cons(1) g by (simp add: on_world_def)
  with Cons.IH show ?case by (simp add: g pbind_def pret_def)
qed (simp add: pret_def)

lemma references_placed:
  assumes "list_all2 (\<lambda>(d, items) cs. length cs = length items) groups css"
  shows "place_all (place_references lib sl es) (zip groups css) ps =
    Inr (updates (assignments (\<lambda>d. ref lib sl (dr_name (es_drivers es ! d))) (zip groups css)) ps)"
  using assms
proof (induction arbitrary: ps rule: list_all2_induct)
  case (Cons g groups cs css)
  obtain d items where g: "g = (d, items)" by fastforce
  let ?r = "ref lib sl (dr_name (es_drivers es ! d))"
  have "fold (\<lambda>((i, _), r) rs. rs[i := r]) (zip items (map ?r cs)) ps = updates (zip (map fst items) (map ?r cs)) ps" for ps
    unfolding updates_def by (induction items cs arbitrary: ps rule: list_induct2') auto
  then have "place_references lib sl es ((d, items), cs) ps = Inr (updates (zip (map fst items) (map ?r cs)) ps)"
    using Cons(1) g by (simp add: place_references_def validate_length_def traverse_reference Let_def)
  with Cons.IH g show ?case by (simp add: assignments_def updates_def)
qed (simp add: assignments_def updates_def)

text \<open>The items of a batch that go to a driver, with their positions.\<close>

definition picks :: "('p \<Rightarrow> (nat \<times> 'y) option) \<Rightarrow> 'p list \<Rightarrow> (nat \<times> nat \<times> 'y) list" where
  "picks F ps = List.map_filter id (map (\<lambda>(i, p). map_option (\<lambda>(d, y). (d, (i, y))) (F p)) (enumerate 0 ps))"

lemma set_picks: "(d, i, y) \<in> set (picks F ps) \<longleftrightarrow> i < length ps \<and> F (ps ! i) = Some (d, y)"
  by (force simp: picks_def List.map_filter_def in_set_enumerate_eq)

lemma distinct_picks: "distinct (map (\<lambda>x. fst (snd x)) (picks F ps))"
proof -
  have "map (\<lambda>x. fst (snd x)) (List.map_filter id (map (\<lambda>(i, p). map_option (\<lambda>(d, y). (d, (i, y))) (F p)) xs)) =
      map fst (filter (\<lambda>(i, p). F p \<noteq> None) xs)" for xs
    by (induction xs) (auto simp: List.map_filter_def split: option.split)
  moreover have "distinct (map fst (filter P (enumerate 0 ps)))" for P
    by (rule distinct_map_filter) simp
  ultimately show ?thesis unfolding picks_def by metis
qed

lemma traverse_all_Inr: "(\<And>x. x \<in> set xs \<Longrightarrow> f x = Inr (g x)) \<Longrightarrow> traverse f xs = Inr (map g xs)"
  by (induction xs) simp_all

text \<open>The driver a payload goes to.\<close>

definition store_target :: "storage_lib \<Rightarrow> 'w external_storage \<Rightarrow> payload \<Rightarrow> (nat \<times> payload) option" where
  "store_target sl es p = (case select_driver sl es p of Inr (Some d) \<Rightarrow> Some (d, p) | _ \<Rightarrow> None)"

lemma store_targets:
  assumes "\<forall>p\<in>set ps. storable sl es accepts p"
  shows "traverse (\<lambda>(i, p). map_sum id (map_option (\<lambda>d. (d, (i, p)))) (select_driver sl es p)) (enumerate 0 ps) =
    Inr (map (\<lambda>(i, p). map_option (\<lambda>(d, y). (d, (i, y))) (store_target sl es p)) (enumerate 0 ps))"
proof (rule traverse_all_Inr)
  fix x assume "x \<in> set (enumerate 0 ps)"
  then have "snd x \<in> set ps" by (metis in_set_enumerate_eq nth_mem add_0 diff_zero enumerate_eq_zip set_zip_rightD prod.collapse)
  then obtain sel where "select_driver sl es (snd x) = Inr sel" using assms by (auto simp: storable_def)
  then show "(case x of (i, p) \<Rightarrow> map_sum id (map_option (\<lambda>d. (d, (i, p)))) (select_driver sl es p)) =
      Inr (case x of (i, p) \<Rightarrow> map_option (\<lambda>(d, y). (d, (i, y))) (store_target sl es p))"
    by (cases x; cases sel) (simp_all add: store_target_def)
qed

lemma picked_for_store:
  "(d, i, p) \<in> set (picks (store_target sl es) ps) \<longleftrightarrow> i < length ps \<and> p = ps ! i \<and> select_driver sl es p = Inr (Some d)"
  by (auto simp: set_picks store_target_def split: sum.splits option.splits)

lemma references_stored:
  fixes lib :: pylib
  assumes "\<forall>p\<in>set ps. storable sl es accepts p"
    "list_all2 (\<lambda>(d, items) cs. list_all2 (holds w) cs (map snd items)) (group_items (picks (store_target sl es) ps)) css"
  defines "us \<equiv> assignments (\<lambda>d. ref lib sl (dr_name (es_drivers es ! d))) (zip (group_items (picks (store_target sl es) ps)) css)"
  shows "list_all2 (stored_as lib sl es holds w) ps (updates us ps)"
  unfolding list_all2_conv_all_nth
proof (intro conjI allI impI)
  fix i assume i: "i < length ps"
  then obtain sel where sel: "select_driver sl es (ps ! i) = Inr sel" "\<And>d. sel = Some d \<Longrightarrow> d < length (es_drivers es)"
    using assms(1) by (force simp: storable_def)
  have len: "list_all2 (\<lambda>(d, items) cs. length cs = length items) (group_items (picks (store_target sl es) ps)) css"
    using assms(2) by (rule list_all2_mono) (auto dest: list_all2_lengthD)
  show "stored_as lib sl es holds w (ps ! i) (updates us ps ! i)"
  proof (cases sel)
    case None
    then have "i \<notin> fst ` set us" using assignments_positions_only[OF len, of i] sel(1) unfolding us_def by (auto simp: picked_for_store)
    with None sel(1) i show ?thesis by (simp add: updates_other stored_as_def)
  next
    case (Some d)
    then have "(d, i, ps ! i) \<in> set (picks (store_target sl es) ps)" using sel(1) i by (simp add: picked_for_store)
    from assignments_member[OF assms(2) this, of "\<lambda>d. ref lib sl (dr_name (es_drivers es ! d))"] obtain c where
      c: "holds w c (ps ! i)" "(i, ref lib sl (dr_name (es_drivers es ! d)) c) \<in> set us" unfolding us_def by blast
    have "updates us ps ! i = ref lib sl (dr_name (es_drivers es ! d)) c"
      using c(2) assignments_distinct[OF len distinct_picks] i unfolding us_def by (rule updates_at)
    with c(1) Some sel i show ?thesis by (auto simp: stored_as_def)
  qed
qed simp

lemma store_payload_sequence_ok:
  assumes ready: "storage_ready lib sl es winv holds accepts" and "winv (ss_world s)" "\<forall>p\<in>set ps. storable sl es accepts p"
  shows "\<exists>qs s'. store_payload_sequence lib sl es ps s = (Inr qs, s') \<and> winv (ss_world s') \<and> world_le holds (ss_world s) (ss_world s') \<and>
    list_all2 (stored_as lib sl es holds (ss_world s')) ps qs"
proof (cases "length ps = 1")
  case True
  then obtain p where ps: "ps = [p]" by (auto simp: length_Suc_conv)
  from store_payload_ok[OF assms(1,2), of p] assms(3) ps show ?thesis
    by (auto simp: store_payload_sequence_def pbind_def pret_def)
next
  case False
  let ?picks = "picks (store_target sl es) ps" and ?groups = "group_items (picks (store_target sl es) ps)"
  have "d < length (es_drivers es) \<and> accepts d (es_context es) p" if "(d, i, p) \<in> set ?picks" for d i p
  proof -
    have "storable sl es accepts p" "select_driver sl es p = Inr (Some d)" using that assms(3) unfolding picked_for_store by auto
    then show ?thesis by (auto simp: storable_def)
  qed
  then have "\<forall>(d, items)\<in>set ?groups. d < length (es_drivers es) \<and> (\<forall>x\<in>set items. accepts d (es_context es) (snd x))"
    by (intro group_items_all) auto
  from groups_stored[OF ready assms(2) this] obtain css s' where
    g: "pmap (\<lambda>(d, items). on_world (dr_store (es_drivers es ! d) (es_context es) (map snd items))) ?groups s = (Inr css, s')"
      "winv (ss_world s')" "world_le holds (ss_world s) (ss_world s')"
      "list_all2 (\<lambda>(d, items) cs. list_all2 (holds (ss_world s')) cs (map snd items)) ?groups css" by blast
  have len: "list_all2 (\<lambda>(d, items) cs. length cs = length items) ?groups css"
    using g(4) by (rule list_all2_mono) (auto dest: list_all2_lengthD)
  let ?qs = "updates (assignments (\<lambda>d. ref lib sl (dr_name (es_drivers es ! d))) (zip ?groups css)) ps"
  have "\<exists>s''. store_payload_sequence lib sl es ps s = (Inr ?qs, s'') \<and> ss_world s'' = ss_world s'"
  proof (cases "?picks = []")
    case True
    then have "store_payload_sequence lib sl es ps s = (Inr ps, s)"
      using False by (simp add: store_payload_sequence_def store_targets[OF assms(3)] plift_def pbind_def pret_def Let_def flip: picks_def)
    with True g(1) show ?thesis by (simp add: group_items_def assignments_def updates_def pret_def)
  next
    case stores: False
    then show ?thesis using False g(1) references_placed[OF len, of lib sl es ps]
      by (simp add: store_payload_sequence_def store_targets[OF assms(3)] pbind_def pret_def pthen_def plift_def record_metrics_def pmod_def Let_def
          flip: picks_def)
  qed
  moreover have "list_all2 (stored_as lib sl es holds (ss_world s')) ps ?qs" by (rule references_stored) (use assms(3) g(4) in auto)
  ultimately show ?thesis using g(2,3) by metis
qed

lemma stored_collected:
  assumes "list_all2 (\<lambda>(d, items) ps. length ps = length items) groups pss"
  shows "place_all (collect_stored es) (zip groups pss) m = Inr (fold (\<lambda>(i, p) m. dset i p m) (assignments (\<lambda>_ p. p) (zip groups pss)) m)"
  using assms
proof (induction arbitrary: m rule: list_all2_induct)
  case (Cons g groups ps pss)
  obtain d items where g: "g = (d, items)" by fastforce
  have "fold (\<lambda>((i, _), p) m. dset i p m) (zip items ps) m = fold (\<lambda>(i, p) m. dset i p m) (zip (map fst items) ps) m" for m
    by (induction items ps arbitrary: m rule: list_induct2') auto
  then have "collect_stored es ((d, items), ps) m = Inr (fold (\<lambda>(i, p) m. dset i p m) (zip (map fst items) ps) m)"
    using Cons(1) g by (simp add: collect_stored_def validate_length_def)
  with Cons.IH g show ?case by (simp add: assignments_def)
qed (simp add: assignments_def)

lemma dget_fold_dset:
  assumes "distinct (map fst us)"
  shows "dget (fold (\<lambda>(i, p) m. dset i p m) us m) k = (case map_of us k of None \<Rightarrow> dget m k | Some v \<Rightarrow> Some v)"
  using assms
proof (induction us arbitrary: m)
  case (Cons u us)
  then show ?case by (cases u) (auto simp: dget_dset map_of_eq_None_iff image_iff split: option.splits)
qed simp

lemma dict_ok_fold_dset: "dict_ok m \<Longrightarrow> dict_ok (fold (\<lambda>(i, p) m. dset i p m) us m)"
  by (induction us arbitrary: m) auto

text \<open>Writing the collected payloads in the order of their positions is the same as writing them as they come.\<close>

lemma sorted_updates:
  fixes us :: "(nat \<times> payload) list"
  assumes "distinct (map fst us)" "\<forall>i\<in>fst ` set us. i < length xs"
  defines "m \<equiv> fold (\<lambda>(i, p) m. dset i p m) us []"
  shows "fold (\<lambda>i rs. rs[i := the (dget m i)]) (sort (dkeys m)) xs = updates us xs"
proof -
  have get: "dget m k = map_of us k" for k
    unfolding m_def using dget_fold_dset[OF assms(1)] by (simp add: dget_def split: option.split)
  have keys: "set (dkeys m) = fst ` set us" using get dget_None_iff[of m] by (auto simp: map_of_eq_None_iff)
  have "distinct (dkeys m)" unfolding m_def using dict_ok_fold_dset[of "[]" us] by (simp add: dict_ok_def dkeys_def)
  let ?vs = "map (\<lambda>i. (i, the (dget m i))) (sort (dkeys m))"
  have fst_vs: "map fst ?vs = sort (dkeys m)" by (simp add: comp_def)
  have "fold (\<lambda>i rs. rs[i := the (dget m i)]) (sort (dkeys m)) xs = updates ?vs xs" by (simp add: updates_def fold_map comp_def)
  moreover have "updates ?vs xs = updates us xs"
  proof (rule nth_equalityI)
    fix i assume "i < length (updates ?vs xs)"
    then have i: "i < length xs" by simp
    show "updates ?vs xs ! i = updates us xs ! i"
    proof (cases "i \<in> fst ` set us")
      case True
      then obtain v where v: "(i, v) \<in> set us" by force
      then have "(i, v) \<in> set ?vs" using keys get assms(1) True by (force simp: map_of_is_SomeI)
      then show ?thesis
        using updates_at[OF v assms(1) i] updates_at[of i v ?vs, OF _ _ i] \<open>distinct (dkeys m)\<close> fst_vs by simp
    next
      case False
      then have "i \<notin> fst ` set ?vs" using keys by force
      with False show ?thesis by (simp add: updates_other)
    qed
  qed simp
  ultimately show ?thesis by simp
qed

text \<open>The driver a reference leads to.\<close>

definition fetch_target :: "pylib \<Rightarrow> storage_lib \<Rightarrow> 'w external_storage \<Rightarrow> payload \<Rightarrow> (nat \<times> storage_claim) option" where
  "fetch_target lib sl es q = (case decode_reference lib sl q of
     Inr (Some (n, c)) \<Rightarrow> (case get_driver_by_name es n of Inr d \<Rightarrow> Some (d, c) | _ \<Rightarrow> None)
   | _ \<Rightarrow> None)"

lemma fetch_target_cases:
  assumes ready: "storage_ready lib sl es winv holds accepts" and "leads_to lib sl es holds w p q"
  obtains (inline) "fetch_target lib sl es q = None" "q = p" "decode_reference lib sl q = Inr None"
  | (fetched) d n c where "fetch_target lib sl es q = Some (d, c)" "d < length (es_drivers es)" "holds w c p"
      "decode_reference lib sl q = Inr (Some (n, c))" "get_driver_by_name es n = Inr d"
  using assms(2) unfolding leads_to_def
proof (elim disjE exE conjE)
  fix d c
  assume d: "d < length (es_drivers es)" and q: "q = ref lib sl (dr_name (es_drivers es ! d)) c" and c: "holds w c p"
  have "get_driver_by_name es (dr_name (es_drivers es ! d)) = Inr d"
    using ready d by (simp add: storage_ready_def get_driver_by_name_def)
  with d q c decode_ref[OF ready, of "dr_name (es_drivers es ! d)" c] show thesis by (intro fetched) (simp_all add: fetch_target_def)
qed (simp add: inline fetch_target_def)

lemma fetch_targets:
  assumes ready: "storage_ready lib sl es winv holds accepts" and "list_all2 (leads_to lib sl es holds w) ps qs"
  shows "traverse (\<lambda>(i, p). case decode_reference lib sl p of Inl e \<Rightarrow> Inl e | Inr None \<Rightarrow> Inr None
         | Inr (Some (n, c)) \<Rightarrow> map_sum id (\<lambda>d. Some (d, (i, c))) (get_driver_by_name es n)) (enumerate 0 qs) =
      Inr (map (\<lambda>(i, p). map_option (\<lambda>(d, y). (d, (i, y))) (fetch_target lib sl es p)) (enumerate 0 qs))"
proof (rule traverse_all_Inr)
  fix x assume "x \<in> set (enumerate 0 qs)"
  then have "snd x = qs ! fst x" and i: "fst x < length qs" by (simp_all only: in_set_enumerate_eq) simp_all
  with assms(2) have "leads_to lib sl es holds w (ps ! fst x) (snd x)" by (simp add: list_all2_conv_all_nth)
  then show "(case x of (i, p) \<Rightarrow> case decode_reference lib sl p of Inl e \<Rightarrow> Inl e | Inr None \<Rightarrow> Inr None
         | Inr (Some (n, c)) \<Rightarrow> map_sum id (\<lambda>d. Some (d, (i, c))) (get_driver_by_name es n)) =
        Inr (case x of (i, p) \<Rightarrow> map_option (\<lambda>(d, y). (d, (i, y))) (fetch_target lib sl es p))"
    by (cases x) (auto elim: fetch_target_cases[OF ready])
qed

lemma fetched_payloads:
  assumes ready: "storage_ready lib sl es winv holds accepts" and "list_all2 (leads_to lib sl es holds w) ps qs"
  defines "groups \<equiv> group_items (picks (fetch_target lib sl es) qs)"
  defines "pss \<equiv> map (\<lambda>(d, items). map (\<lambda>x. ps ! fst x) items) groups"
  shows "list_all2 (\<lambda>(d, items) rs. d < length (es_drivers es) \<and> list_all2 (holds w) (map snd items) rs) groups pss"
    and "list_all2 (\<lambda>(d, items) rs. length rs = length items) groups pss"
    and "(i, v) \<in> set (assignments (\<lambda>_ p. p) (zip groups pss)) \<Longrightarrow> v = ps ! i \<and> i < length qs"
proof -
  have "d < length (es_drivers es) \<and> i < length qs \<and> holds w c (ps ! i)" if "(d, i, c) \<in> set (picks (fetch_target lib sl es) qs)" for d i c
  proof -
    have i: "i < length qs" "fetch_target lib sl es (qs ! i) = Some (d, c)" using that by (simp_all add: set_picks)
    with assms(2) have "leads_to lib sl es holds w (ps ! i) (qs ! i)" by (simp add: list_all2_conv_all_nth)
    with i show ?thesis by (auto elim: fetch_target_cases[OF ready])
  qed
  then have "\<forall>(d, items)\<in>set groups. d < length (es_drivers es) \<and> (\<forall>x\<in>set items. fst x < length qs \<and> holds w (snd x) (ps ! fst x))"
    unfolding groups_def by (intro group_items_all) auto
  note all = bspec[OF this]
  show "list_all2 (\<lambda>(d, items) rs. d < length (es_drivers es) \<and> list_all2 (holds w) (map snd items) rs) groups pss"
    using all by (auto simp: pss_def list_all2_map1 list_all2_map2 list_all2_same)
  show "list_all2 (\<lambda>(d, items) rs. length rs = length items) groups pss"
    by (auto simp: pss_def list_all2_map2 list_all2_same)
  assume "(i, v) \<in> set (assignments (\<lambda>_ p. p) (zip groups pss))"
  then obtain d items c where g: "(d, items) \<in> set groups" "(i, c) \<in> set items" "v = ps ! i"
    by (auto simp: assignments_def pss_def zip_map1 zip_map2 zip_same_conv_map)
  with all[OF g(1)] show "v = ps ! i \<and> i < length qs" by auto
qed

lemma payloads_restored:
  assumes ready: "storage_ready lib sl es winv holds accepts" and leads: "list_all2 (leads_to lib sl es holds w) ps qs"
  defines "groups \<equiv> group_items (picks (fetch_target lib sl es) qs)"
  defines "us \<equiv> assignments (\<lambda>_ p. p) (zip groups (map (\<lambda>(d, items). map (\<lambda>x. ps ! fst x) items) groups))"
  shows "distinct (map fst us)" "updates us qs = ps"
proof -
  note fetched = fetched_payloads[OF ready leads, folded groups_def]
  show distinct: "distinct (map fst us)"
    unfolding us_def groups_def by (rule assignments_distinct[OF fetched(2)[unfolded groups_def] distinct_picks])
  show "updates us qs = ps"
  proof (rule nth_equalityI)
    fix i assume "i < length (updates us qs)"
    then have i: "i < length qs" by simp
    show "updates us qs ! i = ps ! i"
    proof (cases "i \<in> fst ` set us")
      case True
      then obtain v where "(i, v) \<in> set us" by force
      with fetched(3)[folded us_def] updates_at[OF this distinct i] show ?thesis by blast
    next
      case no: False
      have "fetch_target lib sl es (qs ! i) = None"
      proof (rule ccontr)
        assume "fetch_target lib sl es (qs ! i) \<noteq> None"
        then obtain d c where "(d, i, c) \<in> set (picks (fetch_target lib sl es) qs)" using i by (auto simp: set_picks)
        moreover have "list_all2 (\<lambda>(d, items) ys. list_all2 (\<lambda>y x. True) ys (map snd items)) groups (map (\<lambda>(d, items). map (\<lambda>x. ps ! fst x) items) groups)"
          using fetched(2) by (rule list_all2_mono) (auto simp: list_all2_conv_all_nth)
        ultimately show False
          using no assignments_member[of "\<lambda>_ _ _. True" "picks (fetch_target lib sl es) qs" _ d i c "\<lambda>_ p. p"]
          unfolding us_def groups_def by force
      qed
      moreover have "leads_to lib sl es holds w (ps ! i) (qs ! i)" using leads i by (simp add: list_all2_conv_all_nth)
      ultimately show ?thesis using no by (auto simp: updates_other elim: fetch_target_cases[OF ready])
    qed
  qed (simp add: list_all2_lengthD[OF leads])
qed

lemma retrieve_payload_sequence_ok:
  assumes ready: "storage_ready lib sl es winv holds accepts" and "winv (ss_world s)"
    and leads: "list_all2 (leads_to lib sl es holds (ss_world s)) ps qs"
  shows "\<exists>s'. retrieve_payload_sequence lib sl es qs s = (Inr ps, s') \<and> ss_world s' = ss_world s"
proof (cases "length qs = 1")
  case True
  then obtain p q where pq: "ps = [p]" "qs = [q]" using leads by (auto simp: length_Suc_conv list_all2_Cons2)
  with retrieve_payload_ok[OF assms(1,2), of p q] leads show ?thesis
    by (auto simp: retrieve_payload_sequence_def pbind_def pret_def)
next
  case False
  let ?groups = "group_items (picks (fetch_target lib sl es) qs)"
  let ?pss = "map (\<lambda>(d, items). map (\<lambda>x. ps ! fst x) items) ?groups"
  note fetched = fetched_payloads[OF ready leads] and restored = payloads_restored[OF ready leads]
  show ?thesis
  proof (cases "picks (fetch_target lib sl es) qs = []")
    case True
    then have "qs = ps" using restored(2) by (simp add: group_items_def assignments_def updates_def)
    moreover have "retrieve_payload_sequence lib sl es qs s = (Inr qs, s)" using False True
      by (simp add: retrieve_payload_sequence_def fetch_targets[OF ready leads] plift_def pbind_def pret_def Let_def flip: picks_def)
    ultimately show ?thesis by simp
  next
    case fetches: False
    have "\<forall>i\<in>fst ` set (assignments (\<lambda>_ p. p) (zip ?groups ?pss)). i < length qs" using fetched(3) by force
    note sorted_updates[OF restored(1) this, unfolded restored(2)]
    with False fetches groups_retrieved[OF ready assms(2) fetched(1)] stored_collected[OF fetched(2), of es "[]"] show ?thesis
      by (simp add: retrieve_payload_sequence_def fetch_targets[OF ready leads] pbind_def pret_def pthen_def plift_def record_metrics_def
          pmod_def Let_def flip: picks_def)
  qed
qed

end
