(* ===== verification/Data_Spec.thy ===== *)
theory Data_Spec
  imports Data_Converter Storage_Spec
begin

section \<open>Values and failures survive the data converter\<close>

text \<open>
  The payload converter, the codec and the external storage on S3 drivers together: what is encoded can be decoded
  again, by a converter with another store context too, as long as the objects of the store are kept.  The same holds
  for all payloads of a failure and its causes.
\<close>

subsection \<open>Codecs and configurations\<close>

text \<open>What \<^verbatim>\<open>PayloadCodec\<close> asks of a codec: decoding inverts encoding, and there are at least one and not more payloads than given.\<close>

definition codec_ok :: "payload_codec \<Rightarrow> bool" where
  "codec_ok c \<longleftrightarrow> (\<forall>ps. \<exists>qs. cd_encode c ps = Inr qs \<and> cd_decode c qs = Inr ps \<and> length qs \<le> length ps \<and> (ps \<noteq> [] \<longrightarrow> qs \<noteq> []))"

definition encoded :: "'w dataconv \<Rightarrow> payload list \<Rightarrow> conv_error + payload list" where
  "encoded dc ps = (case dc_codec dc of None \<Rightarrow> Inr ps | Some c \<Rightarrow> cd_encode c ps)"

definition converter_ready :: "'w dataconv \<Rightarrow> ('w \<Rightarrow> bool) \<Rightarrow> ('w \<Rightarrow> storage_claim \<Rightarrow> payload \<Rightarrow> bool) \<Rightarrow> (nat \<Rightarrow> store_context \<Rightarrow> payload \<Rightarrow> bool) \<Rightarrow> bool" where
  "converter_ready dc winv holds accepts \<longleftrightarrow> (\<forall>c. dc_codec dc = Some c \<longrightarrow> codec_ok c) \<and>
     (\<forall>es. dc_storage dc = Some es \<longrightarrow> storage_ready (dc_lib dc) (dc_storage_lib dc) es winv holds accepts)"

text \<open>The drivers accept the encoded payloads, and the ones that stay inline do not look like references.\<close>

definition travels :: "'w dataconv \<Rightarrow> (nat \<Rightarrow> store_context \<Rightarrow> payload \<Rightarrow> bool) \<Rightarrow> payload list \<Rightarrow> bool" where
  "travels dc accepts ps \<longleftrightarrow> (\<forall>qs. encoded dc ps = Inr qs \<longrightarrow> (\<forall>q\<in>set qs. case dc_storage dc of
     None \<Rightarrow> \<not> is_reference_payload q
   | Some es \<Rightarrow> storable (dc_storage_lib dc) es accepts q \<and>
       (select_driver (dc_storage_lib dc) es q = Inr None \<longrightarrow> \<not> is_reference_payload q)))"

definition recoverable :: "'w dataconv \<Rightarrow> ('w \<Rightarrow> bool) \<Rightarrow> ('w \<Rightarrow> storage_claim \<Rightarrow> payload \<Rightarrow> bool) \<Rightarrow> 'w \<Rightarrow> payload list \<Rightarrow> payload list \<Rightarrow> bool" where
  "recoverable dc winv holds w ps qs \<longleftrightarrow> (\<forall>ctx s. winv (ss_world s) \<and> world_le holds w (ss_world s) \<longrightarrow>
     (\<exists>s'. transform_inbound_payloads (data_with_store_context ctx dc) qs s = (Inr ps, s') \<and> ss_world s' = ss_world s))"

lemma recoverable_later: "recoverable dc winv holds w ps qs \<Longrightarrow> world_le holds w w' \<Longrightarrow> recoverable dc winv holds w' ps qs"
  unfolding recoverable_def by (blast intro: world_le_trans)

lemma not_reference: "\<not> is_reference_payload p \<Longrightarrow> decode_reference lib sl p = Inr None"
  by (auto simp: is_reference_payload_def decode_reference_def metadata_def REFERENCE_ENCODING_def split: option.splits)

lemma storage_ready_context: "storage_ready lib sl (with_store_context ctx es) winv holds accepts \<longleftrightarrow> storage_ready lib sl es winv holds accepts"
  by (simp add: storage_ready_def with_store_context_def)

lemma leads_to_context: "leads_to lib sl (with_store_context ctx es) holds w p q \<longleftrightarrow> leads_to lib sl es holds w p q"
  by (simp add: leads_to_def with_store_context_def)

lemma stored_leads_back:
  assumes "stored_as lib sl es holds w p q" "select_driver sl es p = Inr None \<Longrightarrow> \<not> is_reference_payload p" "world_le holds w w'"
  shows "leads_to lib sl es holds w' p q"
  using assms by (auto simp: stored_as_def leads_to_def world_le_def not_reference split: sum.splits option.splits)

subsection \<open>Sequences of payloads\<close>

lemma codec_roundtrip:
  assumes "converter_ready dc winv holds accepts"
  obtains qs where "encoded dc ps = Inr qs" "decode_payload_sequence (data_with_store_context ctx dc) qs s = (Inr ps, s)"
    "length qs \<le> length ps" "ps \<noteq> [] \<Longrightarrow> qs \<noteq> []"
proof (cases "dc_codec dc")
  case None
  then show ?thesis using that[of ps] by (simp add: encoded_def decode_payload_sequence_def data_with_store_context_def pret_def)
next
  case (Some c)
  then have "codec_ok c" using assms by (simp add: converter_ready_def)
  with that Some show ?thesis unfolding codec_ok_def
    by (auto simp: encoded_def decode_payload_sequence_def data_with_store_context_def plift_def)
qed

lemma stored_roundtrip:
  assumes ready: "converter_ready dc winv holds accepts" and "winv (ss_world s)" and "travels dc accepts ps" "encoded dc ps = Inr es"
  obtains qs s' where "external_store_payload_sequence dc es s = (Inr qs, s')" "winv (ss_world s')"
    "world_le holds (ss_world s) (ss_world s')" "length qs = length es"
    "\<forall>ctx t. winv (ss_world t) \<and> world_le holds (ss_world s') (ss_world t) \<longrightarrow>
      (\<exists>t'. external_retrieve_payload_sequence (data_with_store_context ctx dc) qs t = (Inr es, t') \<and> ss_world t' = ss_world t)"
proof (cases "dc_storage dc")
  case None
  then have "external_retrieve_payload_sequence (data_with_store_context ctx dc) es t = (Inr es, t)" for ctx t
    using assms(3,4) by (auto simp: travels_def external_retrieve_payload_sequence_def data_with_store_context_def pret_def)
  with None assms(2) that[of es s] show ?thesis by (simp add: external_store_payload_sequence_def pret_def)
next
  case (Some st)
  let ?lib = "dc_lib dc" and ?sl = "dc_storage_lib dc"
  have st: "storage_ready ?lib ?sl st winv holds accepts" using ready Some by (simp add: converter_ready_def)
  have inline: "storable ?sl st accepts p \<and> (select_driver ?sl st p = Inr None \<longrightarrow> \<not> is_reference_payload p)" if "p \<in> set es" for p
    using assms(3,4) Some that by (simp add: travels_def)
  then have "\<forall>p\<in>set es. storable ?sl st accepts p" by blast
  from store_payload_sequence_ok[OF st assms(2) this] obtain qs s' where
    q: "store_payload_sequence ?lib ?sl st es s = (Inr qs, s')" "winv (ss_world s')" "world_le holds (ss_world s) (ss_world s')"
      "list_all2 (stored_as ?lib ?sl st holds (ss_world s')) es qs" by blast
  have "\<exists>t'. external_retrieve_payload_sequence (data_with_store_context ctx dc) qs t = (Inr es, t') \<and> ss_world t' = ss_world t"
    if t: "winv (ss_world t)" "world_le holds (ss_world s') (ss_world t)" for ctx t
  proof -
    have "list_all2 (leads_to ?lib ?sl (with_store_context ctx st) holds (ss_world t)) es qs"
      using q(4) inline t(2) by (auto simp: list_all2_conv_all_nth leads_to_context intro!: stored_leads_back)
    with retrieve_payload_sequence_ok[of ?lib ?sl "with_store_context ctx st" winv holds accepts t es qs] st t(1) Some show ?thesis
      by (simp add: storage_ready_context external_retrieve_payload_sequence_def data_with_store_context_def)
  qed
  with q(1-3) list_all2_lengthD[OF q(4)] Some that[of qs s'] show ?thesis by (simp add: external_store_payload_sequence_def)
qed

lemma outbound_roundtrip:
  assumes ready: "converter_ready dc winv holds accepts" and "winv (ss_world s)" and "travels dc accepts ps"
  obtains qs s' where "transform_outbound_payloads dc ps s = (Inr qs, s')" "winv (ss_world s')"
    "world_le holds (ss_world s) (ss_world s')" "recoverable dc winv holds (ss_world s') ps qs"
    "length qs \<le> length ps" "ps \<noteq> [] \<Longrightarrow> qs \<noteq> []"
proof -
  from codec_roundtrip[OF ready, of ps None s] obtain es where es: "encoded dc ps = Inr es" "length es \<le> length ps" "ps \<noteq> [] \<Longrightarrow> es \<noteq> []" by metis
  from stored_roundtrip[OF ready assms(2,3) es(1)] obtain qs s' where
    q: "external_store_payload_sequence dc es s = (Inr qs, s')" "winv (ss_world s')" "world_le holds (ss_world s) (ss_world s')"
      "length qs = length es"
      "\<forall>ctx t. winv (ss_world t) \<and> world_le holds (ss_world s') (ss_world t) \<longrightarrow>
        (\<exists>t'. external_retrieve_payload_sequence (data_with_store_context ctx dc) qs t = (Inr es, t') \<and> ss_world t' = ss_world t)" by blast
  have "decode_payload_sequence (data_with_store_context ctx dc) es t = (Inr ps, t)" for ctx t
    using codec_roundtrip[OF ready, of ps ctx t] es(1) by (metis Inr_inject)
  then have "transform_inbound_payloads (data_with_store_context ctx dc) qs t = (Inr ps, t')"
    if "external_retrieve_payload_sequence (data_with_store_context ctx dc) qs t = (Inr es, t')" for ctx t t'
    using that by (simp add: transform_inbound_payloads_def pbind_def)
  with q(5) have "recoverable dc winv holds (ss_world s') ps qs" unfolding recoverable_def by blast
  moreover have "transform_outbound_payloads dc ps s = (Inr qs, s')"
    using es(1) q(1) by (auto simp: transform_outbound_payloads_def encode_payload_sequence_def encoded_def pbind_def plift_def pret_def split: option.splits)
  ultimately show ?thesis using that q es by (metis length_0_conv)
qed

lemma values_roundtrip:
  assumes ready: "converter_ready dc winv holds accepts" and "winv (ss_world s)"
    and "dc_to_payloads dc vs = Inr ps" "dc_from_payloads dc ps hs = Inr vs" "travels dc accepts ps"
  shows "\<exists>qs s'. data_encode dc vs s = (Inr qs, s') \<and> winv (ss_world s') \<and> world_le holds (ss_world s) (ss_world s') \<and>
    (\<forall>ctx t. winv (ss_world t) \<and> world_le holds (ss_world s') (ss_world t) \<longrightarrow>
      (\<exists>t'. data_decode (data_with_store_context ctx dc) qs hs t = (Inr vs, t') \<and> ss_world t' = ss_world t))"
proof -
  from outbound_roundtrip[OF ready assms(2,5)] obtain qs s' where
    q: "transform_outbound_payloads dc ps s = (Inr qs, s')" "winv (ss_world s')" "world_le holds (ss_world s) (ss_world s')"
      "recoverable dc winv holds (ss_world s') ps qs" by blast
  have "data_encode dc vs s = (Inr qs, s')"
    using assms(3) q(1) by (simp add: data_encode_def transform_outbound_payloads_def pbind_def plift_def)
  moreover have "data_decode dc' qs hs t = (Inr vs, t')"
    if "transform_inbound_payloads dc' qs t = (Inr ps, t')" "dc_from_payloads dc' = dc_from_payloads dc" for dc' :: "'a dataconv" and t t'
    using that assms(4) by (auto simp: data_decode_def transform_inbound_payloads_def pbind_def plift_def split: prod.splits sum.splits)
  then have "data_decode (data_with_store_context ctx dc) qs hs t = (Inr vs, t')"
    if "transform_inbound_payloads (data_with_store_context ctx dc) qs t = (Inr ps, t')" for ctx t t'
    using that by (simp add: data_with_store_context_def)
  ultimately show ?thesis using q(2,3,4) unfolding recoverable_def by blast
qed

subsection \<open>Failures\<close>

definition info_payloads :: "failure_info option \<Rightarrow> payload list option" where
  "info_payloads info = (case info of
     Some (ApplicationFailureInfo t nr d delay cat) \<Rightarrow> d | Some (TimeoutFailureInfo t d) \<Rightarrow> d | Some (CanceledFailureInfo d) \<Rightarrow> d | _ \<Rightarrow> None)"

fun failure_payloads :: "failure \<Rightarrow> payload list list" where
  "failure_payloads (Failure m st cause enc info) =
     (case enc of None \<Rightarrow> [] | Some p \<Rightarrow> [[p]]) @ (case info_payloads info of None \<Rightarrow> [] | Some ps \<Rightarrow> [ps]) @
     (case cause of None \<Rightarrow> [] | Some c \<Rightarrow> failure_payloads c)"

definition recovers :: "'w dataconv \<Rightarrow> ('w \<Rightarrow> bool) \<Rightarrow> ('w \<Rightarrow> storage_claim \<Rightarrow> payload \<Rightarrow> bool) \<Rightarrow> 'w \<Rightarrow>
    ((payload list \<Rightarrow> ('w, payload list) stm) \<Rightarrow> ('w, 'x) stm) \<Rightarrow> 'x \<Rightarrow> bool" where
  "recovers dc winv holds w f x \<longleftrightarrow> (\<forall>ctx s. winv (ss_world s) \<and> world_le holds w (ss_world s) \<longrightarrow>
     (\<exists>s'. f (transform_inbound_payloads (data_with_store_context ctx dc)) s = (Inr x, s') \<and> ss_world s' = ss_world s))"

lemma recovers_later: "recovers dc winv holds w f x \<Longrightarrow> world_le holds w w' \<Longrightarrow> recovers dc winv holds w' f x"
  unfolding recovers_def by (blast intro: world_le_trans)

lemma recovers_pret: "recovers dc winv holds w (\<lambda>cb. pret x) x"
  by (auto simp: recovers_def pret_def)

lemma recoverable_recovers: "recoverable dc winv holds w ps qs \<longleftrightarrow> recovers dc winv holds w (\<lambda>cb. cb qs) ps"
  by (simp add: recoverable_def recovers_def)

lemma recovers_first: "recovers dc winv holds w (\<lambda>cb. plift (first_of [x])) x"
  by (auto simp: recovers_def plift_def)

lemma recovers_bind:
  assumes "recovers dc winv holds w f x" "recovers dc winv holds w (\<lambda>cb. g cb x) y"
  shows "recovers dc winv holds w (\<lambda>cb. pbind (f cb) (g cb)) y"
  unfolding recovers_def
proof (intro allI impI)
  fix ctx and s :: "'a storage_state"
  let ?cb = "transform_inbound_payloads (data_with_store_context ctx dc)"
  assume s: "winv (ss_world s) \<and> world_le holds w (ss_world s)"
  with assms(1) obtain s1 where 1: "f ?cb s = (Inr x, s1)" "ss_world s1 = ss_world s" unfolding recovers_def by blast
  with assms(2) s obtain s2 where "g ?cb x s1 = (Inr y, s2)" "ss_world s2 = ss_world s" unfolding recovers_def by metis
  with 1 show "\<exists>s'. pbind (f ?cb) (g ?cb) s = (Inr y, s') \<and> ss_world s' = ss_world s" by (simp add: pbind_def)
qed

lemma info_form: "(\<forall>cb. apply_to_info cb info = pret info) \<or>
  (\<exists>C. info = C (info_payloads info) \<and> (\<forall>x cb. apply_to_info cb (C x) = pbind (apply_to_details cb x) (\<lambda>y. pret (C y))))"
proof (cases info)
  case (Some i)
  show ?thesis
  proof (cases i)
    case (ApplicationFailureInfo t nr d delay cat)
    with Some show ?thesis
      by (intro disjI2 exI[of _ "\<lambda>d. Some (ApplicationFailureInfo t nr d delay cat)"]) (simp add: info_payloads_def apply_to_info_def)
  next
    case (TimeoutFailureInfo t d)
    with Some show ?thesis by (intro disjI2 exI[of _ "\<lambda>d. Some (TimeoutFailureInfo t d)"]) (simp add: info_payloads_def apply_to_info_def)
  next
    case (CanceledFailureInfo d)
    with Some show ?thesis by (intro disjI2 exI[of _ "\<lambda>d. Some (CanceledFailureInfo d)"]) (simp add: info_payloads_def apply_to_info_def)
  qed (simp_all add: Some apply_to_info_def)
qed (simp add: apply_to_info_def)

lemma attributes_roundtrip:
  assumes ready: "converter_ready dc winv holds accepts" and "winv (ss_world s)" and "\<forall>p. enc = Some p \<longrightarrow> travels dc accepts [p]"
  shows "\<exists>enc' s'. apply_to_attributes (transform_outbound_payloads dc) enc s = (Inr enc', s') \<and> winv (ss_world s') \<and>
    world_le holds (ss_world s) (ss_world s') \<and> recovers dc winv holds (ss_world s') (\<lambda>cb. apply_to_attributes cb enc') enc"
proof (cases enc)
  case None
  with assms(2) show ?thesis by (auto simp: apply_to_attributes_def recovers_def pret_def)
next
  case (Some p)
  with assms(3) have "travels dc accepts [p]" by simp
  from outbound_roundtrip[OF ready assms(2) this] obtain qs s' where
    q: "transform_outbound_payloads dc [p] s = (Inr qs, s')" "winv (ss_world s')" "world_le holds (ss_world s) (ss_world s')"
      "recoverable dc winv holds (ss_world s') [p] qs" "length qs \<le> 1" "qs \<noteq> []" by (metis length_Cons list.size(3) One_nat_def not_Cons_self2)
  then obtain q where "qs = [q]" by (cases qs) auto
  then have one: "recovers dc winv holds (ss_world s') (\<lambda>cb. cb [q]) [p]" using q(4) by (simp add: recoverable_recovers)
  have "recovers dc winv holds (ss_world s') (\<lambda>cb. apply_to_attributes cb (Some q)) enc"
    unfolding apply_to_attributes_def Some option.case
    by (rule recovers_bind, rule one, rule recovers_bind, rule recovers_first, rule recovers_pret)
  with q \<open>qs = [q]\<close> Some show ?thesis
    by (intro exI[of _ "Some q"] exI[of _ s']) (simp add: apply_to_attributes_def pm_simps)
qed

lemma info_roundtrip:
  assumes ready: "converter_ready dc winv holds accepts" and "winv (ss_world s)"
    and "\<forall>ps. info_payloads info = Some ps \<longrightarrow> travels dc accepts ps"
  shows "\<exists>info' s'. apply_to_info (transform_outbound_payloads dc) info s = (Inr info', s') \<and> winv (ss_world s') \<and>
    world_le holds (ss_world s) (ss_world s') \<and> recovers dc winv holds (ss_world s') (\<lambda>cb. apply_to_info cb info') info"
proof -
  have details: "\<exists>d' s'. apply_to_details (transform_outbound_payloads dc) d s = (Inr d', s') \<and> winv (ss_world s') \<and>
      world_le holds (ss_world s) (ss_world s') \<and> recovers dc winv holds (ss_world s') (\<lambda>cb. apply_to_details cb d') d"
    if "\<forall>ps. d = Some ps \<longrightarrow> travels dc accepts ps" for d
  proof (cases d)
    case None
    with assms(2) show ?thesis by (auto simp: apply_to_details_def recovers_def pret_def)
  next
    case (Some ps)
    with that have "travels dc accepts ps" by simp
    from outbound_roundtrip[OF ready assms(2) this] obtain qs s' where
      q: "transform_outbound_payloads dc ps s = (Inr qs, s')" "winv (ss_world s')" "world_le holds (ss_world s) (ss_world s')"
        "recoverable dc winv holds (ss_world s') ps qs" by metis
    have "recovers dc winv holds (ss_world s') (\<lambda>cb. apply_to_details cb (Some qs)) d"
      unfolding apply_to_details_def Some option.case
      by (rule recovers_bind, rule q(4)[unfolded recoverable_recovers], rule recovers_pret)
    with q Some show ?thesis
      by (intro exI[of _ "Some qs"] exI[of _ s']) (simp add: apply_to_details_def pm_simps)
  qed
  have wrap: "recovers dc winv holds w (\<lambda>cb. pbind (apply_to_details cb d') (\<lambda>x. pret (C x))) (C d)"
    if "recovers dc winv holds w (\<lambda>cb. apply_to_details cb d') d" for w d' d and C :: "payload list option \<Rightarrow> failure_info option"
    by (rule recovers_bind, rule that, rule recovers_pret)
  from info_form[of info] show ?thesis
  proof
    assume "\<forall>cb :: payload list \<Rightarrow> ('a, payload list) stm. apply_to_info cb info = pret info"
    then show ?thesis using assms(2) by (intro exI[of _ info] exI[of _ s]) (simp add: recovers_def pret_def)
  next
    assume "\<exists>C. info = C (info_payloads info) \<and>
      (\<forall>x (cb :: payload list \<Rightarrow> ('a, payload list) stm). apply_to_info cb (C x) = pbind (apply_to_details cb x) (\<lambda>y. pret (C y)))"
    then obtain C where C: "info = C (info_payloads info)"
      "\<And>x (cb :: payload list \<Rightarrow> ('a, payload list) stm). apply_to_info cb (C x) = pbind (apply_to_details cb x) (\<lambda>y. pret (C y))" by blast
    from details[of "info_payloads info"] assms(3) obtain d s' where
      d: "apply_to_details (transform_outbound_payloads dc) (info_payloads info) s = (Inr d, s')" "winv (ss_world s')"
        "world_le holds (ss_world s) (ss_world s')" "recovers dc winv holds (ss_world s') (\<lambda>cb. apply_to_details cb d) (info_payloads info)" by blast
    have "apply_to_info (transform_outbound_payloads dc) info s = (Inr (C d), s')"
      using d(1) by (subst C(1)) (simp add: C(2) pbind_def pret_def)
    moreover have "recovers dc winv holds (ss_world s') (\<lambda>cb. apply_to_info cb (C d)) info"
      using wrap[OF d(4), of C] by (subst C(1)) (simp add: C(2))
    ultimately show ?thesis using d(2,3) by blast
  qed
qed

lemma failure_payloads_back:
  assumes ready: "converter_ready dc winv holds accepts"
  shows "winv (ss_world s) \<Longrightarrow> \<forall>ps\<in>set (failure_payloads f). travels dc accepts ps \<Longrightarrow>
    \<exists>f' s'. encode_failure_payloads dc f s = (Inr f', s') \<and> winv (ss_world s') \<and> world_le holds (ss_world s) (ss_world s') \<and>
      recovers dc winv holds (ss_world s') (\<lambda>cb. apply_to_failure_payloads cb f') f"
proof (induction f arbitrary: s)
  case (Failure m st cause enc info)
  have parts: "\<forall>p. enc = Some p \<longrightarrow> travels dc accepts [p]" "\<forall>ps. info_payloads info = Some ps \<longrightarrow> travels dc accepts ps"
    using Failure.prems(2) by auto
  from attributes_roundtrip[OF ready Failure.prems(1) parts(1)] obtain enc' s1 where
    1: "apply_to_attributes (transform_outbound_payloads dc) enc s = (Inr enc', s1)" "winv (ss_world s1)"
      "world_le holds (ss_world s) (ss_world s1)" "recovers dc winv holds (ss_world s1) (\<lambda>cb. apply_to_attributes cb enc') enc" by blast
  from info_roundtrip[OF ready 1(2) parts(2)] obtain info' s2 where
    2: "apply_to_info (transform_outbound_payloads dc) info s1 = (Inr info', s2)" "winv (ss_world s2)"
      "world_le holds (ss_world s1) (ss_world s2)" "recovers dc winv holds (ss_world s2) (\<lambda>cb. apply_to_info cb info') info" by blast
  show ?case
  proof (cases cause)
    case None
    let ?f = "Failure m st None enc' info'"
    have "encode_failure_payloads dc (Failure m st cause enc info) s = (Inr ?f, s2)"
      using 1(1) 2(1) None by (simp add: encode_failure_payloads_def pbind_def pret_def)
    moreover have "recovers dc winv holds (ss_world s2) (\<lambda>cb. apply_to_failure_payloads cb ?f) (Failure m st cause enc info)"
      unfolding None apply_to_failure_payloads.simps option.case
      by (rule recovers_bind, rule recovers_later[OF 1(4) 2(3)], rule recovers_bind, rule 2(4), rule recovers_pret)
    ultimately show ?thesis using 2(2) world_le_trans[OF 1(3) 2(3)] by blast
  next
    case (Some c)
    with Failure.IH[of c s2] Failure.prems(2) 2(2) obtain c' s3 where
      3: "apply_to_failure_payloads (transform_outbound_payloads dc) c s2 = (Inr c', s3)" "winv (ss_world s3)"
        "world_le holds (ss_world s2) (ss_world s3)" "recovers dc winv holds (ss_world s3) (\<lambda>cb. apply_to_failure_payloads cb c') c"
      unfolding encode_failure_payloads_def by auto
    let ?f = "Failure m st (Some c') enc' info'"
    have "encode_failure_payloads dc (Failure m st cause enc info) s = (Inr ?f, s3)"
      using 1(1) 2(1) 3(1) Some by (simp add: encode_failure_payloads_def pbind_def pret_def)
    moreover have "recovers dc winv holds (ss_world s3) (\<lambda>cb. apply_to_failure_payloads cb ?f) (Failure m st cause enc info)"
      unfolding Some apply_to_failure_payloads.simps option.case
      by (rule recovers_bind, rule recovers_later[OF 1(4) world_le_trans[OF 2(3) 3(3)]], rule recovers_bind, rule recovers_later[OF 2(4) 3(3)],
          rule recovers_bind, rule 3(4), rule recovers_pret)
    ultimately show ?thesis using 3(2) world_le_trans[OF world_le_trans[OF 1(3) 2(3)] 3(3)] by blast
  qed
qed

subsection \<open>On S3\<close>

definition s3_drivers :: "s3_lib \<Rightarrow> 'w s3_client \<Rightarrow> 'w s3_config list \<Rightarrow> 'w driver list" where
  "s3_drivers dl client cfgs = map (\<lambda>cfg. S3StorageDriver dl (cfg\<lparr>s3c_client := client\<rparr>)) cfgs"

definition s3_takes :: "s3_lib \<Rightarrow> 'w s3_client \<Rightarrow> 'w s3_config list \<Rightarrow> string set \<Rightarrow> nat \<Rightarrow> store_context \<Rightarrow> payload \<Rightarrow> bool" where
  "s3_takes dl client cfgs U i = s3_accepts dl ((cfgs ! i)\<lparr>s3c_client := client\<rparr>) U"

text \<open>A data converter with the default payload converter, a codec and a storage with S3 drivers.\<close>

definition s3_converter :: "pylib \<Rightarrow> storage_lib \<Rightarrow> classes \<Rightarrow> transfer_types \<Rightarrow> payload_codec option \<Rightarrow> 'w external_storage \<Rightarrow> 'w dataconv" where
  "s3_converter lib sl cls tt codec es = \<lparr>dc_lib = lib, dc_storage_lib = sl,
     dc_to_payloads = transfer_to_payloads tt (composite_to_payloads (default_converters lib cls)),
     dc_from_payloads = transfer_from_payloads tt (composite_from_payloads (default_converters lib cls)),
     dc_codec = codec, dc_storage = Some es\<rparr>"

definition reference_ok :: "storage_lib \<Rightarrow> bool" where
  "reference_ok sl \<longleftrightarrow> (\<forall>n c. sl_reference_fields sl (sl_reference sl n c) = (n, c))"

lemma s3_converter_ready:
  assumes "pylib_ok lib" "reference_ok sl" "\<forall>c. codec = Some c \<longrightarrow> codec_ok c"
    "external_storage_init (s3_drivers dl client cfgs) selector threshold = Inr es"
    "dc = s3_converter lib sl cls tt codec (with_store_context ctx es)"
  shows "converter_ready dc (s3_inv dl client U contents) (s3_holds dl contents)
    (s3_takes dl client cfgs U)"
proof -
  have "storage_contract (es_drivers es ! i) (s3_inv dl client U contents) (s3_holds dl contents) (s3_takes dl client cfgs U i) \<and>
      dget (es_driver_map es) (dr_name (es_drivers es ! i)) = Some i" if "i < length (es_drivers es)" for i
  proof -
    have es: "es_drivers es = s3_drivers dl client cfgs"
      using assms(4) by (cases "build_driver_map 0 (s3_drivers dl client cfgs) []") (auto simp: external_storage_init_def split: if_splits)
    then have i: "i < length cfgs" using that by (simp add: s3_drivers_def)
    then have "es_drivers es ! i = S3StorageDriver dl ((cfgs ! i)\<lparr>s3c_client := client\<rparr>)" using es by (simp add: s3_drivers_def)
    with s3.storage_contract_axioms external_storage_init_finds[OF assms(4), of i] es that show ?thesis by (simp add: s3_takes_def)
  qed
  then show ?thesis
    using assms(1-3,5) by (simp add: converter_ready_def s3_converter_def storage_ready_def reference_ok_def with_store_context_def)
qed

text \<open>C8 With the default payload converter, any codec that keeps the laws of \<^verbatim>\<open>PayloadCodec\<close> and external storage on a reliable S3
  bucket, every list of values with hints that the payload converter supports is encoded, large payloads
  being replaced by references.  At any later time, also after other values have been stored, and in any store context, a
  converter with the same storage decodes the payloads to the same values and leaves the store as it is.  The
  payloads that stay inline must not look like references, and the drivers must accept the others.\<close>

theorem data_converter_roundtrip:
  assumes "pylib_ok lib" "reference_ok sl" "\<forall>c. codec = Some c \<longrightarrow> codec_ok c"
    "external_storage_init (s3_drivers dl client cfgs) selector threshold = Inr es"
    "list_all2 (transfers tt lib cls) hs vs" "dc = s3_converter lib sl cls tt codec (with_store_context ctx es)"
    "\<forall>ps. dc_to_payloads dc vs = Inr ps \<longrightarrow> travels dc (s3_takes dl client cfgs U) ps"
    "s3_inv dl client U contents (ss_world s)"
  shows "\<exists>ps s'. data_encode dc vs s = (Inr ps, s') \<and> s3_inv dl client U contents (ss_world s') \<and>
    world_le (s3_holds dl contents) (ss_world s) (ss_world s') \<and>
    (\<forall>ctx' t. s3_inv dl client U contents (ss_world t) \<and> world_le (s3_holds dl contents) (ss_world s') (ss_world t) \<longrightarrow>
      (\<exists>t'. data_decode (data_with_store_context ctx' dc) ps (Some hs) t = (Inr vs, t') \<and> ss_world t' = ss_world t))"
proof -
  from default_converter_returns_values[OF assms(1,5)] obtain ps where
    ps: "dc_to_payloads dc vs = Inr ps" "dc_from_payloads dc ps (Some hs) = Inr vs" by (auto simp: assms(6) s3_converter_def)
  show ?thesis
    by (rule values_roundtrip[OF s3_converter_ready[OF assms(1-4,6)] assms(8) ps]) (use assms(7) ps(1) in blast)
qed


subsection \<open>A concrete store\<close>

text \<open>Strings as marked characters with an end mark.\<close>

definition write_str :: "string \<Rightarrow> string" where
  "write_str s = concat (map (\<lambda>c. [CHR ''.'', c]) s) @ ''|''"

fun read_str :: "string \<Rightarrow> string \<times> string" where
  "read_str (m # c # r) = (if m = CHR ''.'' then case read_str r of (s, r') \<Rightarrow> (c # s, r') else ([], c # r))"
| "read_str _ = ([], [])"

lemma read_write_str: "read_str (write_str s @ r) = (s, r)"
proof (induction s)
  case Nil
  then show ?case by (cases r) (simp_all add: write_str_def)
qed (simp add: write_str_def)

fun write_items :: "(string \<times> string) list \<Rightarrow> string" where
  "write_items [] = ''-''"
| "write_items ((k, v) # kvs) = ''+'' @ write_str k @ write_str v @ write_items kvs"

fun read_items :: "nat \<Rightarrow> string \<Rightarrow> (string \<times> string) list \<times> string" where
  "read_items (Suc n) (m # r) = (if m = CHR ''-'' then ([], r) else
     case read_str r of (k, r1) \<Rightarrow> case read_str r1 of (v, r2) \<Rightarrow> case read_items n r2 of (kvs, r3) \<Rightarrow> ((k, v) # kvs, r3))"
| "read_items _ r = ([], r)"

lemma read_write_items: "length kvs < n \<Longrightarrow> read_items n (write_items kvs @ r) = (kvs, r)"
proof (induction kvs arbitrary: n)
  case Nil
  then show ?case by (cases n) simp_all
next
  case (Cons kv kvs)
  obtain k v where "kv = (k, v)" by fastforce
  moreover obtain m where "n = Suc m" "length kvs < m" using Cons.prems by (cases n) auto
  ultimately show ?case using Cons.IH[of m] by (simp add: read_write_str)
qed

lemma length_write_items: "length kvs < length (write_items kvs @ r)"
  by (induction kvs) auto

type_synonym ex_world = "string \<times> string \<Rightarrow> string option"

definition ex_client :: "ex_world s3_client" where
  "ex_client = \<lparr>s3_exists = (\<lambda>b k w. (Inr (w (b, k) \<noteq> None), w)), s3_put = (\<lambda>b k x w. (Inr (), w((b, k) \<mapsto> x))),
     s3_get = (\<lambda>b k w. (case w (b, k) of None \<Rightarrow> Inl (KeyErr k) | Some x \<Rightarrow> Inr x, w))\<rparr>"

definition ex_s3_lib :: s3_lib where
  "ex_s3_lib = \<lparr>s3_sha256 = (\<lambda>x. str_of_nat (to_nat x)), s3_serialize = (\<lambda>p. write_items (p_metadata p) @ write_str (p_data p)),
     s3_parse = (\<lambda>x. case read_items (length x) x of (m, r) \<Rightarrow> Inr \<lparr>p_metadata = m, p_data = fst (read_str r)\<rparr>)\<rparr>"

definition ex_storage_lib :: storage_lib where
  "ex_storage_lib = \<lparr>sl_byte_size = (\<lambda>p. length (p_data p)), sl_reference = (\<lambda>n c. write_str n @ write_items c),
     sl_reference_fields = (\<lambda>x. case read_str x of (n, r) \<Rightarrow> (n, fst (read_items (length r) r)))\<rparr>"

definition ex_codec :: payload_codec where
  "ex_codec = \<lparr>cd_encode = (\<lambda>ps. Inr (map (\<lambda>p. p\<lparr>p_data := rev (p_data p)\<rparr>) ps)), cd_decode = (\<lambda>ps. Inr (map (\<lambda>p. p\<lparr>p_data := rev (p_data p)\<rparr>) ps))\<rparr>"

lemma ex_reference_ok: "reference_ok ex_storage_lib"
proof -
  have "read_items (length (write_items c)) (write_items c) = (c, [])" for c
    using read_write_items[OF length_write_items, of c "[]" "[]"] by simp
  then show ?thesis by (simp add: reference_ok_def ex_storage_lib_def read_write_str)
qed

lemma ex_codec_ok: "codec_ok ex_codec"
  by (simp add: codec_ok_def ex_codec_def comp_def)

lemma ex_s3_lib_ok: "s3_lib_ok ex_s3_lib U"
proof -
  have "inj_on (\<lambda>x :: string. str_of_nat (to_nat x)) U" by (simp add: inj_on_def)
  moreover have "CHR ''/'' \<notin> set (str_of_nat n)" for n using str_of_nat_digits[of "CHR ''/''" n] by auto
  moreover have "read_items (length (write_items m @ write_str d)) (write_items m @ write_str d) = (m, write_str d)" for m d
    by (rule read_write_items) (rule length_write_items)
  ultimately show ?thesis using read_write_str[of _ "[]"] by (simp add: s3_lib_ok_def ex_s3_lib_def)
qed

lemma ex_s3_inv: "s3_inv ex_s3_lib ex_client UNIV id (\<lambda>_. None)"
  using ex_s3_lib_ok by (simp add: s3_inv_def s3_client_ok_def ex_client_def)

definition ex_config :: "string \<Rightarrow> string \<Rightarrow> ex_world s3_config" where
  "ex_config b n = \<lparr>s3c_client = ex_client, s3c_bucket = (\<lambda>_ _. Inr b), s3c_name = n, s3c_max_payload_size = 1000\<rparr>"

definition ex_configs :: "ex_world s3_config list" where
  "ex_configs = [ex_config ''small-objects'' ''s3a'', ex_config ''large-objects'' ''s3b'']"

definition ex_selector :: "store_context \<Rightarrow> payload \<Rightarrow> conv_error + selection" where
  "ex_selector ctx p = Inr (SelDriver (if length (p_data p) < 8 then 0 else 1))"

definition ex_storage :: "ex_world external_storage" where
  "ex_storage = \<lparr>es_drivers = s3_drivers ex_s3_lib ex_client ex_configs, es_selector = Some ex_selector, es_threshold = 5,
     es_driver_map = [(''s3a'', 0), (''s3b'', 1)], es_context = None\<rparr>"

lemma ex_storage_init: "external_storage_init (s3_drivers ex_s3_lib ex_client ex_configs) (Some ex_selector) 5 = Inr ex_storage"
  by (simp add: external_storage_init_def s3_drivers_def ex_configs_def ex_config_def S3StorageDriver_def ex_storage_def dget_def dset_def)

definition ex_dc :: "ex_world dataconv" where
  "ex_dc = s3_converter ex_lib ex_storage_lib ex_classes ex_transfer (Some ex_codec)
     (with_store_context (Some (WorkflowTarget \<lparr>ti_namespace = ''ns'', ti_id = Some ''wf/1'', ti_run_id = None, ti_type = Some ''T''\<rparr>)) ex_storage)"

lemma ex_travels:
  assumes "\<forall>p\<in>set ps. 2 * length (p_data p) \<le> 900 \<and> p_metadata p \<in> {[(''encoding'', ''binary/plain'')], [(''encoding'', ''binary/null'')]}"
  shows "travels ex_dc (s3_takes ex_s3_lib ex_client ex_configs UNIV) ps"
proof -
  have "length (write_str d) = 2 * length d + 1" for d by (induction d) (simp_all add: write_str_def)
  with assms show ?thesis
    by (auto simp: travels_def encoded_def ex_dc_def s3_converter_def ex_codec_def storable_def select_driver_def with_store_context_def ex_storage_def
        ex_selector_def s3_drivers_def ex_configs_def ex_config_def S3StorageDriver_def dget_def s3_takes_def s3_accepts_def ex_s3_lib_def
        is_reference_payload_def REFERENCE_ENCODING_def ex_storage_lib_def dest!: bspec)
qed

lemma ex_payloads:
  "dc_to_payloads ex_dc [OBytes ''0123456789'', ONone, OBytes ''abc'', OBytes ''uvwxyz''] =
    Inr [\<lparr>p_metadata = [(''encoding'', ''binary/plain'')], p_data = ''0123456789''\<rparr>, \<lparr>p_metadata = [(''encoding'', ''binary/null'')], p_data = []\<rparr>,
      \<lparr>p_metadata = [(''encoding'', ''binary/plain'')], p_data = ''abc''\<rparr>, \<lparr>p_metadata = [(''encoding'', ''binary/plain'')], p_data = ''uvwxyz''\<rparr>]"
proof -
  let ?cs = "default_converters ex_lib ex_classes"
  have "value_payload ?cs ONone = Inr \<lparr>p_metadata = [(''encoding'', ''binary/null'')], p_data = []\<rparr>"
    "value_payload ?cs (OBytes b) = Inr \<lparr>p_metadata = [(''encoding'', ''binary/plain'')], p_data = b\<rparr>" for b
    by (simp_all add: value_payload_def default_converters_list dvalues_def BinaryNull_def BinaryPlain_def)
  then show ?thesis
    by (simp add: ex_dc_def s3_converter_def transfer_to_payloads_def ex_transfer_def composite_to_payloads_def)
qed

definition ex_start :: "ex_world storage_state" where
  "ex_start = \<lparr>ss_world = (\<lambda>_. None), ss_metrics = None\<rparr>"

theorem data_converter_roundtrip_witness:
  "\<exists>ps s'. data_encode ex_dc [OBytes ''0123456789'', ONone, OBytes ''abc'', OBytes ''uvwxyz''] ex_start = (Inr ps, s') \<and>
    s3_inv ex_s3_lib ex_client UNIV id (ss_world s') \<and> world_le (s3_holds ex_s3_lib id) (ss_world ex_start) (ss_world s') \<and>
    (\<forall>ctx' t. s3_inv ex_s3_lib ex_client UNIV id (ss_world t) \<and> world_le (s3_holds ex_s3_lib id) (ss_world s') (ss_world t) \<longrightarrow>
      (\<exists>t'. data_decode (data_with_store_context ctx' ex_dc) ps (Some [Some HBytes, None, Some HBytes, Some HBytes]) t =
        (Inr [OBytes ''0123456789'', ONone, OBytes ''abc'', OBytes ''uvwxyz''], t') \<and> ss_world t' = ss_world t))"
proof (rule data_converter_roundtrip[OF ex_lib_ok ex_reference_ok _ ex_storage_init _ ex_dc_def])
  show "\<forall>c. Some ex_codec = Some c \<longrightarrow> codec_ok c" using ex_codec_ok by simp
  show "list_all2 (transfers ex_transfer ex_lib ex_classes) [Some HBytes, None, Some HBytes, Some HBytes]
      [OBytes ''0123456789'', ONone, OBytes ''abc'', OBytes ''uvwxyz'']"
    by (simp add: transfers_def ex_transfer_def survives_def)
  show "\<forall>ps. dc_to_payloads ex_dc [OBytes ''0123456789'', ONone, OBytes ''abc'', OBytes ''uvwxyz''] = Inr ps \<longrightarrow>
      travels ex_dc (s3_takes ex_s3_lib ex_client ex_configs UNIV) ps"
    unfolding ex_payloads by (auto intro!: ex_travels)
  show "s3_inv ex_s3_lib ex_client UNIV id (ss_world ex_start)" using ex_s3_inv by (simp add: ex_start_def)
qed

definition ex_failure :: failure where
  "ex_failure = Failure ''m'' [] (Some (Failure ''c'' [] None (Some \<lparr>p_metadata = [(''encoding'', ''binary/plain'')], p_data = ''attributes''\<rparr>) None)) None
     (Some (ApplicationFailureInfo ''E'' False (Some [\<lparr>p_metadata = [(''encoding'', ''binary/plain'')], p_data = ''0123456789''\<rparr>]) None 0))"


end
