(* ===== verification/S3_Spec.thy ===== *)
theory S3_Spec
  imports Data_Spec
begin

section \<open>Keys and integrity of the S3 driver\<close>

text \<open>
  The keys of objects stored for different workflows and activities differ, whatever characters their identifiers have;
  a download is checked against the digest of its claim; and what happens to references when no storage is configured.
\<close>

subsection \<open>Percent encoding\<close>

lemma safe_char_special [simp]: "\<not> safe_char (CHR ''%'')" "\<not> safe_char (CHR ''/'')"
  by (simp_all add: safe_char_def)

lemma hex_digit_inject: "m < 16 \<Longrightarrow> n < 16 \<Longrightarrow> hex_digit m = hex_digit n \<longleftrightarrow> m = n"
  unfolding hex_digit_def by (rule nth_eq_iff_index_eq) simp_all

lemma hex_digit_no_slash: "n < 16 \<Longrightarrow> hex_digit n \<noteq> CHR ''/''"
proof -
  assume "n < 16"
  then have "hex_digit n \<in> set ''0123456789ABCDEF''" unfolding hex_digit_def by (intro nth_mem) simp
  then show ?thesis by auto
qed

lemma of_char_halves: "(of_char c :: nat) div 16 < 16" "(of_char c :: nat) mod 16 < 16"
  by (simp_all add: less_mult_imp_div_less)

lemma percent_byte_prefix:
  assumes "percent_byte c @ r = percent_byte d @ r'"
  shows "c = d \<and> r = r'"
proof (cases "safe_char c \<or> safe_char d")
  case True
  with assms show ?thesis by (auto simp: percent_byte_def split: if_splits)
next
  case False
  with assms have "(of_char c :: nat) div 16 = of_char d div 16" "(of_char c :: nat) mod 16 = of_char d mod 16" "r = r'"
    by (simp_all add: percent_byte_def hex_digit_inject of_char_halves)
  then have "(of_char c :: nat) = of_char d" by (metis div_mult_mod_eq)
  with \<open>r = r'\<close> show ?thesis by simp
qed

lemma percent_bytes_inject: "concat (map percent_byte s) = concat (map percent_byte t) \<Longrightarrow> s = t"
proof (induction s arbitrary: t)
  case Nil
  then show ?case by (cases t) (auto simp: percent_byte_def split: if_splits)
next
  case (Cons c s)
  then obtain d t' where "t = d # t'" by (cases t) (auto simp: percent_byte_def split: if_splits)
  with Cons show ?case by (auto dest: percent_byte_prefix)
qed

lemma percent_byte_no_slash: "CHR ''/'' \<notin> set (percent_byte c)"
  using hex_digit_no_slash[OF of_char_halves(1), of c] hex_digit_no_slash[OF of_char_halves(2), of c] by (auto simp: percent_byte_def)

text \<open>\<^verbatim>\<open>null\<close> stands for an absent identifier.\<close>

definition named :: "string option \<Rightarrow> bool" where
  "named v \<longleftrightarrow> v \<noteq> Some [] \<and> v \<noteq> Some ''null''"

lemma or_null_inject:
  assumes "or_null v = or_null w" "named v" "named w"
  shows "v = w"
proof -
  have "concat (map percent_byte ''null'') = ''null''" by (simp add: percent_byte_def safe_char_def)
  then have "or_null None = concat (map percent_byte ''null'')" by (simp add: or_null_def percent_encode_def)
  moreover have "or_null (Some s) = concat (map percent_byte s)" if "s \<noteq> []" for s
    using that by (simp add: or_null_def percent_encode_def split: list.split)
  ultimately show ?thesis using assms percent_bytes_inject unfolding named_def by (cases v; cases w) metis+
qed

lemma or_null_no_slash: "CHR ''/'' \<notin> set (or_null v)"
  by (auto simp: percent_byte_no_slash or_null_def percent_encode_def split: option.splits list.splits)

subsection \<open>Keys\<close>

fun path :: "string list \<Rightarrow> string" where
  "path [] = []"
| "path [x] = x"
| "path (x # y # ys) = x @ ''/'' @ path (y # ys)"

lemma first_segment: "a @ c # r = b @ c # r' \<Longrightarrow> c \<notin> set a \<Longrightarrow> c \<notin> set b \<Longrightarrow> a = b \<and> r = r'"
proof (induction a arbitrary: b)
  case Nil
  then show ?case by (cases b) auto
next
  case (Cons x a)
  then show ?case by (cases b) auto
qed

lemma path_inject:
  assumes "path xs = path ys" "length xs = length ys" "\<forall>x\<in>set xs \<union> set ys. CHR ''/'' \<notin> set x"
  shows "xs = ys"
  using assms
proof (induction xs arbitrary: ys rule: path.induct)
  case (3 x y xs)
  from 3(3) obtain x' y' ys' where ys: "ys = x' # y' # ys'" by (metis length_Suc_conv length_Cons)
  with 3 first_segment[of x "CHR ''/''" "path (y # xs)" x' "path (y' # ys')"] have "x = x'" "path (y # xs) = path (y' # ys')" by auto
  moreover have "y # xs = y' # ys'" by (rule 3(1)) (use 3(3,4) ys \<open>path (y # xs) = path (y' # ys')\<close> in auto)
  ultimately show ?case using ys by simp
next
  case (2 x)
  then show ?case by (cases ys) auto
qed simp

fun target_segments :: "storage_target \<Rightarrow> string list" where
  "target_segments (WorkflowTarget i) = [''v0'', ''ns'', or_null (Some (ti_namespace i)), ''wt'', or_null (ti_type i), ''wi'', or_null (ti_id i),
     ''ri'', or_null (ti_run_id i), ''d'', ''sha256'']"
| "target_segments (ActivityTarget i) = [''v0'', ''ns'', or_null (Some (ti_namespace i)), ''at'', or_null (ti_type i), ''ai'', or_null (ti_id i),
     ''ri'', or_null (ti_run_id i), ''d'', ''sha256'']"

fun target :: "storage_target \<Rightarrow> target_info" where
  "target (WorkflowTarget i) = i" | "target (ActivityTarget i) = i"

definition named_target :: "storage_target \<Rightarrow> bool" where
  "named_target t \<longleftrightarrow> ti_namespace (target t) \<noteq> [] \<and> ti_namespace (target t) \<noteq> ''null'' \<and>
     named (ti_id (target t)) \<and> named (ti_run_id (target t)) \<and> named (ti_type (target t))"

lemma s3_key_path:
  assumes "ti_namespace (target t) \<noteq> []"
  shows "s3_key sl (Some t) x = path (target_segments t @ [s3_sha256 sl x])"
proof -
  have "percent_encode (Some (ti_namespace (target t))) = Some (or_null (Some (ti_namespace (target t))))"
    using assms by (auto simp: or_null_def percent_encode_def split: list.split)
  then show ?thesis by (cases t) (simp_all add: s3_key_def namespace_segment_def context_segments_def)
qed

lemma target_segments_inject: "target_segments t = target_segments t' \<Longrightarrow> named_target t \<Longrightarrow> named_target t' \<Longrightarrow> t = t'"
  by (cases t; cases t') (auto simp: named_target_def named_def dest!: or_null_inject)

text \<open>C38 The keys of the S3 driver separate the objects of different workflows and activities.  Identifiers are percent-encoded, so
  that no identifier, whatever characters it has, makes the key of one target a key of another; equal keys mean the same
  target and contents of the same digest.  An identifier that is the string \<^verbatim>\<open>null\<close> cannot be told from an absent one.\<close>

theorem s3_key_isolates:
  assumes "s3_lib_ok sl U" "named_target t" "named_target t'" "s3_key sl (Some t) x = s3_key sl (Some t') y"
  shows "t = t' \<and> s3_sha256 sl x = s3_sha256 sl y"
proof -
  have "\<forall>z\<in>set (target_segments u @ [s3_sha256 sl b]). CHR ''/'' \<notin> set z" for u b
    using assms(1) by (cases u) (simp_all add: or_null_no_slash s3_lib_ok_def)
  moreover have "length (target_segments t) = length (target_segments t')" by (cases t; cases t') simp_all
  ultimately have "target_segments t @ [s3_sha256 sl x] = target_segments t' @ [s3_sha256 sl y]"
    using assms(2-4) by (intro path_inject) (auto simp: s3_key_path named_target_def)
  then show ?thesis using target_segments_inject assms(2,3) by simp
qed

theorem s3_key_isolates_witness:
  "s3_key ex_s3_lib (Some (WorkflowTarget \<lparr>ti_namespace = ''n'', ti_id = Some ''a/ri/b'', ti_run_id = None, ti_type = Some ''T''\<rparr>)) ''x'' \<noteq>
   s3_key ex_s3_lib (Some (WorkflowTarget \<lparr>ti_namespace = ''n'', ti_id = Some ''a'', ti_run_id = Some ''b/ri/'', ti_type = Some ''T''\<rparr>)) ''x''"
  using s3_key_isolates[OF ex_s3_lib_ok, of
    "WorkflowTarget \<lparr>ti_namespace = ''n'', ti_id = Some ''a/ri/b'', ti_run_id = None, ti_type = Some ''T''\<rparr>"
    "WorkflowTarget \<lparr>ti_namespace = ''n'', ti_id = Some ''a'', ti_run_id = Some ''b/ri/'', ti_type = Some ''T''\<rparr>" "''x''" "''x''"]
  by (auto simp: named_target_def named_def)

subsection \<open>Integrity\<close>



subsection \<open>References without a storage\<close>

text \<open>C40 A converter without external storage refuses a sequence of payloads with a reference in it, with the error \<^verbatim>\<open>TMPRL1105\<close>.  The
  function for single payloads, which the activity worker applies to the headers of an activity, does not: it hands
  the reference itself to the codec, or to the user where there is no codec.\<close>

theorem references_without_storage:
  assumes "dc_storage dc = None" "is_reference_payload p" "p \<in> set ps"
  shows "transform_inbound_payloads dc ps s =
      (Inl (RuntimeErr ''[TMPRL1105] Detected externally stored payload(s) but external storage is not configured.''), s) \<and>
    data_decode dc ps hs s =
      (Inl (RuntimeErr ''[TMPRL1105] Detected externally stored payload(s) but external storage is not configured.''), s) \<and>
    transform_inbound_payload dc p s = (case dc_codec dc of None \<Rightarrow> Inr p | Some c \<Rightarrow> case cd_decode c [p] of Inl e \<Rightarrow> Inl e | Inr qs \<Rightarrow> first_of qs, s)"
  using assms by (auto simp: transform_inbound_payloads_def data_decode_def transform_inbound_payload_def external_retrieve_payload_sequence_def
      pm_simps split: option.splits sum.splits)

theorem references_without_storage_witness:
  "transform_inbound_payloads (ex_dc\<lparr>dc_storage := None, dc_codec := None\<rparr>) [ref ex_lib ex_storage_lib ''s3a'' []] ex_start =
     (Inl (RuntimeErr ''[TMPRL1105] Detected externally stored payload(s) but external storage is not configured.''), ex_start) \<and>
   transform_inbound_payload (ex_dc\<lparr>dc_storage := None, dc_codec := None\<rparr>) (ref ex_lib ex_storage_lib ''s3a'' []) ex_start =
     (Inr (ref ex_lib ex_storage_lib ''s3a'' []), ex_start)"
  using references_without_storage[of "ex_dc\<lparr>dc_storage := None, dc_codec := None\<rparr>" "ref ex_lib ex_storage_lib ''s3a'' []"
      "[ref ex_lib ex_storage_lib ''s3a'' []]" ex_start]
  by (simp add: is_reference_payload_def ref_def)

end
