(* ===== verification/Spec2Isabelle.thy ===== *)
theory Spec2Isabelle
  imports Wf_Query Wf_Fuel Wf_Memo_Signals Common_Spec Failure_Spec Sandbox_Spec Streams_Delivery Activity_Spec Payload_Spec S3_Spec
begin

text \<open>
  Verification of the Temporal Python SDK (the sources under \<^verbatim>\<open>src/temporalio\<close>).

  \<^bold>\<open>The program.\<close>  A worker hosts workflow instances.  The Rust core (not part of the sources) sends
  an instance activations, lists of jobs; the instance (\<^verbatim>\<open>worker/_workflow_instance.py\<close>) is an asyncio
  event loop that applies the jobs, runs the workflow's coroutines until nothing is ready, and
  answers with commands.

  \<^bold>\<open>Theories.\<close>
  \<^item> \<open>Prelude\<close>: computations that mutate a state and may raise, preservation of invariants,
    insertion-ordered dictionaries.
  \<^item> \<open>Py_Values\<close>, \<open>Common\<close>, \<open>Inputs\<close>, \<open>Exceptions\<close>: Python values,
    \<^verbatim>\<open>common.py\<close>, \<^verbatim>\<open>converter/_search_attributes.py\<close>, the input records of
    \<^verbatim>\<open>worker/_interceptor.py\<close>, and \<^verbatim>\<open>exceptions.py\<close>.
  \<^item> \<open>Wf_Types\<close>, \<open>Wf_State\<close>, \<open>Wf_Handles\<close>, \<open>Wf_Calls\<close>,
    \<open>Wf_Coroutines\<close>, \<open>Wf_Jobs\<close>, \<open>Wf_Run\<close>: \<^verbatim>\<open>worker/_workflow_instance.py\<close>.
  \<^item> \<open>Wf_Invariants\<close>, \<open>Wf_Safety\<close>: invariants of an instance under arbitrary
    workflow code; \<open>Wf_Example\<close> is the concrete workflow of the witnesses.
\<close>

end
